(* ===== verification/Prelude.thy ===== *)
theory Prelude
  imports Main "HOL-Library.Word"
begin

text \<open>
  Shared ground of the development: the outcome of a call that C or C++ may leave undefined,
  pointers and the caller's memory, the arithmetic of \<open>size_t\<close>, little-endian object
  representations, C strings, and the lemmas on them that every component uses.

  Conventions. A pointer is a natural number and \<open>nullptr\<close> is 0. The memory behind a
  \<open>void *\<close> argument is a region, the list of its bytes; \<open>None\<close> stands for a null argument.
  A region is as long as the memory really is, whatever \<open>size\<close> the caller states, so writing
  past its end is visible as the fault \<open>Buffer_Overflow\<close>. Sizes are natural numbers; where
  the code multiplies or subtracts them the wrap-around at \<open>2 ^ 64\<close> is written out (LP64).
\<close>

named_theorems region_simps \<open>facts about writing into a memory region\<close>
named_theorems bytes_simps \<open>facts about object representations\<close>

section \<open>Outcomes\<close>

text \<open>
  What a call may do instead of returning: behaviour the language leaves undefined, or an
  exception that leaves the function.
\<close>

datatype fault =
    Null_Deref
  | Wild_Pointer
  | Use_After_Free
  | Out_Of_Bounds
  | Buffer_Overflow
  | Bad_Shift
  | Bad_Conversion
  | Bad_Alloc_Thrown
  | Out_Of_Range_Thrown
  | Length_Error_Thrown
  | Runtime_Error_Thrown string
  | Invalid_Argument_Thrown string

text \<open>
  What the \<open>catch\<close> clauses of the sources tell apart, \<open>std::bad_alloc\<close> and the other standard
  exceptions, and which faults are exceptions at all.
\<close>

datatype std_exn = Exn_bad_alloc | Exn_std

fun as_exn :: "fault \<Rightarrow> std_exn option" where
  "as_exn Bad_Alloc_Thrown = Some Exn_bad_alloc"
| "as_exn Out_Of_Range_Thrown = Some Exn_std"
| "as_exn Length_Error_Thrown = Some Exn_std"
| "as_exn (Runtime_Error_Thrown _) = Some Exn_std"
| "as_exn (Invalid_Argument_Thrown _) = Some Exn_std"
| "as_exn _ = None"

type_synonym 'a outcome = "fault + 'a"

definition bind_o :: "'a outcome \<Rightarrow> ('a \<Rightarrow> 'b outcome) \<Rightarrow> 'b outcome" where
  "bind_o m f = (case m of Inl e \<Rightarrow> Inl e | Inr x \<Rightarrow> f x)"

lemma bind_o_Inl [simp]: "bind_o (Inl e) f = Inl e"
  by (simp add: bind_o_def)

lemma bind_o_Inr [simp]: "bind_o (Inr x) f = f x"
  by (simp add: bind_o_def)

lemma bind_o_eq_Inr: "bind_o m f = Inr y \<longleftrightarrow> (\<exists>x. m = Inr x \<and> f x = Inr y)"
  by (cases m) auto

lemma bind_o_assoc: "bind_o (bind_o m f) g = bind_o m (\<lambda>x. bind_o (f x) g)"
  by (cases m) auto

text \<open>An error passed on from a nested result.\<close>

lemma case_sum_eq_Inr:
  "(case r of Inl e \<Rightarrow> Inl (h e) | Inr x \<Rightarrow> g x) = Inr y \<longleftrightarrow> (\<exists>x. r = Inr x \<and> g x = Inr y)"
  by (cases r) auto

definition returns :: "'a outcome \<Rightarrow> bool" where
  "returns m \<longleftrightarrow> (\<exists>x. m = Inr x)"

lemma returns_Inr [simp]: "returns (Inr x)"
  by (simp add: returns_def)

lemma not_returns_Inl [simp]: "\<not> returns (Inl e)"
  by (simp add: returns_def)

lemma returns_bind: "returns (bind_o m f) \<longleftrightarrow> (\<exists>x. m = Inr x \<and> returns (f x))"
  by (cases m) auto

text \<open>The state a call that returns leaves, whatever else it gives back.\<close>

definition last_of :: "('a \<times> 's) outcome \<Rightarrow> 's outcome" where
  "last_of m = bind_o m (\<lambda>(_, st). Inr st)"

definition last_of3 :: "('a \<times> 'b \<times> 's) outcome \<Rightarrow> 's outcome" where
  "last_of3 m = bind_o m (\<lambda>(_, _, st). Inr st)"

lemma last_of_Inr: "last_of m = Inr st' \<longleftrightarrow> (\<exists>r. m = Inr (r, st'))"
  by (cases m) (auto simp: last_of_def)

lemma last_of3_Inr: "last_of3 m = Inr st' \<longleftrightarrow> (\<exists>r p. m = Inr (r, p, st'))"
  by (cases m) (auto simp: last_of3_def)

lemma returns_last_of [simp]:
  "returns (last_of m) = returns m" "returns (last_of3 m') = returns m'"
  by (cases m; cases m'; auto simp: last_of_def last_of3_def)+

section \<open>Pointers, sizes and regions\<close>

type_synonym ptr = nat
type_synonym region = "char list"

abbreviation (input) nullptr :: ptr where
  "nullptr \<equiv> 0"

abbreviation (input) NUL :: char where
  "NUL \<equiv> CHR 0x00"

abbreviation (input) size_t_max :: nat where
  "size_t_max \<equiv> 2 ^ 64 - 1"

definition size_mul :: "nat \<Rightarrow> nat \<Rightarrow> nat" where
  "size_mul a b = (a * b) mod 2 ^ 64"

definition size_sub :: "nat \<Rightarrow> nat \<Rightarrow> nat" where
  "size_sub a b = (if b \<le> a then a - b else a + 2 ^ 64 - b)"

lemma size_mul_id: "a * b < 2 ^ 64 \<Longrightarrow> size_mul a b = a * b"
  by (simp add: size_mul_def)

lemma size_mul_bound: "size_mul a b < 2 ^ 64"
  by (simp add: size_mul_def)

definition write_at :: "nat \<Rightarrow> char list \<Rightarrow> region \<Rightarrow> region outcome" where
  "write_at off bs mem =
     (if off + length bs \<le> length mem
      then Inr (take off mem @ bs @ drop (off + length bs) mem)
      else Inl Buffer_Overflow)"

lemma write_at_fits [region_simps]:
  "off + length bs \<le> length mem \<Longrightarrow>
     write_at off bs mem = Inr (take off mem @ bs @ drop (off + length bs) mem)"
  by (simp add: write_at_def)

lemma write_at_overflow [region_simps]:
  "length mem < off + length bs \<Longrightarrow> write_at off bs mem = Inl Buffer_Overflow"
  by (simp add: write_at_def)

lemma write_at_InrD:
  assumes "write_at off bs mem = Inr mem'"
  shows "off + length bs \<le> length mem" and "length mem' = length mem"
    and "mem' = take off mem @ bs @ drop (off + length bs) mem"
  using assms by (auto simp: write_at_def split: if_splits)

lemma write_at_append:
  "bind_o (write_at off xs mem) (write_at (off + length xs) ys) = write_at off (xs @ ys) mem"
  by (auto simp: write_at_def bind_o_def ac_simps)

lemma write_at_Nil: "off \<le> length mem \<Longrightarrow> write_at off [] mem = Inr mem"
  by (simp add: write_at_def)

lemma take_write_at_0:
  "write_at 0 bs mem = Inr mem' \<Longrightarrow> take (length bs) mem' = bs"
  by (drule write_at_InrD(3)) simp

section \<open>Object representations\<close>

fun le_bytes :: "nat \<Rightarrow> nat \<Rightarrow> char list" where
  "le_bytes 0 n = []"
| "le_bytes (Suc k) n = char_of (n mod 256) # le_bytes k (n div 256)"

fun of_le_bytes :: "char list \<Rightarrow> nat" where
  "of_le_bytes [] = 0"
| "of_le_bytes (c # cs) = of_char c + 256 * of_le_bytes cs"

lemma length_le_bytes [simp]: "length (le_bytes k n) = k"
  by (induction k arbitrary: n) auto

lemma of_le_bytes_le_bytes [bytes_simps]: "of_le_bytes (le_bytes k n) = n mod 256 ^ k"
proof (induction k arbitrary: n)
  case 0
  then show ?case by simp
next
  case (Suc k)
  have "of_le_bytes (le_bytes (Suc k) n) = n mod 256 + 256 * (n div 256 mod 256 ^ k)"
    by (simp add: Suc)
  also have "\<dots> = n mod (256 * 256 ^ k)"
    by (simp add: mod_mult2_eq)
  finally show ?case by simp
qed

lemma le_bytes_inject:
  assumes "le_bytes k m = le_bytes k n" and "m < 256 ^ k" and "n < 256 ^ k"
  shows "m = n"
proof -
  have "m mod 256 ^ k = n mod 256 ^ k"
    using arg_cong [OF assms(1), of of_le_bytes] by (simp add: bytes_simps)
  then show ?thesis using assms(2,3) by simp
qed

text \<open>\<open>size_t\<close>, \<open>uint64_t\<close> and pointers have eight bytes, enums four, \<open>bool\<close> one.\<close>

abbreviation (input) le64 :: "nat \<Rightarrow> char list" where
  "le64 n \<equiv> le_bytes 8 n"

abbreviation (input) le32 :: "nat \<Rightarrow> char list" where
  "le32 n \<equiv> le_bytes 4 n"

lemma of_le64: "n < 2 ^ 64 \<Longrightarrow> of_le_bytes (le64 n) = n"
  by (simp add: bytes_simps)

definition bool_bytes :: "bool \<Rightarrow> char list" where
  "bool_bytes b = [if b then CHR 0x01 else NUL]"

lemma length_bool_bytes [simp]: "length (bool_bytes b) = 1"
  by (simp add: bool_bytes_def)

text \<open>A \<open>double\<close> is its IEEE 754 bit pattern.\<close>

type_synonym double = "64 word"

definition double_bytes :: "double \<Rightarrow> char list" where
  "double_bytes d = le64 (unat d)"

definition of_double_bytes :: "char list \<Rightarrow> double" where
  "of_double_bytes bs = word_of_nat (of_le_bytes bs)"

lemma length_double_bytes [simp]: "length (double_bytes d) = 8"
  by (simp add: double_bytes_def)

lemma of_double_bytes_double_bytes [bytes_simps]: "of_double_bytes (double_bytes d) = d"
proof -
  have "unat d < 256 ^ 8"
    using unsigned_less [of d, where 'a = nat] by simp
  then show ?thesis
    by (simp add: of_double_bytes_def double_bytes_def bytes_simps)
qed

text \<open>The elements of an array one after the other, and an array read back in chunks.\<close>

fun chunks :: "nat \<Rightarrow> nat \<Rightarrow> char list \<Rightarrow> char list list" where
  "chunks w 0 bs = []"
| "chunks w (Suc n) bs = take w bs # chunks w n (drop w bs)"

lemma length_concat_map_const:
  "(\<And>x. x \<in> set xs \<Longrightarrow> length (f x) = w) \<Longrightarrow> length (concat (map f xs)) = w * length xs"
  by (induction xs) auto

lemma chunks_concat:
  assumes "\<And>x. x \<in> set xs \<Longrightarrow> length (f x) = w"
  shows "chunks w (length xs) (concat (map f xs) @ rest) = map f xs"
  using assms by (induction xs) auto

lemma chunks_take:
  "w * n \<le> length bs \<Longrightarrow> chunks w n (take (w * n) bs) = chunks w n bs"
proof (induction n arbitrary: bs)
  case 0
  then show ?case by simp
next
  case (Suc n)
  have "w * n \<le> length (drop w bs)" using Suc.prems by simp
  then have "chunks w n (take (w * n) (drop w bs)) = chunks w n (drop w bs)" by (rule Suc.IH)
  then show ?case by (simp add: drop_take add.commute min_def)
qed

section \<open>C strings\<close>

definition strlen :: "string \<Rightarrow> nat" where
  "strlen s = length (takeWhile (\<lambda>c. c \<noteq> NUL) s)"

definition c_string :: "string \<Rightarrow> bool" where
  "c_string s \<longleftrightarrow> NUL \<notin> set s"

lemma strlen_c_string [simp]: "c_string s \<Longrightarrow> strlen s = length s"
  by (induction s) (auto simp: strlen_def c_string_def)

lemma strlen_terminated:
  "c_string s \<Longrightarrow> takeWhile (\<lambda>c. c \<noteq> NUL) (s @ NUL # rest) = s"
  by (induction s) (auto simp: c_string_def)

text \<open>\<open>std::to_string\<close> on \<open>int\<close>: the decimal digits, with a sign for negative numbers.\<close>

definition digit_char :: "nat \<Rightarrow> char" where
  "digit_char d = char_of (48 + d)"

fun show_nat :: "nat \<Rightarrow> string" where
  "show_nat n = (if n < 10 then [digit_char n] else show_nat (n div 10) @ [digit_char (n mod 10)])"

declare show_nat.simps [simp del]

definition to_string :: "int \<Rightarrow> string" where
  "to_string i = (if i < 0 then CHR ''-'' # show_nat (nat (- i)) else show_nat (nat i))"

text \<open>\<open>std::stoul\<close> on a string of digits.\<close>

fun read_nat :: "nat \<Rightarrow> string \<Rightarrow> nat" where
  "read_nat acc [] = acc"
| "read_nat acc (c # cs) = read_nat (10 * acc + (of_char c - 48)) cs"

lemma read_nat_append: "read_nat acc (xs @ ys) = read_nat (read_nat acc xs) ys"
  by (induction xs arbitrary: acc) auto

lemma of_char_digit_char: "d < 10 \<Longrightarrow> of_char (digit_char d) = 48 + d"
  by (simp add: digit_char_def)

lemma read_nat_show_nat: "read_nat 0 (show_nat n) = n"
proof (induction n rule: show_nat.induct)
  case (1 n)
  show ?case
  proof (cases "n < 10")
    case True
    then show ?thesis by (simp add: show_nat.simps [of n] of_char_digit_char)
  next
    case False
    then show ?thesis
      using 1 by (simp add: show_nat.simps [of n] read_nat_append of_char_digit_char)
  qed
qed

lemma show_nat_inject: "show_nat m = show_nat n \<Longrightarrow> m = n"
  by (metis read_nat_show_nat)

lemma digit_char_neq:
  assumes "d < 10" and "of_char c < (48::nat) \<or> 57 < (of_char c :: nat)"
  shows "digit_char d \<noteq> c"
  using assms of_char_digit_char [of d] by auto

lemma show_nat_avoids:
  assumes "of_char c < (48::nat) \<or> 57 < (of_char c :: nat)"
  shows "c \<notin> set (show_nat n)"
proof (induction n rule: show_nat.induct)
  case (1 n)
  have last: "c \<noteq> digit_char (n mod 10)"
    using digit_char_neq [OF _ assms, of "n mod 10"] by auto
  show ?case
  proof (cases "n < 10")
    case True
    then show ?thesis using last by (simp add: show_nat.simps [of n])
  next
    case False
    then show ?thesis using last 1 by (simp add: show_nat.simps [of n])
  qed
qed

lemma c_string_to_string: "c_string (to_string i)"
  using show_nat_avoids [of NUL] by (auto simp: c_string_def to_string_def)

lemma to_string_inject:
  assumes "to_string i = to_string j" and "0 \<le> i" and "0 \<le> j"
  shows "i = j"
  using assms show_nat_inject [of "nat i" "nat j"] by (simp add: to_string_def)

section \<open>Lists\<close>

lemma list_all_nthD: "list_all P xs \<Longrightarrow> i < length xs \<Longrightarrow> P (xs ! i)"
  by (simp add: list_all_length)

lemma map_upt_nth: "map (\<lambda>i. f (xs ! i)) [0..<length xs] = map f xs"
  by (intro nth_equalityI) auto

end
