(* ===== verification/Constants.thy ===== *)
theory Constants
  imports Prelude
begin

text \<open>
  The enums and macros of \<open>include/qdmi/constants.h\<close> and the enums of
  \<open>include/qdmi/client.h\<close>. Each C enum is a datatype with the source's enumerators and a
  function \<open>val_...\<close> that gives their values; a parameter of an enum type is an \<open>int\<close>,
  since a C caller may pass any value (reserved, custom or invalid). No enumerator of these enums is
  negative, so the compilers represent them as \<open>unsigned\<close>: a negative argument is the large value
  it wraps to. The header's documented value types, scale factors, unit symbols and text formats are functions on the enumerators.
\<close>

unbundle bit_operations_syntax

section \<open>Packed versions\<close>

definition QDMI_MAKE_VERSION :: "32 word \<Rightarrow> 32 word \<Rightarrow> 32 word \<Rightarrow> 32 word" where
  "QDMI_MAKE_VERSION major minor patch =
     (push_bit 22 (major AND 0x3FF) OR push_bit 12 (minor AND 0x3FF)) OR (patch AND 0xFFF)"

definition QDMI_VERSION_MAJOR :: "32 word \<Rightarrow> 32 word" where
  "QDMI_VERSION_MAJOR version = drop_bit 22 version AND 0x3FF"

definition QDMI_VERSION_MINOR :: "32 word \<Rightarrow> 32 word" where
  "QDMI_VERSION_MINOR version = drop_bit 12 version AND 0x3FF"

definition QDMI_VERSION_PATCH :: "32 word \<Rightarrow> 32 word" where
  "QDMI_VERSION_PATCH version = version AND 0xFFF"

definition QDMI_CLIENT_ABI_VERSION :: "32 word" where
  "QDMI_CLIENT_ABI_VERSION = QDMI_MAKE_VERSION 1 4 0"

section \<open>The validity check of enum values\<close>

text \<open>
  The tokens \<open>PREFIX##_MAX\<close> and \<open>PREFIX##_CUSTOM1\<close> to \<open>PREFIX##_CUSTOM5\<close> of a prefix. The
  comparisons are unsigned: a negative \<open>value\<close> is at least \<open>2 ^ 31\<close>, above all enumerators.
\<close>

record enum_prefix =
  e_max :: int
  e_customs :: "int list"

definition QDMI_IS_INVALID_ENUM_VALUE :: "int \<Rightarrow> enum_prefix \<Rightarrow> bool" where
  "QDMI_IS_INVALID_ENUM_VALUE value p \<longleftrightarrow>
     (value < 0 \<or> e_max p \<le> value) \<and> list_all (\<lambda>c. value \<noteq> c) (e_customs p)"

section \<open>The enums\<close>

datatype QDMI_STATUS =
    QDMI_WARN_GENERAL
  | QDMI_SUCCESS
  | QDMI_ERROR_FATAL
  | QDMI_ERROR_OUTOFMEM
  | QDMI_ERROR_NOTIMPLEMENTED
  | QDMI_ERROR_LIBNOTFOUND
  | QDMI_ERROR_NOTFOUND
  | QDMI_ERROR_OUTOFRANGE
  | QDMI_ERROR_INVALIDARGUMENT
  | QDMI_ERROR_PERMISSIONDENIED
  | QDMI_ERROR_NOTSUPPORTED
  | QDMI_ERROR_BADSTATE
  | QDMI_ERROR_TIMEOUT

primrec val_STATUS :: "QDMI_STATUS \<Rightarrow> int" where
    "val_STATUS QDMI_WARN_GENERAL = 1"
  | "val_STATUS QDMI_SUCCESS = 0"
  | "val_STATUS QDMI_ERROR_FATAL = - 1"
  | "val_STATUS QDMI_ERROR_OUTOFMEM = - 2"
  | "val_STATUS QDMI_ERROR_NOTIMPLEMENTED = - 3"
  | "val_STATUS QDMI_ERROR_LIBNOTFOUND = - 4"
  | "val_STATUS QDMI_ERROR_NOTFOUND = - 5"
  | "val_STATUS QDMI_ERROR_OUTOFRANGE = - 6"
  | "val_STATUS QDMI_ERROR_INVALIDARGUMENT = - 7"
  | "val_STATUS QDMI_ERROR_PERMISSIONDENIED = - 8"
  | "val_STATUS QDMI_ERROR_NOTSUPPORTED = - 9"
  | "val_STATUS QDMI_ERROR_BADSTATE = - 10"
  | "val_STATUS QDMI_ERROR_TIMEOUT = - 11"

datatype QDMI_DEVICE_SESSION_PARAMETER_T =
    QDMI_DEVICE_SESSION_PARAMETER_BASEURL
  | QDMI_DEVICE_SESSION_PARAMETER_TOKEN
  | QDMI_DEVICE_SESSION_PARAMETER_AUTHFILE
  | QDMI_DEVICE_SESSION_PARAMETER_AUTHURL
  | QDMI_DEVICE_SESSION_PARAMETER_USERNAME
  | QDMI_DEVICE_SESSION_PARAMETER_PASSWORD
  | QDMI_DEVICE_SESSION_PARAMETER_CHILDDEVICE
  | QDMI_DEVICE_SESSION_PARAMETER_MAX
  | QDMI_DEVICE_SESSION_PARAMETER_CUSTOM1
  | QDMI_DEVICE_SESSION_PARAMETER_CUSTOM2
  | QDMI_DEVICE_SESSION_PARAMETER_CUSTOM3
  | QDMI_DEVICE_SESSION_PARAMETER_CUSTOM4
  | QDMI_DEVICE_SESSION_PARAMETER_CUSTOM5

primrec val_DEVICE_SESSION_PARAMETER :: "QDMI_DEVICE_SESSION_PARAMETER_T \<Rightarrow> int" where
    "val_DEVICE_SESSION_PARAMETER QDMI_DEVICE_SESSION_PARAMETER_BASEURL = 0"
  | "val_DEVICE_SESSION_PARAMETER QDMI_DEVICE_SESSION_PARAMETER_TOKEN = 1"
  | "val_DEVICE_SESSION_PARAMETER QDMI_DEVICE_SESSION_PARAMETER_AUTHFILE = 2"
  | "val_DEVICE_SESSION_PARAMETER QDMI_DEVICE_SESSION_PARAMETER_AUTHURL = 3"
  | "val_DEVICE_SESSION_PARAMETER QDMI_DEVICE_SESSION_PARAMETER_USERNAME = 4"
  | "val_DEVICE_SESSION_PARAMETER QDMI_DEVICE_SESSION_PARAMETER_PASSWORD = 5"
  | "val_DEVICE_SESSION_PARAMETER QDMI_DEVICE_SESSION_PARAMETER_CHILDDEVICE = 6"
  | "val_DEVICE_SESSION_PARAMETER QDMI_DEVICE_SESSION_PARAMETER_MAX = 7"
  | "val_DEVICE_SESSION_PARAMETER QDMI_DEVICE_SESSION_PARAMETER_CUSTOM1 = 999999995"
  | "val_DEVICE_SESSION_PARAMETER QDMI_DEVICE_SESSION_PARAMETER_CUSTOM2 = 999999996"
  | "val_DEVICE_SESSION_PARAMETER QDMI_DEVICE_SESSION_PARAMETER_CUSTOM3 = 999999997"
  | "val_DEVICE_SESSION_PARAMETER QDMI_DEVICE_SESSION_PARAMETER_CUSTOM4 = 999999998"
  | "val_DEVICE_SESSION_PARAMETER QDMI_DEVICE_SESSION_PARAMETER_CUSTOM5 = 999999999"

definition prefix_DEVICE_SESSION_PARAMETER :: enum_prefix where
  "prefix_DEVICE_SESSION_PARAMETER =
     \<lparr>e_max = val_DEVICE_SESSION_PARAMETER QDMI_DEVICE_SESSION_PARAMETER_MAX,
      e_customs = map val_DEVICE_SESSION_PARAMETER [QDMI_DEVICE_SESSION_PARAMETER_CUSTOM1, QDMI_DEVICE_SESSION_PARAMETER_CUSTOM2,
        QDMI_DEVICE_SESSION_PARAMETER_CUSTOM3, QDMI_DEVICE_SESSION_PARAMETER_CUSTOM4, QDMI_DEVICE_SESSION_PARAMETER_CUSTOM5]\<rparr>"

datatype QDMI_DEVICE_JOB_PARAMETER_T =
    QDMI_DEVICE_JOB_PARAMETER_SHOTSNUM
  | QDMI_DEVICE_JOB_PARAMETER_MAX
  | QDMI_DEVICE_JOB_PARAMETER_CUSTOM1
  | QDMI_DEVICE_JOB_PARAMETER_CUSTOM2
  | QDMI_DEVICE_JOB_PARAMETER_CUSTOM3
  | QDMI_DEVICE_JOB_PARAMETER_CUSTOM4
  | QDMI_DEVICE_JOB_PARAMETER_CUSTOM5

primrec val_DEVICE_JOB_PARAMETER :: "QDMI_DEVICE_JOB_PARAMETER_T \<Rightarrow> int" where
    "val_DEVICE_JOB_PARAMETER QDMI_DEVICE_JOB_PARAMETER_SHOTSNUM = 2"
  | "val_DEVICE_JOB_PARAMETER QDMI_DEVICE_JOB_PARAMETER_MAX = 3"
  | "val_DEVICE_JOB_PARAMETER QDMI_DEVICE_JOB_PARAMETER_CUSTOM1 = 999999995"
  | "val_DEVICE_JOB_PARAMETER QDMI_DEVICE_JOB_PARAMETER_CUSTOM2 = 999999996"
  | "val_DEVICE_JOB_PARAMETER QDMI_DEVICE_JOB_PARAMETER_CUSTOM3 = 999999997"
  | "val_DEVICE_JOB_PARAMETER QDMI_DEVICE_JOB_PARAMETER_CUSTOM4 = 999999998"
  | "val_DEVICE_JOB_PARAMETER QDMI_DEVICE_JOB_PARAMETER_CUSTOM5 = 999999999"

definition prefix_DEVICE_JOB_PARAMETER :: enum_prefix where
  "prefix_DEVICE_JOB_PARAMETER =
     \<lparr>e_max = val_DEVICE_JOB_PARAMETER QDMI_DEVICE_JOB_PARAMETER_MAX,
      e_customs = map val_DEVICE_JOB_PARAMETER [QDMI_DEVICE_JOB_PARAMETER_CUSTOM1, QDMI_DEVICE_JOB_PARAMETER_CUSTOM2,
        QDMI_DEVICE_JOB_PARAMETER_CUSTOM3, QDMI_DEVICE_JOB_PARAMETER_CUSTOM4, QDMI_DEVICE_JOB_PARAMETER_CUSTOM5]\<rparr>"

datatype QDMI_DEVICE_JOB_PROPERTY_T =
    QDMI_DEVICE_JOB_PROPERTY_ID
  | QDMI_DEVICE_JOB_PROPERTY_PROGRAMFORMAT
  | QDMI_DEVICE_JOB_PROPERTY_SHOTSNUM
  | QDMI_DEVICE_JOB_PROPERTY_QUEUEPOSITION
  | QDMI_DEVICE_JOB_PROPERTY_PROGRAMSNUM
  | QDMI_DEVICE_JOB_PROPERTY_MAX
  | QDMI_DEVICE_JOB_PROPERTY_CUSTOM1
  | QDMI_DEVICE_JOB_PROPERTY_CUSTOM2
  | QDMI_DEVICE_JOB_PROPERTY_CUSTOM3
  | QDMI_DEVICE_JOB_PROPERTY_CUSTOM4
  | QDMI_DEVICE_JOB_PROPERTY_CUSTOM5

primrec val_DEVICE_JOB_PROPERTY :: "QDMI_DEVICE_JOB_PROPERTY_T \<Rightarrow> int" where
    "val_DEVICE_JOB_PROPERTY QDMI_DEVICE_JOB_PROPERTY_ID = 0"
  | "val_DEVICE_JOB_PROPERTY QDMI_DEVICE_JOB_PROPERTY_PROGRAMFORMAT = 1"
  | "val_DEVICE_JOB_PROPERTY QDMI_DEVICE_JOB_PROPERTY_SHOTSNUM = 3"
  | "val_DEVICE_JOB_PROPERTY QDMI_DEVICE_JOB_PROPERTY_QUEUEPOSITION = 4"
  | "val_DEVICE_JOB_PROPERTY QDMI_DEVICE_JOB_PROPERTY_PROGRAMSNUM = 5"
  | "val_DEVICE_JOB_PROPERTY QDMI_DEVICE_JOB_PROPERTY_MAX = 6"
  | "val_DEVICE_JOB_PROPERTY QDMI_DEVICE_JOB_PROPERTY_CUSTOM1 = 999999995"
  | "val_DEVICE_JOB_PROPERTY QDMI_DEVICE_JOB_PROPERTY_CUSTOM2 = 999999996"
  | "val_DEVICE_JOB_PROPERTY QDMI_DEVICE_JOB_PROPERTY_CUSTOM3 = 999999997"
  | "val_DEVICE_JOB_PROPERTY QDMI_DEVICE_JOB_PROPERTY_CUSTOM4 = 999999998"
  | "val_DEVICE_JOB_PROPERTY QDMI_DEVICE_JOB_PROPERTY_CUSTOM5 = 999999999"

definition prefix_DEVICE_JOB_PROPERTY :: enum_prefix where
  "prefix_DEVICE_JOB_PROPERTY =
     \<lparr>e_max = val_DEVICE_JOB_PROPERTY QDMI_DEVICE_JOB_PROPERTY_MAX,
      e_customs = map val_DEVICE_JOB_PROPERTY [QDMI_DEVICE_JOB_PROPERTY_CUSTOM1, QDMI_DEVICE_JOB_PROPERTY_CUSTOM2,
        QDMI_DEVICE_JOB_PROPERTY_CUSTOM3, QDMI_DEVICE_JOB_PROPERTY_CUSTOM4, QDMI_DEVICE_JOB_PROPERTY_CUSTOM5]\<rparr>"

datatype QDMI_DEVICE_PROPERTY_T =
    QDMI_DEVICE_PROPERTY_NAME
  | QDMI_DEVICE_PROPERTY_VERSION
  | QDMI_DEVICE_PROPERTY_STATUS
  | QDMI_DEVICE_PROPERTY_LIBRARYVERSION
  | QDMI_DEVICE_PROPERTY_QUBITSNUM
  | QDMI_DEVICE_PROPERTY_SITES
  | QDMI_DEVICE_PROPERTY_OPERATIONS
  | QDMI_DEVICE_PROPERTY_COUPLINGMAP
  | QDMI_DEVICE_PROPERTY_LENGTHUNIT
  | QDMI_DEVICE_PROPERTY_LENGTHSCALEFACTOR
  | QDMI_DEVICE_PROPERTY_DURATIONUNIT
  | QDMI_DEVICE_PROPERTY_DURATIONSCALEFACTOR
  | QDMI_DEVICE_PROPERTY_MINATOMDISTANCE
  | QDMI_DEVICE_PROPERTY_SUPPORTEDPROGRAMFORMATS
  | QDMI_DEVICE_PROPERTY_CHILDDEVICES
  | QDMI_DEVICE_PROPERTY_QUEUELENGTH
  | QDMI_DEVICE_PROPERTY_ID
  | QDMI_DEVICE_PROPERTY_MAX
  | QDMI_DEVICE_PROPERTY_CUSTOM1
  | QDMI_DEVICE_PROPERTY_CUSTOM2
  | QDMI_DEVICE_PROPERTY_CUSTOM3
  | QDMI_DEVICE_PROPERTY_CUSTOM4
  | QDMI_DEVICE_PROPERTY_CUSTOM5

primrec val_DEVICE_PROPERTY :: "QDMI_DEVICE_PROPERTY_T \<Rightarrow> int" where
    "val_DEVICE_PROPERTY QDMI_DEVICE_PROPERTY_NAME = 0"
  | "val_DEVICE_PROPERTY QDMI_DEVICE_PROPERTY_VERSION = 1"
  | "val_DEVICE_PROPERTY QDMI_DEVICE_PROPERTY_STATUS = 2"
  | "val_DEVICE_PROPERTY QDMI_DEVICE_PROPERTY_LIBRARYVERSION = 3"
  | "val_DEVICE_PROPERTY QDMI_DEVICE_PROPERTY_QUBITSNUM = 4"
  | "val_DEVICE_PROPERTY QDMI_DEVICE_PROPERTY_SITES = 5"
  | "val_DEVICE_PROPERTY QDMI_DEVICE_PROPERTY_OPERATIONS = 6"
  | "val_DEVICE_PROPERTY QDMI_DEVICE_PROPERTY_COUPLINGMAP = 7"
  | "val_DEVICE_PROPERTY QDMI_DEVICE_PROPERTY_LENGTHUNIT = 10"
  | "val_DEVICE_PROPERTY QDMI_DEVICE_PROPERTY_LENGTHSCALEFACTOR = 11"
  | "val_DEVICE_PROPERTY QDMI_DEVICE_PROPERTY_DURATIONUNIT = 12"
  | "val_DEVICE_PROPERTY QDMI_DEVICE_PROPERTY_DURATIONSCALEFACTOR = 13"
  | "val_DEVICE_PROPERTY QDMI_DEVICE_PROPERTY_MINATOMDISTANCE = 14"
  | "val_DEVICE_PROPERTY QDMI_DEVICE_PROPERTY_SUPPORTEDPROGRAMFORMATS = 15"
  | "val_DEVICE_PROPERTY QDMI_DEVICE_PROPERTY_CHILDDEVICES = 16"
  | "val_DEVICE_PROPERTY QDMI_DEVICE_PROPERTY_QUEUELENGTH = 17"
  | "val_DEVICE_PROPERTY QDMI_DEVICE_PROPERTY_ID = 18"
  | "val_DEVICE_PROPERTY QDMI_DEVICE_PROPERTY_MAX = 19"
  | "val_DEVICE_PROPERTY QDMI_DEVICE_PROPERTY_CUSTOM1 = 999999995"
  | "val_DEVICE_PROPERTY QDMI_DEVICE_PROPERTY_CUSTOM2 = 999999996"
  | "val_DEVICE_PROPERTY QDMI_DEVICE_PROPERTY_CUSTOM3 = 999999997"
  | "val_DEVICE_PROPERTY QDMI_DEVICE_PROPERTY_CUSTOM4 = 999999998"
  | "val_DEVICE_PROPERTY QDMI_DEVICE_PROPERTY_CUSTOM5 = 999999999"

definition prefix_DEVICE_PROPERTY :: enum_prefix where
  "prefix_DEVICE_PROPERTY =
     \<lparr>e_max = val_DEVICE_PROPERTY QDMI_DEVICE_PROPERTY_MAX,
      e_customs = map val_DEVICE_PROPERTY [QDMI_DEVICE_PROPERTY_CUSTOM1, QDMI_DEVICE_PROPERTY_CUSTOM2,
        QDMI_DEVICE_PROPERTY_CUSTOM3, QDMI_DEVICE_PROPERTY_CUSTOM4, QDMI_DEVICE_PROPERTY_CUSTOM5]\<rparr>"

datatype QDMI_DEVICE_STATUS_T =
    QDMI_DEVICE_STATUS_OFFLINE
  | QDMI_DEVICE_STATUS_IDLE
  | QDMI_DEVICE_STATUS_BUSY
  | QDMI_DEVICE_STATUS_ERROR
  | QDMI_DEVICE_STATUS_MAINTENANCE
  | QDMI_DEVICE_STATUS_CALIBRATION
  | QDMI_DEVICE_STATUS_MAX

primrec val_DEVICE_STATUS :: "QDMI_DEVICE_STATUS_T \<Rightarrow> int" where
    "val_DEVICE_STATUS QDMI_DEVICE_STATUS_OFFLINE = 0"
  | "val_DEVICE_STATUS QDMI_DEVICE_STATUS_IDLE = 1"
  | "val_DEVICE_STATUS QDMI_DEVICE_STATUS_BUSY = 2"
  | "val_DEVICE_STATUS QDMI_DEVICE_STATUS_ERROR = 3"
  | "val_DEVICE_STATUS QDMI_DEVICE_STATUS_MAINTENANCE = 4"
  | "val_DEVICE_STATUS QDMI_DEVICE_STATUS_CALIBRATION = 5"
  | "val_DEVICE_STATUS QDMI_DEVICE_STATUS_MAX = 6"

datatype QDMI_SITE_PROPERTY_T =
    QDMI_SITE_PROPERTY_INDEX
  | QDMI_SITE_PROPERTY_T1
  | QDMI_SITE_PROPERTY_T2
  | QDMI_SITE_PROPERTY_NAME
  | QDMI_SITE_PROPERTY_XCOORDINATE
  | QDMI_SITE_PROPERTY_YCOORDINATE
  | QDMI_SITE_PROPERTY_ZCOORDINATE
  | QDMI_SITE_PROPERTY_ISZONE
  | QDMI_SITE_PROPERTY_XEXTENT
  | QDMI_SITE_PROPERTY_YEXTENT
  | QDMI_SITE_PROPERTY_ZEXTENT
  | QDMI_SITE_PROPERTY_MODULEINDEX
  | QDMI_SITE_PROPERTY_SUBMODULEINDEX
  | QDMI_SITE_PROPERTY_MAX
  | QDMI_SITE_PROPERTY_CUSTOM1
  | QDMI_SITE_PROPERTY_CUSTOM2
  | QDMI_SITE_PROPERTY_CUSTOM3
  | QDMI_SITE_PROPERTY_CUSTOM4
  | QDMI_SITE_PROPERTY_CUSTOM5

primrec val_SITE_PROPERTY :: "QDMI_SITE_PROPERTY_T \<Rightarrow> int" where
    "val_SITE_PROPERTY QDMI_SITE_PROPERTY_INDEX = 0"
  | "val_SITE_PROPERTY QDMI_SITE_PROPERTY_T1 = 1"
  | "val_SITE_PROPERTY QDMI_SITE_PROPERTY_T2 = 2"
  | "val_SITE_PROPERTY QDMI_SITE_PROPERTY_NAME = 3"
  | "val_SITE_PROPERTY QDMI_SITE_PROPERTY_XCOORDINATE = 4"
  | "val_SITE_PROPERTY QDMI_SITE_PROPERTY_YCOORDINATE = 5"
  | "val_SITE_PROPERTY QDMI_SITE_PROPERTY_ZCOORDINATE = 6"
  | "val_SITE_PROPERTY QDMI_SITE_PROPERTY_ISZONE = 7"
  | "val_SITE_PROPERTY QDMI_SITE_PROPERTY_XEXTENT = 8"
  | "val_SITE_PROPERTY QDMI_SITE_PROPERTY_YEXTENT = 9"
  | "val_SITE_PROPERTY QDMI_SITE_PROPERTY_ZEXTENT = 10"
  | "val_SITE_PROPERTY QDMI_SITE_PROPERTY_MODULEINDEX = 11"
  | "val_SITE_PROPERTY QDMI_SITE_PROPERTY_SUBMODULEINDEX = 12"
  | "val_SITE_PROPERTY QDMI_SITE_PROPERTY_MAX = 13"
  | "val_SITE_PROPERTY QDMI_SITE_PROPERTY_CUSTOM1 = 999999995"
  | "val_SITE_PROPERTY QDMI_SITE_PROPERTY_CUSTOM2 = 999999996"
  | "val_SITE_PROPERTY QDMI_SITE_PROPERTY_CUSTOM3 = 999999997"
  | "val_SITE_PROPERTY QDMI_SITE_PROPERTY_CUSTOM4 = 999999998"
  | "val_SITE_PROPERTY QDMI_SITE_PROPERTY_CUSTOM5 = 999999999"

definition prefix_SITE_PROPERTY :: enum_prefix where
  "prefix_SITE_PROPERTY =
     \<lparr>e_max = val_SITE_PROPERTY QDMI_SITE_PROPERTY_MAX,
      e_customs = map val_SITE_PROPERTY [QDMI_SITE_PROPERTY_CUSTOM1, QDMI_SITE_PROPERTY_CUSTOM2,
        QDMI_SITE_PROPERTY_CUSTOM3, QDMI_SITE_PROPERTY_CUSTOM4, QDMI_SITE_PROPERTY_CUSTOM5]\<rparr>"

datatype QDMI_OPERATION_PROPERTY_T =
    QDMI_OPERATION_PROPERTY_NAME
  | QDMI_OPERATION_PROPERTY_QUBITSNUM
  | QDMI_OPERATION_PROPERTY_PARAMETERSNUM
  | QDMI_OPERATION_PROPERTY_DURATION
  | QDMI_OPERATION_PROPERTY_FIDELITY
  | QDMI_OPERATION_PROPERTY_INTERACTIONRADIUS
  | QDMI_OPERATION_PROPERTY_BLOCKINGRADIUS
  | QDMI_OPERATION_PROPERTY_IDLINGFIDELITY
  | QDMI_OPERATION_PROPERTY_ISZONED
  | QDMI_OPERATION_PROPERTY_SITES
  | QDMI_OPERATION_PROPERTY_MEANSHUTTLINGSPEED
  | QDMI_OPERATION_PROPERTY_MAX
  | QDMI_OPERATION_PROPERTY_CUSTOM1
  | QDMI_OPERATION_PROPERTY_CUSTOM2
  | QDMI_OPERATION_PROPERTY_CUSTOM3
  | QDMI_OPERATION_PROPERTY_CUSTOM4
  | QDMI_OPERATION_PROPERTY_CUSTOM5

primrec val_OPERATION_PROPERTY :: "QDMI_OPERATION_PROPERTY_T \<Rightarrow> int" where
    "val_OPERATION_PROPERTY QDMI_OPERATION_PROPERTY_NAME = 0"
  | "val_OPERATION_PROPERTY QDMI_OPERATION_PROPERTY_QUBITSNUM = 1"
  | "val_OPERATION_PROPERTY QDMI_OPERATION_PROPERTY_PARAMETERSNUM = 2"
  | "val_OPERATION_PROPERTY QDMI_OPERATION_PROPERTY_DURATION = 3"
  | "val_OPERATION_PROPERTY QDMI_OPERATION_PROPERTY_FIDELITY = 4"
  | "val_OPERATION_PROPERTY QDMI_OPERATION_PROPERTY_INTERACTIONRADIUS = 5"
  | "val_OPERATION_PROPERTY QDMI_OPERATION_PROPERTY_BLOCKINGRADIUS = 6"
  | "val_OPERATION_PROPERTY QDMI_OPERATION_PROPERTY_IDLINGFIDELITY = 7"
  | "val_OPERATION_PROPERTY QDMI_OPERATION_PROPERTY_ISZONED = 8"
  | "val_OPERATION_PROPERTY QDMI_OPERATION_PROPERTY_SITES = 9"
  | "val_OPERATION_PROPERTY QDMI_OPERATION_PROPERTY_MEANSHUTTLINGSPEED = 10"
  | "val_OPERATION_PROPERTY QDMI_OPERATION_PROPERTY_MAX = 11"
  | "val_OPERATION_PROPERTY QDMI_OPERATION_PROPERTY_CUSTOM1 = 999999995"
  | "val_OPERATION_PROPERTY QDMI_OPERATION_PROPERTY_CUSTOM2 = 999999996"
  | "val_OPERATION_PROPERTY QDMI_OPERATION_PROPERTY_CUSTOM3 = 999999997"
  | "val_OPERATION_PROPERTY QDMI_OPERATION_PROPERTY_CUSTOM4 = 999999998"
  | "val_OPERATION_PROPERTY QDMI_OPERATION_PROPERTY_CUSTOM5 = 999999999"

definition prefix_OPERATION_PROPERTY :: enum_prefix where
  "prefix_OPERATION_PROPERTY =
     \<lparr>e_max = val_OPERATION_PROPERTY QDMI_OPERATION_PROPERTY_MAX,
      e_customs = map val_OPERATION_PROPERTY [QDMI_OPERATION_PROPERTY_CUSTOM1, QDMI_OPERATION_PROPERTY_CUSTOM2,
        QDMI_OPERATION_PROPERTY_CUSTOM3, QDMI_OPERATION_PROPERTY_CUSTOM4, QDMI_OPERATION_PROPERTY_CUSTOM5]\<rparr>"

datatype QDMI_JOB_STATUS_T =
    QDMI_JOB_STATUS_CREATED
  | QDMI_JOB_STATUS_SUBMITTED
  | QDMI_JOB_STATUS_QUEUED
  | QDMI_JOB_STATUS_RUNNING
  | QDMI_JOB_STATUS_DONE
  | QDMI_JOB_STATUS_CANCELED
  | QDMI_JOB_STATUS_FAILED

primrec val_JOB_STATUS :: "QDMI_JOB_STATUS_T \<Rightarrow> int" where
    "val_JOB_STATUS QDMI_JOB_STATUS_CREATED = 0"
  | "val_JOB_STATUS QDMI_JOB_STATUS_SUBMITTED = 1"
  | "val_JOB_STATUS QDMI_JOB_STATUS_QUEUED = 2"
  | "val_JOB_STATUS QDMI_JOB_STATUS_RUNNING = 3"
  | "val_JOB_STATUS QDMI_JOB_STATUS_DONE = 4"
  | "val_JOB_STATUS QDMI_JOB_STATUS_CANCELED = 5"
  | "val_JOB_STATUS QDMI_JOB_STATUS_FAILED = 6"

datatype QDMI_PROGRAM_FORMAT_T =
    QDMI_PROGRAM_FORMAT_QASM2
  | QDMI_PROGRAM_FORMAT_QASM3
  | QDMI_PROGRAM_FORMAT_QIRBASESTRING
  | QDMI_PROGRAM_FORMAT_QIRBASEMODULE
  | QDMI_PROGRAM_FORMAT_QIRADAPTIVESTRING
  | QDMI_PROGRAM_FORMAT_QIRADAPTIVEMODULE
  | QDMI_PROGRAM_FORMAT_QPY
  | QDMI_PROGRAM_FORMAT_IQMJSON
  | QDMI_PROGRAM_FORMAT_MAX
  | QDMI_PROGRAM_FORMAT_CUSTOM1
  | QDMI_PROGRAM_FORMAT_CUSTOM2
  | QDMI_PROGRAM_FORMAT_CUSTOM3
  | QDMI_PROGRAM_FORMAT_CUSTOM4
  | QDMI_PROGRAM_FORMAT_CUSTOM5

primrec val_PROGRAM_FORMAT :: "QDMI_PROGRAM_FORMAT_T \<Rightarrow> int" where
    "val_PROGRAM_FORMAT QDMI_PROGRAM_FORMAT_QASM2 = 0"
  | "val_PROGRAM_FORMAT QDMI_PROGRAM_FORMAT_QASM3 = 1"
  | "val_PROGRAM_FORMAT QDMI_PROGRAM_FORMAT_QIRBASESTRING = 2"
  | "val_PROGRAM_FORMAT QDMI_PROGRAM_FORMAT_QIRBASEMODULE = 3"
  | "val_PROGRAM_FORMAT QDMI_PROGRAM_FORMAT_QIRADAPTIVESTRING = 4"
  | "val_PROGRAM_FORMAT QDMI_PROGRAM_FORMAT_QIRADAPTIVEMODULE = 5"
  | "val_PROGRAM_FORMAT QDMI_PROGRAM_FORMAT_QPY = 7"
  | "val_PROGRAM_FORMAT QDMI_PROGRAM_FORMAT_IQMJSON = 8"
  | "val_PROGRAM_FORMAT QDMI_PROGRAM_FORMAT_MAX = 10"
  | "val_PROGRAM_FORMAT QDMI_PROGRAM_FORMAT_CUSTOM1 = 999999995"
  | "val_PROGRAM_FORMAT QDMI_PROGRAM_FORMAT_CUSTOM2 = 999999996"
  | "val_PROGRAM_FORMAT QDMI_PROGRAM_FORMAT_CUSTOM3 = 999999997"
  | "val_PROGRAM_FORMAT QDMI_PROGRAM_FORMAT_CUSTOM4 = 999999998"
  | "val_PROGRAM_FORMAT QDMI_PROGRAM_FORMAT_CUSTOM5 = 999999999"

definition prefix_PROGRAM_FORMAT :: enum_prefix where
  "prefix_PROGRAM_FORMAT =
     \<lparr>e_max = val_PROGRAM_FORMAT QDMI_PROGRAM_FORMAT_MAX,
      e_customs = map val_PROGRAM_FORMAT [QDMI_PROGRAM_FORMAT_CUSTOM1, QDMI_PROGRAM_FORMAT_CUSTOM2,
        QDMI_PROGRAM_FORMAT_CUSTOM3, QDMI_PROGRAM_FORMAT_CUSTOM4, QDMI_PROGRAM_FORMAT_CUSTOM5]\<rparr>"

datatype QDMI_JOB_RESULT_T =
    QDMI_JOB_RESULT_SHOTS
  | QDMI_JOB_RESULT_HIST_KEYS
  | QDMI_JOB_RESULT_HIST_VALUES
  | QDMI_JOB_RESULT_STATEVECTOR_DENSE
  | QDMI_JOB_RESULT_PROBABILITIES_DENSE
  | QDMI_JOB_RESULT_STATEVECTOR_SPARSE_KEYS
  | QDMI_JOB_RESULT_STATEVECTOR_SPARSE_VALUES
  | QDMI_JOB_RESULT_PROBABILITIES_SPARSE_KEYS
  | QDMI_JOB_RESULT_PROBABILITIES_SPARSE_VALUES
  | QDMI_JOB_RESULT_MAX
  | QDMI_JOB_RESULT_CUSTOM1
  | QDMI_JOB_RESULT_CUSTOM2
  | QDMI_JOB_RESULT_CUSTOM3
  | QDMI_JOB_RESULT_CUSTOM4
  | QDMI_JOB_RESULT_CUSTOM5

primrec val_JOB_RESULT :: "QDMI_JOB_RESULT_T \<Rightarrow> int" where
    "val_JOB_RESULT QDMI_JOB_RESULT_SHOTS = 0"
  | "val_JOB_RESULT QDMI_JOB_RESULT_HIST_KEYS = 1"
  | "val_JOB_RESULT QDMI_JOB_RESULT_HIST_VALUES = 2"
  | "val_JOB_RESULT QDMI_JOB_RESULT_STATEVECTOR_DENSE = 3"
  | "val_JOB_RESULT QDMI_JOB_RESULT_PROBABILITIES_DENSE = 4"
  | "val_JOB_RESULT QDMI_JOB_RESULT_STATEVECTOR_SPARSE_KEYS = 5"
  | "val_JOB_RESULT QDMI_JOB_RESULT_STATEVECTOR_SPARSE_VALUES = 6"
  | "val_JOB_RESULT QDMI_JOB_RESULT_PROBABILITIES_SPARSE_KEYS = 7"
  | "val_JOB_RESULT QDMI_JOB_RESULT_PROBABILITIES_SPARSE_VALUES = 8"
  | "val_JOB_RESULT QDMI_JOB_RESULT_MAX = 9"
  | "val_JOB_RESULT QDMI_JOB_RESULT_CUSTOM1 = 999999995"
  | "val_JOB_RESULT QDMI_JOB_RESULT_CUSTOM2 = 999999996"
  | "val_JOB_RESULT QDMI_JOB_RESULT_CUSTOM3 = 999999997"
  | "val_JOB_RESULT QDMI_JOB_RESULT_CUSTOM4 = 999999998"
  | "val_JOB_RESULT QDMI_JOB_RESULT_CUSTOM5 = 999999999"

definition prefix_JOB_RESULT :: enum_prefix where
  "prefix_JOB_RESULT =
     \<lparr>e_max = val_JOB_RESULT QDMI_JOB_RESULT_MAX,
      e_customs = map val_JOB_RESULT [QDMI_JOB_RESULT_CUSTOM1, QDMI_JOB_RESULT_CUSTOM2,
        QDMI_JOB_RESULT_CUSTOM3, QDMI_JOB_RESULT_CUSTOM4, QDMI_JOB_RESULT_CUSTOM5]\<rparr>"

datatype QDMI_SESSION_PARAMETER_T =
    QDMI_SESSION_PARAMETER_TOKEN
  | QDMI_SESSION_PARAMETER_AUTHFILE
  | QDMI_SESSION_PARAMETER_AUTHURL
  | QDMI_SESSION_PARAMETER_USERNAME
  | QDMI_SESSION_PARAMETER_PASSWORD
  | QDMI_SESSION_PARAMETER_PROJECTID
  | QDMI_SESSION_PARAMETER_MAX
  | QDMI_SESSION_PARAMETER_CUSTOM1
  | QDMI_SESSION_PARAMETER_CUSTOM2
  | QDMI_SESSION_PARAMETER_CUSTOM3
  | QDMI_SESSION_PARAMETER_CUSTOM4
  | QDMI_SESSION_PARAMETER_CUSTOM5

primrec val_SESSION_PARAMETER :: "QDMI_SESSION_PARAMETER_T \<Rightarrow> int" where
    "val_SESSION_PARAMETER QDMI_SESSION_PARAMETER_TOKEN = 0"
  | "val_SESSION_PARAMETER QDMI_SESSION_PARAMETER_AUTHFILE = 1"
  | "val_SESSION_PARAMETER QDMI_SESSION_PARAMETER_AUTHURL = 2"
  | "val_SESSION_PARAMETER QDMI_SESSION_PARAMETER_USERNAME = 3"
  | "val_SESSION_PARAMETER QDMI_SESSION_PARAMETER_PASSWORD = 4"
  | "val_SESSION_PARAMETER QDMI_SESSION_PARAMETER_PROJECTID = 5"
  | "val_SESSION_PARAMETER QDMI_SESSION_PARAMETER_MAX = 6"
  | "val_SESSION_PARAMETER QDMI_SESSION_PARAMETER_CUSTOM1 = 999999995"
  | "val_SESSION_PARAMETER QDMI_SESSION_PARAMETER_CUSTOM2 = 999999996"
  | "val_SESSION_PARAMETER QDMI_SESSION_PARAMETER_CUSTOM3 = 999999997"
  | "val_SESSION_PARAMETER QDMI_SESSION_PARAMETER_CUSTOM4 = 999999998"
  | "val_SESSION_PARAMETER QDMI_SESSION_PARAMETER_CUSTOM5 = 999999999"

definition prefix_SESSION_PARAMETER :: enum_prefix where
  "prefix_SESSION_PARAMETER =
     \<lparr>e_max = val_SESSION_PARAMETER QDMI_SESSION_PARAMETER_MAX,
      e_customs = map val_SESSION_PARAMETER [QDMI_SESSION_PARAMETER_CUSTOM1, QDMI_SESSION_PARAMETER_CUSTOM2,
        QDMI_SESSION_PARAMETER_CUSTOM3, QDMI_SESSION_PARAMETER_CUSTOM4, QDMI_SESSION_PARAMETER_CUSTOM5]\<rparr>"

datatype QDMI_SESSION_PROPERTY_T =
    QDMI_SESSION_PROPERTY_DEVICES
  | QDMI_SESSION_PROPERTY_MAX
  | QDMI_SESSION_PROPERTY_CUSTOM1
  | QDMI_SESSION_PROPERTY_CUSTOM2
  | QDMI_SESSION_PROPERTY_CUSTOM3
  | QDMI_SESSION_PROPERTY_CUSTOM4
  | QDMI_SESSION_PROPERTY_CUSTOM5

primrec val_SESSION_PROPERTY :: "QDMI_SESSION_PROPERTY_T \<Rightarrow> int" where
    "val_SESSION_PROPERTY QDMI_SESSION_PROPERTY_DEVICES = 0"
  | "val_SESSION_PROPERTY QDMI_SESSION_PROPERTY_MAX = 1"
  | "val_SESSION_PROPERTY QDMI_SESSION_PROPERTY_CUSTOM1 = 999999995"
  | "val_SESSION_PROPERTY QDMI_SESSION_PROPERTY_CUSTOM2 = 999999996"
  | "val_SESSION_PROPERTY QDMI_SESSION_PROPERTY_CUSTOM3 = 999999997"
  | "val_SESSION_PROPERTY QDMI_SESSION_PROPERTY_CUSTOM4 = 999999998"
  | "val_SESSION_PROPERTY QDMI_SESSION_PROPERTY_CUSTOM5 = 999999999"

definition prefix_SESSION_PROPERTY :: enum_prefix where
  "prefix_SESSION_PROPERTY =
     \<lparr>e_max = val_SESSION_PROPERTY QDMI_SESSION_PROPERTY_MAX,
      e_customs = map val_SESSION_PROPERTY [QDMI_SESSION_PROPERTY_CUSTOM1, QDMI_SESSION_PROPERTY_CUSTOM2,
        QDMI_SESSION_PROPERTY_CUSTOM3, QDMI_SESSION_PROPERTY_CUSTOM4, QDMI_SESSION_PROPERTY_CUSTOM5]\<rparr>"

datatype QDMI_JOB_PARAMETER_T =
    QDMI_JOB_PARAMETER_SHOTSNUM
  | QDMI_JOB_PARAMETER_MAX
  | QDMI_JOB_PARAMETER_CUSTOM1
  | QDMI_JOB_PARAMETER_CUSTOM2
  | QDMI_JOB_PARAMETER_CUSTOM3
  | QDMI_JOB_PARAMETER_CUSTOM4
  | QDMI_JOB_PARAMETER_CUSTOM5

primrec val_JOB_PARAMETER :: "QDMI_JOB_PARAMETER_T \<Rightarrow> int" where
    "val_JOB_PARAMETER QDMI_JOB_PARAMETER_SHOTSNUM = 2"
  | "val_JOB_PARAMETER QDMI_JOB_PARAMETER_MAX = 3"
  | "val_JOB_PARAMETER QDMI_JOB_PARAMETER_CUSTOM1 = 999999995"
  | "val_JOB_PARAMETER QDMI_JOB_PARAMETER_CUSTOM2 = 999999996"
  | "val_JOB_PARAMETER QDMI_JOB_PARAMETER_CUSTOM3 = 999999997"
  | "val_JOB_PARAMETER QDMI_JOB_PARAMETER_CUSTOM4 = 999999998"
  | "val_JOB_PARAMETER QDMI_JOB_PARAMETER_CUSTOM5 = 999999999"

definition prefix_JOB_PARAMETER :: enum_prefix where
  "prefix_JOB_PARAMETER =
     \<lparr>e_max = val_JOB_PARAMETER QDMI_JOB_PARAMETER_MAX,
      e_customs = map val_JOB_PARAMETER [QDMI_JOB_PARAMETER_CUSTOM1, QDMI_JOB_PARAMETER_CUSTOM2,
        QDMI_JOB_PARAMETER_CUSTOM3, QDMI_JOB_PARAMETER_CUSTOM4, QDMI_JOB_PARAMETER_CUSTOM5]\<rparr>"

datatype QDMI_JOB_PROPERTY_T =
    QDMI_JOB_PROPERTY_ID
  | QDMI_JOB_PROPERTY_PROGRAMFORMAT
  | QDMI_JOB_PROPERTY_SHOTSNUM
  | QDMI_JOB_PROPERTY_QUEUEPOSITION
  | QDMI_JOB_PROPERTY_PROGRAMSNUM
  | QDMI_JOB_PROPERTY_MAX
  | QDMI_JOB_PROPERTY_CUSTOM1
  | QDMI_JOB_PROPERTY_CUSTOM2
  | QDMI_JOB_PROPERTY_CUSTOM3
  | QDMI_JOB_PROPERTY_CUSTOM4
  | QDMI_JOB_PROPERTY_CUSTOM5

primrec val_JOB_PROPERTY :: "QDMI_JOB_PROPERTY_T \<Rightarrow> int" where
    "val_JOB_PROPERTY QDMI_JOB_PROPERTY_ID = 0"
  | "val_JOB_PROPERTY QDMI_JOB_PROPERTY_PROGRAMFORMAT = 1"
  | "val_JOB_PROPERTY QDMI_JOB_PROPERTY_SHOTSNUM = 3"
  | "val_JOB_PROPERTY QDMI_JOB_PROPERTY_QUEUEPOSITION = 4"
  | "val_JOB_PROPERTY QDMI_JOB_PROPERTY_PROGRAMSNUM = 5"
  | "val_JOB_PROPERTY QDMI_JOB_PROPERTY_MAX = 6"
  | "val_JOB_PROPERTY QDMI_JOB_PROPERTY_CUSTOM1 = 999999995"
  | "val_JOB_PROPERTY QDMI_JOB_PROPERTY_CUSTOM2 = 999999996"
  | "val_JOB_PROPERTY QDMI_JOB_PROPERTY_CUSTOM3 = 999999997"
  | "val_JOB_PROPERTY QDMI_JOB_PROPERTY_CUSTOM4 = 999999998"
  | "val_JOB_PROPERTY QDMI_JOB_PROPERTY_CUSTOM5 = 999999999"

definition prefix_JOB_PROPERTY :: enum_prefix where
  "prefix_JOB_PROPERTY =
     \<lparr>e_max = val_JOB_PROPERTY QDMI_JOB_PROPERTY_MAX,
      e_customs = map val_JOB_PROPERTY [QDMI_JOB_PROPERTY_CUSTOM1, QDMI_JOB_PROPERTY_CUSTOM2,
        QDMI_JOB_PROPERTY_CUSTOM3, QDMI_JOB_PROPERTY_CUSTOM4, QDMI_JOB_PROPERTY_CUSTOM5]\<rparr>"

section \<open>What the header documents about the values\<close>

text \<open>The C types a property or a result is returned in.\<close>

datatype value_type =
    Ty_string
  | Ty_size_t
  | Ty_uint64
  | Ty_int64
  | Ty_double
  | Ty_bool
  | Ty_enum
  | Ty_handles
  | Ty_enums
  | Ty_doubles
  | Ty_sizes

text \<open>The size of the types with one; strings and lists are as long as their value.\<close>

fun fixed_size :: "value_type \<Rightarrow> nat option" where
  "fixed_size Ty_size_t = Some 8"
| "fixed_size Ty_uint64 = Some 8"
| "fixed_size Ty_int64 = Some 8"
| "fixed_size Ty_double = Some 8"
| "fixed_size Ty_bool = Some 1"
| "fixed_size Ty_enum = Some 4"
| "fixed_size _ = None"

fun type_DEVICE_PROPERTY :: "QDMI_DEVICE_PROPERTY_T \<Rightarrow> value_type option" where
  "type_DEVICE_PROPERTY QDMI_DEVICE_PROPERTY_NAME = Some Ty_string"
| "type_DEVICE_PROPERTY QDMI_DEVICE_PROPERTY_VERSION = Some Ty_string"
| "type_DEVICE_PROPERTY QDMI_DEVICE_PROPERTY_STATUS = Some Ty_enum"
| "type_DEVICE_PROPERTY QDMI_DEVICE_PROPERTY_LIBRARYVERSION = Some Ty_string"
| "type_DEVICE_PROPERTY QDMI_DEVICE_PROPERTY_QUBITSNUM = Some Ty_size_t"
| "type_DEVICE_PROPERTY QDMI_DEVICE_PROPERTY_SITES = Some Ty_handles"
| "type_DEVICE_PROPERTY QDMI_DEVICE_PROPERTY_OPERATIONS = Some Ty_handles"
| "type_DEVICE_PROPERTY QDMI_DEVICE_PROPERTY_COUPLINGMAP = Some Ty_handles"
| "type_DEVICE_PROPERTY QDMI_DEVICE_PROPERTY_LENGTHUNIT = Some Ty_string"
| "type_DEVICE_PROPERTY QDMI_DEVICE_PROPERTY_LENGTHSCALEFACTOR = Some Ty_double"
| "type_DEVICE_PROPERTY QDMI_DEVICE_PROPERTY_DURATIONUNIT = Some Ty_string"
| "type_DEVICE_PROPERTY QDMI_DEVICE_PROPERTY_DURATIONSCALEFACTOR = Some Ty_double"
| "type_DEVICE_PROPERTY QDMI_DEVICE_PROPERTY_MINATOMDISTANCE = Some Ty_uint64"
| "type_DEVICE_PROPERTY QDMI_DEVICE_PROPERTY_SUPPORTEDPROGRAMFORMATS = Some Ty_enums"
| "type_DEVICE_PROPERTY QDMI_DEVICE_PROPERTY_CHILDDEVICES = Some Ty_handles"
| "type_DEVICE_PROPERTY QDMI_DEVICE_PROPERTY_QUEUELENGTH = Some Ty_size_t"
| "type_DEVICE_PROPERTY QDMI_DEVICE_PROPERTY_ID = Some Ty_string"
| "type_DEVICE_PROPERTY _ = None"

fun type_SITE_PROPERTY :: "QDMI_SITE_PROPERTY_T \<Rightarrow> value_type option" where
  "type_SITE_PROPERTY QDMI_SITE_PROPERTY_INDEX = Some Ty_size_t"
| "type_SITE_PROPERTY QDMI_SITE_PROPERTY_T1 = Some Ty_uint64"
| "type_SITE_PROPERTY QDMI_SITE_PROPERTY_T2 = Some Ty_uint64"
| "type_SITE_PROPERTY QDMI_SITE_PROPERTY_NAME = Some Ty_string"
| "type_SITE_PROPERTY QDMI_SITE_PROPERTY_XCOORDINATE = Some Ty_int64"
| "type_SITE_PROPERTY QDMI_SITE_PROPERTY_YCOORDINATE = Some Ty_int64"
| "type_SITE_PROPERTY QDMI_SITE_PROPERTY_ZCOORDINATE = Some Ty_int64"
| "type_SITE_PROPERTY QDMI_SITE_PROPERTY_ISZONE = Some Ty_bool"
| "type_SITE_PROPERTY QDMI_SITE_PROPERTY_XEXTENT = Some Ty_uint64"
| "type_SITE_PROPERTY QDMI_SITE_PROPERTY_YEXTENT = Some Ty_uint64"
| "type_SITE_PROPERTY QDMI_SITE_PROPERTY_ZEXTENT = Some Ty_uint64"
| "type_SITE_PROPERTY QDMI_SITE_PROPERTY_MODULEINDEX = Some Ty_uint64"
| "type_SITE_PROPERTY QDMI_SITE_PROPERTY_SUBMODULEINDEX = Some Ty_uint64"
| "type_SITE_PROPERTY _ = None"

text \<open>The factor a client multiplies a raw site value with.\<close>

datatype scale = Duration_Scale | Length_Scale

fun scale_SITE_PROPERTY :: "QDMI_SITE_PROPERTY_T \<Rightarrow> scale option" where
  "scale_SITE_PROPERTY QDMI_SITE_PROPERTY_T1 = Some Duration_Scale"
| "scale_SITE_PROPERTY QDMI_SITE_PROPERTY_T2 = Some Duration_Scale"
| "scale_SITE_PROPERTY QDMI_SITE_PROPERTY_XCOORDINATE = Some Length_Scale"
| "scale_SITE_PROPERTY QDMI_SITE_PROPERTY_YCOORDINATE = Some Length_Scale"
| "scale_SITE_PROPERTY QDMI_SITE_PROPERTY_ZCOORDINATE = Some Length_Scale"
| "scale_SITE_PROPERTY QDMI_SITE_PROPERTY_XEXTENT = Some Length_Scale"
| "scale_SITE_PROPERTY QDMI_SITE_PROPERTY_YEXTENT = Some Length_Scale"
| "scale_SITE_PROPERTY QDMI_SITE_PROPERTY_ZEXTENT = Some Length_Scale"
| "scale_SITE_PROPERTY _ = None"

fun type_OPERATION_PROPERTY :: "QDMI_OPERATION_PROPERTY_T \<Rightarrow> value_type option" where
  "type_OPERATION_PROPERTY QDMI_OPERATION_PROPERTY_NAME = Some Ty_string"
| "type_OPERATION_PROPERTY QDMI_OPERATION_PROPERTY_QUBITSNUM = Some Ty_size_t"
| "type_OPERATION_PROPERTY QDMI_OPERATION_PROPERTY_PARAMETERSNUM = Some Ty_size_t"
| "type_OPERATION_PROPERTY QDMI_OPERATION_PROPERTY_DURATION = Some Ty_uint64"
| "type_OPERATION_PROPERTY QDMI_OPERATION_PROPERTY_FIDELITY = Some Ty_double"
| "type_OPERATION_PROPERTY QDMI_OPERATION_PROPERTY_INTERACTIONRADIUS = Some Ty_uint64"
| "type_OPERATION_PROPERTY QDMI_OPERATION_PROPERTY_BLOCKINGRADIUS = Some Ty_uint64"
| "type_OPERATION_PROPERTY QDMI_OPERATION_PROPERTY_IDLINGFIDELITY = Some Ty_double"
| "type_OPERATION_PROPERTY QDMI_OPERATION_PROPERTY_ISZONED = Some Ty_bool"
| "type_OPERATION_PROPERTY QDMI_OPERATION_PROPERTY_SITES = Some Ty_handles"
| "type_OPERATION_PROPERTY QDMI_OPERATION_PROPERTY_MEANSHUTTLINGSPEED = Some Ty_uint64"
| "type_OPERATION_PROPERTY _ = None"

fun type_JOB_RESULT :: "QDMI_JOB_RESULT_T \<Rightarrow> value_type option" where
  "type_JOB_RESULT QDMI_JOB_RESULT_SHOTS = Some Ty_string"
| "type_JOB_RESULT QDMI_JOB_RESULT_HIST_KEYS = Some Ty_string"
| "type_JOB_RESULT QDMI_JOB_RESULT_HIST_VALUES = Some Ty_sizes"
| "type_JOB_RESULT QDMI_JOB_RESULT_STATEVECTOR_DENSE = Some Ty_doubles"
| "type_JOB_RESULT QDMI_JOB_RESULT_PROBABILITIES_DENSE = Some Ty_doubles"
| "type_JOB_RESULT QDMI_JOB_RESULT_STATEVECTOR_SPARSE_KEYS = Some Ty_string"
| "type_JOB_RESULT QDMI_JOB_RESULT_STATEVECTOR_SPARSE_VALUES = Some Ty_doubles"
| "type_JOB_RESULT QDMI_JOB_RESULT_PROBABILITIES_SPARSE_KEYS = Some Ty_string"
| "type_JOB_RESULT QDMI_JOB_RESULT_PROBABILITIES_SPARSE_VALUES = Some Ty_doubles"
| "type_JOB_RESULT _ = None"

text \<open>Values reserved for removed properties and formats: below \<open>MAX\<close> and unused.\<close>

definition reserved_DEVICE_PROPERTY :: "int list" where
  "reserved_DEVICE_PROPERTY = [8, 9]"

definition reserved_PROGRAM_FORMAT :: "int list" where
  "reserved_PROGRAM_FORMAT = [6, 9]"

text \<open>The formats whose programs are NUL-terminated text.\<close>

fun text_PROGRAM_FORMAT :: "QDMI_PROGRAM_FORMAT_T \<Rightarrow> bool" where
  "text_PROGRAM_FORMAT QDMI_PROGRAM_FORMAT_QASM2 = True"
| "text_PROGRAM_FORMAT QDMI_PROGRAM_FORMAT_QASM3 = True"
| "text_PROGRAM_FORMAT QDMI_PROGRAM_FORMAT_QIRBASESTRING = True"
| "text_PROGRAM_FORMAT QDMI_PROGRAM_FORMAT_QIRADAPTIVESTRING = True"
| "text_PROGRAM_FORMAT QDMI_PROGRAM_FORMAT_IQMJSON = True"
| "text_PROGRAM_FORMAT _ = False"

definition length_units :: "string list" where
  "length_units =
     [''qm'', ''rm'', ''ym'', ''zm'', ''am'', ''fm'', ''pm'', ''nm'', ''um'', ''mm'', ''cm'',
      ''dm'', ''m'', ''dam'', ''hm'', ''km'', ''Mm'', ''Gm'', ''Tm'', ''Pm'', ''Em'', ''Zm'',
      ''Ym'', ''Rm'', ''Qm'']"

definition duration_units :: "string list" where
  "duration_units =
     [''qs'', ''rs'', ''ys'', ''zs'', ''as'', ''fs'', ''ps'', ''ns'', ''us'', ''ms'', ''cs'',
      ''ds'', ''s'', ''das'', ''hs'', ''ks'', ''Ms'', ''Gs'', ''Ts'', ''Ps'', ''Es'', ''Zs'',
      ''Ys'', ''Rs'', ''Qs'']"

text \<open>The states a job does not leave by itself.\<close>

fun terminal :: "QDMI_JOB_STATUS_T \<Rightarrow> bool" where
  "terminal QDMI_JOB_STATUS_DONE = True"
| "terminal QDMI_JOB_STATUS_CANCELED = True"
| "terminal QDMI_JOB_STATUS_FAILED = True"
| "terminal _ = False"

section \<open>Status codes are ordered by their value\<close>

instantiation QDMI_STATUS :: linorder
begin

definition less_eq_QDMI_STATUS :: "QDMI_STATUS \<Rightarrow> QDMI_STATUS \<Rightarrow> bool" where
  "less_eq_QDMI_STATUS a b \<longleftrightarrow> val_STATUS a \<le> val_STATUS b"

definition less_QDMI_STATUS :: "QDMI_STATUS \<Rightarrow> QDMI_STATUS \<Rightarrow> bool" where
  "less_QDMI_STATUS a b \<longleftrightarrow> val_STATUS a < val_STATUS b"

instance
proof
  fix a b c :: QDMI_STATUS
  show "a \<le> b \<Longrightarrow> b \<le> a \<Longrightarrow> a = b"
    by (cases a; cases b; simp add: less_eq_QDMI_STATUS_def)
qed (auto simp: less_eq_QDMI_STATUS_def less_QDMI_STATUS_def)

end

text \<open>The error codes are the negative ones: below \<open>QDMI_SUCCESS\<close>.\<close>

definition is_error :: "QDMI_STATUS \<Rightarrow> bool" where
  "is_error s \<longleftrightarrow> s < QDMI_SUCCESS"

lemma is_error_iff: "is_error s \<longleftrightarrow> s \<noteq> QDMI_SUCCESS \<and> s \<noteq> QDMI_WARN_GENERAL"
  by (cases s) (simp_all add: is_error_def less_QDMI_STATUS_def)

section \<open>Facts\<close>

lemmas prefix_defs =
  prefix_DEVICE_SESSION_PARAMETER_def prefix_DEVICE_JOB_PARAMETER_def
  prefix_DEVICE_JOB_PROPERTY_def prefix_DEVICE_PROPERTY_def prefix_SITE_PROPERTY_def
  prefix_OPERATION_PROPERTY_def prefix_PROGRAM_FORMAT_def prefix_JOB_RESULT_def
  prefix_SESSION_PARAMETER_def prefix_SESSION_PROPERTY_def
  prefix_JOB_PARAMETER_def prefix_JOB_PROPERTY_def

lemmas invalid_enum_simps = QDMI_IS_INVALID_ENUM_VALUE_def prefix_defs

lemma packed_fields:
  "QDMI_VERSION_MAJOR (QDMI_MAKE_VERSION a b c) = a AND 0x3FF"
  "QDMI_VERSION_MINOR (QDMI_MAKE_VERSION a b c) = b AND 0x3FF"
  "QDMI_VERSION_PATCH (QDMI_MAKE_VERSION a b c) = c AND 0xFFF"
proof -
  have m10: "(0x3FF :: 32 word) = mask 10" and m12: "(0xFFF :: 32 word) = mask 12"
    by (simp_all add: mask_eq_exp_minus_1)
  show "QDMI_VERSION_MAJOR (QDMI_MAKE_VERSION a b c) = a AND 0x3FF"
    unfolding QDMI_VERSION_MAJOR_def QDMI_MAKE_VERSION_def m10 m12
    by (rule bit_word_eqI)
       (auto simp: bit_and_iff bit_or_iff bit_push_bit_iff bit_drop_bit_eq bit_mask_iff)
  show "QDMI_VERSION_MINOR (QDMI_MAKE_VERSION a b c) = b AND 0x3FF"
    unfolding QDMI_VERSION_MINOR_def QDMI_MAKE_VERSION_def m10 m12
    by (rule bit_word_eqI)
       (auto simp: bit_and_iff bit_or_iff bit_push_bit_iff bit_drop_bit_eq bit_mask_iff)
  show "QDMI_VERSION_PATCH (QDMI_MAKE_VERSION a b c) = c AND 0xFFF"
    unfolding QDMI_VERSION_PATCH_def QDMI_MAKE_VERSION_def m10 m12
    by (rule bit_word_eqI)
       (auto simp: bit_and_iff bit_or_iff bit_push_bit_iff bit_drop_bit_eq bit_mask_iff)
qed

section \<open>Properties\<close>

lemma bounded_fields:
  fixes a c :: "32 word"
  shows "a < 2 ^ 10 \<Longrightarrow> a AND 0x3FF = a" and "c < 2 ^ 12 \<Longrightarrow> c AND 0xFFF = c"
  using less_mask_eq [of a 10] less_mask_eq [of c 12] by (simp_all add: mask_eq_exp_minus_1)

text \<open>C40: A packed version whose major and minor fit 10 bits and whose patch fits 12 bits gives its
  three fields back; so the version of the client interface in the headers, packed, is 1.4.0.\<close>

theorem version_round_trip:
  assumes "a < 2 ^ 10" and "b < 2 ^ 10" and "c < 2 ^ 12"
  shows "QDMI_VERSION_MAJOR (QDMI_MAKE_VERSION a b c) = a \<and>
    QDMI_VERSION_MINOR (QDMI_MAKE_VERSION a b c) = b \<and>
    QDMI_VERSION_PATCH (QDMI_MAKE_VERSION a b c) = c \<and>
    QDMI_VERSION_MAJOR QDMI_CLIENT_ABI_VERSION = 1 \<and> QDMI_VERSION_MINOR QDMI_CLIENT_ABI_VERSION = 4 \<and>
    QDMI_VERSION_PATCH QDMI_CLIENT_ABI_VERSION = 0"
  unfolding QDMI_CLIENT_ABI_VERSION_def packed_fields
  using assms by (simp add: bounded_fields)

theorem version_round_trip_witness:
  "QDMI_VERSION_MINOR (QDMI_MAKE_VERSION 1 4 2) = 4 \<and> QDMI_VERSION_PATCH (QDMI_MAKE_VERSION 1 4 2) = 2"
  using version_round_trip [of 1 4 2] by simp

lemma push_bit_or:
  fixes x c :: nat
  assumes "c < 2 ^ n"
  shows "push_bit n x OR c = x * 2 ^ n + c"
proof -
  have "c = take_bit n c" using assms by (simp add: take_bit_nat_eq_self)
  then have "\<not> bit (push_bit n x) k \<or> \<not> bit c k" for k
    by (metis bit_push_bit_iff bit_take_bit_iff leD)
  then show ?thesis by (simp add: disjunctive_add [symmetric] push_bit_eq_mult)
qed

lemma packed_value:
  assumes "a < 2 ^ 10" and "b < 2 ^ 10" and "c < 2 ^ 12"
  shows "unat (QDMI_MAKE_VERSION a b c) = unat a * 2 ^ 22 + unat b * 2 ^ 12 + unat c"
proof -
  have eq: "QDMI_MAKE_VERSION a b c = (push_bit 22 a OR push_bit 12 b) OR c"
    unfolding QDMI_MAKE_VERSION_def using assms by (simp add: bounded_fields)
  have lt: "unat a < 2 ^ 10" "unat b < 2 ^ 10" "unat c < 2 ^ 12"
    using assms by (simp_all add: word_less_nat_alt)
  have "unat (push_bit 22 a) = push_bit 22 (unat a)" "unat (push_bit 12 b) = push_bit 12 (unat b)"
    unfolding unsigned_push_bit_eq
    using lt by (simp_all add: push_bit_eq_mult take_bit_nat_eq_self)
  then have "unat (QDMI_MAKE_VERSION a b c) =
      push_bit 22 (unat a) OR (push_bit 12 (unat b) OR unat c)"
    unfolding eq by (simp add: unsigned_or_eq or.assoc)
  also have "push_bit 12 (unat b) OR unat c = unat b * 2 ^ 12 + unat c"
    using lt by (simp add: push_bit_or)
  also have "push_bit 22 (unat a) OR (unat b * 2 ^ 12 + unat c) =
      unat a * 2 ^ 22 + (unat b * 2 ^ 12 + unat c)"
    using lt by (intro push_bit_or) simp
  finally show ?thesis by simp
qed

text \<open>Packed versions compare as the versions do: by major, then minor, then patch.\<close>

theorem version_order:
  assumes "a < 2 ^ 10" and "b < 2 ^ 10" and "c < 2 ^ 12"
    and "a' < 2 ^ 10" and "b' < 2 ^ 10" and "c' < 2 ^ 12"
  shows "QDMI_MAKE_VERSION a b c < QDMI_MAKE_VERSION a' b' c' \<longleftrightarrow>
    a < a' \<or> a = a' \<and> (b < b' \<or> b = b' \<and> c < c')"
proof -
  have lt: "unat a < 2 ^ 10" "unat b < 2 ^ 10" "unat c < 2 ^ 12"
    "unat a' < 2 ^ 10" "unat b' < 2 ^ 10" "unat c' < 2 ^ 12"
    using assms by (simp_all add: word_less_nat_alt)
  show ?thesis
    unfolding word_less_nat_alt packed_value [OF assms(1-3)] packed_value [OF assms(4-6)]
      word_unat_eq_iff using lt by auto
qed

theorem version_order_witness: "QDMI_MAKE_VERSION 1 3 9 < QDMI_MAKE_VERSION 1 4 0"
  using version_order [of 1 3 9 1 4 0] by simp

text \<open>The validity check lets through exactly the declared device properties but \<open>MAX\<close>, the
  values reserved for removed ones, and the five custom values.\<close>

theorem device_property_values:
  shows "\<not> QDMI_IS_INVALID_ENUM_VALUE v prefix_DEVICE_PROPERTY \<longleftrightarrow>
     v \<in> set reserved_DEVICE_PROPERTY \<or>
     (\<exists>e. e \<noteq> QDMI_DEVICE_PROPERTY_MAX \<and> v = val_DEVICE_PROPERTY e)"
proof
  define es where "es = [QDMI_DEVICE_PROPERTY_NAME, QDMI_DEVICE_PROPERTY_VERSION, QDMI_DEVICE_PROPERTY_STATUS,
    QDMI_DEVICE_PROPERTY_LIBRARYVERSION, QDMI_DEVICE_PROPERTY_QUBITSNUM, QDMI_DEVICE_PROPERTY_SITES,
    QDMI_DEVICE_PROPERTY_OPERATIONS, QDMI_DEVICE_PROPERTY_COUPLINGMAP,
    QDMI_DEVICE_PROPERTY_LENGTHUNIT, QDMI_DEVICE_PROPERTY_LENGTHSCALEFACTOR,
    QDMI_DEVICE_PROPERTY_DURATIONUNIT, QDMI_DEVICE_PROPERTY_DURATIONSCALEFACTOR,
    QDMI_DEVICE_PROPERTY_MINATOMDISTANCE, QDMI_DEVICE_PROPERTY_SUPPORTEDPROGRAMFORMATS,
    QDMI_DEVICE_PROPERTY_CHILDDEVICES, QDMI_DEVICE_PROPERTY_QUEUELENGTH, QDMI_DEVICE_PROPERTY_ID,
    QDMI_DEVICE_PROPERTY_CUSTOM1, QDMI_DEVICE_PROPERTY_CUSTOM2, QDMI_DEVICE_PROPERTY_CUSTOM3,
    QDMI_DEVICE_PROPERTY_CUSTOM4, QDMI_DEVICE_PROPERTY_CUSTOM5]"
  assume "\<not> QDMI_IS_INVALID_ENUM_VALUE v prefix_DEVICE_PROPERTY"
  then have "v \<in> set [0..18] \<or> v \<in> set [999999995..999999999]"
    by (auto simp: invalid_enum_simps)
  moreover have "[0..18::int] = [0, 1, 2, 3, 4, 5, 6, 7, 8, 9, 10, 11, 12, 13, 14, 15, 16, 17, 18]"
    and "[999999995..999999999::int] =
      [999999995, 999999996, 999999997, 999999998, 999999999]"
    by (simp_all add: upto.simps)
  ultimately have "v \<in> set (reserved_DEVICE_PROPERTY @ map val_DEVICE_PROPERTY es)"
    by (auto simp: reserved_DEVICE_PROPERTY_def es_def simp del: set_upto)
  moreover have "QDMI_DEVICE_PROPERTY_MAX \<notin> set es" by (simp add: es_def)
  ultimately show "v \<in> set reserved_DEVICE_PROPERTY \<or>
     (\<exists>e. e \<noteq> QDMI_DEVICE_PROPERTY_MAX \<and> v = val_DEVICE_PROPERTY e)"
    by (metis UnE imageE set_append set_map)
next
  assume "v \<in> set reserved_DEVICE_PROPERTY \<or>
     (\<exists>e. e \<noteq> QDMI_DEVICE_PROPERTY_MAX \<and> v = val_DEVICE_PROPERTY e)"
  then show "\<not> QDMI_IS_INVALID_ENUM_VALUE v prefix_DEVICE_PROPERTY"
  proof (elim disjE exE conjE)
    fix e assume "e \<noteq> QDMI_DEVICE_PROPERTY_MAX" "v = val_DEVICE_PROPERTY e"
    then show ?thesis by (cases e) (simp_all add: invalid_enum_simps)
  qed (auto simp: invalid_enum_simps reserved_DEVICE_PROPERTY_def)
qed

theorem device_property_values_witness:
  "\<not> QDMI_IS_INVALID_ENUM_VALUE 9 prefix_DEVICE_PROPERTY \<and>
   QDMI_IS_INVALID_ENUM_VALUE 19 prefix_DEVICE_PROPERTY"
proof -
  have "19 \<noteq> val_DEVICE_PROPERTY e" if "e \<noteq> QDMI_DEVICE_PROPERTY_MAX" for e
    using that by (cases e) simp_all
  then show ?thesis
    using device_property_values [of 9] device_property_values [of 19]
    by (auto simp: reserved_DEVICE_PROPERTY_def)
qed

end
