(* ===== verification/Cxx_State.thy ===== *)
theory Cxx_State
  imports Constants
begin

text \<open>
  The data of the example device \<open>examples/device/src/cxx_device.cpp\<close>: the session, job, site
  and operation structures, the state of the library (the function-local static
  \<open>CXX_QDMI_Device_State\<close> together with the heap of sessions and jobs it hands out), the
  private accessors of that state and the static tables.

  What the source takes from outside is the record \<open>cxx_env\<close>: the strings the build defines,
  the draws of the three random distributions (the encoded state of the \<open>mt19937\<close> engine goes
  in, the value and the next state come out; the C++ standard leaves the distributions'
  algorithms to the library), and rounding IEEE 754 arithmetic on \<open>double\<close> bit patterns.
\<close>

named_theorems cxx_defs \<open>definitions of the device's interface functions\<close>
named_theorems cxx_private_defs \<open>definitions of the device's private helpers\<close>

section \<open>Environment\<close>

record cxx_env =
  device_id :: string
  device_version :: string
  library_version :: string
  dis :: "nat \<Rightarrow> int \<times> nat"
  dis_bin :: "nat \<Rightarrow> bool \<times> nat"
  dis_real :: "nat \<Rightarrow> double \<times> nat"
  fp_add :: "double \<Rightarrow> double \<Rightarrow> double"
  fp_mul :: "double \<Rightarrow> double \<Rightarrow> double"
  fp_div :: "double \<Rightarrow> double \<Rightarrow> double"
  fp_sqrt :: "double \<Rightarrow> double"

text \<open>Comparison with zero does not round: both zeros equal \<open>0.0\<close>, nothing else does.\<close>

definition fp_is_zero :: "double \<Rightarrow> bool" where
  "fp_is_zero d \<longleftrightarrow> d = 0 \<or> d = 0x8000000000000000"

text \<open>A complex number differs from \<open>0.\<close> when one of its parts does.\<close>

definition complex_nonzero :: "double \<times> double \<Rightarrow> bool" where
  "complex_nonzero c \<longleftrightarrow> \<not> (fp_is_zero (fst c) \<and> fp_is_zero (snd c))"

text \<open>\<open>std::norm\<close>: the squared magnitude.\<close>

definition complex_norm :: "cxx_env \<Rightarrow> double \<times> double \<Rightarrow> double" where
  "complex_norm env c =
     fp_add env (fp_mul env (fst c) (fst c)) (fp_mul env (snd c) (snd c))"

section \<open>Structures\<close>

datatype CXX_QDMI_DEVICE_SESSION_STATUS = ALLOCATED | INITIALIZED

record CXX_QDMI_Device_Session_impl_d =
  token :: string
  s_status :: CXX_QDMI_DEVICE_SESSION_STATUS

definition new_session :: CXX_QDMI_Device_Session_impl_d where
  "new_session = \<lparr>token = [], s_status = ALLOCATED\<rparr>"

record Result_data =
  shots :: "string list"
  state_vec :: "(double \<times> double) list"

definition new_result :: Result_data where
  "new_result = \<lparr>shots = [], state_vec = []\<rparr>"

record CXX_QDMI_Device_Job_impl_d =
  j_session :: ptr
  j_id :: int
  j_format :: int
  programs :: "char list list"
  j_status :: QDMI_JOB_STATUS_T
  num_shots :: nat
  results :: "Result_data list"

definition new_job :: CXX_QDMI_Device_Job_impl_d where
  "new_job =
     \<lparr>j_session = nullptr, j_id = 0, j_format = val_PROGRAM_FORMAT QDMI_PROGRAM_FORMAT_MAX,
      programs = [], j_status = QDMI_JOB_STATUS_SUBMITTED, num_shots = 0, results = []\<rparr>"

text \<open>
  The library's state: the device status and the engine of \<open>CXX_QDMI_Device_State\<close>, the live
  sessions and jobs by address, and the next address of the heap, which is never reused (using
  a freed handle is undefined behaviour, the fault \<open>Use_After_Free\<close>).
\<close>

record cxx_state =
  d_status :: QDMI_DEVICE_STATUS_T
  gen :: nat
  sessions :: "ptr \<rightharpoonup> CXX_QDMI_Device_Session_impl_d"
  jobs :: "ptr \<rightharpoonup> CXX_QDMI_Device_Job_impl_d"
  heap_next :: ptr

text \<open>
  The state before the first call: offline, the engine seeded with 80333, nothing allocated.
  The heap begins above the static objects.
\<close>

definition heap_base :: ptr where
  "heap_base = 65536"

definition cxx_init :: cxx_state where
  "cxx_init =
     \<lparr>d_status = QDMI_DEVICE_STATUS_OFFLINE, gen = 80333, sessions = Map.empty,
      jobs = Map.empty, heap_next = heap_base\<rparr>"

text \<open>Reading through a handle the caller passed.\<close>

definition deref :: "(ptr \<rightharpoonup> 'a) \<Rightarrow> ptr \<Rightarrow> 'a outcome" where
  "deref h p =
     (if p = nullptr then Inl Null_Deref
      else case h p of None \<Rightarrow> Inl Use_After_Free | Some x \<Rightarrow> Inr x)"

lemma deref_Inr [simp]: "deref h p = Inr x \<longleftrightarrow> p \<noteq> nullptr \<and> h p = Some x"
  by (auto simp: deref_def split: option.splits)

lemma deref_Some: "p \<noteq> nullptr \<Longrightarrow> h p = Some x \<Longrightarrow> deref h p = Inr x"
  by simp

section \<open>Private accessors\<close>

definition CXX_QDMI_get_device_status :: "cxx_state \<Rightarrow> QDMI_DEVICE_STATUS_T" where
  [cxx_private_defs]: "CXX_QDMI_get_device_status st = d_status st"

definition CXX_QDMI_set_device_status :: "QDMI_DEVICE_STATUS_T \<Rightarrow> cxx_state \<Rightarrow> cxx_state" where
  [cxx_private_defs]: "CXX_QDMI_set_device_status status st = st\<lparr>d_status := status\<rparr>"

definition CXX_QDMI_generate_job_id :: "cxx_env \<Rightarrow> nat \<Rightarrow> int \<times> nat" where
  [cxx_private_defs]: "CXX_QDMI_generate_job_id env g = dis env g"

definition CXX_QDMI_generate_bit :: "cxx_env \<Rightarrow> nat \<Rightarrow> bool \<times> nat" where
  [cxx_private_defs]: "CXX_QDMI_generate_bit env g = dis_bin env g"

definition CXX_QDMI_generate_real :: "cxx_env \<Rightarrow> nat \<Rightarrow> double \<times> nat" where
  [cxx_private_defs]: "CXX_QDMI_generate_real env g = dis_real env g"

section \<open>Static objects and tables\<close>

text \<open>
  The operations \<open>RX\<close>, \<open>RY\<close>, \<open>RZ\<close>, \<open>CX\<close> and the sites are static objects: their addresses are
  distinct, not null and below the heap.
\<close>

definition RX :: ptr where "RX = 4096"

definition RY :: ptr where "RY = 4128"

definition RZ :: ptr where "RZ = 4160"

definition CX :: ptr where "CX = 4192"

definition CXX_DEVICE_OPERATIONS :: "ptr list" where
  "CXX_DEVICE_OPERATIONS = [RX, RY, RZ, CX]"

definition CXX_DEVICE_SITES :: "ptr list" where
  "CXX_DEVICE_SITES = [8192, 8200, 8208, 8216, 8224]"

text \<open>The \<open>id\<close> of the structure at a site's address.\<close>

definition site_struct :: "ptr \<rightharpoonup> nat" where
  "site_struct = map_of (zip CXX_DEVICE_SITES [0, 1, 2, 3, 4])"

definition DEVICE_COUPLING_MAP :: "ptr list" where
  "DEVICE_COUPLING_MAP = map (\<lambda>i. CXX_DEVICE_SITES ! i)
     [0, 1,
      1, 0,
      1, 2,
      2, 1,
      2, 3,
      3, 2,
      3, 4,
      4, 3,
      4, 0,
      0, 4]"

definition OPERATION_PROPERTIES :: "ptr \<rightharpoonup> (string \<times> nat)" where
  "OPERATION_PROPERTIES = map_of
     [(CXX_DEVICE_OPERATIONS ! 0, (''rx'', 10)),
      (CXX_DEVICE_OPERATIONS ! 1, (''ry'', 10)),
      (CXX_DEVICE_OPERATIONS ! 2, (''rz'', 10)),
      (CXX_DEVICE_OPERATIONS ! 3, (''cx'', 100))]"

text \<open>The literals 0.99, 0.98, 0.97, 0.96, 0.95 as doubles.\<close>

definition CX_FIDELITIES :: "(ptr \<times> ptr) \<rightharpoonup> double" where
  "CX_FIDELITIES = map_of
     [((CXX_DEVICE_SITES ! 0, CXX_DEVICE_SITES ! 1), 0x3FEFAE147AE147AE),
      ((CXX_DEVICE_SITES ! 1, CXX_DEVICE_SITES ! 0), 0x3FEFAE147AE147AE),
      ((CXX_DEVICE_SITES ! 1, CXX_DEVICE_SITES ! 2), 0x3FEF5C28F5C28F5C),
      ((CXX_DEVICE_SITES ! 2, CXX_DEVICE_SITES ! 1), 0x3FEF5C28F5C28F5C),
      ((CXX_DEVICE_SITES ! 2, CXX_DEVICE_SITES ! 3), 0x3FEF0A3D70A3D70A),
      ((CXX_DEVICE_SITES ! 3, CXX_DEVICE_SITES ! 2), 0x3FEF0A3D70A3D70A),
      ((CXX_DEVICE_SITES ! 3, CXX_DEVICE_SITES ! 4), 0x3FEEB851EB851EB8),
      ((CXX_DEVICE_SITES ! 4, CXX_DEVICE_SITES ! 3), 0x3FEEB851EB851EB8),
      ((CXX_DEVICE_SITES ! 4, CXX_DEVICE_SITES ! 0), 0x3FEE666666666666),
      ((CXX_DEVICE_SITES ! 0, CXX_DEVICE_SITES ! 4), 0x3FEE666666666666)]"

definition OPERATION_FIDELITIES :: "ptr \<rightharpoonup> ((ptr \<times> ptr) \<rightharpoonup> double)" where
  "OPERATION_FIDELITIES = map_of [(CXX_DEVICE_OPERATIONS ! 3, CX_FIDELITIES)]"

lemmas static_defs =
  RX_def RY_def RZ_def CX_def CXX_DEVICE_OPERATIONS_def CXX_DEVICE_SITES_def

section \<open>Program formats\<close>

definition SUPPORTED_PROGRAM_FORMATS :: "int list" where
  "SUPPORTED_PROGRAM_FORMATS = map val_PROGRAM_FORMAT
     [QDMI_PROGRAM_FORMAT_QASM2, QDMI_PROGRAM_FORMAT_QIRBASESTRING,
      QDMI_PROGRAM_FORMAT_QIRBASEMODULE]"

definition Valid_format :: "int \<Rightarrow> bool" where
  [cxx_private_defs]: "Valid_format format \<longleftrightarrow>
     0 \<le> format \<and> format < val_PROGRAM_FORMAT QDMI_PROGRAM_FORMAT_MAX \<or>
     val_PROGRAM_FORMAT QDMI_PROGRAM_FORMAT_CUSTOM1 \<le> format \<and>
     format \<le> val_PROGRAM_FORMAT QDMI_PROGRAM_FORMAT_CUSTOM5"

definition Supported_format :: "int \<Rightarrow> bool" where
  [cxx_private_defs]: "Supported_format format \<longleftrightarrow> format \<in> set SUPPORTED_PROGRAM_FORMATS"

text \<open>
  \<open>program\<close> is the memory behind the pointer; reading past its end is a fault. The text formats
  need a NUL at the end and no other.
\<close>

definition Valid_program :: "int \<Rightarrow> nat \<Rightarrow> region option \<Rightarrow> bool outcome" where
  [cxx_private_defs]: "Valid_program format sz program =
     (case program of
        None \<Rightarrow> Inr False
      | Some bytes \<Rightarrow>
          if sz = 0 then Inr False
          else if format \<noteq> val_PROGRAM_FORMAT QDMI_PROGRAM_FORMAT_QASM2 \<and>
                  format \<noteq> val_PROGRAM_FORMAT QDMI_PROGRAM_FORMAT_QIRBASESTRING
          then Inr True
          else if length bytes < sz then Inl Out_Of_Bounds
          else Inr (bytes ! (sz - 1) = NUL \<and> NUL \<notin> set (take (sz - 1) bytes)))"

section \<open>Facts\<close>

lemma Supported_format_iff: "Supported_format f \<longleftrightarrow> f = 0 \<or> f = 2 \<or> f = 3"
  by (auto simp: Supported_format_def SUPPORTED_PROGRAM_FORMATS_def)

lemma Valid_format_iff: "Valid_format f \<longleftrightarrow> 0 \<le> f \<and> f < 10 \<or> 999999995 \<le> f \<and> f \<le> 999999999"
  by (simp add: Valid_format_def)

text \<open>A text program: exactly one NUL, at the end.\<close>

definition text_program :: "char list \<Rightarrow> bool" where
  "text_program p \<longleftrightarrow> p \<noteq> [] \<and> last p = NUL \<and> NUL \<notin> set (butlast p)"

lemma text_program_iff: "text_program p \<longleftrightarrow> (\<exists>s. c_string s \<and> p = s @ [NUL])"
proof
  assume "text_program p"
  then have "c_string (butlast p)" and "p = butlast p @ [NUL]"
    by (auto simp: text_program_def c_string_def append_butlast_last_id dest: sym)
  then show "\<exists>s. c_string s \<and> p = s @ [NUL]" by blast
next
  assume "\<exists>s. c_string s \<and> p = s @ [NUL]"
  then show "text_program p" by (auto simp: text_program_def c_string_def)
qed

lemma text_program_take:
  assumes "0 < sz" and "sz \<le> length bytes"
  shows "text_program (take sz bytes) \<longleftrightarrow>
     bytes ! (sz - 1) = NUL \<and> NUL \<notin> set (take (sz - 1) bytes)"
proof -
  have ne: "take sz bytes \<noteq> []" using assms by auto
  then have "last (take sz bytes) = bytes ! (sz - 1)"
    using assms by (simp add: last_conv_nth min_def)
  moreover have "butlast (take sz bytes) = take (sz - 1) bytes"
    using assms by (simp add: butlast_take)
  ultimately show ?thesis using ne by (simp add: text_program_def)
qed

end
