(* ===== verification/Cxx_Session.thy ===== *)
theory Cxx_Session
  imports Cxx_State
begin

text \<open>
  The session interface of the example device: \<open>CXX_QDMI_device_initialize\<close> to
  \<open>CXX_QDMI_device_session_set_parameter\<close> of \<open>cxx_device.cpp\<close>. A function takes the state of
  the library and returns its status code with the new state; \<open>oom\<close> says whether the
  allocation the call makes fails (of an object, or of the copy of the token), \<open>session_out\<close> whether the caller's out-pointer is not null,
  and an optional pointer in the result is the handle stored through it.
\<close>

definition CXX_QDMI_device_initialize :: "cxx_state \<Rightarrow> (QDMI_STATUS \<times> cxx_state) outcome" where
  [cxx_defs]: "CXX_QDMI_device_initialize st =
     Inr (QDMI_SUCCESS, CXX_QDMI_set_device_status QDMI_DEVICE_STATUS_IDLE st)"

definition CXX_QDMI_device_finalize :: "cxx_state \<Rightarrow> (QDMI_STATUS \<times> cxx_state) outcome" where
  [cxx_defs]: "CXX_QDMI_device_finalize st =
     Inr (QDMI_SUCCESS, CXX_QDMI_set_device_status QDMI_DEVICE_STATUS_OFFLINE st)"

definition CXX_QDMI_device_session_alloc ::
  "bool \<Rightarrow> bool \<Rightarrow> cxx_state \<Rightarrow> (QDMI_STATUS \<times> ptr option \<times> cxx_state) outcome" where
  [cxx_defs]: "CXX_QDMI_device_session_alloc oom session_out st =
     (if \<not> session_out then Inr (QDMI_ERROR_INVALIDARGUMENT, None, st)
      else if oom then Inl Bad_Alloc_Thrown
      else Inr (QDMI_SUCCESS, Some (heap_next st),
             st\<lparr>sessions := (sessions st)(heap_next st \<mapsto> new_session),
                heap_next := heap_next st + 1\<rparr>))"

definition CXX_QDMI_device_session_init ::
  "ptr \<Rightarrow> cxx_state \<Rightarrow> (QDMI_STATUS \<times> cxx_state) outcome" where
  [cxx_defs]: "CXX_QDMI_device_session_init session st =
     (if session = nullptr then Inr (QDMI_ERROR_INVALIDARGUMENT, st)
      else if CXX_QDMI_get_device_status st \<in>
          {QDMI_DEVICE_STATUS_ERROR, QDMI_DEVICE_STATUS_OFFLINE, QDMI_DEVICE_STATUS_MAINTENANCE}
      then Inr (QDMI_ERROR_FATAL, st)
      else bind_o (deref (sessions st) session) (\<lambda>s.
        if token s = [] then Inr (QDMI_ERROR_PERMISSIONDENIED, st)
        else Inr (QDMI_SUCCESS,
          st\<lparr>sessions := (sessions st)(session \<mapsto> s\<lparr>s_status := INITIALIZED\<rparr>)\<rparr>)))"

text \<open>\<open>delete\<close> of a null pointer does nothing; of a dead handle it is undefined.\<close>

definition CXX_QDMI_device_session_free :: "ptr \<Rightarrow> cxx_state \<Rightarrow> cxx_state outcome" where
  [cxx_defs]: "CXX_QDMI_device_session_free session st =
     (if session = nullptr then Inr st
      else bind_o (deref (sessions st) session) (\<lambda>_.
        Inr (st\<lparr>sessions := (sessions st)(session := None)\<rparr>)))"

definition CXX_QDMI_device_session_set_parameter ::
  "bool \<Rightarrow> ptr \<Rightarrow> int \<Rightarrow> nat \<Rightarrow> region option \<Rightarrow> cxx_state \<Rightarrow> (QDMI_STATUS \<times> cxx_state) outcome" where
  [cxx_defs]: "CXX_QDMI_device_session_set_parameter oom session param sz value st =
     (if session = nullptr \<or> value \<noteq> None \<and> sz = 0 \<or>
         QDMI_IS_INVALID_ENUM_VALUE param prefix_DEVICE_SESSION_PARAMETER
      then Inr (QDMI_ERROR_INVALIDARGUMENT, st)
      else bind_o (deref (sessions st) session) (\<lambda>s.
        if s_status s \<noteq> ALLOCATED then Inr (QDMI_ERROR_BADSTATE, st)
        else if param \<noteq> val_DEVICE_SESSION_PARAMETER QDMI_DEVICE_SESSION_PARAMETER_TOKEN
        then Inr (QDMI_ERROR_NOTSUPPORTED, st)
        else case value of
            None \<Rightarrow> Inr (QDMI_SUCCESS, st)
          | Some mem \<Rightarrow>
              if oom then Inl Bad_Alloc_Thrown
              else if length mem < sz then Inl Out_Of_Bounds
              else Inr (QDMI_SUCCESS,
                st\<lparr>sessions := (sessions st)(session \<mapsto> s\<lparr>token := take sz mem\<rparr>)\<rparr>)))"

section \<open>The invariant of sessions\<close>

text \<open>
  Live handles lie in the allocated part of the heap, no address is both a session and a job,
  and an initialized session has a token.
\<close>

definition session_ok :: "CXX_QDMI_Device_Session_impl_d \<Rightarrow> bool" where
  "session_ok s \<longleftrightarrow> (s_status s = INITIALIZED \<longrightarrow> token s \<noteq> [])"

definition heap_ok :: "cxx_state \<Rightarrow> bool" where
  "heap_ok st \<longleftrightarrow>
     heap_base \<le> heap_next st \<and>
     (\<forall>p \<in> dom (sessions st) \<union> dom (jobs st). heap_base \<le> p \<and> p < heap_next st) \<and>
     dom (sessions st) \<inter> dom (jobs st) = {}"

definition sessions_ok :: "cxx_state \<Rightarrow> bool" where
  "sessions_ok st \<longleftrightarrow> (\<forall>p s. sessions st p = Some s \<longrightarrow> session_ok s)"

lemma heap_ok_fresh:
  assumes "heap_ok st"
  shows "sessions st (heap_next st) = None" and "jobs st (heap_next st) = None"
    and "heap_next st \<noteq> nullptr"
  using assms unfolding heap_ok_def heap_base_def by fastforce+

lemma heap_ok_live_nonnull:
  "heap_ok st \<Longrightarrow> sessions st p = Some s \<Longrightarrow> p \<noteq> nullptr"
  "heap_ok st \<Longrightarrow> jobs st p = Some j \<Longrightarrow> p \<noteq> nullptr"
  by (force simp: heap_ok_def heap_base_def)+

lemma heap_ok_updates [intro]:
  "heap_ok st \<Longrightarrow> heap_ok (st\<lparr>d_status := x\<rparr>)"
  "heap_ok st \<Longrightarrow> heap_ok (st\<lparr>gen := g\<rparr>)"
  "heap_ok st \<Longrightarrow> heap_ok (st\<lparr>sessions := (sessions st)(p := None)\<rparr>)"
  "heap_ok st \<Longrightarrow> heap_ok (st\<lparr>jobs := (jobs st)(p := None)\<rparr>)"
  "heap_ok st \<Longrightarrow> sessions st p = Some s \<Longrightarrow>
     heap_ok (st\<lparr>sessions := (sessions st)(p \<mapsto> s')\<rparr>)"
  "heap_ok st \<Longrightarrow> jobs st p = Some j \<Longrightarrow> heap_ok (st\<lparr>jobs := (jobs st)(p \<mapsto> j')\<rparr>)"
  unfolding heap_ok_def by (auto 4 3)

lemma heap_ok_new_session:
  assumes "heap_ok st"
  shows "heap_ok (st\<lparr>sessions := (sessions st)(heap_next st \<mapsto> s),
                    heap_next := heap_next st + 1\<rparr>)"
  using assms heap_ok_fresh [OF assms] unfolding heap_ok_def by (auto intro: less_SucI)

lemma heap_ok_new_job:
  assumes "heap_ok st"
  shows "heap_ok (st\<lparr>jobs := (jobs st)(heap_next st \<mapsto> j),
                    heap_next := heap_next st + 1\<rparr>)"
  using assms heap_ok_fresh [OF assms] unfolding heap_ok_def by (auto intro: less_SucI)

text \<open>What a call that returns can have done: the inversions the later theories use.\<close>

lemma session_alloc_D:
  "CXX_QDMI_device_session_alloc oom out st = Inr (r, p, st') \<Longrightarrow>
     \<not> out \<and> r = QDMI_ERROR_INVALIDARGUMENT \<and> p = None \<and> st' = st \<or>
     out \<and> r = QDMI_SUCCESS \<and> p = Some (heap_next st) \<and>
       st' = st\<lparr>sessions := (sessions st)(heap_next st \<mapsto> new_session),
                heap_next := heap_next st + 1\<rparr>"
  by (simp add: CXX_QDMI_device_session_alloc_def split: if_splits)

lemma session_init_D:
  "CXX_QDMI_device_session_init p st = Inr (r, st') \<Longrightarrow>
     is_error r \<and> st' = st \<or>
     (\<exists>s. r = QDMI_SUCCESS \<and> p \<noteq> nullptr \<and> sessions st p = Some s \<and> token s \<noteq> [] \<and>
        d_status st \<notin> {QDMI_DEVICE_STATUS_ERROR, QDMI_DEVICE_STATUS_OFFLINE,
                        QDMI_DEVICE_STATUS_MAINTENANCE} \<and>
        st' = st\<lparr>sessions := (sessions st)(p \<mapsto> s\<lparr>s_status := INITIALIZED\<rparr>)\<rparr>)"
  by (auto simp: CXX_QDMI_device_session_init_def CXX_QDMI_get_device_status_def bind_o_eq_Inr
      is_error_iff split: if_splits)

lemma session_set_parameter_D:
  "CXX_QDMI_device_session_set_parameter oom p param sz value st = Inr (r, st') \<Longrightarrow>
     is_error r \<and> st' = st \<or>
     r = QDMI_SUCCESS \<and> value = None \<and> st' = st \<or>
     (\<exists>s mem. r = QDMI_SUCCESS \<and> value = Some mem \<and> 0 < sz \<and> sz \<le> length mem \<and>
        p \<noteq> nullptr \<and> sessions st p = Some s \<and> s_status s = ALLOCATED \<and>
        st' = st\<lparr>sessions := (sessions st)(p \<mapsto> s\<lparr>token := take sz mem\<rparr>)\<rparr>)"
  by (cases "value")
     (auto simp: CXX_QDMI_device_session_set_parameter_def bind_o_eq_Inr is_error_iff
      split: if_splits)

lemma session_free_D:
  "CXX_QDMI_device_session_free p st = Inr st' \<Longrightarrow>
     p = nullptr \<and> st' = st \<or>
     (\<exists>s. p \<noteq> nullptr \<and> sessions st p = Some s \<and>
        st' = st\<lparr>sessions := (sessions st)(p := None)\<rparr>)"
  by (auto simp: CXX_QDMI_device_session_free_def bind_o_eq_Inr split: if_splits)

end
