(* ===== verification/Sized_Query.thy ===== *)
theory Sized_Query
  imports Constants
begin

text \<open>
  The protocol every query of the interface follows (\<open>size\<close>, \<open>value\<close>, \<open>size_ret\<close> in
  \<open>include/qdmi/device.h\<close> and \<open>client.h\<close>): without a buffer a query reports the size of the
  value, with a large enough buffer it stores the value, with one too small it refuses and
  leaves the buffer alone. The protocol is the locale \<open>sized_query\<close>; the client's way to use it,
  a size query and then a query with a buffer of that size, is proved correct once here.
  Providers (property macros, result routines) interpret the locale, the figures-of-merit
  library is a client.
\<close>

text \<open>
  The status code, the region behind \<open>value\<close> afterwards, and what is stored to \<open>*size_ret\<close>, if
  anything. The last argument of a query says whether \<open>size_ret\<close> is not null.
\<close>

type_synonym query_result = "QDMI_STATUS \<times> region option \<times> nat option"
type_synonym query = "nat \<Rightarrow> region option \<Rightarrow> bool \<Rightarrow> query_result outcome"

definition store_size :: "bool \<Rightarrow> nat \<Rightarrow> nat option" where
  "store_size size_ret n = (if size_ret then Some n else None)"

lemma store_size_simps [simp]: "store_size True n = Some n" "store_size False n = None"
  by (simp_all add: store_size_def)

section \<open>The protocol\<close>

locale sized_query =
  fixes query :: query
    and payload :: "char list"
  assumes ask_size: "query sz None sr = Inr (QDMI_SUCCESS, None, store_size sr (length payload))"
    and too_small: "0 < sz \<Longrightarrow> sz < length payload \<Longrightarrow>
      \<exists>n. query sz (Some mem) sr = Inr (QDMI_ERROR_INVALIDARGUMENT, Some mem, n)"
    and fits: "0 < sz \<Longrightarrow> length payload \<le> sz \<Longrightarrow> sz \<le> length mem \<Longrightarrow>
      \<exists>mem'. query sz (Some mem) sr =
          Inr (QDMI_SUCCESS, Some mem', store_size sr (length payload)) \<and>
        length mem' = length mem \<and> take (length payload) mem' = payload \<and>
        drop sz mem' = drop sz mem"
begin

text \<open>A caller whose buffer is as long as it says never makes the query fault.\<close>

lemma safe:
  assumes "case value of None \<Rightarrow> True | Some mem \<Rightarrow> 0 < sz \<and> sz \<le> length mem"
  shows "returns (query sz value sr)"
proof (cases "value")
  case None
  then show ?thesis by (simp add: ask_size)
next
  case (Some mem)
  then have "0 < sz" and "sz \<le> length mem" using assms by auto
  then show ?thesis
    using too_small [of sz mem sr] fits [of sz mem sr] Some
    by (cases "sz < length payload") (auto simp: not_less)
qed

text \<open>A query never writes behind the stated size, and never changes the region's length.\<close>

lemma frame:
  assumes "query sz (Some mem) sr = Inr (r, v, n)" and "0 < sz" and "sz \<le> length mem"
  obtains mem' where "v = Some mem'" and "length mem' = length mem"
    and "drop sz mem' = drop sz mem"
proof (cases "sz < length payload")
  case True
  then show ?thesis using too_small [OF assms(2) True, of mem sr] assms(1) that by auto
next
  case False
  then show ?thesis using fits [OF assms(2) _ assms(3), of sr] assms(1) that
    by (auto simp: not_less)
qed

end

section \<open>The client's side\<close>

text \<open>
  The pattern of the documentation: query the size, allocate that much, query the value. A null
  buffer is passed when the size is zero (the data pointer of an empty vector). \<open>check\<close> turns
  the status into the client's exception and gives \<open>None\<close> where the client goes on.
\<close>

definition two_call :: "(QDMI_STATUS \<Rightarrow> fault option) \<Rightarrow> query \<Rightarrow> region outcome" where
  "two_call check query =
     bind_o (query 0 None True) (\<lambda>(r, _, n).
       case check r of Some e \<Rightarrow> Inl e | None \<Rightarrow>
         let k = (case n of None \<Rightarrow> 0 | Some k \<Rightarrow> k) in
         bind_o (query k (if k = 0 then None else Some (replicate k NUL)) False) (\<lambda>(r', v, _).
           case check r' of Some e \<Rightarrow> Inl e | None \<Rightarrow>
             Inr (case v of None \<Rightarrow> [] | Some mem \<Rightarrow> mem)))"

context sized_query
begin

lemma two_call_payload:
  assumes "check QDMI_SUCCESS = None"
  shows "two_call check query = Inr payload"
proof (cases "payload = []")
  case True
  then show ?thesis using assms by (simp add: two_call_def ask_size)
next
  case False
  then have "0 < length payload" by simp
  then obtain mem' where "query (length payload) (Some (replicate (length payload) NUL)) False =
      Inr (QDMI_SUCCESS, Some mem', None)"
    and "length mem' = length payload" and "take (length payload) mem' = payload"
    using fits [of "length payload" "replicate (length payload) NUL" False] by auto
  then show ?thesis using assms False by (simp add: two_call_def ask_size)
qed

end

text \<open>One call with a buffer of the known size of the value.\<close>

definition one_call :: "(QDMI_STATUS \<Rightarrow> fault option) \<Rightarrow> nat \<Rightarrow> query \<Rightarrow> region outcome" where
  "one_call check k query =
     bind_o (query k (Some (replicate k NUL)) False) (\<lambda>(r, v, _).
       case check r of Some e \<Rightarrow> Inl e | None \<Rightarrow>
         Inr (case v of None \<Rightarrow> [] | Some mem \<Rightarrow> mem))"

context sized_query
begin

lemma one_call_payload:
  assumes "check QDMI_SUCCESS = None" and "length payload = k" and "0 < k"
  shows "one_call check k query = Inr payload"
proof -
  obtain mem' where "query k (Some (replicate k NUL)) False = Inr (QDMI_SUCCESS, Some mem', None)"
    and "length mem' = k" and "take k mem' = payload"
    using fits [of k "replicate k NUL" False] assms by auto
  then show ?thesis using assms by (simp add: one_call_def)
qed

end

end
