(* ===== verification/Cxx_Query.thy ===== *)
theory Cxx_Query
  imports Cxx_Session Sized_Query
begin

text \<open>
  The query interface of the example device: the macros \<open>ADD_SINGLE_VALUE_PROPERTY\<close>,
  \<open>ADD_STRING_PROPERTY\<close> and \<open>ADD_LIST_PROPERTY\<close> of \<open>cxx_device.cpp\<close> and the device, site and
  operation queries built from them. A macro either returns from the function it stands in
  (\<open>Some\<close>) or falls through to the next (\<open>None\<close>). A property's value is evaluated only where
  the macro's text does so, hence it is an outcome.
\<close>

section \<open>The property macros\<close>

text \<open>
  What a macro does once the property matches, and the macro. The parameters of the macros are
  the size of the C type and the value's object representation.
\<close>

definition single_value_body :: "nat \<Rightarrow> char list outcome \<Rightarrow> query" where
  "single_value_body sizeof_type prop_value sz value size_ret =
     (case value of
        None \<Rightarrow> Inr (QDMI_SUCCESS, None, store_size size_ret sizeof_type)
      | Some mem \<Rightarrow>
          if sz < sizeof_type then Inr (QDMI_ERROR_INVALIDARGUMENT, Some mem, None)
          else bind_o prop_value (\<lambda>v. bind_o (write_at 0 v mem) (\<lambda>mem'.
            Inr (QDMI_SUCCESS, Some mem', store_size size_ret sizeof_type))))"

definition ADD_SINGLE_VALUE_PROPERTY ::
  "int \<Rightarrow> nat \<Rightarrow> char list outcome \<Rightarrow> int \<Rightarrow> nat \<Rightarrow> region option \<Rightarrow> bool \<Rightarrow>
     query_result outcome option" where
  "ADD_SINGLE_VALUE_PROPERTY prop_name sizeof_type prop_value prop sz value size_ret =
     (if prop = prop_name then Some (single_value_body sizeof_type prop_value sz value size_ret)
      else None)"

text \<open>\<open>strncpy\<close> copies up to the NUL and fills the rest of the \<open>n\<close> bytes with NULs.\<close>

definition strncpy :: "string \<Rightarrow> nat \<Rightarrow> char list" where
  "strncpy src n = take n (take (strlen src) src @ replicate n NUL)"

definition string_body :: "string outcome \<Rightarrow> query" where
  "string_body prop_value sz value size_ret =
     (case value of
        None \<Rightarrow>
          if size_ret
          then bind_o prop_value (\<lambda>s. Inr (QDMI_SUCCESS, None, Some (strlen s + 1)))
          else Inr (QDMI_SUCCESS, None, None)
      | Some mem \<Rightarrow> bind_o prop_value (\<lambda>s.
          if sz < strlen s + 1 then Inr (QDMI_ERROR_INVALIDARGUMENT, Some mem, None)
          else bind_o (write_at 0 (strncpy s sz) mem) (\<lambda>mem'.
            bind_o (write_at (sz - 1) [NUL] mem') (\<lambda>mem''.
              Inr (QDMI_SUCCESS, Some mem'', store_size size_ret (strlen s + 1))))))"

definition ADD_STRING_PROPERTY ::
  "int \<Rightarrow> string outcome \<Rightarrow> int \<Rightarrow> nat \<Rightarrow> region option \<Rightarrow> bool \<Rightarrow>
     query_result outcome option" where
  "ADD_STRING_PROPERTY prop_name prop_value prop sz value size_ret =
     (if prop = prop_name then Some (string_body prop_value sz value size_ret) else None)"

text \<open>A list is given by the size of its elements and their object representations.\<close>

definition list_body :: "nat \<Rightarrow> char list list \<Rightarrow> query" where
  "list_body sizeof_type prop_values sz value size_ret =
     (case value of
        None \<Rightarrow> Inr (QDMI_SUCCESS, None,
          store_size size_ret (size_mul (length prop_values) sizeof_type))
      | Some mem \<Rightarrow>
          if sz < size_mul (length prop_values) sizeof_type
          then Inr (QDMI_ERROR_INVALIDARGUMENT, Some mem, None)
          else bind_o (write_at 0 (concat prop_values) mem) (\<lambda>mem'.
            Inr (QDMI_SUCCESS, Some mem',
              store_size size_ret (size_mul (length prop_values) sizeof_type))))"

definition ADD_LIST_PROPERTY ::
  "int \<Rightarrow> nat \<Rightarrow> char list list \<Rightarrow> int \<Rightarrow> nat \<Rightarrow> region option \<Rightarrow> bool \<Rightarrow>
     query_result outcome option" where
  "ADD_LIST_PROPERTY prop_name sizeof_type prop_values prop sz value size_ret =
     (if prop = prop_name then Some (list_body sizeof_type prop_values sz value size_ret)
      else None)"

text \<open>A sequence of macros, and the \<open>return\<close> after it.\<close>

fun run_macros :: "query_result outcome option list \<Rightarrow> query_result outcome \<Rightarrow>
    query_result outcome" where
  "run_macros [] otherwise = otherwise"
| "run_macros (Some r # ms) otherwise = r"
| "run_macros (None # ms) otherwise = run_macros ms otherwise"

definition reject :: "QDMI_STATUS \<Rightarrow> region option \<Rightarrow> query_result outcome" where
  "reject r value = Inr (r, value, None)"

section \<open>Device properties\<close>

definition CXX_QDMI_device_session_query_device_property ::
  "cxx_env \<Rightarrow> cxx_state \<Rightarrow> ptr \<Rightarrow> int \<Rightarrow> query" where
  [cxx_defs]: "CXX_QDMI_device_session_query_device_property env st session prop sz value size_ret =
     (if session = nullptr \<or> value \<noteq> None \<and> sz = 0 \<or>
         QDMI_IS_INVALID_ENUM_VALUE prop prefix_DEVICE_PROPERTY
      then reject QDMI_ERROR_INVALIDARGUMENT value
      else bind_o (deref (sessions st) session) (\<lambda>s.
        if s_status s \<noteq> INITIALIZED then reject QDMI_ERROR_BADSTATE value
        else run_macros
         [ADD_STRING_PROPERTY (val_DEVICE_PROPERTY QDMI_DEVICE_PROPERTY_ID)
            (Inr (device_id env)) prop sz value size_ret,
          ADD_STRING_PROPERTY (val_DEVICE_PROPERTY QDMI_DEVICE_PROPERTY_NAME)
            (Inr ''C++ Device with 5 qubits'') prop sz value size_ret,
          ADD_STRING_PROPERTY (val_DEVICE_PROPERTY QDMI_DEVICE_PROPERTY_VERSION)
            (Inr (device_version env)) prop sz value size_ret,
          ADD_STRING_PROPERTY (val_DEVICE_PROPERTY QDMI_DEVICE_PROPERTY_LIBRARYVERSION)
            (Inr (library_version env)) prop sz value size_ret,
          ADD_SINGLE_VALUE_PROPERTY (val_DEVICE_PROPERTY QDMI_DEVICE_PROPERTY_STATUS) 4
            (Inr (le32 (nat (val_DEVICE_STATUS (CXX_QDMI_get_device_status st)))))
            prop sz value size_ret,
          ADD_SINGLE_VALUE_PROPERTY (val_DEVICE_PROPERTY QDMI_DEVICE_PROPERTY_QUBITSNUM) 8
            (Inr (le64 5)) prop sz value size_ret,
          ADD_LIST_PROPERTY (val_DEVICE_PROPERTY QDMI_DEVICE_PROPERTY_SITES) 8
            (map (le_bytes 8) CXX_DEVICE_SITES) prop sz value size_ret,
          ADD_LIST_PROPERTY (val_DEVICE_PROPERTY QDMI_DEVICE_PROPERTY_OPERATIONS) 8
            (map (le_bytes 8) CXX_DEVICE_OPERATIONS) prop sz value size_ret,
          ADD_LIST_PROPERTY (val_DEVICE_PROPERTY QDMI_DEVICE_PROPERTY_COUPLINGMAP) 8
            (map (le_bytes 8) DEVICE_COUPLING_MAP) prop sz value size_ret,
          ADD_STRING_PROPERTY (val_DEVICE_PROPERTY QDMI_DEVICE_PROPERTY_LENGTHUNIT)
            (Inr ''um'') prop sz value size_ret,
          ADD_SINGLE_VALUE_PROPERTY (val_DEVICE_PROPERTY QDMI_DEVICE_PROPERTY_LENGTHSCALEFACTOR) 8
            (Inr (double_bytes 0x3FF0000000000000)) prop sz value size_ret,
          ADD_STRING_PROPERTY (val_DEVICE_PROPERTY QDMI_DEVICE_PROPERTY_DURATIONUNIT)
            (Inr ''us'') prop sz value size_ret,
          ADD_SINGLE_VALUE_PROPERTY (val_DEVICE_PROPERTY QDMI_DEVICE_PROPERTY_DURATIONSCALEFACTOR) 8
            (Inr (double_bytes 0x3F50624DD2F1A9FC)) prop sz value size_ret,
          ADD_LIST_PROPERTY (val_DEVICE_PROPERTY QDMI_DEVICE_PROPERTY_SUPPORTEDPROGRAMFORMATS) 4
            (map (\<lambda>f. le32 (nat f)) SUPPORTED_PROGRAM_FORMATS) prop sz value size_ret]
         (reject QDMI_ERROR_NOTSUPPORTED value)))"

section \<open>Site properties\<close>

text \<open>\<open>site->id\<close>: only the device's own sites can be read through.\<close>

definition site_id :: "ptr \<Rightarrow> nat outcome" where
  "site_id site = (case site_struct site of None \<Rightarrow> Inl Wild_Pointer | Some i \<Rightarrow> Inr i)"

definition CXX_QDMI_device_session_query_site_property ::
  "ptr \<Rightarrow> ptr \<Rightarrow> int \<Rightarrow> query" where
  [cxx_defs]: "CXX_QDMI_device_session_query_site_property session site prop sz value size_ret =
     (if session = nullptr \<or> site = nullptr \<or> value \<noteq> None \<and> sz = 0 \<or>
         QDMI_IS_INVALID_ENUM_VALUE prop prefix_SITE_PROPERTY
      then reject QDMI_ERROR_INVALIDARGUMENT value
      else run_macros
       [ADD_SINGLE_VALUE_PROPERTY (val_SITE_PROPERTY QDMI_SITE_PROPERTY_INDEX) 8
          (bind_o (site_id site) (\<lambda>i. Inr (le64 i))) prop sz value size_ret,
        ADD_SINGLE_VALUE_PROPERTY (val_SITE_PROPERTY QDMI_SITE_PROPERTY_MODULEINDEX) 8
          (Inr (le64 0)) prop sz value size_ret,
        ADD_SINGLE_VALUE_PROPERTY (val_SITE_PROPERTY QDMI_SITE_PROPERTY_T1) 8
          (Inr (le64 1000000)) prop sz value size_ret,
        ADD_SINGLE_VALUE_PROPERTY (val_SITE_PROPERTY QDMI_SITE_PROPERTY_T2) 8
          (Inr (le64 100000000)) prop sz value size_ret]
       (reject QDMI_ERROR_NOTSUPPORTED value))"

section \<open>Operation properties\<close>

text \<open>\<open>OPERATION_PROPERTIES.at(operation)\<close> throws for a handle that is not in the table.\<close>

definition operation_entry :: "ptr \<Rightarrow> (string \<times> nat) outcome" where
  "operation_entry operation =
     (case OPERATION_PROPERTIES operation of
        None \<Rightarrow> Inl Out_Of_Range_Thrown | Some e \<Rightarrow> Inr e)"

text \<open>The part of the \<open>CX\<close> branch behind the null check of \<open>sites\<close>, which holds the array.\<close>

definition query_cx_fidelity :: "ptr \<Rightarrow> ptr list \<Rightarrow> int \<Rightarrow> query" where
  "query_cx_fidelity operation sites prop sz value size_ret =
     (if length sites < 2 then Inl Out_Of_Bounds
      else let site_pair = (sites ! 0, sites ! 1) in
        if fst site_pair = snd site_pair then reject QDMI_ERROR_INVALIDARGUMENT value
        else case OPERATION_FIDELITIES operation of
            None \<Rightarrow> reject QDMI_ERROR_INVALIDARGUMENT value
          | Some it \<Rightarrow> (case it site_pair of
                None \<Rightarrow> reject QDMI_ERROR_INVALIDARGUMENT value
              | Some fit \<Rightarrow> run_macros
                  [ADD_SINGLE_VALUE_PROPERTY (val_OPERATION_PROPERTY QDMI_OPERATION_PROPERTY_FIDELITY)
                     8 (Inr (double_bytes fit)) prop sz value size_ret]
                  (reject QDMI_ERROR_NOTSUPPORTED value)))"

definition CXX_QDMI_device_session_query_operation_property ::
  "ptr \<Rightarrow> ptr \<Rightarrow> nat \<Rightarrow> ptr list option \<Rightarrow> nat \<Rightarrow> double list option \<Rightarrow> int \<Rightarrow> query" where
  [cxx_defs]: "CXX_QDMI_device_session_query_operation_property
       session operation num_sites sites num_params params prop sz value size_ret =
     (if session = nullptr \<or> operation = nullptr \<or> sites \<noteq> None \<and> num_sites = 0 \<or>
         params \<noteq> None \<and> num_params = 0 \<or> value \<noteq> None \<and> sz = 0 \<or>
         QDMI_IS_INVALID_ENUM_VALUE prop prefix_OPERATION_PROPERTY
      then reject QDMI_ERROR_INVALIDARGUMENT value
      else run_macros
       [ADD_STRING_PROPERTY (val_OPERATION_PROPERTY QDMI_OPERATION_PROPERTY_NAME)
          (bind_o (operation_entry operation) (\<lambda>e. Inr (fst e))) prop sz value size_ret,
        ADD_SINGLE_VALUE_PROPERTY (val_OPERATION_PROPERTY QDMI_OPERATION_PROPERTY_ISZONED) 1
          (Inr (bool_bytes False)) prop sz value size_ret]
       (if operation = CXX_DEVICE_OPERATIONS ! 3 then
          if sites \<noteq> None \<and> num_sites \<noteq> 2 then reject QDMI_ERROR_INVALIDARGUMENT value
          else run_macros
           [ADD_SINGLE_VALUE_PROPERTY (val_OPERATION_PROPERTY QDMI_OPERATION_PROPERTY_PARAMETERSNUM) 8
              (Inr (le64 0)) prop sz value size_ret,
            ADD_SINGLE_VALUE_PROPERTY (val_OPERATION_PROPERTY QDMI_OPERATION_PROPERTY_DURATION) 8
              (bind_o (operation_entry operation) (\<lambda>e. Inr (le64 (snd e)))) prop sz value size_ret,
            ADD_LIST_PROPERTY (val_OPERATION_PROPERTY QDMI_OPERATION_PROPERTY_SITES) 8
              (map (le_bytes 8) DEVICE_COUPLING_MAP) prop sz value size_ret]
           (case sites of
              None \<Rightarrow> run_macros
                [ADD_SINGLE_VALUE_PROPERTY (val_OPERATION_PROPERTY QDMI_OPERATION_PROPERTY_QUBITSNUM) 8
                   (Inr (le64 2)) prop sz value size_ret]
                (reject QDMI_ERROR_NOTSUPPORTED value)
            | Some ss \<Rightarrow> query_cx_fidelity operation ss prop sz value size_ret)
        else if operation = CXX_DEVICE_OPERATIONS ! 0 \<or> operation = CXX_DEVICE_OPERATIONS ! 1 \<or>
                operation = CXX_DEVICE_OPERATIONS ! 2 then
          if sites \<noteq> None \<and> num_sites \<noteq> 1 \<or> params \<noteq> None \<and> num_params \<noteq> 1
          then reject QDMI_ERROR_INVALIDARGUMENT value
          else run_macros
           [ADD_SINGLE_VALUE_PROPERTY (val_OPERATION_PROPERTY QDMI_OPERATION_PROPERTY_DURATION) 8
              (Inr (double_bytes 0x3F847AE147AE147B)) prop sz value size_ret,
            ADD_SINGLE_VALUE_PROPERTY (val_OPERATION_PROPERTY QDMI_OPERATION_PROPERTY_QUBITSNUM) 8
              (Inr (le64 1)) prop sz value size_ret,
            ADD_SINGLE_VALUE_PROPERTY (val_OPERATION_PROPERTY QDMI_OPERATION_PROPERTY_PARAMETERSNUM) 8
              (Inr (le64 1)) prop sz value size_ret,
            ADD_SINGLE_VALUE_PROPERTY (val_OPERATION_PROPERTY QDMI_OPERATION_PROPERTY_FIDELITY) 8
              (Inr (double_bytes 0x3FEFF7CED916872B)) prop sz value size_ret,
            ADD_LIST_PROPERTY (val_OPERATION_PROPERTY QDMI_OPERATION_PROPERTY_SITES) 8
              (map (le_bytes 8) CXX_DEVICE_SITES) prop sz value size_ret]
           (reject QDMI_ERROR_NOTSUPPORTED value)
        else reject QDMI_ERROR_NOTSUPPORTED value))"

section \<open>The macros follow the query protocol\<close>

definition c_str :: "string \<Rightarrow> char list" where
  "c_str s = take (strlen s) s @ [NUL]"

lemma strlen_le_length: "strlen s \<le> length s"
  by (simp add: strlen_def length_takeWhile_le)

lemma length_c_str [simp]: "length (c_str s) = strlen s + 1"
  using strlen_le_length [of s] by (simp add: c_str_def min_absorb2)

lemma c_str_c_string: "c_string s \<Longrightarrow> c_str s = s @ [NUL]"
  by (simp add: c_str_def)

lemma length_strncpy [simp]: "length (strncpy s n) = n"
  by (simp add: strncpy_def)

lemma strncpy_pads:
  assumes "strlen s \<le> n"
  shows "strncpy s n = take (strlen s) s @ replicate (n - strlen s) NUL"
  using assms strlen_le_length [of s] by (simp add: strncpy_def min_absorb2)

lemma strncpy_fits:
  assumes "strlen s + 1 \<le> n"
  shows "strncpy s n = c_str s @ replicate (n - (strlen s + 1)) NUL"
proof -
  have "replicate (n - strlen s) NUL = NUL # replicate (n - (strlen s + 1)) NUL"
    using assms by (metis Suc_diff_Suc Suc_eq_plus1 Suc_le_eq replicate_Suc)
  then show ?thesis using assms by (simp add: strncpy_pads c_str_def)
qed

interpretation single: sized_query "single_value_body (length bs) (Inr bs)" bs for bs
  by unfold_locales (auto simp: single_value_body_def write_at_fits)

lemma string_body_fits:
  assumes "strlen s + 1 \<le> sz" and "sz \<le> length mem"
  shows "string_body (Inr s) sz (Some mem) sr =
     Inr (QDMI_SUCCESS, Some (strncpy s sz @ drop sz mem), store_size sr (strlen s + 1))"
proof -
  have fits: "write_at 0 (strncpy s sz) mem = Inr (strncpy s sz @ drop sz mem)"
    using assms by (simp add: write_at_fits)
  have last: "strncpy s sz ! (sz - 1) = NUL"
    using assms strlen_le_length [of s] by (auto simp: strncpy_pads nth_append min_absorb2)
  have "take (sz - 1) (strncpy s sz) @ [NUL] = strncpy s sz"
    using assms last take_Suc_conv_app_nth [of "sz - 1" "strncpy s sz"] by simp
  then have "write_at (sz - 1) [NUL] (strncpy s sz @ drop sz mem) =
      Inr (strncpy s sz @ drop sz mem)"
    using assms by (simp add: write_at_fits)
  then show ?thesis
    using assms fits by (simp add: string_body_def)
qed

interpretation str: sized_query "string_body (Inr s)" "c_str s" for s
proof unfold_locales
  fix sz sr and mem :: region
  show "string_body (Inr s) sz None sr =
      Inr (QDMI_SUCCESS, None, store_size sr (length (c_str s)))"
    by (simp add: string_body_def store_size_def)
  show "0 < sz \<Longrightarrow> sz < length (c_str s) \<Longrightarrow>
      \<exists>n. string_body (Inr s) sz (Some mem) sr = Inr (QDMI_ERROR_INVALIDARGUMENT, Some mem, n)"
    by (simp add: string_body_def)
  assume "0 < sz" and "length (c_str s) \<le> sz" and "sz \<le> length mem"
  then show "\<exists>mem'. string_body (Inr s) sz (Some mem) sr =
        Inr (QDMI_SUCCESS, Some mem', store_size sr (length (c_str s))) \<and>
      length mem' = length mem \<and> take (length (c_str s)) mem' = c_str s \<and>
      drop sz mem' = drop sz mem"
    by (simp add: string_body_fits strncpy_fits)
qed

text \<open>Elements of one size, and few enough that the product does not wrap.\<close>

definition list_fits :: "nat \<Rightarrow> char list list \<Rightarrow> bool" where
  "list_fits w vs \<longleftrightarrow> list_all (\<lambda>v. length v = w) vs \<and> length vs * w < 2 ^ 64"

lemma list_fits_size:
  assumes "list_fits w vs"
  shows "size_mul (length vs) w = length (concat vs)"
proof -
  have "length (concat vs) = w * length vs"
    using assms length_concat_map_const [of vs "\<lambda>v. v" w]
    by (simp add: list_fits_def list_all_iff)
  then show ?thesis using assms by (simp add: list_fits_def size_mul_id mult.commute)
qed

lemma list_body_sized:
  assumes "list_fits w vs"
  shows "sized_query (list_body w vs) (concat vs)"
  by unfold_locales
     (auto simp: list_body_def list_fits_size [OF assms] write_at_fits)

lemma list_fits_tables:
  "list_fits 8 (map (le_bytes 8) CXX_DEVICE_SITES)"
  "list_fits 8 (map (le_bytes 8) CXX_DEVICE_OPERATIONS)"
  "list_fits 8 (map (le_bytes 8) DEVICE_COUPLING_MAP)"
  "list_fits 4 (map (\<lambda>f. le32 (nat f)) SUPPORTED_PROGRAM_FORMATS)"
  by (simp_all add: list_fits_def list_all_iff CXX_DEVICE_SITES_def CXX_DEVICE_OPERATIONS_def
      DEVICE_COUPLING_MAP_def SUPPORTED_PROGRAM_FORMATS_def)

interpretation sites: sized_query "list_body 8 (map (le_bytes 8) CXX_DEVICE_SITES)"
    "concat (map (le_bytes 8) CXX_DEVICE_SITES)"
  by (rule list_body_sized [OF list_fits_tables(1)])

interpretation operations: sized_query "list_body 8 (map (le_bytes 8) CXX_DEVICE_OPERATIONS)"
    "concat (map (le_bytes 8) CXX_DEVICE_OPERATIONS)"
  by (rule list_body_sized [OF list_fits_tables(2)])

interpretation coupling: sized_query "list_body 8 (map (le_bytes 8) DEVICE_COUPLING_MAP)"
    "concat (map (le_bytes 8) DEVICE_COUPLING_MAP)"
  by (rule list_body_sized [OF list_fits_tables(3)])

interpretation formats: sized_query
    "list_body 4 (map (\<lambda>f. le32 (nat f)) SUPPORTED_PROGRAM_FORMATS)"
    "concat (map (\<lambda>f. le32 (nat f)) SUPPORTED_PROGRAM_FORMATS)"
  by (rule list_body_sized [OF list_fits_tables(4)])

text \<open>The guard in front of the macros only concerns calls the protocol leaves open.\<close>

lemma sized_query_cong:
  assumes "sized_query q' bs"
    and "\<And>sz v sr. v \<noteq> None \<longrightarrow> 0 < sz \<Longrightarrow> q sz v sr = q' sz v sr"
  shows "sized_query q bs"
  using assms(1) unfolding sized_query_def by (auto simp: assms(2))

text \<open>The answer of a macro with the bytes it stores.\<close>

definition answer_string :: "string \<Rightarrow> (query \<times> char list) option" where
  "answer_string s = Some (string_body (Inr s), c_str s)"

definition answer_value :: "char list \<Rightarrow> (query \<times> char list) option" where
  "answer_value bs = Some (single_value_body (length bs) (Inr bs), bs)"

definition answer_list :: "nat \<Rightarrow> char list list \<Rightarrow> (query \<times> char list) option" where
  "answer_list w vs = Some (list_body w vs, concat vs)"

lemma answer_string_sized: "answer_string s = Some (q, bs) \<Longrightarrow> sized_query q bs"
  using str.sized_query_axioms by (auto simp: answer_string_def)

lemma answer_value_sized: "answer_value v = Some (q, bs) \<Longrightarrow> sized_query q bs"
  using single.sized_query_axioms by (auto simp: answer_value_def)

lemma answer_list_sized: "answer_list w vs = Some (q, bs) \<Longrightarrow> list_fits w vs \<Longrightarrow> sized_query q bs"
  using list_body_sized by (auto simp: answer_list_def)

section \<open>What the queries report\<close>

text \<open>The properties the device supports with the bytes a query stores.\<close>

fun device_body ::
  "cxx_env \<Rightarrow> QDMI_DEVICE_STATUS_T \<Rightarrow> QDMI_DEVICE_PROPERTY_T \<Rightarrow> (query \<times> char list) option" where
  "device_body env ds QDMI_DEVICE_PROPERTY_ID = answer_string (device_id env)"
| "device_body env ds QDMI_DEVICE_PROPERTY_NAME = answer_string ''C++ Device with 5 qubits''"
| "device_body env ds QDMI_DEVICE_PROPERTY_VERSION = answer_string (device_version env)"
| "device_body env ds QDMI_DEVICE_PROPERTY_LIBRARYVERSION = answer_string (library_version env)"
| "device_body env ds QDMI_DEVICE_PROPERTY_STATUS =
     answer_value (le32 (nat (val_DEVICE_STATUS ds)))"
| "device_body env ds QDMI_DEVICE_PROPERTY_QUBITSNUM = answer_value (le64 5)"
| "device_body env ds QDMI_DEVICE_PROPERTY_SITES =
     answer_list 8 (map (le_bytes 8) CXX_DEVICE_SITES)"
| "device_body env ds QDMI_DEVICE_PROPERTY_OPERATIONS =
     answer_list 8 (map (le_bytes 8) CXX_DEVICE_OPERATIONS)"
| "device_body env ds QDMI_DEVICE_PROPERTY_COUPLINGMAP =
     answer_list 8 (map (le_bytes 8) DEVICE_COUPLING_MAP)"
| "device_body env ds QDMI_DEVICE_PROPERTY_LENGTHUNIT = answer_string ''um''"
| "device_body env ds QDMI_DEVICE_PROPERTY_LENGTHSCALEFACTOR =
     answer_value (double_bytes 0x3FF0000000000000)"
| "device_body env ds QDMI_DEVICE_PROPERTY_DURATIONUNIT = answer_string ''us''"
| "device_body env ds QDMI_DEVICE_PROPERTY_DURATIONSCALEFACTOR =
     answer_value (double_bytes 0x3F50624DD2F1A9FC)"
| "device_body env ds QDMI_DEVICE_PROPERTY_SUPPORTEDPROGRAMFORMATS =
     answer_list 4 (map (\<lambda>f. le32 (nat f)) SUPPORTED_PROGRAM_FORMATS)"
| "device_body env ds _ = None"

definition device_payload ::
  "cxx_env \<Rightarrow> QDMI_DEVICE_STATUS_T \<Rightarrow> QDMI_DEVICE_PROPERTY_T \<Rightarrow> char list option" where
  "device_payload env ds dp = map_option snd (device_body env ds dp)"

definition initialized :: "cxx_state \<Rightarrow> ptr \<Rightarrow> bool" where
  "initialized st p \<longleftrightarrow>
     p \<noteq> nullptr \<and> (\<exists>s. sessions st p = Some s \<and> s_status s = INITIALIZED)"

lemmas macro_simps =
  ADD_STRING_PROPERTY_def ADD_SINGLE_VALUE_PROPERTY_def ADD_LIST_PROPERTY_def

lemmas answer_simps = answer_string_def answer_value_def answer_list_def

lemma device_query_eq:
  assumes "initialized st p" and "dp \<noteq> QDMI_DEVICE_PROPERTY_MAX" and "v \<noteq> None \<longrightarrow> 0 < sz"
  shows "CXX_QDMI_device_session_query_device_property env st p (val_DEVICE_PROPERTY dp) sz v sr =
     (case device_body env (d_status st) dp of
        None \<Rightarrow> reject QDMI_ERROR_NOTSUPPORTED v
      | Some (q, _) \<Rightarrow> q sz v sr)"
  using assms
  by (cases dp)
     (auto simp: CXX_QDMI_device_session_query_device_property_def macro_simps
       invalid_enum_simps CXX_QDMI_get_device_status_def deref_def initialized_def answer_simps)

lemma device_body_sized:
  "device_body env ds dp = Some (q, bs) \<Longrightarrow> sized_query q bs"
  by (cases dp) (auto simp: answer_string_sized answer_value_sized
      answer_list_sized list_fits_tables)

lemma device_property_sized:
  assumes "initialized st p" and "device_payload env (d_status st) dp = Some bs"
  shows "sized_query
     (CXX_QDMI_device_session_query_device_property env st p (val_DEVICE_PROPERTY dp)) bs"
proof -
  obtain q where q: "device_body env (d_status st) dp = Some (q, bs)"
    using assms(2) by (auto simp: device_payload_def)
  then have "dp \<noteq> QDMI_DEVICE_PROPERTY_MAX" by auto
  with q show ?thesis
    by (intro sized_query_cong [OF device_body_sized [OF q]])
       (simp add: device_query_eq [OF assms(1)])
qed

end
