(* ===== verification/Cxx_Job.thy ===== *)
theory Cxx_Job
  imports Cxx_Query
begin

text \<open>
  The job interface of the example device, from \<open>CXX_QDMI_device_session_create_device_job\<close> to
  \<open>CXX_QDMI_device_job_wait\<close> of \<open>cxx_device.cpp\<close>: creation, parameters, programs, submission
  and the life cycle. The allocator is the function \<open>fails\<close>: whether the allocation with a given
  number, counted in the order the call makes them, throws \<open>std::bad_alloc\<close>.
\<close>

section \<open>Creation, parameters, programs\<close>

definition CXX_QDMI_device_session_create_device_job ::
  "cxx_env \<Rightarrow> bool \<Rightarrow> ptr \<Rightarrow> bool \<Rightarrow> cxx_state \<Rightarrow>
     (QDMI_STATUS \<times> ptr option \<times> cxx_state) outcome" where
  [cxx_defs]: "CXX_QDMI_device_session_create_device_job env oom session job_out st =
     (if session = nullptr \<or> \<not> job_out then Inr (QDMI_ERROR_INVALIDARGUMENT, None, st)
      else bind_o (deref (sessions st) session) (\<lambda>s.
        if s_status s \<noteq> INITIALIZED then Inr (QDMI_ERROR_BADSTATE, None, st)
        else if oom then Inl Bad_Alloc_Thrown
        else let (i, g) = CXX_QDMI_generate_job_id env (gen st);
                 job = new_job\<lparr>j_session := session, j_id := i,
                               j_status := QDMI_JOB_STATUS_CREATED\<rparr>
             in Inr (QDMI_SUCCESS, Some (heap_next st),
                  st\<lparr>gen := g, jobs := (jobs st)(heap_next st \<mapsto> job),
                     heap_next := heap_next st + 1\<rparr>)))"

definition CXX_QDMI_device_session_retrieve_device_job_by_id ::
  "ptr \<Rightarrow> string option \<Rightarrow> bool \<Rightarrow> cxx_state \<Rightarrow>
     (QDMI_STATUS \<times> ptr option \<times> cxx_state) outcome" where
  [cxx_defs]: "CXX_QDMI_device_session_retrieve_device_job_by_id session job_id job_out st =
     Inr (QDMI_ERROR_NOTSUPPORTED, None, st)"

definition CXX_QDMI_device_job_free :: "ptr \<Rightarrow> cxx_state \<Rightarrow> cxx_state outcome" where
  [cxx_defs]: "CXX_QDMI_device_job_free job st =
     (if job = nullptr then Inr st
      else bind_o (deref (jobs st) job) (\<lambda>_. Inr (st\<lparr>jobs := (jobs st)(job := None)\<rparr>)))"

definition CXX_QDMI_device_job_set_parameter ::
  "ptr \<Rightarrow> int \<Rightarrow> nat \<Rightarrow> region option \<Rightarrow> cxx_state \<Rightarrow> (QDMI_STATUS \<times> cxx_state) outcome" where
  [cxx_defs]: "CXX_QDMI_device_job_set_parameter job param sz value st =
     (if job = nullptr \<or> value \<noteq> None \<and> sz = 0 \<or>
         QDMI_IS_INVALID_ENUM_VALUE param prefix_DEVICE_JOB_PARAMETER
      then Inr (QDMI_ERROR_INVALIDARGUMENT, st)
      else bind_o (deref (jobs st) job) (\<lambda>j.
        if j_status j \<noteq> QDMI_JOB_STATUS_CREATED then Inr (QDMI_ERROR_BADSTATE, st)
        else if param = val_DEVICE_JOB_PARAMETER QDMI_DEVICE_JOB_PARAMETER_SHOTSNUM then
          (case value of
             None \<Rightarrow> Inr (QDMI_SUCCESS, st)
           | Some mem \<Rightarrow>
               if sz \<noteq> 8 then Inr (QDMI_ERROR_INVALIDARGUMENT, st)
               else if length mem < 8 then Inl Out_Of_Bounds
               else Inr (QDMI_SUCCESS, st\<lparr>jobs := (jobs st)(job \<mapsto>
                      j\<lparr>num_shots := of_le_bytes (take 8 mem)\<rparr>)\<rparr>))
        else Inr (QDMI_ERROR_NOTSUPPORTED, st)))"

text \<open>
  The loop of \<open>CXX_QDMI_device_job_set_programs\<close>: the programs from index \<open>i\<close> on are checked and
  copied; a status code in \<open>Inl\<close> is the early return. Allocation 0 is \<open>reserve\<close>, allocation
  \<open>i + 1\<close> the copy of program \<open>i\<close>.
\<close>

fun copy_programs ::
  "(nat \<Rightarrow> bool) \<Rightarrow> int \<Rightarrow> nat \<Rightarrow> nat \<Rightarrow> nat list \<Rightarrow> region option list \<Rightarrow>
     (QDMI_STATUS + char list list) outcome" where
  "copy_programs fails format i 0 sizes progs = Inr (Inr [])"
| "copy_programs fails format i (Suc n) sizes progs =
     (if length sizes \<le> i \<or> length progs \<le> i then Inl Out_Of_Bounds
      else bind_o (Valid_program format (sizes ! i) (progs ! i)) (\<lambda>ok.
        if \<not> ok then Inr (Inl QDMI_ERROR_INVALIDARGUMENT)
        else if fails (Suc i) then Inr (Inl QDMI_ERROR_OUTOFMEM)
        else case progs ! i of
            None \<Rightarrow> Inl Null_Deref
          | Some bytes \<Rightarrow>
              if length bytes < sizes ! i then Inl Out_Of_Bounds
              else bind_o (copy_programs fails format (Suc i) n sizes progs) (\<lambda>r.
                Inr (case r of Inl e \<Rightarrow> Inl e | Inr ps \<Rightarrow> Inr (take (sizes ! i) bytes # ps)))))"

text \<open>The most elements a \<open>std::vector\<close> of 24-byte vectors can hold; \<open>reserve\<close> throws beyond.\<close>

definition max_programs :: nat where
  "max_programs = (2 ^ 63 - 1) div 24"

definition CXX_QDMI_device_job_set_programs ::
  "(nat \<Rightarrow> bool) \<Rightarrow> ptr \<Rightarrow> int \<Rightarrow> nat \<Rightarrow> nat list option \<Rightarrow> region option list option \<Rightarrow>
     cxx_state \<Rightarrow> (QDMI_STATUS \<times> cxx_state) outcome" where
  [cxx_defs]: "CXX_QDMI_device_job_set_programs fails job format count sizes progs st =
     (if job = nullptr \<or> count = 0 \<or> \<not> Valid_format format
      then Inr (QDMI_ERROR_INVALIDARGUMENT, st)
      else bind_o (deref (jobs st) job) (\<lambda>j.
        if j_status j \<noteq> QDMI_JOB_STATUS_CREATED then Inr (QDMI_ERROR_BADSTATE, st)
        else if \<not> Supported_format format then Inr (QDMI_ERROR_NOTSUPPORTED, st)
        else case progs of None \<Rightarrow> Inr (QDMI_SUCCESS, st) | Some ps \<Rightarrow>
         (case sizes of None \<Rightarrow> Inr (QDMI_ERROR_INVALIDARGUMENT, st) | Some ss \<Rightarrow>
           if max_programs < count then Inr (QDMI_ERROR_INVALIDARGUMENT, st)
           else if fails 0 then Inr (QDMI_ERROR_OUTOFMEM, st)
           else bind_o (copy_programs fails format 0 count ss ps) (\<lambda>r.
             case r of Inl e \<Rightarrow> Inr (e, st)
             | Inr new_programs \<Rightarrow> Inr (QDMI_SUCCESS, st\<lparr>jobs := (jobs st)(job \<mapsto>
                 j\<lparr>j_format := format, programs := new_programs\<rparr>)\<rparr>)))))"

definition CXX_QDMI_device_job_get_program ::
  "cxx_state \<Rightarrow> ptr \<Rightarrow> nat \<Rightarrow> query" where
  [cxx_defs]: "CXX_QDMI_device_job_get_program st job program_index sz data size_ret =
     (if job = nullptr then reject QDMI_ERROR_INVALIDARGUMENT data
      else bind_o (deref (jobs st) job) (\<lambda>j.
        if programs j = [] then reject QDMI_ERROR_BADSTATE data
        else if length (programs j) \<le> program_index then reject QDMI_ERROR_OUTOFRANGE data
        else let prog = programs j ! program_index in
          case data of
            None \<Rightarrow> Inr (QDMI_SUCCESS, None, store_size size_ret (length prog))
          | Some mem \<Rightarrow>
              if sz < length prog then reject QDMI_ERROR_INVALIDARGUMENT data
              else bind_o (write_at 0 prog mem) (\<lambda>mem'.
                Inr (QDMI_SUCCESS, Some mem', store_size size_ret (length prog)))))"

definition CXX_QDMI_device_job_get_program_status ::
  "cxx_state \<Rightarrow> ptr \<Rightarrow> nat \<Rightarrow> bool \<Rightarrow> (QDMI_STATUS \<times> QDMI_JOB_STATUS_T option) outcome" where
  [cxx_defs]: "CXX_QDMI_device_job_get_program_status st job program_index status_out =
     (if job = nullptr then Inr (QDMI_ERROR_INVALIDARGUMENT, None)
      else bind_o (deref (jobs st) job) (\<lambda>j.
        if programs j = [] then Inr (QDMI_ERROR_BADSTATE, None)
        else if length (programs j) \<le> program_index then Inr (QDMI_ERROR_OUTOFRANGE, None)
        else Inr (QDMI_ERROR_NOTSUPPORTED, None)))"

definition CXX_QDMI_device_job_query_property :: "cxx_state \<Rightarrow> ptr \<Rightarrow> int \<Rightarrow> query" where
  [cxx_defs]: "CXX_QDMI_device_job_query_property st job prop sz value size_ret =
     (if job = nullptr \<or> value \<noteq> None \<and> sz = 0 \<or>
         QDMI_IS_INVALID_ENUM_VALUE prop prefix_DEVICE_JOB_PROPERTY
      then reject QDMI_ERROR_INVALIDARGUMENT value
      else bind_o (deref (jobs st) job) (\<lambda>j.
        let str = to_string (j_id j) in
        run_macros
         [ADD_STRING_PROPERTY (val_DEVICE_JOB_PROPERTY QDMI_DEVICE_JOB_PROPERTY_ID)
            (Inr str) prop sz value size_ret]
         (if prop = val_DEVICE_JOB_PROPERTY QDMI_DEVICE_JOB_PROPERTY_PROGRAMFORMAT \<and>
             j_format j = val_PROGRAM_FORMAT QDMI_PROGRAM_FORMAT_MAX
          then reject QDMI_ERROR_BADSTATE value
          else run_macros
           [ADD_SINGLE_VALUE_PROPERTY (val_DEVICE_JOB_PROPERTY QDMI_DEVICE_JOB_PROPERTY_PROGRAMFORMAT) 4
              (Inr (le32 (nat (j_format j)))) prop sz value size_ret,
            ADD_SINGLE_VALUE_PROPERTY (val_DEVICE_JOB_PROPERTY QDMI_DEVICE_JOB_PROPERTY_SHOTSNUM) 8
              (Inr (le64 (num_shots j))) prop sz value size_ret]
           (if prop = val_DEVICE_JOB_PROPERTY QDMI_DEVICE_JOB_PROPERTY_PROGRAMSNUM \<and>
               programs j = []
            then reject QDMI_ERROR_BADSTATE value
            else run_macros
             [ADD_SINGLE_VALUE_PROPERTY (val_DEVICE_JOB_PROPERTY QDMI_DEVICE_JOB_PROPERTY_PROGRAMSNUM) 8
                (Inr (le64 (length (programs j)))) prop sz value size_ret]
             (reject QDMI_ERROR_NOTSUPPORTED value)))))"

section \<open>Submission\<close>

definition shot_outputs :: "string list" where
  "shot_outputs = [''01'', ''10'', ''11'', ''00'']"

text \<open>\<open>program.at(n)\<close>\<close>

definition char_at :: "char list \<Rightarrow> nat \<Rightarrow> std_exn + char" where
  "char_at program n = (if n < length program then Inr (program ! n) else Inl Exn_std)"

text \<open>
  The output of a program: the first one for a single program, otherwise chosen by its last
  character in front of the terminator, or its last byte in a binary format.
\<close>

definition output_index :: "int \<Rightarrow> char list list \<Rightarrow> nat \<Rightarrow> std_exn + nat" where
  "output_index format progs program_index =
     (if 1 < length progs then
        let program = progs ! program_index;
            back = (if format \<noteq> val_PROGRAM_FORMAT QDMI_PROGRAM_FORMAT_QIRBASEMODULE \<and>
                       1 < length program then 2 else 1)
        in (case char_at program (size_sub (length program) back) of
              Inl e \<Rightarrow> Inl e
            | Inr marker \<Rightarrow> Inr (of_char marker mod length shot_outputs))
      else Inr 0)"

text \<open>
  \<open>shot.insert(0, num_qubits - shot.size(), '0')\<close>: the subtraction wraps, and a string longer
  than its maximal size is a \<open>length_error\<close>.
\<close>

definition pad_shot :: "nat \<Rightarrow> string \<Rightarrow> std_exn + string" where
  "pad_shot num_qubits shot =
     (let n = size_sub num_qubits (length shot) in
      if 2 ^ 63 - 1 < n + length shot then Inl Exn_std
      else Inr (replicate n (CHR ''0'') @ shot))"

text \<open>
  \<open>n\<close> amplitudes are drawn and their norms summed up. C++ leaves open which of the two arguments
  of \<open>emplace_back\<close> is drawn first; the model draws the real part first, and nothing proved
  depends on it.
\<close>

fun draw_amplitudes ::
  "cxx_env \<Rightarrow> nat \<Rightarrow> nat \<Rightarrow> double \<Rightarrow> (double \<times> double) list \<times> double \<times> nat" where
  "draw_amplitudes env 0 g norm = ([], norm, g)"
| "draw_amplitudes env (Suc n) g norm =
     (let (re, g1) = CXX_QDMI_generate_real env g;
          (im, g2) = CXX_QDMI_generate_real env g1;
          (cs, norm', g3) = draw_amplitudes env n g2 (fp_add env norm (complex_norm env (re, im)))
      in ((re, im) # cs, norm', g3))"

definition normalize ::
  "cxx_env \<Rightarrow> double \<Rightarrow> (double \<times> double) list \<Rightarrow> (double \<times> double) list" where
  "normalize env norm cs = map (\<lambda>c. (fp_div env (fst c) norm, fp_div env (snd c) norm)) cs"

text \<open>The most elements a \<open>std::vector\<close> of 32-byte strings can hold; \<open>assign\<close> throws beyond.\<close>

definition max_shots :: nat where
  "max_shots = (2 ^ 63 - 1) div 32"

text \<open>
  One pass of the loop: allocation \<open>2 i + 1\<close> is \<open>assign\<close>, allocation \<open>2 i + 2\<close> is \<open>reserve\<close>. The
  state of the engine is returned also where an exception ends the loop. A shift by the width
  of \<open>unsigned\<close> or more is undefined.
\<close>

definition simulate_program ::
  "cxx_env \<Rightarrow> (nat \<Rightarrow> bool) \<Rightarrow> CXX_QDMI_Device_Job_impl_d \<Rightarrow> nat \<Rightarrow> nat \<Rightarrow> nat \<Rightarrow>
     ((std_exn + Result_data) \<times> nat) outcome" where
  "simulate_program env fails j num_qubits i g =
     (case output_index (j_format j) (programs j) i of Inl e \<Rightarrow> Inr (Inl e, g) | Inr oi \<Rightarrow>
      (case pad_shot num_qubits (shot_outputs ! oi) of Inl e \<Rightarrow> Inr (Inl e, g) | Inr shot \<Rightarrow>
        if max_shots < num_shots j then Inr (Inl Exn_std, g)
        else if fails (2 * i + 1) then Inr (Inl Exn_bad_alloc, g)
        else if 32 \<le> num_qubits then Inl Bad_Shift
        else if fails (2 * i + 2) then Inr (Inl Exn_bad_alloc, g)
        else let (cs, norm, g') = draw_amplitudes env (2 ^ num_qubits) g 0
             in Inr (Inr \<lparr>shots = replicate (num_shots j) shot,
                         state_vec = normalize env (fp_sqrt env norm) cs\<rparr>, g')))"

fun simulate_programs ::
  "cxx_env \<Rightarrow> (nat \<Rightarrow> bool) \<Rightarrow> CXX_QDMI_Device_Job_impl_d \<Rightarrow> nat \<Rightarrow> nat \<Rightarrow> nat \<Rightarrow> nat \<Rightarrow>
     ((std_exn + Result_data list) \<times> nat) outcome" where
  "simulate_programs env fails j num_qubits i 0 g = Inr (Inr [], g)"
| "simulate_programs env fails j num_qubits i (Suc n) g =
     bind_o (simulate_program env fails j num_qubits i g) (\<lambda>(r, g').
       case r of Inl e \<Rightarrow> Inr (Inl e, g')
       | Inr d \<Rightarrow> bind_o (simulate_programs env fails j num_qubits (Suc i) n g') (\<lambda>(r', g'').
           Inr (case r' of Inl e \<Rightarrow> Inl e | Inr ds \<Rightarrow> Inr (d # ds), g'')))"

text \<open>
  \<open>num_qubits\<close> starts at 0 and is what the device query stored, whose status code is ignored.
\<close>

definition query_num_qubits :: "cxx_env \<Rightarrow> cxx_state \<Rightarrow> ptr \<Rightarrow> nat outcome" where
  "query_num_qubits env st session =
     bind_o (CXX_QDMI_device_session_query_device_property env st session
         (val_DEVICE_PROPERTY QDMI_DEVICE_PROPERTY_QUBITSNUM) 8 (Some (le64 0)) False)
       (\<lambda>(_, v, _). Inr (case v of None \<Rightarrow> 0 | Some mem \<Rightarrow> of_le_bytes (take 8 mem)))"

definition CXX_QDMI_device_job_submit ::
  "cxx_env \<Rightarrow> (nat \<Rightarrow> bool) \<Rightarrow> ptr \<Rightarrow> cxx_state \<Rightarrow> (QDMI_STATUS \<times> cxx_state) outcome" where
  [cxx_defs]: "CXX_QDMI_device_job_submit env fails job st =
     (if job = nullptr then Inr (QDMI_ERROR_INVALIDARGUMENT, st)
      else bind_o (deref (jobs st) job) (\<lambda>j.
        if j_status j \<noteq> QDMI_JOB_STATUS_CREATED then Inr (QDMI_ERROR_INVALIDARGUMENT, st)
        else if programs j = [] then Inr (QDMI_ERROR_BADSTATE, st)
        else bind_o (query_num_qubits env st (j_session j)) (\<lambda>num_qubits.
          if fails 0 then Inr (QDMI_ERROR_OUTOFMEM, st)
          else bind_o (simulate_programs env fails j num_qubits 0 (length (programs j)) (gen st))
            (\<lambda>(r, g).
              case r of
                Inl Exn_bad_alloc \<Rightarrow> Inr (QDMI_ERROR_OUTOFMEM, st\<lparr>gen := g\<rparr>)
              | Inl Exn_std \<Rightarrow> Inr (QDMI_ERROR_FATAL, st\<lparr>gen := g\<rparr>)
              | Inr ds \<Rightarrow> Inr (QDMI_SUCCESS,
                  CXX_QDMI_set_device_status QDMI_DEVICE_STATUS_BUSY
                    (st\<lparr>gen := g, jobs := (jobs st)(job \<mapsto>
                       j\<lparr>results := ds, j_status := QDMI_JOB_STATUS_RUNNING\<rparr>)\<rparr>))))))"

section \<open>Cancellation, polling, waiting\<close>

definition CXX_QDMI_device_job_cancel ::
  "ptr \<Rightarrow> cxx_state \<Rightarrow> (QDMI_STATUS \<times> cxx_state) outcome" where
  [cxx_defs]: "CXX_QDMI_device_job_cancel job st =
     (if job = nullptr then Inr (QDMI_ERROR_INVALIDARGUMENT, st)
      else bind_o (deref (jobs st) job) (\<lambda>j.
        if j_status j = QDMI_JOB_STATUS_DONE then Inr (QDMI_ERROR_INVALIDARGUMENT, st)
        else Inr (QDMI_SUCCESS, CXX_QDMI_set_device_status QDMI_DEVICE_STATUS_IDLE
          (st\<lparr>jobs := (jobs st)(job \<mapsto> j\<lparr>j_status := QDMI_JOB_STATUS_CANCELED\<rparr>)\<rparr>))))"

definition CXX_QDMI_device_job_check ::
  "cxx_env \<Rightarrow> ptr \<Rightarrow> bool \<Rightarrow> cxx_state \<Rightarrow>
     (QDMI_STATUS \<times> QDMI_JOB_STATUS_T option \<times> cxx_state) outcome" where
  [cxx_defs]: "CXX_QDMI_device_job_check env job status_out st =
     (if job = nullptr \<or> \<not> status_out then Inr (QDMI_ERROR_INVALIDARGUMENT, None, st)
      else bind_o (deref (jobs st) job) (\<lambda>j.
        if j_status j = QDMI_JOB_STATUS_RUNNING then
          let (b, g) = CXX_QDMI_generate_bit env (gen st) in
          if b then Inr (QDMI_SUCCESS, Some QDMI_JOB_STATUS_DONE,
            (CXX_QDMI_set_device_status QDMI_DEVICE_STATUS_IDLE (st\<lparr>gen := g\<rparr>))
              \<lparr>jobs := (jobs st)(job \<mapsto> j\<lparr>j_status := QDMI_JOB_STATUS_DONE\<rparr>)\<rparr>)
          else Inr (QDMI_SUCCESS, Some (j_status j), st\<lparr>gen := g\<rparr>)
        else Inr (QDMI_SUCCESS, Some (j_status j), st)))"

definition CXX_QDMI_device_job_wait ::
  "ptr \<Rightarrow> nat \<Rightarrow> cxx_state \<Rightarrow> (QDMI_STATUS \<times> cxx_state) outcome" where
  [cxx_defs]: "CXX_QDMI_device_job_wait job timeout st =
     (if job = nullptr then Inr (QDMI_ERROR_INVALIDARGUMENT, st)
      else bind_o (deref (jobs st) job) (\<lambda>j.
        if j_status j = QDMI_JOB_STATUS_DONE \<or> j_status j = QDMI_JOB_STATUS_CANCELED \<or>
           j_status j = QDMI_JOB_STATUS_FAILED
        then Inr (QDMI_SUCCESS, st)
        else Inr (QDMI_SUCCESS, CXX_QDMI_set_device_status QDMI_DEVICE_STATUS_IDLE
          (st\<lparr>jobs := (jobs st)(job \<mapsto> j\<lparr>j_status := QDMI_JOB_STATUS_DONE\<rparr>)\<rparr>))))"

end
