(* ===== verification/Cxx_Lifecycle.thy ===== *)
theory Cxx_Lifecycle
  imports Cxx_Job
begin

text \<open>
  The example device as a state machine. \<open>exec\<close> runs one call of the interface, \<open>cxx_reachable\<close>
  are the states a client can bring the library to. The specification is the pair of step
  relations \<open>job_change\<close> (what may happen to one job) and \<open>cxx_step\<close> (what may happen to the
  library); \<open>exec_refines\<close> shows that every call that returns is such a step, and the invariant
  \<open>cxx_inv\<close> is proved on the relations.
\<close>

section \<open>Calls\<close>

datatype cxx_call =
    Device_initialize
  | Device_finalize
  | Session_alloc bool bool
  | Session_init ptr
  | Session_free ptr
  | Session_set_parameter bool ptr int nat "region option"
  | Create_device_job bool ptr bool
  | Retrieve_device_job_by_id ptr "string option" bool
  | Job_free ptr
  | Job_set_parameter ptr int nat "region option"
  | Job_set_programs "nat \<Rightarrow> bool" ptr int nat "nat list option" "region option list option"
  | Job_submit "nat \<Rightarrow> bool" ptr
  | Job_cancel ptr
  | Job_check ptr bool
  | Job_wait ptr nat

fun exec :: "cxx_env \<Rightarrow> cxx_call \<Rightarrow> cxx_state \<Rightarrow> cxx_state outcome" where
  "exec env Device_initialize st = last_of (CXX_QDMI_device_initialize st)"
| "exec env Device_finalize st = last_of (CXX_QDMI_device_finalize st)"
| "exec env (Session_alloc oom out) st = last_of3 (CXX_QDMI_device_session_alloc oom out st)"
| "exec env (Session_init p) st = last_of (CXX_QDMI_device_session_init p st)"
| "exec env (Session_free p) st = CXX_QDMI_device_session_free p st"
| "exec env (Session_set_parameter oom p param sz value) st =
     last_of (CXX_QDMI_device_session_set_parameter oom p param sz value st)"
| "exec env (Create_device_job oom p out) st =
     last_of3 (CXX_QDMI_device_session_create_device_job env oom p out st)"
| "exec env (Retrieve_device_job_by_id p jid out) st =
     last_of3 (CXX_QDMI_device_session_retrieve_device_job_by_id p jid out st)"
| "exec env (Job_free p) st = CXX_QDMI_device_job_free p st"
| "exec env (Job_set_parameter p param sz value) st =
     last_of (CXX_QDMI_device_job_set_parameter p param sz value st)"
| "exec env (Job_set_programs fails p format count sizes progs) st =
     last_of (CXX_QDMI_device_job_set_programs fails p format count sizes progs st)"
| "exec env (Job_submit fails p) st = last_of (CXX_QDMI_device_job_submit env fails p st)"
| "exec env (Job_cancel p) st = last_of (CXX_QDMI_device_job_cancel p st)"
| "exec env (Job_check p out) st = last_of3 (CXX_QDMI_device_job_check env p out st)"
| "exec env (Job_wait p timeout) st = last_of (CXX_QDMI_device_job_wait p timeout st)"

fun exec_all :: "cxx_env \<Rightarrow> cxx_call list \<Rightarrow> cxx_state \<Rightarrow> cxx_state outcome" where
  "exec_all env [] st = Inr st"
| "exec_all env (c # cs) st = bind_o (exec env c st) (exec_all env cs)"

inductive cxx_reachable :: "cxx_env \<Rightarrow> cxx_state \<Rightarrow> bool" for env where
  start: "cxx_reachable env cxx_init"
| call: "cxx_reachable env st \<Longrightarrow> exec env c st = Inr st' \<Longrightarrow> cxx_reachable env st'"

lemma exec_all_reachable:
  "cxx_reachable env st \<Longrightarrow> exec_all env cs st = Inr st' \<Longrightarrow> cxx_reachable env st'"
  by (induction cs arbitrary: st) (auto simp: bind_o_eq_Inr intro: cxx_reachable.call)

section \<open>The specification of a job\<close>

text \<open>A program as \<open>set_programs\<close> accepts it, the results of a program as \<open>submit\<close> makes them.\<close>

definition program_ok :: "int \<Rightarrow> char list \<Rightarrow> bool" where
  "program_ok format p \<longleftrightarrow> p \<noteq> [] \<and>
     (format = val_PROGRAM_FORMAT QDMI_PROGRAM_FORMAT_QASM2 \<or>
      format = val_PROGRAM_FORMAT QDMI_PROGRAM_FORMAT_QIRBASESTRING \<longrightarrow> text_program p)"

definition shot_ok :: "string \<Rightarrow> bool" where
  "shot_ok s \<longleftrightarrow> length s = 5 \<and> set s \<subseteq> {CHR ''0'', CHR ''1''}"

definition result_ok :: "nat \<Rightarrow> Result_data \<Rightarrow> bool" where
  "result_ok n r \<longleftrightarrow>
     (\<exists>s. shot_ok s \<and> shots r = replicate n s) \<and> n \<le> max_shots \<and> length (state_vec r) = 32"

definition results_ok :: "CXX_QDMI_Device_Job_impl_d \<Rightarrow> bool" where
  "results_ok j \<longleftrightarrow>
     length (results j) = length (programs j) \<and> list_all (result_ok (num_shots j)) (results j)"

inductive job_change ::
  "CXX_QDMI_Device_Job_impl_d \<Rightarrow> CXX_QDMI_Device_Job_impl_d \<Rightarrow> bool" where
  set_shots:
    "j_status j = QDMI_JOB_STATUS_CREATED \<Longrightarrow> job_change j (j\<lparr>num_shots := n\<rparr>)"
| set_programs:
    "j_status j = QDMI_JOB_STATUS_CREATED \<Longrightarrow> Supported_format f \<Longrightarrow> ps \<noteq> [] \<Longrightarrow>
     list_all (program_ok f) ps \<Longrightarrow> job_change j (j\<lparr>j_format := f, programs := ps\<rparr>)"
| submit:
    "j_status j = QDMI_JOB_STATUS_CREATED \<Longrightarrow> programs j \<noteq> [] \<Longrightarrow>
     length ds = length (programs j) \<Longrightarrow> list_all (result_ok (num_shots j)) ds \<Longrightarrow>
     job_change j (j\<lparr>results := ds, j_status := QDMI_JOB_STATUS_RUNNING\<rparr>)"
| finish:
    "\<not> terminal (j_status j) \<Longrightarrow> job_change j (j\<lparr>j_status := QDMI_JOB_STATUS_DONE\<rparr>)"
| cancel:
    "j_status j \<noteq> QDMI_JOB_STATUS_DONE \<Longrightarrow>
     job_change j (j\<lparr>j_status := QDMI_JOB_STATUS_CANCELED\<rparr>)"

text \<open>The states of a job, and what is stored in them.\<close>

definition job_ok :: "CXX_QDMI_Device_Job_impl_d \<Rightarrow> bool" where
  "job_ok j \<longleftrightarrow>
     j_status j \<in> {QDMI_JOB_STATUS_CREATED, QDMI_JOB_STATUS_RUNNING, QDMI_JOB_STATUS_DONE,
                  QDMI_JOB_STATUS_CANCELED} \<and>
     (if programs j = [] then j_format j = val_PROGRAM_FORMAT QDMI_PROGRAM_FORMAT_MAX
      else Supported_format (j_format j) \<and> list_all (program_ok (j_format j)) (programs j)) \<and>
     (j_status j = QDMI_JOB_STATUS_CREATED \<longrightarrow> results j = []) \<and>
     (j_status j = QDMI_JOB_STATUS_RUNNING \<longrightarrow> programs j \<noteq> [] \<and> results j \<noteq> []) \<and>
     (results j \<noteq> [] \<longrightarrow> results_ok j)"

lemma job_ok_new: "job_ok (new_job\<lparr>j_session := s, j_id := i, j_status := QDMI_JOB_STATUS_CREATED\<rparr>)"
  by (simp add: job_ok_def new_job_def)

lemma job_change_ok: "job_change j j' \<Longrightarrow> job_ok j \<Longrightarrow> job_ok j'"
  by (induction rule: job_change.induct) (auto simp: job_ok_def results_ok_def)

lemma job_change_frame: "job_change j j' \<Longrightarrow> j_session j' = j_session j \<and> j_id j' = j_id j"
  by (induction rule: job_change.induct) auto

section \<open>The specification of the library\<close>

inductive cxx_step :: "cxx_state \<Rightarrow> cxx_state \<Rightarrow> bool" where
  device: "cxx_step st (st\<lparr>d_status := ds, gen := g\<rparr>)"
| new_session:
    "cxx_step st (st\<lparr>sessions := (sessions st)(heap_next st \<mapsto> new_session),
                     heap_next := heap_next st + 1\<rparr>)"
| set_token:
    "sessions st p = Some s \<Longrightarrow> s_status s = ALLOCATED \<Longrightarrow> t \<noteq> [] \<Longrightarrow>
     cxx_step st (st\<lparr>sessions := (sessions st)(p \<mapsto> s\<lparr>token := t\<rparr>)\<rparr>)"
| init_session:
    "sessions st p = Some s \<Longrightarrow> token s \<noteq> [] \<Longrightarrow>
     cxx_step st (st\<lparr>sessions := (sessions st)(p \<mapsto> s\<lparr>s_status := INITIALIZED\<rparr>)\<rparr>)"
| free_session: "cxx_step st (st\<lparr>sessions := (sessions st)(p := None)\<rparr>)"
| new_job:
    "initialized st p \<Longrightarrow>
     cxx_step st (st\<lparr>gen := g, jobs := (jobs st)(heap_next st \<mapsto>
         new_job\<lparr>j_session := p, j_id := i, j_status := QDMI_JOB_STATUS_CREATED\<rparr>),
       heap_next := heap_next st + 1\<rparr>)"
| free_job: "cxx_step st (st\<lparr>jobs := (jobs st)(p := None)\<rparr>)"
| change_job:
    "jobs st p = Some j \<Longrightarrow> job_change j j' \<Longrightarrow>
     cxx_step st (st\<lparr>d_status := ds, gen := g, jobs := (jobs st)(p \<mapsto> j')\<rparr>)"

text \<open>A job's session is initialized as long as it lives, and addresses are not reused.\<close>

definition links_ok :: "cxx_state \<Rightarrow> bool" where
  "links_ok st \<longleftrightarrow>
     (\<forall>p j. jobs st p = Some j \<longrightarrow> j_session j < heap_next st \<and> j_session j \<noteq> nullptr \<and>
        (\<forall>s. sessions st (j_session j) = Some s \<longrightarrow> s_status s = INITIALIZED))"

definition jobs_ok :: "cxx_state \<Rightarrow> bool" where
  "jobs_ok st \<longleftrightarrow> (\<forall>p j. jobs st p = Some j \<longrightarrow> job_ok j)"

definition cxx_inv :: "cxx_state \<Rightarrow> bool" where
  "cxx_inv st \<longleftrightarrow> heap_ok st \<and> sessions_ok st \<and> links_ok st \<and> jobs_ok st"

lemma cxx_inv_init: "cxx_inv cxx_init"
  by (simp add: cxx_inv_def cxx_init_def heap_ok_def sessions_ok_def links_ok_def jobs_ok_def)

lemma cxx_step_heap_ok: "cxx_step st st' \<Longrightarrow> heap_ok st \<Longrightarrow> heap_ok st'"
proof (induction rule: cxx_step.induct)
  case (new_job st p i g)
  then show ?case using heap_ok_new_job [of "st\<lparr>gen := g\<rparr>"] heap_ok_updates(2) [of st g] by simp
next
  case (change_job st p j j' g ds)
  then show ?case
    using heap_ok_updates(6) [of "st\<lparr>d_status := ds, gen := g\<rparr>" p j j'] by (simp add: heap_ok_def)
next
  case (new_session st)
  then show ?case using heap_ok_new_session by blast
qed (auto simp: heap_ok_def)

lemma cxx_step_sessions_ok: "cxx_step st st' \<Longrightarrow> sessions_ok st \<Longrightarrow> sessions_ok st'"
  by (induction rule: cxx_step.induct)
     (auto simp: sessions_ok_def session_ok_def new_session_def)

lemma cxx_step_jobs_ok: "cxx_step st st' \<Longrightarrow> jobs_ok st \<Longrightarrow> jobs_ok st'"
  by (induction rule: cxx_step.induct) (auto simp: jobs_ok_def job_ok_new intro: job_change_ok)

lemma cxx_step_links_ok: "cxx_step st st' \<Longrightarrow> heap_ok st \<Longrightarrow> links_ok st \<Longrightarrow> links_ok st'"
proof (induction rule: cxx_step.induct)
  case (new_job st p i g)
  then obtain s where "p \<noteq> nullptr" "sessions st p = Some s" "s_status s = INITIALIZED"
    by (auto simp: initialized_def)
  moreover from this new_job.prems(1) have "p < heap_next st" by (auto simp: heap_ok_def)
  ultimately show ?case using new_job.prems(2) by (auto simp: links_ok_def less_SucI new_job_def)
next
  case (change_job st p j j' g ds)
  then show ?case using job_change_frame [of j j'] by (auto simp: links_ok_def)
next
  case (new_session st)
  show ?case unfolding links_ok_def
  proof (intro allI impI)
    fix p j
    assume "jobs (st\<lparr>sessions := (sessions st)(heap_next st \<mapsto> new_session),
        heap_next := heap_next st + 1\<rparr>) p = Some j"
    then have "jobs st p = Some j" by simp
    with new_session.prems(2) have "j_session j < heap_next st"
      and "j_session j \<noteq> nullptr \<and> (\<forall>s. sessions st (j_session j) = Some s \<longrightarrow> s_status s = INITIALIZED)"
      by (auto simp: links_ok_def)
    then show "j_session j < heap_next (st\<lparr>sessions := (sessions st)(heap_next st \<mapsto> new_session),
          heap_next := heap_next st + 1\<rparr>) \<and> j_session j \<noteq> nullptr \<and>
        (\<forall>s. sessions (st\<lparr>sessions := (sessions st)(heap_next st \<mapsto> new_session),
          heap_next := heap_next st + 1\<rparr>) (j_session j) = Some s \<longrightarrow> s_status s = INITIALIZED)"
      by simp
  qed
next
  case (set_token st p s t)
  then show ?case by (fastforce simp: links_ok_def)
qed (auto simp: links_ok_def less_SucI split: if_splits)

lemma cxx_step_inv: "cxx_step st st' \<Longrightarrow> cxx_inv st \<Longrightarrow> cxx_inv st'"
  unfolding cxx_inv_def
  using cxx_step_heap_ok cxx_step_sessions_ok cxx_step_jobs_ok cxx_step_links_ok by blast

lemma cxx_step_refl: "cxx_step st st"
  using cxx_step.device [of st "gen st" "d_status st"] by simp

lemma cxx_step_gen: "cxx_step st (st\<lparr>gen := g\<rparr>)"
  using cxx_step.device [of st g "d_status st"] by simp

lemma cxx_step_status: "cxx_step st (st\<lparr>d_status := ds\<rparr>)"
proof -
  have "st\<lparr>d_status := ds, gen := gen st\<rparr> = st\<lparr>d_status := ds\<rparr>" by (cases st) simp
  then show ?thesis using cxx_step.device [of st "gen st" ds] by simp
qed

section \<open>Every call is a step of the specification\<close>

lemma set_programs_copies:
  "copy_programs fails f i n sizes progs = Inr (Inr ps) \<Longrightarrow>
     length ps = n \<and> list_all (program_ok f) ps"
proof (induction fails f i n sizes progs arbitrary: ps rule: copy_programs.induct)
  case (1 fails f i sizes progs)
  then show ?case by simp
next
  case (2 fails f i n sizes progs)
  from "2.prems" obtain bytes qs where bytes: "progs ! i = Some bytes"
    and ok: "Valid_program f (sizes ! i) (progs ! i) = Inr True"
    and len: "sizes ! i \<le> length bytes" and i: "i < length sizes" "i < length progs"
    and qs: "copy_programs fails f (Suc i) n sizes progs = Inr (Inr qs)"
    and ps: "ps = take (sizes ! i) bytes # qs" and nf: "\<not> fails (Suc i)"
    by (auto simp: bind_o_eq_Inr case_sum_eq_Inr not_less split: if_splits option.splits)
  from ok bytes len have "program_ok f (take (sizes ! i) bytes)"
    by (auto simp: Valid_program_def program_ok_def text_program_take split: if_splits)
  moreover have "length qs = n \<and> list_all (program_ok f) qs"
    using "2.IH" [of True bytes qs] i ok nf bytes len qs by (simp add: not_le)
  ultimately show ?case using ps by simp
qed

text \<open>Whatever the allocator does, the copy is complete or there is none.\<close>

definition good_program :: "int \<Rightarrow> nat list \<Rightarrow> region option list \<Rightarrow> nat \<Rightarrow> bool" where
  "good_program f ss ps k \<longleftrightarrow> ps ! k \<noteq> None \<and> program_ok f (take (ss ! k) (the (ps ! k)))"

lemma copy_programs_D:
  assumes "copy_programs fails f i n ss ps = Inr r"
  shows "case r of
      Inr qs \<Rightarrow> (\<forall>k\<in>{i..<i + n}. good_program f ss ps k) \<and>
        qs = map (\<lambda>k. take (ss ! k) (the (ps ! k))) [i..<i + n]
    | Inl e \<Rightarrow> e = QDMI_ERROR_INVALIDARGUMENT \<and> (\<exists>k\<in>{i..<i + n}. \<not> good_program f ss ps k) \<or>
        e = QDMI_ERROR_OUTOFMEM \<and> (\<exists>k. fails k)"
  using assms
proof (induction n arbitrary: i r)
  case (Suc n)
  have set: "{i..<i + Suc n} = insert i {Suc i..<Suc i + n}" by auto
  have upt: "[i..<i + Suc n] = i # [Suc i..<Suc i + n]" by (simp add: upt_conv_Cons del: upt_Suc)
  from Suc.prems obtain ok where ok: "Valid_program f (ss ! i) (ps ! i) = Inr ok"
    by (auto simp: bind_o_eq_Inr split: if_splits)
  show ?case
  proof (cases "ok \<and> \<not> fails (Suc i)")
    case False
    moreover have "\<not> good_program f ss ps i" if "\<not> ok"
      using that ok by (auto simp: Valid_program_def good_program_def program_ok_def text_program_take
          split: option.splits if_splits)
    ultimately show ?thesis using ok Suc.prems unfolding set by (auto split: if_splits)
  next
    case True
    then obtain bytes r' where r': "copy_programs fails f (Suc i) n ss ps = Inr r'"
        "ps ! i = Some bytes" "ss ! i \<le> length bytes"
        "r = (case r' of Inl e \<Rightarrow> Inl e | Inr qs \<Rightarrow> Inr (take (ss ! i) bytes # qs))"
      using ok Suc.prems by (auto simp: bind_o_eq_Inr not_less split: if_splits option.splits)
    have "good_program f ss ps i"
      using ok True r'(2,3) by (auto simp: Valid_program_def good_program_def program_ok_def
          text_program_take split: if_splits)
    then show ?thesis using Suc.IH [OF r'(1)] r'(2,4) unfolding set upt by (cases r') auto
  qed
qed simp

lemma copy_programs_all_or_nothing:
  assumes "i + n \<le> length ss" and "i + n \<le> length ps"
    and "\<forall>k<i + n. case ps ! k of None \<Rightarrow> True | Some mem \<Rightarrow> ss ! k \<le> length mem"
  shows "copy_programs (\<lambda>_. False) f i n ss ps =
    (if \<forall>k\<in>{i..<i + n}. ps ! k \<noteq> None \<and> program_ok f (take (ss ! k) (the (ps ! k)))
     then Inr (Inr (map (\<lambda>k. take (ss ! k) (the (ps ! k))) [i..<i + n]))
     else Inr (Inl QDMI_ERROR_INVALIDARGUMENT))"
  using assms
proof (induction n arbitrary: i)
  case (Suc n)
  let ?good = "\<lambda>k. ps ! k \<noteq> None \<and> program_ok f (take (ss ! k) (the (ps ! k)))"
  have rest: "copy_programs (\<lambda>_. False) f (Suc i) n ss ps =
    (if \<forall>k\<in>{Suc i..<Suc i + n}. ?good k
     then Inr (Inr (map (\<lambda>k. take (ss ! k) (the (ps ! k))) [Suc i..<Suc i + n]))
     else Inr (Inl QDMI_ERROR_INVALIDARGUMENT))"
    using Suc.IH [of "Suc i"] Suc.prems by simp
  have len: "case ps ! i of None \<Rightarrow> True | Some mem \<Rightarrow> ss ! i \<le> length mem"
    using Suc.prems(3) by simp
  have valid: "Valid_program f (ss ! i) (ps ! i) = Inr (?good i)"
    using len by (auto simp: Valid_program_def program_ok_def text_program_take split: option.splits)
  have set: "(\<forall>k\<in>{i..<i + Suc n}. ?good k) = (?good i \<and> (\<forall>k\<in>{Suc i..<Suc i + n}. ?good k))"
    by (auto simp: less_Suc_eq_le le_less Suc_le_eq)
  have upt: "[i..<i + Suc n] = i # [Suc i..<Suc i + n]" by (simp add: upt_conv_Cons del: upt_Suc)
  show ?case
  proof (cases "?good i")
    case True
    then obtain y where y: "ps ! i = Some y" by auto
    have "copy_programs (\<lambda>_. False) f i (Suc n) ss ps =
        bind_o (copy_programs (\<lambda>_. False) f (Suc i) n ss ps) (\<lambda>r.
          Inr (case r of Inl e \<Rightarrow> Inl e | Inr qs \<Rightarrow> Inr (take (ss ! i) y # qs)))"
      using Suc.prems(1,2) len valid True y by simp
    then show ?thesis using True y unfolding set upt rest by simp
  next
    case False
    then show ?thesis using Suc.prems(1,2) valid unfolding set by auto
  qed
qed simp

lemma get_program_sized:
  assumes "p \<noteq> nullptr" and "jobs st p = Some j" and "i < length (programs j)"
  shows "sized_query (CXX_QDMI_device_job_get_program st p i) (programs j ! i)"
  using assms
  by unfold_locales
     (auto simp: CXX_QDMI_device_job_get_program_def deref_def reject_def write_at_fits Let_def)

lemma query_num_qubits_initialized:
  assumes "initialized st p"
  shows "query_num_qubits env st p = Inr 5"
proof -
  have "CXX_QDMI_device_session_query_device_property env st p 4 8 (Some (le64 0)) False =
      Inr (QDMI_SUCCESS, Some (le64 5), None)"
    using device_query_eq [OF assms, of QDMI_DEVICE_PROPERTY_QUBITSNUM "Some (le64 0)" 8 env False]
    by (simp add: answer_value_def single_value_body_def write_at_def)
  then show ?thesis by (simp add: query_num_qubits_def bytes_simps)
qed

lemma draw_amplitudes_length:
  "draw_amplitudes env n g norm = (cs, norm', g') \<Longrightarrow> length cs = n"
  by (induction env n g norm arbitrary: cs norm' g' rule: draw_amplitudes.induct)
     (auto simp: Let_def split: prod.splits)

lemma shot_outputs_ok: "s \<in> set shot_outputs \<Longrightarrow> length s = 2 \<and> set s \<subseteq> {CHR ''0'', CHR ''1''}"
  by (auto simp: shot_outputs_def)

lemma output_index_bound: "output_index f ps i = Inr k \<Longrightarrow> k < length shot_outputs"
  by (auto simp: output_index_def Let_def shot_outputs_def split: if_splits sum.splits)

lemma pad_shot_ok:
  assumes "pad_shot 5 s = Inr t" and "s \<in> set shot_outputs"
  shows "shot_ok t"
  using assms shot_outputs_ok [OF assms(2)]
  by (auto simp: pad_shot_def size_sub_def shot_ok_def split: if_splits)

lemma simulate_program_ok:
  "simulate_program env fails j 5 i g = Inr (Inr d, g') \<Longrightarrow> result_ok (num_shots j) d"
  by (auto simp: simulate_program_def result_ok_def normalize_def Let_def
      split: sum.splits if_splits prod.splits
      dest!: output_index_bound draw_amplitudes_length intro!: exI pad_shot_ok nth_mem)

lemma simulate_programs_ok:
  "simulate_programs env fails j 5 i n g = Inr (Inr ds, g') \<Longrightarrow>
     length ds = n \<and> list_all (result_ok (num_shots j)) ds"
proof (induction n arbitrary: i g ds)
  case 0
  then show ?case by simp
next
  case (Suc n)
  from Suc.prems obtain r g1 where r: "simulate_program env fails j 5 i g = Inr (r, g1)"
    and rest: "(case r of Inl e \<Rightarrow> Inr (Inl e, g1)
       | Inr d \<Rightarrow> bind_o (simulate_programs env fails j 5 (Suc i) n g1) (\<lambda>(r', g'').
           Inr (case r' of Inl e \<Rightarrow> Inl e | Inr ds \<Rightarrow> Inr (d # ds), g''))) = Inr (Inr ds, g')"
    by (auto simp: bind_o_eq_Inr)
  from rest obtain d es where "r = Inr d"
    and "simulate_programs env fails j 5 (Suc i) n g1 = Inr (Inr es, g')" and "ds = d # es"
    by (cases r) (auto simp: bind_o_eq_Inr case_sum_eq_Inr)
  then show ?case using Suc.IH simulate_program_ok r by fastforce
qed

text \<open>A step that changes one job, up to the order in which the code writes the fields.\<close>

lemma change_job_step:
  assumes "jobs st p = Some j" and "job_change j j'"
    and "jobs st' = (jobs st)(p \<mapsto> j')" and "sessions st' = sessions st"
    and "heap_next st' = heap_next st"
  shows "cxx_step st st'"
proof -
  have "st' = st\<lparr>d_status := d_status st', gen := gen st', jobs := (jobs st)(p \<mapsto> j')\<rparr>"
    using assms(3-5) by (cases st'; cases st) simp
  then show ?thesis
    using cxx_step.change_job [OF assms(1,2), of "gen st'" "d_status st'"] by simp
qed

text \<open>One lemma per call that changes a job.\<close>

lemma create_job_step:
  assumes "CXX_QDMI_device_session_create_device_job env oom p out st = Inr (r, q, st')"
  shows "cxx_step st st'"
  using assms
  by (auto simp: CXX_QDMI_device_session_create_device_job_def bind_o_eq_Inr Let_def initialized_def
      split: if_splits prod.splits intro: cxx_step_refl cxx_step.new_job [simplified])

lemma job_set_parameter_step:
  assumes "CXX_QDMI_device_job_set_parameter p param sz value st = Inr (r, st')"
  shows "cxx_step st st'"
  using assms
  by (auto simp: CXX_QDMI_device_job_set_parameter_def bind_o_eq_Inr
      split: if_splits option.splits
      intro: cxx_step_refl change_job_step [OF _ job_change.set_shots])

lemma job_set_programs_D:
  assumes "CXX_QDMI_device_job_set_programs fails p f n sizes progs st = Inr (r, st')"
  shows "st' = st \<or> (\<exists>j ps. jobs st p = Some j \<and> j_status j = QDMI_JOB_STATUS_CREATED \<and>
      Supported_format f \<and> ps \<noteq> [] \<and> list_all (program_ok f) ps \<and> r = QDMI_SUCCESS \<and>
      st' = st\<lparr>jobs := (jobs st)(p \<mapsto> j\<lparr>j_format := f, programs := ps\<rparr>)\<rparr>)"
proof (cases "st' = st")
  case False
  with assms obtain j ss qs res where j: "jobs st p = Some j" "j_status j = QDMI_JOB_STATUS_CREATED"
      "Supported_format f" "0 < n" and copy: "copy_programs fails f 0 n ss qs = Inr res"
    and res: "(case res of Inl e \<Rightarrow> Inr (e, st)
      | Inr ps \<Rightarrow> Inr (QDMI_SUCCESS, st\<lparr>jobs := (jobs st)(p \<mapsto> j\<lparr>j_format := f, programs := ps\<rparr>)\<rparr>)) =
      (Inr (r, st') :: (QDMI_STATUS \<times> cxx_state) outcome)"
    by (auto simp: CXX_QDMI_device_job_set_programs_def bind_o_eq_Inr
        split: if_splits option.splits)
  with False obtain ps where "res = Inr ps" by (cases res) auto
  with copy have "length ps = n \<and> list_all (program_ok f) ps" by (simp add: set_programs_copies)
  then show ?thesis using j res \<open>res = Inr ps\<close> by auto
qed simp

lemma job_set_programs_step:
  assumes "CXX_QDMI_device_job_set_programs fails p f n sizes progs st = Inr (r, st')"
  shows "cxx_step st st'"
  using job_set_programs_D [OF assms]
  by (auto intro: cxx_step_refl change_job_step [OF _ job_change.set_programs])

lemma job_submit_D:
  assumes "CXX_QDMI_device_job_submit env fails p st = Inr (r, st')" and "cxx_inv st"
  shows "(is_error r \<and> (\<exists>g. st' = st\<lparr>gen := g\<rparr>)) \<or>
     (\<exists>j ds g. r = QDMI_SUCCESS \<and> jobs st p = Some j \<and> j_status j = QDMI_JOB_STATUS_CREATED \<and>
        programs j \<noteq> [] \<and> length ds = length (programs j) \<and>
        list_all (result_ok (num_shots j)) ds \<and>
        st' = st\<lparr>gen := g,
                 jobs := (jobs st)(p \<mapsto>
                   j\<lparr>results := ds, j_status := QDMI_JOB_STATUS_RUNNING\<rparr>),
                 d_status := QDMI_DEVICE_STATUS_BUSY\<rparr>)"
proof (cases "is_error r \<and> st' = st")
  case True
  then have "st' = st\<lparr>gen := gen st\<rparr>" by simp
  with True show ?thesis by blast
next
  case False
  with assms(1) obtain j num_qubits r' g where j: "p \<noteq> nullptr" "jobs st p = Some j"
      "j_status j = QDMI_JOB_STATUS_CREATED" "programs j \<noteq> []"
    and nq: "query_num_qubits env st (j_session j) = Inr num_qubits"
    and sim: "simulate_programs env fails j num_qubits 0 (length (programs j)) (gen st) =
      Inr (r', g)"
    and res: "(case r' of
        Inl Exn_bad_alloc \<Rightarrow> Inr (QDMI_ERROR_OUTOFMEM, st\<lparr>gen := g\<rparr>)
      | Inl Exn_std \<Rightarrow> Inr (QDMI_ERROR_FATAL, st\<lparr>gen := g\<rparr>)
      | Inr ds \<Rightarrow> Inr (QDMI_SUCCESS, CXX_QDMI_set_device_status QDMI_DEVICE_STATUS_BUSY
          (st\<lparr>gen := g, jobs := (jobs st)(p \<mapsto>
             j\<lparr>results := ds, j_status := QDMI_JOB_STATUS_RUNNING\<rparr>)\<rparr>))) =
      (Inr (r, st') :: (QDMI_STATUS \<times> cxx_state) outcome)"
    by (auto simp: CXX_QDMI_device_job_submit_def bind_o_eq_Inr is_error_iff split: if_splits)
  have "j_session j \<noteq> nullptr"
    using assms(2) j(2) by (auto simp: cxx_inv_def links_ok_def)
  then have "\<exists>s. sessions st (j_session j) = Some s"
    using nq by (auto simp: query_num_qubits_def bind_o_eq_Inr invalid_enum_simps
        CXX_QDMI_device_session_query_device_property_def reject_def split: if_splits)
  then have "initialized st (j_session j)"
    using assms(2) j by (auto simp: cxx_inv_def links_ok_def initialized_def)
  then have "num_qubits = 5" using nq by (simp add: query_num_qubits_initialized)
  then have "r' = Inr ds \<Longrightarrow> length ds = length (programs j) \<and>
      list_all (result_ok (num_shots j)) ds" for ds
    using sim simulate_programs_ok by blast
  then show ?thesis using res j
    by (cases r')
       (auto simp: is_error_iff CXX_QDMI_set_device_status_def split: std_exn.splits)
qed

lemma job_submit_step:
  assumes "CXX_QDMI_device_job_submit env fails p st = Inr (r, st')" and "cxx_inv st"
  shows "cxx_step st st'"
  using job_submit_D [OF assms]
  by (auto intro: cxx_step_gen change_job_step [OF _ job_change.submit])

lemma job_cancel_step:
  assumes "CXX_QDMI_device_job_cancel p st = Inr (r, st')"
  shows "cxx_step st st'"
  using assms
  by (auto simp: CXX_QDMI_device_job_cancel_def CXX_QDMI_set_device_status_def bind_o_eq_Inr
      split: if_splits intro: cxx_step_refl change_job_step [OF _ job_change.cancel])

lemma job_wait_step:
  assumes "CXX_QDMI_device_job_wait p timeout st = Inr (r, st')"
  shows "cxx_step st st'"
proof -
  have "\<not> terminal x" if "x \<noteq> QDMI_JOB_STATUS_DONE" "x \<noteq> QDMI_JOB_STATUS_CANCELED"
    "x \<noteq> QDMI_JOB_STATUS_FAILED" for x
    using that by (cases x) auto
  then show ?thesis using assms
    by (auto simp: CXX_QDMI_device_job_wait_def CXX_QDMI_set_device_status_def bind_o_eq_Inr
        split: if_splits intro: cxx_step_refl change_job_step [OF _ job_change.finish])
qed

lemma job_check_step:
  assumes "CXX_QDMI_device_job_check env p out st = Inr (r, s, st')"
  shows "cxx_step st st'"
  using assms
  by (auto simp: CXX_QDMI_device_job_check_def CXX_QDMI_set_device_status_def bind_o_eq_Inr
      split: if_splits prod.splits
      intro: cxx_step_refl cxx_step_gen change_job_step [OF _ job_change.finish])

text \<open>One lemma per session call.\<close>

lemma session_steps:
  "CXX_QDMI_device_session_alloc oom out st = Inr (r, q, st') \<Longrightarrow> cxx_step st st'"
  "CXX_QDMI_device_session_init p st = Inr (r, st') \<Longrightarrow> cxx_step st st'"
  "CXX_QDMI_device_session_free p st = Inr st' \<Longrightarrow> cxx_step st st'"
  "CXX_QDMI_device_session_set_parameter oom p param sz value st = Inr (r, st') \<Longrightarrow> cxx_step st st'"
proof -
  show "CXX_QDMI_device_session_alloc oom out st = Inr (r, q, st') \<Longrightarrow> cxx_step st st'"
    by (drule session_alloc_D) (auto intro: cxx_step_refl cxx_step.new_session [simplified])
  show "CXX_QDMI_device_session_init p st = Inr (r, st') \<Longrightarrow> cxx_step st st'"
    by (drule session_init_D) (auto intro: cxx_step_refl cxx_step.init_session)
  show "CXX_QDMI_device_session_free p st = Inr st' \<Longrightarrow> cxx_step st st'"
    by (drule session_free_D) (auto intro: cxx_step_refl cxx_step.free_session)
  show "CXX_QDMI_device_session_set_parameter oom p param sz value st = Inr (r, st') \<Longrightarrow>
    cxx_step st st'"
    by (drule session_set_parameter_D) (auto intro!: cxx_step_refl cxx_step.set_token)
qed

lemma job_free_step: "CXX_QDMI_device_job_free p st = Inr st' \<Longrightarrow> cxx_step st st'"
  by (auto simp: CXX_QDMI_device_job_free_def bind_o_eq_Inr split: if_splits
      intro: cxx_step_refl cxx_step.free_job)

lemma exec_step:
  assumes "cxx_inv st" and "exec env c st = Inr st'"
  shows "cxx_step st st'"
proof (cases c)
  case Device_initialize
  then show ?thesis using assms cxx_step_status
    by (auto simp: last_of_def CXX_QDMI_device_initialize_def CXX_QDMI_set_device_status_def)
next
  case Device_finalize
  then show ?thesis using assms cxx_step_status
    by (auto simp: last_of_def CXX_QDMI_device_finalize_def CXX_QDMI_set_device_status_def)
next
  case (Retrieve_device_job_by_id p jid out)
  then show ?thesis using assms
    by (simp add: last_of3_def CXX_QDMI_device_session_retrieve_device_job_by_id_def cxx_step_refl)
qed (use assms in \<open>auto simp: last_of_Inr last_of3_Inr intro: session_steps create_job_step
    job_free_step job_set_parameter_step job_set_programs_step job_submit_step job_cancel_step
    job_check_step job_wait_step\<close>)

lemma reachable_inv: "cxx_reachable env st \<Longrightarrow> cxx_inv st"
  by (induction rule: cxx_reachable.induct) (auto intro: cxx_inv_init cxx_step_inv exec_step)

section \<open>The life of a job\<close>

lemma cxx_step_job:
  assumes "cxx_step st st'" and "heap_ok st" and "jobs st p = Some j" and "jobs st' p = Some j'"
  shows "j' = j \<or> job_change j j'"
  using assms
proof (induction rule: cxx_step.induct)
  case (new_job st q i g)
  then have "p \<noteq> heap_next st" using heap_ok_fresh(2) [OF new_job.prems(1)] by auto
  then show ?case using new_job.prems by simp
qed (auto split: if_splits)

lemma cxx_step_dead:
  assumes "cxx_step st st'" and "p < heap_next st" and "jobs st p = None"
  shows "p < heap_next st' \<and> jobs st' p = None"
  using assms by (induction rule: cxx_step.induct) auto

text \<open>The changes of a job's status.\<close>

inductive status_edge :: "QDMI_JOB_STATUS_T \<Rightarrow> QDMI_JOB_STATUS_T \<Rightarrow> bool" where
  "status_edge QDMI_JOB_STATUS_CREATED QDMI_JOB_STATUS_RUNNING"
| "status_edge QDMI_JOB_STATUS_CREATED QDMI_JOB_STATUS_DONE"
| "status_edge QDMI_JOB_STATUS_CREATED QDMI_JOB_STATUS_CANCELED"
| "status_edge QDMI_JOB_STATUS_RUNNING QDMI_JOB_STATUS_DONE"
| "status_edge QDMI_JOB_STATUS_RUNNING QDMI_JOB_STATUS_CANCELED"

code_pred status_edge .

inductive_simps status_edge_from_DONE: "status_edge QDMI_JOB_STATUS_DONE s"

inductive_simps status_edge_to_CREATED: "status_edge s QDMI_JOB_STATUS_CREATED"

text \<open>What a submission freezes.\<close>

definition same_input :: "CXX_QDMI_Device_Job_impl_d \<Rightarrow> CXX_QDMI_Device_Job_impl_d \<Rightarrow> bool" where
  "same_input j j' \<longleftrightarrow> j_session j' = j_session j \<and> j_id j' = j_id j \<and>
     j_format j' = j_format j \<and> programs j' = programs j \<and> num_shots j' = num_shots j"

lemma job_change_edge:
  assumes "job_change j j'" and "job_ok j"
  shows "j_status j' = j_status j \<or> status_edge (j_status j) (j_status j')"
    and "j_status j \<noteq> QDMI_JOB_STATUS_CREATED \<Longrightarrow> same_input j j' \<and> results j' = results j"
    and "j_status j = QDMI_JOB_STATUS_DONE \<Longrightarrow> False"
  using assms
  by (induction rule: job_change.induct)
     (auto simp: job_ok_def same_input_def intro: status_edge.intros)

lemma exec_job:
  assumes "cxx_inv st" and "exec env c st = Inr st'"
    and "jobs st p = Some j" and "jobs st' p = Some j'"
  shows "j' = j \<or> job_change j j' \<and> job_ok j"
proof -
  have "heap_ok st" and "job_ok j" using assms by (auto simp: cxx_inv_def jobs_ok_def)
  then show ?thesis using cxx_step_job [OF exec_step [OF assms(1,2)] _ assms(3,4)] by blast
qed

lemma exec_inv: "cxx_inv st \<Longrightarrow> exec env c st = Inr st' \<Longrightarrow> cxx_inv st'"
  using exec_step cxx_step_inv by blast

lemma exec_all_inv: "cxx_inv st \<Longrightarrow> exec_all env cs st = Inr st' \<Longrightarrow> cxx_inv st'"
  by (induction cs arbitrary: st) (auto simp: bind_o_eq_Inr dest: exec_inv)

lemma exec_dead:
  assumes "cxx_inv st" and "exec env c st = Inr st'" and "p < heap_next st" and "jobs st p = None"
  shows "p < heap_next st' \<and> jobs st' p = None"
  using cxx_step_dead [OF exec_step [OF assms(1,2)] assms(3,4)] .

lemma exec_all_dead:
  assumes "cxx_inv st" and "exec_all env cs st = Inr st'" and "p < heap_next st"
    and "jobs st p = None"
  shows "jobs st' p = None"
  using assms
proof (induction cs arbitrary: st)
  case (Cons c cs)
  then obtain st1 where st1: "exec env c st = Inr st1" and rest: "exec_all env cs st1 = Inr st'"
    by (auto simp: bind_o_eq_Inr)
  have "p < heap_next st1 \<and> jobs st1 p = None"
    by (rule exec_dead [OF Cons.prems(1) st1 Cons.prems(3,4)])
  then show ?case using Cons.IH [OF exec_inv [OF Cons.prems(1) st1] rest] by simp
qed simp

lemma exec_all_done:
  assumes "cxx_inv st" and "exec_all env cs st = Inr st'" and "jobs st p = Some j"
    and "j_status j = QDMI_JOB_STATUS_DONE"
  shows "jobs st' p = Some j \<or> jobs st' p = None"
  using assms
proof (induction cs arbitrary: st)
  case (Cons c cs)
  then obtain st1 where st1: "exec env c st = Inr st1" and rest: "exec_all env cs st1 = Inr st'"
    by (auto simp: bind_o_eq_Inr)
  have inv1: "cxx_inv st1" using exec_inv [OF Cons.prems(1) st1] .
  have lt: "p < heap_next st" using Cons.prems(1,3) by (auto simp: cxx_inv_def heap_ok_def)
  show ?case
  proof (cases "jobs st1 p")
    case None
    have step: "cxx_step st st1" using exec_step [OF Cons.prems(1) st1] .
    have "heap_next st \<le> heap_next st1" using step by (induction rule: cxx_step.induct) auto
    then show ?thesis using exec_all_dead [OF inv1 rest _ None] lt by auto
  next
    case (Some j1)
    then have "j1 = j" using exec_job [OF Cons.prems(1) st1 Cons.prems(3)]
        job_change_edge(3) Cons.prems(4) by blast
    then show ?thesis using Cons.IH [OF inv1 rest] Some Cons.prems(4) by simp
  qed
qed simp

section \<open>Calls that return\<close>

text \<open>
  What a caller owes the library: handles are null or live, buffers are as long as stated,
  the arrays have \<open>count\<close> entries, and a job outlives neither its session nor is submitted
  without it. Memory for a session or a job object and for the copy of a token is assumed to be
  there, the code lets \<open>std::bad_alloc\<close> escape otherwise.
\<close>

definition live :: "(ptr \<rightharpoonup> 'a) \<Rightarrow> ptr \<Rightarrow> bool" where
  "live h p \<longleftrightarrow> p = nullptr \<or> p \<in> dom h"

definition array_ok :: "nat list \<Rightarrow> region option list \<Rightarrow> nat \<Rightarrow> bool" where
  "array_ok ss ps n \<longleftrightarrow> n \<le> length ss \<and> n \<le> length ps \<and>
     (\<forall>i<n. case ps ! i of None \<Rightarrow> True | Some mem \<Rightarrow> ss ! i \<le> length mem)"

fun legal :: "cxx_state \<Rightarrow> cxx_call \<Rightarrow> bool" where
  "legal st Device_initialize = True"
| "legal st Device_finalize = True"
| "legal st (Session_alloc oom out) = (\<not> oom)"
| "legal st (Session_init p) = live (sessions st) p"
| "legal st (Session_free p) = live (sessions st) p"
| "legal st (Session_set_parameter oom p param sz value) =
     (\<not> oom \<and> live (sessions st) p \<and> (case value of None \<Rightarrow> True | Some mem \<Rightarrow> sz \<le> length mem))"
| "legal st (Create_device_job oom p out) = (\<not> oom \<and> live (sessions st) p)"
| "legal st (Retrieve_device_job_by_id p jid out) = True"
| "legal st (Job_free p) = live (jobs st) p"
| "legal st (Job_set_parameter p param sz value) =
     (live (jobs st) p \<and> (case value of None \<Rightarrow> True | Some mem \<Rightarrow> sz \<le> length mem))"
| "legal st (Job_set_programs fails p format count sizes progs) =
     (live (jobs st) p \<and>
      (case progs of None \<Rightarrow> True | Some ps \<Rightarrow>
         (case sizes of None \<Rightarrow> True | Some ss \<Rightarrow> array_ok ss ps count)))"
| "legal st (Job_submit fails p) =
     (live (jobs st) p \<and> (\<forall>j. jobs st p = Some j \<longrightarrow> j_session j \<in> dom (sessions st)))"
| "legal st (Job_cancel p) = live (jobs st) p"
| "legal st (Job_check p out) = live (jobs st) p"
| "legal st (Job_wait p timeout) = live (jobs st) p"

lemma returns_deref: "p \<noteq> nullptr \<Longrightarrow> live h p \<Longrightarrow> (\<And>x. h p = Some x \<Longrightarrow> returns (f x)) \<Longrightarrow>
    returns (bind_o (deref h p) f)"
  by (auto simp: live_def deref_def)

lemma returns_bindI: "returns m \<Longrightarrow> (\<And>x. returns (f x)) \<Longrightarrow> returns (bind_o m f)"
  by (auto simp: returns_def)

lemma returns_copy_programs:
  assumes "i + n \<le> length ss" and "i + n \<le> length ps"
    and "\<forall>k<i + n. case ps ! k of None \<Rightarrow> True | Some mem \<Rightarrow> ss ! k \<le> length mem"
  shows "returns (copy_programs fails f i n ss ps)"
  using assms
proof (induction n arbitrary: i)
  case (Suc n)
  have rest: "returns (copy_programs fails f (Suc i) n ss ps)"
    using Suc.IH [of "Suc i"] Suc.prems by simp
  have "case ps ! i of None \<Rightarrow> True | Some mem \<Rightarrow> ss ! i \<le> length mem"
    using Suc.prems(3) by simp
  then show ?case using rest Suc.prems(1,2)
    by (auto simp: Valid_program_def returns_def split: option.splits)
qed simp

lemma returns_simulate_program: "returns (simulate_program env fails j 5 i g)"
  by (auto simp: simulate_program_def Let_def split: sum.splits prod.splits)

lemma returns_simulate_programs: "returns (simulate_programs env fails j 5 i n g)"
proof (induction n arbitrary: i g)
  case (Suc n)
  obtain r g' where "simulate_program env fails j 5 i g = Inr (r, g')"
    using returns_simulate_program [of env fails j i g] by (auto simp: returns_def)
  moreover obtain q where "simulate_programs env fails j 5 (Suc i) n g' = Inr q"
    using Suc.IH [of "Suc i" g'] by (auto simp: returns_def)
  ultimately show ?case by (cases r) (auto split: prod.splits)
qed simp

lemma returns_submit:
  assumes "cxx_inv st" and "live (jobs st) p"
    and "\<forall>j. jobs st p = Some j \<longrightarrow> j_session j \<in> dom (sessions st)"
  shows "returns (CXX_QDMI_device_job_submit env fails p st)"
proof (cases "p = nullptr")
  case False
  then obtain j where j: "jobs st p = Some j" using assms(2) by (auto simp: live_def)
  then have "initialized st (j_session j)"
    using assms(1,3) by (auto simp: cxx_inv_def links_ok_def initialized_def dom_def)
  then have nq: "query_num_qubits env st (j_session j) = Inr 5"
    by (rule query_num_qubits_initialized)
  obtain r g where "simulate_programs env fails j 5 0 (length (programs j)) (gen st) = Inr (r, g)"
    using returns_simulate_programs [of env fails j 0 "length (programs j)" "gen st"]
    by (auto simp: returns_def)
  then show ?thesis using j nq False
    by (auto simp: CXX_QDMI_device_job_submit_def deref_def split: sum.splits std_exn.splits)
qed (simp add: CXX_QDMI_device_job_submit_def)

lemma returns_set_programs:
  assumes "legal st (Job_set_programs fails p format n sizes progs)"
  shows "returns (CXX_QDMI_device_job_set_programs fails p format n sizes progs st)"
proof -
  have "returns (copy_programs fails format 0 n ss ps)"
    if "sizes = Some ss" "progs = Some ps" for ss ps
    using returns_copy_programs [of 0 n ss ps] assms that by (auto simp: array_ok_def)
  then show ?thesis using assms
    by (auto simp: CXX_QDMI_device_job_set_programs_def deref_def live_def intro!: returns_bindI
        split: option.splits sum.splits)
qed

lemma exec_returns:
  assumes "cxx_inv st" and "legal st c"
  shows "returns (exec env c st)"
proof (cases c)
  case (Job_submit fails p)
  then show ?thesis using assms returns_submit [of st p] by simp
next
  case (Job_set_programs fails p format n sizes progs)
  then show ?thesis using assms(2) returns_set_programs by simp
qed (use assms(2) in \<open>auto simp: cxx_defs Let_def split: option.splits prod.splits
    intro!: returns_deref\<close>)

end
