(* ===== verification/Cxx_Results.thy ===== *)
theory Cxx_Results
  imports Cxx_Lifecycle "HOL-Library.Char_ord" "HOL-Library.List_Lexorder"
begin

text \<open>
  \<open>CXX_QDMI_device_job_get_results\<close> of \<open>cxx_device.cpp\<close> and the functions behind it: shots,
  histogram, dense and sparse state vector and probabilities. \<open>std::map\<close> is a list ordered by its
  keys. The main result is that a stored result is answered by the query protocol, with a
  payload a client can read back; the two exceptions (sparse probabilities, sparse keys of a
  vector of zeros) are stated too.
\<close>

section \<open>The result functions\<close>

text \<open>The common body: \<open>req_size\<close> is compared with \<open>size\<close>, then the bytes are written.\<close>

definition result_body :: "nat \<Rightarrow> char list outcome \<Rightarrow> query" where
  "result_body req_size bytes sz data size_ret =
     (case data of
        None \<Rightarrow> Inr (QDMI_SUCCESS, None, store_size size_ret req_size)
      | Some mem \<Rightarrow>
          if sz < req_size then Inr (QDMI_ERROR_INVALIDARGUMENT, Some mem, None)
          else bind_o bytes (\<lambda>bs. bind_o (write_at 0 bs mem) (\<lambda>mem'.
            Inr (QDMI_SUCCESS, Some mem', store_size size_ret req_size))))"

text \<open>Strings with a comma between them and a NUL at the end.\<close>

fun join_commas :: "string list \<Rightarrow> char list" where
  "join_commas [] = []"
| "join_commas [s] = s @ [NUL]"
| "join_commas (s # t # ss) = s @ CHR '','' # join_commas (t # ss)"

definition Get_results_shots :: "Result_data \<Rightarrow> query" where
  "Get_results_shots result sz data size_ret =
     (if shots result = [] then Inr (QDMI_SUCCESS, data, store_size size_ret 0)
      else result_body (size_mul (length (shots result)) (length (hd (shots result)) + 1))
        (Inr (join_commas (shots result))) sz data size_ret)"

text \<open>\<open>hist[shot]++\<close> on the ordered map.\<close>

fun hist_incr :: "string \<Rightarrow> (string \<times> nat) list \<Rightarrow> (string \<times> nat) list" where
  "hist_incr k [] = [(k, 1)]"
| "hist_incr k ((k', n) # h) =
     (if k < k' then (k, 1) # (k', n) # h
      else if k = k' then (k', n + 1) # h
      else (k', n) # hist_incr k h)"

definition histogram :: "string list \<Rightarrow> (string \<times> nat) list" where
  "histogram ss = foldl (\<lambda>h s. hist_incr s h) [] ss"

text \<open>
  The keys, each with a comma behind it; the last comma is replaced. \<open>oom\<close>: an allocation of the
  map, which has one for each different shot, fails; nothing catches the exception.
\<close>

definition Get_results_hist :: "bool \<Rightarrow> Result_data \<Rightarrow> int \<Rightarrow> query" where
  "Get_results_hist oom job_result result sz data size_ret =
     (if oom \<and> shots job_result \<noteq> [] then Inl Bad_Alloc_Thrown else
      let hist = histogram (shots job_result) in
      if result = val_JOB_RESULT QDMI_JOB_RESULT_HIST_KEYS then
        let bitstring_size = (if shots job_result = [] then 0 else length (hd (shots job_result)));
            req_size = size_mul (length hist) (bitstring_size + 1)
        in (case data of
              None \<Rightarrow> Inr (QDMI_SUCCESS, None, store_size size_ret req_size)
            | Some mem \<Rightarrow>
                if hist = [] then Inr (QDMI_SUCCESS, Some mem, store_size size_ret req_size)
                else if sz < req_size
                then Inr (QDMI_ERROR_INVALIDARGUMENT, Some mem, store_size size_ret req_size)
                else bind_o (write_at 0
                    (butlast (concat (map (\<lambda>(k, _). k @ '','') hist)) @ [NUL]) mem) (\<lambda>mem'.
                  Inr (QDMI_SUCCESS, Some mem', store_size size_ret req_size)))
      else
        let req_size = size_mul (length hist) 8
        in (case data of
              None \<Rightarrow> Inr (QDMI_SUCCESS, None, store_size size_ret req_size)
            | Some mem \<Rightarrow>
                if sz < req_size
                then Inr (QDMI_ERROR_INVALIDARGUMENT, Some mem, store_size size_ret req_size)
                else bind_o (write_at 0 (concat (map (\<lambda>(_, n). le64 n) hist)) mem) (\<lambda>mem'.
                  Inr (QDMI_SUCCESS, Some mem', store_size size_ret req_size))))"

definition complex_bytes :: "double \<times> double \<Rightarrow> char list" where
  "complex_bytes c = double_bytes (fst c) @ double_bytes (snd c)"

definition Get_results_statevector :: "Result_data \<Rightarrow> query" where
  "Get_results_statevector result =
     result_body (size_mul (size_mul (length (state_vec result)) 2) 8)
       (Inr (concat (map complex_bytes (state_vec result))))"

text \<open>
  \<open>1 << k\<close> has type \<open>int\<close>: a bit for \<open>k < 31\<close>, the sign bit, extended to \<open>size_t\<close>, for 31, and
  undefined from the width on.
\<close>

definition mask_bit :: "nat \<Rightarrow> nat \<Rightarrow> bool" where
  "mask_bit i k \<longleftrightarrow> (if k < 31 then bit i k else drop_bit 31 i \<noteq> 0)"

definition sparse_key :: "nat \<Rightarrow> nat \<Rightarrow> string" where
  "sparse_key num_qubits i =
     map (\<lambda>j. if mask_bit i (num_qubits - j - 1) then CHR ''1'' else CHR ''0'') [0..<num_qubits]"

definition nonzero_indices :: "(double \<times> double) list \<Rightarrow> nat list" where
  "nonzero_indices sv = filter (\<lambda>i. complex_nonzero (sv ! i)) [0..<length sv]"

text \<open>The keys; with none the replacement of the last comma writes in front of the buffer.\<close>

definition sparse_keys :: "nat \<Rightarrow> nat list \<Rightarrow> char list outcome" where
  "sparse_keys num_qubits is =
     (if is = [] then Inl Buffer_Overflow
      else if 32 < num_qubits then Inl Bad_Shift
      else Inr (butlast (concat (map (\<lambda>i. sparse_key num_qubits i @ '','') is)) @ [NUL]))"

fun floor_log2 :: "nat \<Rightarrow> nat" where
  "floor_log2 n = (if n < 2 then 0 else Suc (floor_log2 (n div 2)))"

declare floor_log2.simps [simp del]

text \<open>\<open>log2\<close> of 0 is minus infinity, which no \<open>size_t\<close> can hold.\<close>

definition Get_results_sparse :: "cxx_env \<Rightarrow> Result_data \<Rightarrow> int \<Rightarrow> query" where
  "Get_results_sparse env job_result result sz data size_ret =
     (let sv = state_vec job_result;
          is = nonzero_indices sv;
          count = length is
      in if sv = [] then Inl Bad_Conversion
      else let num_qubits = floor_log2 (length sv) in
        if result = val_JOB_RESULT QDMI_JOB_RESULT_STATEVECTOR_SPARSE_KEYS \<or>
           result = val_JOB_RESULT QDMI_JOB_RESULT_PROBABILITIES_SPARSE_KEYS
        then result_body (size_mul count (num_qubits + 1)) (sparse_keys num_qubits is)
               sz data size_ret
        else if result = val_JOB_RESULT QDMI_JOB_RESULT_STATEVECTOR_SPARSE_VALUES
        then result_body (size_mul (size_mul count 2) 8)
               (Inr (concat (map (\<lambda>i. complex_bytes (sv ! i)) is))) sz data size_ret
        else result_body (size_mul count 8)
               (Inr (concat (map (\<lambda>c. double_bytes (complex_norm env c)) sv))) sz data size_ret)"

definition Get_results_probabilities :: "cxx_env \<Rightarrow> Result_data \<Rightarrow> query" where
  "Get_results_probabilities env result =
     result_body (size_mul (length (state_vec result)) 8)
       (Inr (concat (map (\<lambda>c. double_bytes (complex_norm env c)) (state_vec result))))"

definition CXX_QDMI_device_job_get_results ::
  "bool \<Rightarrow> cxx_env \<Rightarrow> cxx_state \<Rightarrow> ptr \<Rightarrow> nat \<Rightarrow> int \<Rightarrow> query" where
  [cxx_defs]: "CXX_QDMI_device_job_get_results oom env st job program_index result sz data size_ret =
     (if job = nullptr \<or> data \<noteq> None \<and> sz = 0 \<or>
         QDMI_IS_INVALID_ENUM_VALUE result prefix_JOB_RESULT
      then reject QDMI_ERROR_INVALIDARGUMENT data
      else bind_o (deref (jobs st) job) (\<lambda>j.
        if length (programs j) \<le> program_index then reject QDMI_ERROR_OUTOFRANGE data
        else if j_status j \<noteq> QDMI_JOB_STATUS_DONE then reject QDMI_ERROR_BADSTATE data
        else if length (results j) \<le> program_index then Inl Out_Of_Bounds
        else let program_result = results j ! program_index in
          if result = val_JOB_RESULT QDMI_JOB_RESULT_SHOTS
          then Get_results_shots program_result sz data size_ret
          else if result = val_JOB_RESULT QDMI_JOB_RESULT_HIST_KEYS \<or>
                  result = val_JOB_RESULT QDMI_JOB_RESULT_HIST_VALUES
          then Get_results_hist oom program_result result sz data size_ret
          else if result = val_JOB_RESULT QDMI_JOB_RESULT_STATEVECTOR_DENSE
          then Get_results_statevector program_result sz data size_ret
          else if result = val_JOB_RESULT QDMI_JOB_RESULT_STATEVECTOR_SPARSE_KEYS \<or>
                  result = val_JOB_RESULT QDMI_JOB_RESULT_STATEVECTOR_SPARSE_VALUES \<or>
                  result = val_JOB_RESULT QDMI_JOB_RESULT_PROBABILITIES_SPARSE_KEYS \<or>
                  result = val_JOB_RESULT QDMI_JOB_RESULT_PROBABILITIES_SPARSE_VALUES
          then Get_results_sparse env program_result result sz data size_ret
          else if result = val_JOB_RESULT QDMI_JOB_RESULT_PROBABILITIES_DENSE
          then Get_results_probabilities env program_result sz data size_ret
          else reject QDMI_ERROR_NOTSUPPORTED data))"

section \<open>Comma-separated lists\<close>

interpretation result: sized_query "result_body (length bs) (Inr bs)" bs for bs
  by unfold_locales (auto simp: result_body_def write_at_fits)

text \<open>How a client reads a list: fields end at a comma, the list at the NUL.\<close>

fun split_fields :: "string \<Rightarrow> char list \<Rightarrow> string list" where
  "split_fields acc [] = []"
| "split_fields acc (c # cs) =
     (if c = NUL then [acc]
      else if c = CHR '','' then acc # split_fields [] cs
      else split_fields (acc @ [c]) cs)"

definition field_ok :: "string \<Rightarrow> bool" where
  "field_ok s \<longleftrightarrow> NUL \<notin> set s \<and> CHR '','' \<notin> set s"

lemma split_fields_skip: "field_ok s \<Longrightarrow> split_fields acc (s @ cs) = split_fields (acc @ s) cs"
  by (induction s arbitrary: acc) (auto simp: field_ok_def)

lemma split_join_commas:
  "ss \<noteq> [] \<Longrightarrow> list_all field_ok ss \<Longrightarrow> split_fields [] (join_commas ss @ rest) = ss"
  by (induction ss rule: join_commas.induct) (simp_all add: split_fields_skip)

lemma length_join_commas: "length (join_commas ss) = sum_list (map (\<lambda>s. length s + 1) ss)"
  by (induction ss rule: join_commas.induct) auto

lemma length_join_commas_const:
  "list_all (\<lambda>s. length s = n) ss \<Longrightarrow> length (join_commas ss) = length ss * (n + 1)"
  by (induction ss rule: join_commas.induct) auto

lemma trailing_comma:
  "ss \<noteq> [] \<Longrightarrow> butlast (concat (map (\<lambda>s. s @ '','') ss)) @ [NUL] = join_commas ss"
proof (induction ss rule: join_commas.induct)
  case (2 s)
  then show ?case by (simp add: butlast_append)
next
  case (3 s t ss)
  have "concat (map (\<lambda>s. s @ '','') (t # ss)) \<noteq> []" by simp
  then show ?case using 3 by (simp add: butlast_append)
qed simp

section \<open>Histograms\<close>

lemma hist_incr_keys: "set (map fst (hist_incr k h)) = insert k (set (map fst h))"
  by (induction k h rule: hist_incr.induct) auto

lemma hist_incr_sorted:
  "sorted_wrt (<) (map fst h) \<Longrightarrow> sorted_wrt (<) (map fst (hist_incr k h))"
proof (induction k h rule: hist_incr.induct)
  case (2 k k' n h)
  then show ?case using hist_incr_keys [of k h] by (auto simp del: set_map dest: less_trans)
qed simp

lemma hist_incr_sum: "sum_list (map snd (hist_incr k h)) = Suc (sum_list (map snd h))"
  by (induction k h rule: hist_incr.induct) auto

lemma hist_incr_map_of:
  "sorted_wrt (<) (map fst h) \<Longrightarrow>
     map_of (hist_incr k h) x =
       (if x = k then Some (case map_of h k of None \<Rightarrow> 1 | Some n \<Rightarrow> n + 1) else map_of h x)"
proof (induction k h rule: hist_incr.induct)
  case (2 k k' n h)
  have "map_of h k = None" if "k < k'"
    using 2(2) that by (auto simp: map_of_eq_None_iff)
  then show ?case using 2 by (auto split: option.splits)
qed simp

definition hist_ok :: "string list \<Rightarrow> (string \<times> nat) list \<Rightarrow> bool" where
  "hist_ok ss h \<longleftrightarrow> sorted_wrt (<) (map fst h) \<and> set (map fst h) = set ss \<and>
     (\<forall>s. map_of h s = (if s \<in> set ss then Some (count_list ss s) else None)) \<and>
     sum_list (map snd h) = length ss"

lemma hist_ok_incr:
  assumes "hist_ok ss h"
  shows "hist_ok (ss @ [k]) (hist_incr k h)"
proof -
  have sorted: "sorted_wrt (<) (map fst h)" and keys: "set (map fst h) = set ss"
    and map_of: "\<And>s. map_of h s = (if s \<in> set ss then Some (count_list ss s) else None)"
    and sum: "sum_list (map snd h) = length ss"
    using assms by (auto simp: hist_ok_def)
  have "map_of (hist_incr k h) s =
      (if s \<in> set (ss @ [k]) then Some (count_list (ss @ [k]) s) else None)" for s
    by (simp add: hist_incr_map_of [OF sorted] map_of)
  moreover have "set (map fst (hist_incr k h)) = set (ss @ [k])"
    unfolding hist_incr_keys keys by simp
  moreover have "sum_list (map snd (hist_incr k h)) = length (ss @ [k])"
    unfolding hist_incr_sum sum by simp
  moreover have "sorted_wrt (<) (map fst (hist_incr k h))"
    by (rule hist_incr_sorted [OF sorted])
  ultimately show ?thesis unfolding hist_ok_def by (intro conjI allI)
qed

lemma foldl_hist_ok: "hist_ok ss h \<Longrightarrow> hist_ok (ss @ ts) (foldl (\<lambda>h s. hist_incr s h) h ts)"
proof (induction ts arbitrary: ss h)
  case (Cons t ts)
  then show ?case using Cons.IH [OF hist_ok_incr [OF Cons.prems, of t]] by simp
qed simp

lemma histogram_ok: "hist_ok ss (histogram ss)"
  using foldl_hist_ok [of "[]" "[]" ss] by (simp add: histogram_def hist_ok_def)

lemma histogram_fst: "set (map fst (histogram ss)) = set ss"
  using histogram_ok [of ss] by (simp add: hist_ok_def)

lemma histogram_Nil_iff: "histogram ss = [] \<longleftrightarrow> ss = []"
  using histogram_fst [of ss] by auto

lemma histogram_length: "length (histogram ss) \<le> length ss"
proof -
  have "distinct (map fst (histogram ss))"
    using histogram_ok [of ss] by (auto simp: hist_ok_def strict_sorted_iff)
  then have "length (histogram ss) = card (set ss)"
    using distinct_card [of "map fst (histogram ss)"] histogram_fst [of ss] by simp
  then show ?thesis by (simp add: card_length)
qed

section \<open>Keys of sparse vectors\<close>

text \<open>The number a key stands for, most significant bit first.\<close>

definition key_index :: "string \<Rightarrow> nat" where
  "key_index s = foldl (\<lambda>a c. 2 * a + (if c = CHR ''1'' then 1 else 0)) 0 s"

lemma sparse_key_Suc:
  "sparse_key (Suc n) i = (if mask_bit i n then CHR ''1'' else CHR ''0'') # sparse_key n i"
  by (simp add: sparse_key_def upt_conv_Cons map_Suc_upt [symmetric] del: upt_Suc)

lemma length_sparse_key [simp]: "length (sparse_key n i) = n"
  by (simp add: sparse_key_def)

lemma foldl_bits:
  "foldl (\<lambda>a c. 2 * a + g c) (a::nat) s = a * 2 ^ length s + foldl (\<lambda>a c. 2 * a + g c) 0 s"
proof (induction s arbitrary: a)
  case (Cons c s)
  show ?case using Cons [of "2 * a + g c"] Cons [of "g c"] by (simp add: algebra_simps)
qed simp

lemma key_index_Cons:
  "key_index (c # s) = (if c = CHR ''1'' then 2 ^ length s else 0) + key_index s"
  using foldl_bits [of "\<lambda>c. if c = CHR ''1'' then 1 else 0" 1 s] by (simp add: key_index_def)

lemma key_index_sparse_key: "n \<le> 31 \<Longrightarrow> key_index (sparse_key n i) = i mod 2 ^ n"
proof (induction n)
  case 0
  then show ?case by (simp add: sparse_key_def key_index_def)
next
  case (Suc n)
  have "i mod 2 ^ Suc n = of_bool (bit i n) * 2 ^ n + i mod 2 ^ n"
    by (metis add.commute mult.commute take_bit_Suc_from_most take_bit_eq_mod)
  moreover have "key_index (sparse_key (Suc n) i) = of_bool (bit i n) * 2 ^ n + i mod 2 ^ n"
    using Suc by (simp add: sparse_key_Suc key_index_Cons mask_bit_def)
  ultimately show ?case by simp
qed

lemma sparse_key_field: "field_ok (sparse_key n i)"
  by (auto simp: field_ok_def sparse_key_def)

section \<open>What a stored result is answered with\<close>

fun result_payload :: "cxx_env \<Rightarrow> Result_data \<Rightarrow> QDMI_JOB_RESULT_T \<Rightarrow> char list option" where
  "result_payload env r QDMI_JOB_RESULT_SHOTS = Some (join_commas (shots r))"
| "result_payload env r QDMI_JOB_RESULT_HIST_KEYS =
     Some (join_commas (map fst (histogram (shots r))))"
| "result_payload env r QDMI_JOB_RESULT_HIST_VALUES =
     Some (concat (map (\<lambda>(_, n). le64 n) (histogram (shots r))))"
| "result_payload env r QDMI_JOB_RESULT_STATEVECTOR_DENSE =
     Some (concat (map complex_bytes (state_vec r)))"
| "result_payload env r QDMI_JOB_RESULT_PROBABILITIES_DENSE =
     Some (concat (map (\<lambda>c. double_bytes (complex_norm env c)) (state_vec r)))"
| "result_payload env r QDMI_JOB_RESULT_STATEVECTOR_SPARSE_KEYS =
     (let is = nonzero_indices (state_vec r) in
      if is = [] then None else Some (join_commas (map (sparse_key 5) is)))"
| "result_payload env r QDMI_JOB_RESULT_PROBABILITIES_SPARSE_KEYS =
     (let is = nonzero_indices (state_vec r) in
      if is = [] then None else Some (join_commas (map (sparse_key 5) is)))"
| "result_payload env r QDMI_JOB_RESULT_STATEVECTOR_SPARSE_VALUES =
     Some (concat (map (\<lambda>i. complex_bytes (state_vec r ! i)) (nonzero_indices (state_vec r))))"
| "result_payload env r QDMI_JOB_RESULT_PROBABILITIES_SPARSE_VALUES =
     (if list_all complex_nonzero (state_vec r)
      then Some (concat (map (\<lambda>c. double_bytes (complex_norm env c)) (state_vec r))) else None)"
| "result_payload env r _ = None"

lemma result_body_eq: "n = length bs \<Longrightarrow> sized_query (result_body n (Inr bs)) bs"
  using result.sized_query_axioms by simp

lemma length_complex_bytes [simp]: "length (complex_bytes c) = 16"
  by (simp add: complex_bytes_def)

lemma length_nonzero_indices: "length (nonzero_indices sv) \<le> length sv"
  using length_filter_le [of "\<lambda>i. complex_nonzero (sv ! i)" "[0..<length sv]"]
  by (simp add: nonzero_indices_def)

lemma shots_sized:
  assumes "result_ok n r"
  shows "sized_query (Get_results_shots r) (join_commas (shots r))"
proof (cases "shots r = []")
  case True
  then show ?thesis by unfold_locales (auto simp: Get_results_shots_def)
next
  case False
  obtain s where s: "shot_ok s" "shots r = replicate n s" and n: "n \<le> max_shots"
    using assms by (auto simp: result_ok_def)
  have "list_all (\<lambda>t. length t = 5) (shots r)" using s by (auto simp: shot_ok_def list_all_iff)
  then have len: "length (join_commas (shots r)) = length (shots r) * (5 + 1)"
    by (rule length_join_commas_const)
  have "length (hd (shots r)) = 5" using s False by (simp add: shot_ok_def)
  then have "size_mul (length (shots r)) (length (hd (shots r)) + 1) =
      length (join_commas (shots r))"
    using n s(2) len by (simp add: size_mul_def max_shots_def)
  then have "sized_query (result_body (size_mul (length (shots r)) (length (hd (shots r)) + 1))
      (Inr (join_commas (shots r)))) (join_commas (shots r))"
    by (rule result_body_eq)
  then show ?thesis using False by (auto simp: Get_results_shots_def sized_query_def)
qed

lemma hist_keys_sized:
  assumes "result_ok n r"
  shows "sized_query (Get_results_hist False r (val_JOB_RESULT QDMI_JOB_RESULT_HIST_KEYS))
     (join_commas (map fst (histogram (shots r))))"
proof -
  obtain s where s: "shot_ok s" "shots r = replicate n s" and n: "n \<le> max_shots"
    using assms by (auto simp: result_ok_def)
  let ?h = "histogram (shots r)"
  have "set (map fst ?h) \<subseteq> {s}" using histogram_fst [of "shots r"] s(2) by auto
  then have "list_all (\<lambda>t. length t = 5) (map fst ?h)"
    using s(1) by (auto simp: list_all_iff shot_ok_def)
  then have len: "length (join_commas (map fst ?h)) = length (map fst ?h) * (5 + 1)"
    by (rule length_join_commas_const)
  have "length ?h \<le> max_shots" using histogram_length [of "shots r"] s(2) n by simp
  then have req: "size_mul (length ?h) (5 + 1) = length (join_commas (map fst ?h))"
    using len by (simp add: size_mul_def max_shots_def)
  have keys: "butlast (concat (map (\<lambda>(k, _). k @ '','') ?h)) @ [NUL] = join_commas (map fst ?h)"
    if "?h \<noteq> []" using trailing_comma [of "map fst ?h"] that by (simp add: comp_def split_def)
  show ?thesis
  proof (cases "shots r = []")
    case True
    then have "?h = []" by (simp add: histogram_Nil_iff)
    then show ?thesis using True
      by unfold_locales (auto simp: Get_results_hist_def Let_def size_mul_def)
  next
    case False
    then have "length (hd (shots r)) = 5" and "?h \<noteq> []"
      using s by (simp_all add: shot_ok_def histogram_Nil_iff)
    then show ?thesis using False keys req
      by unfold_locales (auto simp: Get_results_hist_def Let_def write_at_fits)
  qed
qed

lemma hist_values_sized:
  assumes "result_ok n r"
  shows "sized_query (Get_results_hist False r (val_JOB_RESULT QDMI_JOB_RESULT_HIST_VALUES))
     (concat (map (\<lambda>(_, n). le64 n) (histogram (shots r))))"
proof -
  let ?h = "histogram (shots r)"
  have "length ?h \<le> max_shots"
    using histogram_length [of "shots r"] assms by (auto simp: result_ok_def)
  moreover have "length (concat (map (\<lambda>(_, n). le64 n) ?h)) = 8 * length ?h"
    by (rule length_concat_map_const) auto
  ultimately have "size_mul (length ?h) 8 = length (concat (map (\<lambda>(_, n). le64 n) ?h))"
    by (simp add: size_mul_def max_shots_def)
  then show ?thesis
    by unfold_locales (auto simp: Get_results_hist_def Let_def write_at_fits)
qed

lemma floor_log2_32: "floor_log2 32 = 5"
  by (simp add: floor_log2.simps)

lemma sparse_eq:
  assumes "length (state_vec r) = 32"
  shows "Get_results_sparse env r res =
    (let is = nonzero_indices (state_vec r) in
     if res = val_JOB_RESULT QDMI_JOB_RESULT_STATEVECTOR_SPARSE_KEYS \<or>
        res = val_JOB_RESULT QDMI_JOB_RESULT_PROBABILITIES_SPARSE_KEYS
     then result_body (size_mul (length is) 6) (sparse_keys 5 is)
     else if res = val_JOB_RESULT QDMI_JOB_RESULT_STATEVECTOR_SPARSE_VALUES
     then result_body (size_mul (size_mul (length is) 2) 8)
       (Inr (concat (map (\<lambda>i. complex_bytes (state_vec r ! i)) is)))
     else result_body (size_mul (length is) 8)
       (Inr (concat (map (\<lambda>c. double_bytes (complex_norm env c)) (state_vec r)))))"
proof -
  have "state_vec r \<noteq> []" using assms by auto
  then show ?thesis
    by (simp add: fun_eq_iff Get_results_sparse_def Let_def floor_log2_32 assms)
qed

lemma sparse_sized:
  assumes "length (state_vec r) = 32" and "result_payload env r k = Some bs"
    and "k \<in> {QDMI_JOB_RESULT_STATEVECTOR_SPARSE_KEYS, QDMI_JOB_RESULT_PROBABILITIES_SPARSE_KEYS,
      QDMI_JOB_RESULT_STATEVECTOR_SPARSE_VALUES, QDMI_JOB_RESULT_PROBABILITIES_SPARSE_VALUES}"
  shows "sized_query (Get_results_sparse env r (val_JOB_RESULT k)) bs"
proof -
  let ?is = "nonzero_indices (state_vec r)"
  have small: "length ?is \<le> 32" using length_nonzero_indices [of "state_vec r"] assms(1) by simp
  have keys: "sized_query (result_body (size_mul (length ?is) 6) (sparse_keys 5 ?is))
      (join_commas (map (sparse_key 5) ?is))" if "?is \<noteq> []"
  proof -
    have "length (join_commas (map (sparse_key 5) ?is)) = length ?is * 6"
      using length_join_commas_const [of 5 "map (sparse_key 5) ?is"] by (simp add: list_all_iff)
    moreover have "sparse_keys 5 ?is = Inr (join_commas (map (sparse_key 5) ?is))"
      using that trailing_comma [of "map (sparse_key 5) ?is"]
      by (simp add: sparse_keys_def comp_def)
    ultimately show ?thesis using small by (simp add: result_body_eq size_mul_def)
  qed
  have vals: "length (concat (map (\<lambda>i. complex_bytes (state_vec r ! i)) ?is)) = 16 * length ?is"
    by (rule length_concat_map_const) simp
  have probs: "length (concat (map (\<lambda>c. double_bytes (complex_norm env c)) (state_vec r))) = 256"
    using length_concat_map_const [of "state_vec r"
        "\<lambda>c. double_bytes (complex_norm env c)" 8] assms(1) by simp
  have all: "length ?is = 32" if "list_all complex_nonzero (state_vec r)"
    using that assms(1) by (simp add: nonzero_indices_def list_all_length)
  note eq = sparse_eq [OF assms(1)]
  have entries: "sized_query (result_body (size_mul (size_mul (length ?is) 2) 8)
      (Inr (concat (map (\<lambda>i. complex_bytes (state_vec r ! i)) ?is))))
      (concat (map (\<lambda>i. complex_bytes (state_vec r ! i)) ?is))"
    using small vals by (intro result_body_eq) (simp add: size_mul_def)
  have norms: "sized_query (result_body (size_mul (length ?is) 8)
      (Inr (concat (map (\<lambda>c. double_bytes (complex_norm env c)) (state_vec r)))))
      (concat (map (\<lambda>c. double_bytes (complex_norm env c)) (state_vec r)))"
    if "list_all complex_nonzero (state_vec r)"
    using all [OF that] probs by (intro result_body_eq) (simp add: size_mul_def)
  show ?thesis
    using assms(2,3) keys entries norms unfolding eq by (auto simp: Let_def split: if_splits)
qed

lemma get_results_eq:
  assumes "p \<noteq> nullptr" and "jobs st p = Some j" and "j_status j = QDMI_JOB_STATUS_DONE"
    and "i < length (programs j)" and "i < length (results j)"
    and "type_JOB_RESULT k \<noteq> None" and "v \<noteq> None \<longrightarrow> 0 < sz"
  shows "CXX_QDMI_device_job_get_results oom env st p i (val_JOB_RESULT k) sz v sr =
      (case k of
         QDMI_JOB_RESULT_SHOTS \<Rightarrow> Get_results_shots (results j ! i) sz v sr
       | QDMI_JOB_RESULT_HIST_KEYS \<Rightarrow> Get_results_hist oom (results j ! i) (val_JOB_RESULT k) sz v sr
       | QDMI_JOB_RESULT_HIST_VALUES \<Rightarrow> Get_results_hist oom (results j ! i) (val_JOB_RESULT k) sz v sr
       | QDMI_JOB_RESULT_STATEVECTOR_DENSE \<Rightarrow> Get_results_statevector (results j ! i) sz v sr
       | QDMI_JOB_RESULT_PROBABILITIES_DENSE \<Rightarrow>
           Get_results_probabilities env (results j ! i) sz v sr
       | _ \<Rightarrow> Get_results_sparse env (results j ! i) (val_JOB_RESULT k) sz v sr)"
  using assms
  by (cases k) (auto simp: CXX_QDMI_device_job_get_results_def deref_def invalid_enum_simps)

lemma result_payload_type: "result_payload env r k = Some bs \<Longrightarrow> type_JOB_RESULT k \<noteq> None"
  by (cases k) auto

lemma get_results_sized:
  assumes "cxx_inv st" and "jobs st p = Some j" and "j_status j = QDMI_JOB_STATUS_DONE"
    and "results j \<noteq> []" and "i < length (programs j)"
    and "result_payload env (results j ! i) k = Some bs"
  shows "sized_query (CXX_QDMI_device_job_get_results False env st p i (val_JOB_RESULT k)) bs"
proof -
  let ?r = "results j ! i"
  have p: "p \<noteq> nullptr" using assms(1,2) heap_ok_live_nonnull by (auto simp: cxx_inv_def)
  have "results_ok j" using assms(1,2,4) by (auto simp: cxx_inv_def jobs_ok_def job_ok_def)
  then have i: "i < length (results j)" and ok: "result_ok (num_shots j) ?r"
    using assms(5) by (auto simp: results_ok_def list_all_length)
  then have sv: "length (state_vec ?r) = 32" by (auto simp: result_ok_def)
  note query = get_results_eq [OF p assms(2,3,5) i result_payload_type [OF assms(6)]]
  have dense: "sized_query (Get_results_statevector ?r)
      (concat (map complex_bytes (state_vec ?r)))"
    using length_concat_map_const [of "state_vec ?r" complex_bytes 16] sv
    unfolding Get_results_statevector_def by (intro result_body_eq) (simp add: size_mul_def)
  have norms: "sized_query (Get_results_probabilities env ?r)
      (concat (map (\<lambda>c. double_bytes (complex_norm env c)) (state_vec ?r)))"
    using length_concat_map_const [of "state_vec ?r" "\<lambda>c. double_bytes (complex_norm env c)" 8] sv
    unfolding Get_results_probabilities_def by (intro result_body_eq) (simp add: size_mul_def)
  show ?thesis
  proof (rule sized_query_cong [OF _ query])
    show "sized_query (\<lambda>sz v sr. case k of
         QDMI_JOB_RESULT_SHOTS \<Rightarrow> Get_results_shots ?r sz v sr
       | QDMI_JOB_RESULT_HIST_KEYS \<Rightarrow> Get_results_hist False ?r (val_JOB_RESULT k) sz v sr
       | QDMI_JOB_RESULT_HIST_VALUES \<Rightarrow> Get_results_hist False ?r (val_JOB_RESULT k) sz v sr
       | QDMI_JOB_RESULT_STATEVECTOR_DENSE \<Rightarrow> Get_results_statevector ?r sz v sr
       | QDMI_JOB_RESULT_PROBABILITIES_DENSE \<Rightarrow> Get_results_probabilities env ?r sz v sr
       | _ \<Rightarrow> Get_results_sparse env ?r (val_JOB_RESULT k) sz v sr) bs"
      using assms(6) shots_sized [OF ok] hist_keys_sized [OF ok] hist_values_sized [OF ok]
        sparse_sized [OF sv assms(6)] dense norms
      by (cases k) auto
  qed
qed

section \<open>Reading the results back\<close>

lemma shots_round_trip:
  assumes "result_ok n r" and "0 < n"
  shows "split_fields [] (join_commas (shots r)) = shots r"
proof -
  have "list_all field_ok (shots r)"
    using assms by (auto simp: result_ok_def shot_ok_def field_ok_def list_all_iff)
  then show ?thesis
    using split_join_commas [of "shots r" "[]"] assms by (auto simp: result_ok_def)
qed

lemma sparse_keys_round_trip:
  assumes "length sv = 32" and "nonzero_indices sv \<noteq> []"
  shows "map key_index (split_fields [] (join_commas (map (sparse_key 5) (nonzero_indices sv)))) =
     nonzero_indices sv"
proof -
  have "split_fields [] (join_commas (map (sparse_key 5) (nonzero_indices sv))) =
      map (sparse_key 5) (nonzero_indices sv)"
    using split_join_commas [of "map (sparse_key 5) (nonzero_indices sv)" "[]"] assms(2)
    by (simp add: list_all_iff sparse_key_field)
  moreover have "map (\<lambda>i. key_index (sparse_key 5 i)) (nonzero_indices sv) = nonzero_indices sv"
    using assms(1) by (auto simp: key_index_sparse_key nonzero_indices_def intro!: map_idI)
  ultimately show ?thesis by (simp add: comp_def)
qed

lemma histogram_round_trip:
  assumes "result_ok n r" and "0 < n"
  defines "h \<equiv> histogram (shots r)"
  shows "zip (split_fields [] (join_commas (map fst h)))
     (map of_le_bytes (chunks 8 (length (split_fields [] (join_commas (map fst h))))
       (concat (map (\<lambda>(_, n). le64 n) h)))) = h"
proof -
  have ne: "shots r \<noteq> []" and len: "length (shots r) \<le> max_shots"
    and field: "s \<in> set (shots r) \<Longrightarrow> field_ok s" for s
    using assms(1,2) by (auto simp: result_ok_def shot_ok_def field_ok_def split: if_splits)
  have "map fst h \<noteq> []" using ne by (simp add: h_def histogram_Nil_iff)
  moreover have "list_all field_ok (map fst h)"
    using field histogram_fst [of "shots r"] by (simp add: h_def list_all_iff del: set_map)
  ultimately have keys: "split_fields [] (join_commas (map fst h)) = map fst h"
    using split_join_commas [of "map fst h" "[]"] by simp
  have "snd e < 2 ^ 64" if "e \<in> set h" for e
  proof -
    have "snd e \<le> sum_list (map snd h)" using that by (intro member_le_sum_list) auto
    also have "\<dots> = length (shots r)" using histogram_ok [of "shots r"] by (simp add: hist_ok_def h_def)
    finally show ?thesis using len by (simp add: max_shots_def)
  qed
  then have vals: "map (of_le_bytes \<circ> (\<lambda>(_, n). le64 n)) h = map snd h"
    by (auto simp: bytes_simps)
  have parts: "chunks 8 (length h) (concat (map (\<lambda>(_, n). le64 n) h)) = map (\<lambda>(_, n). le64 n) h"
    using chunks_concat [of h "\<lambda>(_, n). le64 n" 8 "[]"] by auto
  show ?thesis unfolding keys length_map parts map_map vals by (rule zip_map_fst_snd)
qed

lemma nonzero_indices_less:
  assumes "\<not> list_all complex_nonzero sv"
  shows "length (nonzero_indices sv) < length sv"
proof -
  obtain i where "i < length sv" and "\<not> complex_nonzero (sv ! i)"
    using assms by (auto simp: list_all_length)
  then have "length (filter (\<lambda>i. complex_nonzero (sv ! i)) [0..<length sv]) < length [0..<length sv]"
    by (intro length_filter_less [of i]) auto
  then show ?thesis by (simp add: nonzero_indices_def)
qed

lemma sparse_values_query:
  assumes "cxx_inv st" and "jobs st p = Some j" and "j_status j = QDMI_JOB_STATUS_DONE"
    and "i < length (programs j)" and "i < length (results j)"
    and "length (state_vec (results j ! i)) = 32" and "v \<noteq> None \<longrightarrow> 0 < sz"
  shows "CXX_QDMI_device_job_get_results oom env st p i
      (val_JOB_RESULT QDMI_JOB_RESULT_PROBABILITIES_SPARSE_VALUES) sz v sr =
    result_body (size_mul (length (nonzero_indices (state_vec (results j ! i)))) 8)
      (Inr (concat (map (\<lambda>c. double_bytes (complex_norm env c)) (state_vec (results j ! i)))))
      sz v sr"
proof -
  have "p \<noteq> nullptr" using assms(1,2) heap_ok_live_nonnull by (auto simp: cxx_inv_def)
  then show ?thesis
    using get_results_eq [OF _ assms(2-5), of QDMI_JOB_RESULT_PROBABILITIES_SPARSE_VALUES v sz oom env sr]
      assms(7) by (simp add: sparse_eq [OF assms(6)] Let_def)
qed

end
