(* ===== verification/Cxx_Samples.thy ===== *)
theory Cxx_Samples
  imports Cxx_Results
begin

text \<open>
  A concrete run of the example device, on which the hypotheses of the properties are shown to
  hold: a session with a token, a job with one program and three shots, its submission and its
  end. The environment's engine counts, its draws of amplitudes are 0 for the first amplitude and
  1 (\<open>0x3FF0000000000000\<close>) for the others, and its arithmetic keeps the first operand.
\<close>

definition sample_env :: cxx_env where
  "sample_env =
     \<lparr>device_id = ''cxx'', device_version = ''1.0.0'', library_version = ''1.4.0'',
      dis = (\<lambda>g. (int g, g + 1)), dis_bin = (\<lambda>g. (odd g, g + 1)),
      dis_real = (\<lambda>g. (if g < 80336 then 0 else 0x3FF0000000000000, g + 1)),
      fp_add = (\<lambda>a b. a), fp_mul = (\<lambda>a b. a), fp_div = (\<lambda>a b. a), fp_sqrt = (\<lambda>a. a)\<rparr>"

definition sample_program :: region where
  "sample_program = ''OPENQASM'' @ [NUL]"

definition sample_calls :: "cxx_call list" where
  "sample_calls =
     [Device_initialize, Session_alloc False True, Session_set_parameter False 65536 1 3 (Some ''key''),
      Session_init 65536, Create_device_job False 65536 True,
      Job_set_parameter 65537 2 8 (Some (le64 3)),
      Job_set_programs (\<lambda>_. False) 65537 0 1 (Some [9]) (Some [Some sample_program])]"

definition sample_job :: CXX_QDMI_Device_Job_impl_d where
  "sample_job =
     \<lparr>j_session = 65536, j_id = 80333, j_format = 0, programs = [sample_program],
      j_status = QDMI_JOB_STATUS_CREATED, num_shots = 3, results = []\<rparr>"

definition sample_state :: cxx_state where
  "sample_state =
     \<lparr>d_status = QDMI_DEVICE_STATUS_IDLE, gen = 80334,
      sessions = [65536 \<mapsto> \<lparr>token = ''key'', s_status = INITIALIZED\<rparr>],
      jobs = [65537 \<mapsto> sample_job], heap_next = 65538\<rparr>"

definition sample_result :: Result_data where
  "sample_result =
     \<lparr>shots = [''00001'', ''00001'', ''00001''],
      state_vec = (0, 0) # replicate 31 (0x3FF0000000000000, 0x3FF0000000000000)\<rparr>"

definition running_job :: CXX_QDMI_Device_Job_impl_d where
  "running_job =
     sample_job\<lparr>results := [sample_result], j_status := QDMI_JOB_STATUS_RUNNING\<rparr>"

definition done_job :: CXX_QDMI_Device_Job_impl_d where
  "done_job = running_job\<lparr>j_status := QDMI_JOB_STATUS_DONE\<rparr>"

definition running_state :: cxx_state where
  "running_state =
     sample_state\<lparr>d_status := QDMI_DEVICE_STATUS_BUSY, gen := 80398, jobs := [65537 \<mapsto> running_job]\<rparr>"

definition done_state :: cxx_state where
  "done_state =
     sample_state\<lparr>gen := 80398, jobs := [65537 \<mapsto> done_job]\<rparr>"

lemmas sample_defs =
  sample_calls_def sample_env_def sample_state_def sample_job_def sample_program_def
  sample_result_def running_job_def done_job_def running_state_def done_state_def

lemma sample_runs: "exec_all sample_env sample_calls cxx_init = Inr sample_state"
  by (simp add: sample_defs cxx_init_def heap_base_def last_of_def last_of3_def cxx_defs
      cxx_private_defs deref_def invalid_enum_simps new_session_def new_job_def
      SUPPORTED_PROGRAM_FORMATS_def max_programs_def bytes_simps)

lemma sample_reachable: "cxx_reachable sample_env sample_state"
  using exec_all_reachable [OF cxx_reachable.start sample_runs] .

lemma sample_inv: "cxx_inv sample_state"
  using reachable_inv [OF sample_reachable] .

lemma sample_initialized: "initialized sample_state 65536"
  by (simp add: initialized_def sample_state_def)

lemma sample_draws:
  "80336 \<le> g \<Longrightarrow> draw_amplitudes sample_env n g norm =
     (replicate n (0x3FF0000000000000, 0x3FF0000000000000), norm, g + 2 * n)"
  by (induction n arbitrary: g norm)
     (simp_all add: CXX_QDMI_generate_real_def sample_env_def complex_norm_def)

lemma sample_first_draws:
  "draw_amplitudes sample_env 32 80334 0 =
     ((0, 0) # replicate 31 (0x3FF0000000000000, 0x3FF0000000000000), 0, 80398)"
proof -
  have "draw_amplitudes sample_env (Suc 31) 80334 0 =
     ((0, 0) # replicate 31 (0x3FF0000000000000, 0x3FF0000000000000), 0, 80398)"
  proof -
    have "CXX_QDMI_generate_real sample_env 80334 = (0, 80335)"
      and "CXX_QDMI_generate_real sample_env 80335 = (0, 80336)"
      and "fp_add sample_env 0 d = 0" for d
      by (simp_all add: CXX_QDMI_generate_real_def sample_env_def)
    then show ?thesis unfolding draw_amplitudes.simps by (simp add: sample_draws)
  qed
  then show ?thesis by simp
qed

lemma replicate_3: "replicate 3 x = [x, x, x]"
  by (simp add: numeral_eq_Suc)

lemma sample_simulation:
  "simulate_program sample_env (\<lambda>_. False) sample_job 5 0 80334 = Inr (Inr sample_result, 80398)"
proof -
  have "output_index (j_format sample_job) (programs sample_job) 0 = Inr 0"
    by (simp add: output_index_def sample_job_def)
  moreover have "pad_shot 5 (shot_outputs ! 0) = Inr ''00001''"
    by (simp add: pad_shot_def shot_outputs_def size_sub_def replicate_3)
  moreover have "normalize sample_env norm cs = cs" for norm cs
    by (simp add: normalize_def sample_env_def)
  moreover have "\<not> max_shots < num_shots sample_job"
    by (simp add: max_shots_def sample_job_def)
  ultimately show ?thesis
    by (simp add: simulate_program_def sample_first_draws)
      (simp add: sample_result_def sample_job_def replicate_3)
qed

lemma sample_submit:
  "CXX_QDMI_device_job_submit sample_env (\<lambda>_. False) 65537 sample_state =
     Inr (QDMI_SUCCESS, running_state)"
proof -
  have j: "jobs sample_state 65537 = Some sample_job" "gen sample_state = 80334"
    "j_session sample_job = 65536" "length (programs sample_job) = 1" "programs sample_job \<noteq> []"
    "j_status sample_job = QDMI_JOB_STATUS_CREATED"
    by (simp_all add: sample_state_def sample_job_def)
  have sim: "simulate_programs sample_env (\<lambda>_. False) sample_job 5 0 (Suc 0) 80334 =
      Inr (Inr [sample_result], 80398)"
    by (simp add: sample_simulation)
  show ?thesis
    unfolding CXX_QDMI_device_job_submit_def
    by (simp add: deref_def j query_num_qubits_initialized [OF sample_initialized] sim
        del: simulate_programs.simps)
      (simp add: CXX_QDMI_set_device_status_def running_state_def sample_state_def running_job_def)
qed

lemma sample_wait: "CXX_QDMI_device_job_wait 65537 0 running_state = Inr (QDMI_SUCCESS, done_state)"
  by (simp add: CXX_QDMI_device_job_wait_def deref_def running_state_def running_job_def
      CXX_QDMI_set_device_status_def done_state_def done_job_def sample_state_def)

lemma running_inv: "cxx_inv running_state"
  using exec_inv [of sample_state sample_env "Job_submit (\<lambda>_. False) 65537" running_state]
    sample_inv sample_submit by (simp add: last_of_def)

lemma done_inv: "cxx_inv done_state"
  using exec_inv [of running_state sample_env "Job_wait 65537 0" done_state]
    running_inv sample_wait by (simp add: last_of_def)

lemma done_job_of_state: "jobs done_state 65537 = Some done_job"
  by (simp add: done_state_def)

end
