(* ===== verification/Cxx_Properties.thy ===== *)
theory Cxx_Properties
  imports Cxx_Samples
begin

text \<open>
  What the example device promises, stated over the calls of its interface, with a witness on
  the sample run for every statement that has a hypothesis. The facts behind the statements are
  in the theories of the components.
\<close>

section \<open>The library as a state machine\<close>

text \<open>C1: Every call of the interface that returns, made in a reachable state, is a step of the
  specification \<open>cxx_step\<close>: it changes the device status, adds, changes or removes one session,
  or adds, changes (along \<open>job_change\<close>) or removes one job, and nothing else.\<close>

theorem calls_refine_steps:
  assumes "cxx_reachable env st" and "exec env c st = Inr st'"
  shows "cxx_step st st'"
  using exec_step [OF reachable_inv [OF assms(1)] assms(2)] .

theorem calls_refine_steps_witness: "cxx_step sample_state running_state"
  using calls_refine_steps [OF sample_reachable, of "Job_submit (\<lambda>_. False) 65537" running_state]
    sample_submit by (simp add: last_of_def)

text \<open>C10: In every reachable state a live job is well formed (its status is CREATED, RUNNING, DONE or
  CANCELED; its programs fit their format; stored results belong to the programs, one each),
  and its session, while it is live, is initialized and has a token.\<close>

theorem reachable_jobs_ok:
  assumes "cxx_reachable env st" and "jobs st p = Some j"
  shows "job_ok j \<and>
    (\<forall>s. sessions st (j_session j) = Some s \<longrightarrow> s_status s = INITIALIZED \<and> token s \<noteq> [])"
  using reachable_inv [OF assms(1)] assms(2)
  by (auto simp: cxx_inv_def jobs_ok_def links_ok_def sessions_ok_def session_ok_def)

theorem reachable_jobs_ok_witness:
  "job_ok sample_job \<and> token (the (sessions sample_state 65536)) \<noteq> []"
proof -
  have j: "jobs sample_state 65537 = Some sample_job" by (simp add: sample_state_def)
  have s: "sessions sample_state (j_session sample_job) = Some \<lparr>token = ''key'', s_status = INITIALIZED\<rparr>"
    by (simp add: sample_state_def sample_job_def)
  show ?thesis
    using reachable_jobs_ok [OF sample_reachable j] s by (simp add: sample_job_def)
qed



text \<open>Without the memory for the token the exception leaves the C function.\<close>

lemma token_copy_throws:
  assumes "p \<noteq> nullptr" and "sessions st p = Some s" and "s_status s = ALLOCATED" and "0 < sz"
    and "sz \<le> length mem"
  shows "CXX_QDMI_device_session_set_parameter True p
    (val_DEVICE_SESSION_PARAMETER QDMI_DEVICE_SESSION_PARAMETER_TOKEN) sz (Some mem) st = Inl Bad_Alloc_Thrown"
  using assms by (simp add: CXX_QDMI_device_session_set_parameter_def deref_def invalid_enum_simps)

text \<open>C6: A call changes the status of a job at most along an edge CREATED to RUNNING, DONE or
  CANCELED, RUNNING to DONE or CANCELED; it never changes the job's session and id, and once the
  job has left CREATED neither its input (format, programs, number of shots) nor its results.\<close>

theorem job_life_cycle:
  assumes "cxx_reachable env st" and "exec env c st = Inr st'"
    and "jobs st p = Some j" and "jobs st' p = Some j'"
  shows "(j_status j' = j_status j \<or> status_edge (j_status j) (j_status j')) \<and>
    j_session j' = j_session j \<and> j_id j' = j_id j \<and>
    (j_status j \<noteq> QDMI_JOB_STATUS_CREATED \<longrightarrow> same_input j j' \<and> results j' = results j)"
proof -
  from exec_job [OF reachable_inv [OF assms(1)] assms(2-4)]
  consider "j' = j" | "job_change j j'" "job_ok j" by blast
  then show ?thesis
  proof cases
    case 1
    then show ?thesis by (simp add: same_input_def)
  next
    case 2
    then show ?thesis using job_change_edge(1,2) [OF 2] job_change_frame [OF 2(1)] by blast
  qed
qed

theorem job_life_cycle_witness:
  "status_edge (j_status sample_job) (j_status running_job)"
  using job_life_cycle [OF sample_reachable, of "Job_submit (\<lambda>_. False) 65537" running_state 65537
      sample_job running_job] sample_submit
  by (simp add: last_of_def sample_state_def running_state_def running_job_def sample_job_def)

text \<open>C11: A job that is DONE stays exactly as it is through any sequence of calls until it is freed.\<close>

theorem done_job_is_final:
  assumes "cxx_reachable env st" and "exec_all env cs st = Inr st'"
    and "jobs st p = Some j" and "j_status j = QDMI_JOB_STATUS_DONE"
  shows "jobs st' p \<in> {Some j, None}"
  using exec_all_done [OF reachable_inv [OF assms(1)] assms(2-4)] by blast

lemma done_reachable: "cxx_reachable sample_env done_state"
  using exec_all_reachable [OF sample_reachable,
      of "[Job_submit (\<lambda>_. False) 65537, Job_wait 65537 0]" done_state]
  by (simp add: last_of_def sample_submit sample_wait)

theorem done_job_is_final_witness:
  "\<exists>st'. exec_all sample_env [Job_cancel 65537] done_state = Inr st' \<and>
     jobs st' 65537 \<in> {Some done_job, None}"
proof -
  have "exec_all sample_env [Job_cancel 65537] done_state = Inr done_state"
    by (simp add: last_of_def CXX_QDMI_device_job_cancel_def deref_def done_job_of_state)
      (simp add: done_job_def)
  then show ?thesis
    using done_job_is_final [OF done_reachable, of "[Job_cancel 65537]" done_state 65537 done_job]
    by (simp add: done_job_of_state done_job_def)
qed

text \<open>C12: A session is initialized by \<open>CXX_QDMI_device_session_init\<close> only, with a token and while the
  device is not offline, in maintenance or in error; from then on no call changes it.\<close>

theorem session_life_cycle:
  assumes "cxx_reachable env st" and "exec env c st = Inr st'"
    and "sessions st p = Some s" and "sessions st' p = Some s'"
  shows "s_status s = INITIALIZED \<and> s' = s \<or>
    s_status s = ALLOCATED \<and>
      (s_status s' = INITIALIZED \<longrightarrow> c = Session_init p \<and> token s' = token s \<and> token s \<noteq> [] \<and>
         d_status st \<notin> {QDMI_DEVICE_STATUS_ERROR, QDMI_DEVICE_STATUS_OFFLINE,
                         QDMI_DEVICE_STATUS_MAINTENANCE})"
proof -
  have same: "?thesis" if "sessions st' p = sessions st p"
    using that assms(3,4) by (cases "s_status s") auto
  have inv: "cxx_inv st" using reachable_inv [OF assms(1)] .
  then have fresh: "p \<noteq> heap_next st"
    using assms(3) heap_ok_fresh(1) by (auto simp: cxx_inv_def)
  show ?thesis
  proof (cases c)
    case (Session_alloc oom out)
    then show ?thesis using same fresh assms(2)
      by (auto simp: last_of3_Inr dest!: session_alloc_D)
  next
    case (Session_init q)
    then show ?thesis using assms(2-4)
      by (cases "s_status s") (auto simp: last_of_Inr dest!: session_init_D split: if_splits)
  next
    case (Session_free q)
    then show ?thesis using assms(2-4) same by (auto dest!: session_free_D split: if_splits)
  next
    case (Session_set_parameter oom q param sz "value")
    then show ?thesis using assms(2-4)
      by (cases "s_status s")
        (auto simp: last_of_Inr dest!: session_set_parameter_D split: if_splits)
  next
    case (Job_submit fails q)
    then show ?thesis using assms(2) inv same
      by (auto simp: last_of_Inr dest!: job_submit_D)
  next
    case (Job_set_programs fails q f n sizes progs)
    then show ?thesis using assms(2) same by (auto simp: last_of_Inr dest!: job_set_programs_D)
  qed (use assms(2) same in \<open>auto simp: last_of_Inr last_of3_Inr bind_o_eq_Inr cxx_defs Let_def
      CXX_QDMI_set_device_status_def split: if_splits option.splits prod.splits\<close>)
qed

text \<open>The session of the sample run in front of its initialization.\<close>

definition allocated_state :: cxx_state where
  "allocated_state =
     \<lparr>d_status = QDMI_DEVICE_STATUS_IDLE, gen = 80333,
      sessions = [65536 \<mapsto> \<lparr>token = ''key'', s_status = ALLOCATED\<rparr>],
      jobs = Map.empty, heap_next = 65537\<rparr>"

lemma allocated_reachable: "cxx_reachable sample_env allocated_state"
proof -
  have "exec_all sample_env (take 3 sample_calls) cxx_init = Inr allocated_state"
    by (simp add: sample_defs allocated_state_def cxx_init_def heap_base_def last_of_def
        last_of3_def cxx_defs cxx_private_defs deref_def invalid_enum_simps new_session_def)
  then show ?thesis by (rule exec_all_reachable [OF cxx_reachable.start])
qed

theorem session_life_cycle_witness:
  "\<exists>st'. exec sample_env (Session_init 65536) allocated_state = Inr st' \<and>
     token (the (sessions st' 65536)) = ''key''"
proof -
  let ?st' = "allocated_state\<lparr>sessions := [65536 \<mapsto> \<lparr>token = ''key'', s_status = INITIALIZED\<rparr>]\<rparr>"
  have run: "exec sample_env (Session_init 65536) allocated_state = Inr ?st'"
    by (simp add: last_of_def CXX_QDMI_device_session_init_def deref_def allocated_state_def
        CXX_QDMI_get_device_status_def)
  show ?thesis
    using session_life_cycle [OF allocated_reachable run, of 65536
        "\<lparr>token = ''key'', s_status = ALLOCATED\<rparr>" "\<lparr>token = ''key'', s_status = INITIALIZED\<rparr>"] run
    by (simp add: allocated_state_def)
qed

section \<open>Programs\<close>

text \<open>C8: In a CREATED job and for a supported format, \<open>CXX_QDMI_device_job_set_programs\<close> is all or
  nothing whatever the allocator does. It always returns; it succeeds only when each program of
  the array is there, not empty and, in a text format, terminated by its only NUL, and then the
  job has exactly copies of all of them; on any error nothing changes. Errors are an invalid
  argument, when a program is not as described or there are more than a vector can hold, and out
  of memory, when an allocation fails; with none of these it succeeds.\<close>

theorem set_programs_all_or_nothing:
  assumes "p \<noteq> nullptr" and "jobs st p = Some j" and "j_status j = QDMI_JOB_STATUS_CREATED"
    and "Supported_format f" and "0 < n" and "array_ok ss ps n"
  shows "\<exists>r st'. CXX_QDMI_device_job_set_programs fails p f n (Some ss) (Some ps) st = Inr (r, st') \<and>
    (if r = QDMI_SUCCESS
     then (\<forall>i<n. good_program f ss ps i) \<and> st' = st\<lparr>jobs := (jobs st)(p \<mapsto> j\<lparr>j_format := f,
       programs := map (\<lambda>i. take (ss ! i) (the (ps ! i))) [0..<n]\<rparr>)\<rparr>
     else st' = st \<and>
       (r = QDMI_ERROR_INVALIDARGUMENT \<and> ((\<exists>i<n. \<not> good_program f ss ps i) \<or> max_programs < n) \<or>
        r = QDMI_ERROR_OUTOFMEM \<and> (\<exists>k. fails k)))"
proof -
  have f: "Valid_format f" using assms(4) by (auto simp: Supported_format_iff Valid_format_iff)
  have "returns (copy_programs fails f 0 n ss ps)"
    using returns_copy_programs [of 0 n ss ps] assms(6) by (auto simp: array_ok_def)
  then obtain x where x: "copy_programs fails f 0 n ss ps = Inr x" by (auto simp: returns_def)
  have run: "CXX_QDMI_device_job_set_programs fails p f n (Some ss) (Some ps) st =
      (if max_programs < n then Inr (QDMI_ERROR_INVALIDARGUMENT, st)
       else if fails 0 then Inr (QDMI_ERROR_OUTOFMEM, st)
       else case x of Inl e \<Rightarrow> Inr (e, st)
         | Inr qs \<Rightarrow> Inr (QDMI_SUCCESS, st\<lparr>jobs := (jobs st)(p \<mapsto> j\<lparr>j_format := f, programs := qs\<rparr>)\<rparr>))"
    using assms f x by (simp add: CXX_QDMI_device_job_set_programs_def deref_def)
  show ?thesis
    using copy_programs_D [OF x] unfolding run by (cases x) auto
qed

theorem set_programs_all_or_nothing_witness:
  "\<exists>r. CXX_QDMI_device_job_set_programs (\<lambda>k. k = 1) 65537 0 1 (Some [9]) (Some [Some sample_program])
     sample_state = Inr (r, sample_state) \<and> r = QDMI_ERROR_OUTOFMEM"
proof -
  have pre: "65537 \<noteq> nullptr" "jobs sample_state 65537 = Some sample_job"
    "j_status sample_job = QDMI_JOB_STATUS_CREATED" "Supported_format 0" "0 < (1::nat)"
    "array_ok [9] [Some sample_program] 1"
    by (simp_all add: sample_state_def sample_job_def Supported_format_iff array_ok_def sample_program_def)
  have "CXX_QDMI_device_job_set_programs (\<lambda>k. k = 1) 65537 0 1 (Some [9]) (Some [Some sample_program])
      sample_state = Inr (QDMI_ERROR_OUTOFMEM, sample_state)"
    using pre by (simp add: CXX_QDMI_device_job_set_programs_def deref_def Valid_format_iff
        max_programs_def Valid_program_def sample_program_def)
  then show ?thesis using set_programs_all_or_nothing [OF pre, of "\<lambda>k. k = 1"] by auto
qed

text \<open>Programs stay as they are until they are replaced or their job is freed.\<close>

fun keeps_programs :: "ptr \<Rightarrow> cxx_call \<Rightarrow> bool" where
  "keeps_programs p (Job_set_programs fails q format count sizes progs) = (q \<noteq> p)"
| "keeps_programs p (Job_free q) = (q \<noteq> p)"
| "keeps_programs p _ = True"

lemma exec_keeps_programs:
  assumes inv: "cxx_inv st" and run: "exec env c st = Inr st'" and keeps: "keeps_programs p c"
    and j: "jobs st p = Some j"
  shows "\<exists>j'. jobs st' p = Some j' \<and> programs j' = programs j"
proof -
  have fresh: "p \<noteq> heap_next st" using inv j heap_ok_fresh(2) [of st] by (auto simp: cxx_inv_def)
  show ?thesis
  proof (cases c)
    case (Session_alloc oom out)
    then show ?thesis using run j by (auto simp: last_of3_Inr dest!: session_alloc_D)
  next
    case (Session_init q)
    then show ?thesis using run j by (auto simp: last_of_Inr dest!: session_init_D)
  next
    case (Session_free q)
    then show ?thesis using run j by (auto dest!: session_free_D)
  next
    case (Session_set_parameter oom q param sz "value")
    then show ?thesis using run j by (auto simp: last_of_Inr dest!: session_set_parameter_D)
  next
    case (Job_submit fails q)
    then show ?thesis using run j inv by (auto simp: last_of_Inr dest!: job_submit_D)
  next
    case (Job_set_programs fails q f n sizes progs)
    then show ?thesis using run j keeps by (auto simp: last_of_Inr dest!: job_set_programs_D)
  qed (use run j keeps fresh in \<open>auto simp: last_of_Inr last_of3_Inr bind_o_eq_Inr cxx_defs Let_def
      CXX_QDMI_set_device_status_def split: if_splits option.splits prod.splits\<close>)
qed

lemma exec_all_keeps_programs:
  assumes "cxx_inv st" and "exec_all env cs st = Inr st'" and "list_all (keeps_programs p) cs"
    and "jobs st p = Some j"
  shows "\<exists>j'. jobs st' p = Some j' \<and> programs j' = programs j"
  using assms
proof (induction cs arbitrary: st j)
  case (Cons c cs)
  then obtain st1 where st1: "exec env c st = Inr st1" and rest: "exec_all env cs st1 = Inr st'"
    by (auto simp: bind_o_eq_Inr)
  obtain j1 where "jobs st1 p = Some j1" "programs j1 = programs j"
    using exec_keeps_programs [OF Cons.prems(1) st1 _ Cons.prems(4)] Cons.prems(3) by auto
  then show ?case using Cons.IH [OF exec_inv [OF Cons.prems(1) st1] rest] Cons.prems(3) by auto
qed simp

lemma read_program:
  assumes "cxx_inv st" and "jobs st p = Some j" and "i < length (programs j)"
    and "check QDMI_SUCCESS = None"
  shows "two_call check (CXX_QDMI_device_job_get_program st p i) = Inr (programs j ! i)"
proof -
  have p: "p \<noteq> nullptr" using assms(1,2) heap_ok_live_nonnull by (auto simp: cxx_inv_def)
  show ?thesis
    using sized_query.two_call_payload [OF get_program_sized [OF p assms(2,3)], of check] assms(4)
    by simp
qed

text \<open>C9: What a client stored with a successful \<open>CXX_QDMI_device_job_set_programs\<close> it reads back, program
  by program and byte for byte, with the size query and the query of
  \<open>CXX_QDMI_device_job_get_program\<close>, also after any further calls (submission, other jobs, failing
  calls) among which none frees the job or sets its programs again.\<close>

theorem program_round_trip:
  assumes "cxx_reachable env st" and "array_ok ss ps n"
    and "CXX_QDMI_device_job_set_programs fails p f n (Some ss) (Some ps) st = Inr (QDMI_SUCCESS, st1)"
    and "exec_all env cs st1 = Inr st2" and "list_all (keeps_programs p) cs"
    and "i < n" and "check QDMI_SUCCESS = None"
  shows "two_call check (CXX_QDMI_device_job_get_program st2 p i) = Inr (take (ss ! i) (the (ps ! i)))"
proof -
  have inv: "cxx_inv st" using reachable_inv [OF assms(1)] .
  have inv1: "cxx_inv st1"
    using exec_inv [OF inv, of env "Job_set_programs fails p f n (Some ss) (Some ps)" st1] assms(3)
    by (simp add: last_of_def)
  have p: "p \<noteq> nullptr" "0 < n" "Valid_format f" using assms(3)
    by (auto simp: CXX_QDMI_device_job_set_programs_def split: if_splits)
  then obtain j where j: "jobs st p = Some j" "j_status j = QDMI_JOB_STATUS_CREATED" "Supported_format f"
    using assms(3) by (auto simp: CXX_QDMI_device_job_set_programs_def bind_o_eq_Inr split: if_splits)
  have "\<exists>j1. jobs st1 p = Some j1 \<and> programs j1 = map (\<lambda>i. take (ss ! i) (the (ps ! i))) [0..<n]"
  proof -
    have "bind_o (copy_programs fails f 0 n ss ps) (\<lambda>x. case x of Inl e \<Rightarrow> Inr (e, st)
        | Inr qs \<Rightarrow> Inr (QDMI_SUCCESS, st\<lparr>jobs := (jobs st)(p \<mapsto> j\<lparr>j_format := f, programs := qs\<rparr>)\<rparr>)) =
      Inr (QDMI_SUCCESS, st1)"
      using assms(3) p j by (simp add: CXX_QDMI_device_job_set_programs_def deref_def split: if_splits)
    then show ?thesis using copy_programs_D [of fails f 0 n ss ps]
      by (cases "copy_programs fails f 0 n ss ps") (auto split: sum.splits)
  qed
  then obtain j1 where j1: "jobs st1 p = Some j1" "programs j1 = map (\<lambda>i. take (ss ! i) (the (ps ! i))) [0..<n]"
    by blast
  obtain j2 where j2: "jobs st2 p = Some j2" "programs j2 = programs j1"
    using exec_all_keeps_programs [OF inv1 assms(4,5) j1(1)] by blast
  have inv2: "cxx_inv st2" using exec_all_inv [OF inv1 assms(4)] .
  show ?thesis using read_program [OF inv2 j2(1), of i check] j2(2) j1(2) assms(6,7) by simp
qed

theorem program_round_trip_witness:
  "two_call (\<lambda>_. None) (CXX_QDMI_device_job_get_program done_state 65537 0) = Inr sample_program"
proof -
  have set: "CXX_QDMI_device_job_set_programs (\<lambda>_. False) 65537 0 1 (Some [9]) (Some [Some sample_program])
      sample_state = Inr (QDMI_SUCCESS, sample_state)"
    by (simp add: CXX_QDMI_device_job_set_programs_def deref_def Valid_format_iff max_programs_def
        Valid_program_def sample_program_def sample_state_def sample_job_def Supported_format_iff)
  have arr: "array_ok [9] [Some sample_program] 1" by (simp add: array_ok_def sample_program_def)
  have run: "exec_all sample_env [Job_submit (\<lambda>_. False) 65537, Job_wait 65537 0] sample_state = Inr done_state"
    by (simp add: last_of_def sample_submit sample_wait)
  show ?thesis
    using program_round_trip [OF sample_reachable arr set run, of 0 "\<lambda>_. None"] by (simp add: sample_program_def)
qed

section \<open>Submission\<close>

lemma simulate_program_succeeds:
  assumes "i < length (programs j)" and "list_all (\<lambda>p. p \<noteq> []) (programs j)"
    and "num_shots j \<le> max_shots"
  shows "\<exists>d g'. simulate_program env (\<lambda>_. False) j 5 i g = Inr (Inr d, g')"
proof -
  have ne: "programs j ! i \<noteq> []" using assms(1,2) by (auto simp: list_all_length)
  have "\<exists>k. output_index (j_format j) (programs j) i = Inr k"
    using ne by (auto simp: output_index_def char_at_def size_sub_def Let_def Suc_le_eq less_Suc_eq
        neq_Nil_conv)
  then obtain k where k: "output_index (j_format j) (programs j) i = Inr k" by blast
  then have "shot_outputs ! k \<in> set shot_outputs" using output_index_bound nth_mem by blast
  then have "length (shot_outputs ! k) = 2" using shot_outputs_ok by blast
  then have "pad_shot 5 (shot_outputs ! k) = Inr (replicate 3 (CHR ''0'') @ shot_outputs ! k)"
    by (simp add: pad_shot_def size_sub_def)
  then show ?thesis using k assms(3)
    by (auto simp: simulate_program_def Let_def not_le split: prod.splits)
qed

lemma simulate_programs_succeeds:
  assumes "i + n \<le> length (programs j)" and "list_all (\<lambda>p. p \<noteq> []) (programs j)"
    and "num_shots j \<le> max_shots"
  shows "\<exists>ds g'. simulate_programs env (\<lambda>_. False) j 5 i n g = Inr (Inr ds, g')"
  using assms(1)
proof (induction n arbitrary: i g)
  case (Suc n)
  then obtain d g1 where "simulate_program env (\<lambda>_. False) j 5 i g = Inr (Inr d, g1)"
    using simulate_program_succeeds [of i j] assms(2,3) by fastforce
  moreover obtain ds g2 where "simulate_programs env (\<lambda>_. False) j 5 (Suc i) n g1 = Inr (Inr ds, g2)"
    using Suc.IH [of "Suc i" g1] Suc.prems by auto
  ultimately show ?case by simp
qed simp

lemma submit_runs:
  assumes inv: "cxx_inv st" and "jobs st p = Some j"
    and "j_status j = QDMI_JOB_STATUS_CREATED" and "programs j \<noteq> []"
    and "j_session j \<in> dom (sessions st)" and "num_shots j \<le> max_shots"
  shows "\<exists>ds g. CXX_QDMI_device_job_submit env (\<lambda>_. False) p st =
      Inr (QDMI_SUCCESS, st\<lparr>gen := g,
        jobs := (jobs st)(p \<mapsto> j\<lparr>results := ds, j_status := QDMI_JOB_STATUS_RUNNING\<rparr>),
        d_status := QDMI_DEVICE_STATUS_BUSY\<rparr>) \<and>
    length ds = length (programs j) \<and> list_all (result_ok (num_shots j)) ds"
proof -
  have p: "p \<noteq> nullptr" using assms(1,2) heap_ok_live_nonnull by (auto simp: cxx_inv_def)
  have "initialized st (j_session j)"
    using inv assms(2,5) by (auto simp: cxx_inv_def links_ok_def initialized_def dom_def)
  then have nq: "query_num_qubits env st (j_session j) = Inr 5"
    by (rule query_num_qubits_initialized)
  have "job_ok j" using inv assms(2) by (auto simp: cxx_inv_def jobs_ok_def)
  then have "list_all (\<lambda>p. p \<noteq> []) (programs j)"
    using assms(4) by (auto simp: job_ok_def program_ok_def list_all_iff)
  then obtain ds g where sim:
    "simulate_programs env (\<lambda>_. False) j 5 0 (length (programs j)) (gen st) = Inr (Inr ds, g)"
    using simulate_programs_succeeds [of 0 "length (programs j)" j env "gen st"] assms(6) by auto
  then have "length ds = length (programs j) \<and> list_all (result_ok (num_shots j)) ds"
    by (rule simulate_programs_ok)
  then show ?thesis using sim nq p assms(2-4)
    by (intro exI [of _ ds] exI [of _ g])
       (auto simp: CXX_QDMI_device_job_submit_def deref_def CXX_QDMI_set_device_status_def)
qed

text \<open>C13: Submitting a CREATED job that has programs, a live session and a number of shots that can
  be stored succeeds when memory suffices: each program gets a result with that many shots of
  five binary digits and a state vector of 32 amplitudes, the job is RUNNING and the device BUSY;
  no other job and no session changes.\<close>

theorem submit_succeeds:
  assumes "cxx_reachable env st" and "jobs st p = Some j"
    and "j_status j = QDMI_JOB_STATUS_CREATED" and "programs j \<noteq> []"
    and "j_session j \<in> dom (sessions st)" and "num_shots j \<le> max_shots"
  shows "\<exists>ds g. CXX_QDMI_device_job_submit env (\<lambda>_. False) p st =
      Inr (QDMI_SUCCESS, st\<lparr>gen := g,
        jobs := (jobs st)(p \<mapsto> j\<lparr>results := ds, j_status := QDMI_JOB_STATUS_RUNNING\<rparr>),
        d_status := QDMI_DEVICE_STATUS_BUSY\<rparr>) \<and>
    length ds = length (programs j) \<and>
    (\<forall>d\<in>set ds. (\<exists>s. shot_ok s \<and> shots d = replicate (num_shots j) s) \<and>
       length (state_vec d) = 32)"
  using submit_runs [OF reachable_inv [OF assms(1)] assms(2-6), of env]
  by (auto simp: result_ok_def list_all_iff)

theorem submit_succeeds_witness:
  "\<exists>st'. CXX_QDMI_device_job_submit sample_env (\<lambda>_. False) 65537 sample_state =
     Inr (QDMI_SUCCESS, st') \<and> d_status st' = QDMI_DEVICE_STATUS_BUSY"
  using submit_succeeds [OF sample_reachable, of 65537 sample_job]
  by (auto simp: sample_state_def sample_job_def max_shots_def)

text \<open>A submission that reports an error leaves the job, all other jobs, the sessions and the
  device status as they were; at most the random engine has advanced.\<close>

theorem failed_submit_changes_nothing:
  assumes "cxx_reachable env st" and "CXX_QDMI_device_job_submit env fails p st = Inr (r, st')"
    and "r \<noteq> QDMI_SUCCESS"
  shows "is_error r \<and> st'\<lparr>gen := gen st\<rparr> = st"
  using job_submit_D [OF assms(2) reachable_inv [OF assms(1)]] assms(3) by auto

theorem failed_submit_changes_nothing_witness:
  "\<exists>r st'. CXX_QDMI_device_job_submit sample_env (\<lambda>_. True) 65537 sample_state = Inr (r, st') \<and>
     st'\<lparr>gen := gen sample_state\<rparr> = sample_state"
proof -
  have "CXX_QDMI_device_job_submit sample_env (\<lambda>_. True) 65537 sample_state =
      Inr (QDMI_ERROR_OUTOFMEM, sample_state)"
    using query_num_qubits_initialized [OF sample_initialized, of sample_env]
    by (simp add: CXX_QDMI_device_job_submit_def deref_def sample_state_def sample_job_def)
  then show ?thesis using failed_submit_changes_nothing [OF sample_reachable] by blast
qed

section \<open>Results\<close>

lemma submitted_results:
  assumes "cxx_inv st" and "jobs st p = Some j" and "results j \<noteq> []"
    and "i < length (programs j)"
  shows "i < length (results j) \<and> result_ok (num_shots j) (results j ! i)"
  using assms by (auto simp: cxx_inv_def jobs_ok_def job_ok_def results_ok_def list_all_length)

text \<open>C7: Submitting a job and waiting for it makes its results available: the job is DONE, the
  device IDLE again, and each standard kind of result of each program is what the client's pair of
  calls (size, then value) obtains when the memory for a histogram suffices. Only two are
  excepted, the sparse probabilities of a vector with a zero amplitude and the sparse keys of a
  vector of zeros, for which the code writes outside of the buffer.\<close>

theorem submit_wait_results:
  assumes "cxx_reachable env st"
    and "CXX_QDMI_device_job_submit env fails p st = Inr (QDMI_SUCCESS, st1)"
    and "CXX_QDMI_device_job_wait p timeout st1 = Inr (r, st2)"
    and "check QDMI_SUCCESS = None"
  shows "\<exists>j. jobs st2 p = Some j \<and> r = QDMI_SUCCESS \<and> j_status j = QDMI_JOB_STATUS_DONE \<and>
    d_status st2 = QDMI_DEVICE_STATUS_IDLE \<and>
    (\<forall>i k. i < length (programs j) \<and> type_JOB_RESULT k \<noteq> None \<longrightarrow>
       (case result_payload env (results j ! i) k of
          Some bs \<Rightarrow>
            two_call check (CXX_QDMI_device_job_get_results False env st2 p i (val_JOB_RESULT k)) = Inr bs
        | None \<Rightarrow>
            k = QDMI_JOB_RESULT_PROBABILITIES_SPARSE_VALUES \<and>
              \<not> list_all complex_nonzero (state_vec (results j ! i)) \<or>
            k \<in> {QDMI_JOB_RESULT_STATEVECTOR_SPARSE_KEYS, QDMI_JOB_RESULT_PROBABILITIES_SPARSE_KEYS} \<and>
              nonzero_indices (state_vec (results j ! i)) = []))"
proof -
  have inv: "cxx_inv st" using reachable_inv [OF assms(1)] .
  have inv1: "cxx_inv st1"
    using exec_inv [OF inv, of env "Job_submit fails p" st1] assms(2) by (simp add: last_of_def)
  have inv2: "cxx_inv st2"
    using exec_inv [OF inv1, of env "Job_wait p timeout" st2] assms(3) by (simp add: last_of_def)
  from job_submit_D [OF assms(2) inv] obtain j ds where ds: "programs j \<noteq> []"
      "length ds = length (programs j)" "p \<noteq> nullptr"
    and j1: "jobs st1 p = Some (j\<lparr>results := ds, j_status := QDMI_JOB_STATUS_RUNNING\<rparr>)"
    using heap_ok_live_nonnull inv by (auto simp: is_error_iff cxx_inv_def)
  let ?j = "j\<lparr>results := ds, j_status := QDMI_JOB_STATUS_DONE\<rparr>"
  have st2: "r = QDMI_SUCCESS" "jobs st2 p = Some ?j" "d_status st2 = QDMI_DEVICE_STATUS_IDLE"
    using assms(3) j1 ds(3)
    by (auto simp: CXX_QDMI_device_job_wait_def deref_def CXX_QDMI_set_device_status_def)
  have "results ?j \<noteq> []" using ds by auto
  then have "two_call check (CXX_QDMI_device_job_get_results False env st2 p i (val_JOB_RESULT k)) = Inr bs"
    if "i < length (programs ?j)" "result_payload env (results ?j ! i) k = Some bs" for i k bs
    using sized_query.two_call_payload [OF get_results_sized [OF inv2 st2(2) _ _ that], of check]
      assms(4) by simp
  moreover have "k = QDMI_JOB_RESULT_PROBABILITIES_SPARSE_VALUES \<and> \<not> list_all complex_nonzero (state_vec x) \<or>
      k \<in> {QDMI_JOB_RESULT_STATEVECTOR_SPARSE_KEYS, QDMI_JOB_RESULT_PROBABILITIES_SPARSE_KEYS} \<and>
        nonzero_indices (state_vec x) = []"
    if "type_JOB_RESULT k \<noteq> None" "result_payload env x k = None" for k x
    using that by (cases k) (auto simp: Let_def split: if_splits)
  ultimately show ?thesis using st2
    by (intro exI [of _ ?j]) (auto split: option.splits)
qed

theorem submit_wait_results_witness:
  "two_call (\<lambda>_. None) (CXX_QDMI_device_job_get_results False sample_env done_state 65537 0
     (val_JOB_RESULT QDMI_JOB_RESULT_SHOTS)) = Inr (join_commas (shots sample_result))"
proof -
  have job: "0 < length (programs done_job)" "results done_job ! 0 = sample_result"
    by (simp_all add: done_job_def running_job_def sample_job_def)
  obtain j where "jobs done_state 65537 = Some j"
    and all: "\<forall>i k. i < length (programs j) \<and> type_JOB_RESULT k \<noteq> None \<longrightarrow>
      (case result_payload sample_env (results j ! i) k of
         Some bs \<Rightarrow> two_call (\<lambda>_. None) (CXX_QDMI_device_job_get_results False sample_env done_state 65537 i
           (val_JOB_RESULT k)) = Inr bs
       | None \<Rightarrow> k = QDMI_JOB_RESULT_PROBABILITIES_SPARSE_VALUES \<and>
             \<not> list_all complex_nonzero (state_vec (results j ! i)) \<or>
           k \<in> {QDMI_JOB_RESULT_STATEVECTOR_SPARSE_KEYS, QDMI_JOB_RESULT_PROBABILITIES_SPARSE_KEYS} \<and>
             nonzero_indices (state_vec (results j ! i)) = [])"
    using submit_wait_results [OF sample_reachable sample_submit sample_wait, of "\<lambda>_. None"] by auto
  then have "j = done_job" using done_job_of_state by simp
  then show ?thesis using all [rule_format, of 0 QDMI_JOB_RESULT_SHOTS] job by simp
qed

text \<open>A result of a finished job, and its three hypotheses in one.\<close>

definition stored_result :: "cxx_state \<Rightarrow> ptr \<Rightarrow> nat \<Rightarrow> nat \<Rightarrow> Result_data \<Rightarrow> bool" where
  "stored_result st p i n r \<longleftrightarrow>
     (\<exists>j. jobs st p = Some j \<and> j_status j = QDMI_JOB_STATUS_DONE \<and> i < length (programs j) \<and>
        i < length (results j) \<and> results j ! i = r \<and> num_shots j = n)"

lemma stored_resultD:
  assumes "cxx_reachable env st" and "stored_result st p i n r"
  shows "result_ok n r"
    and "result_payload env r k = Some bs \<Longrightarrow>
      sized_query (CXX_QDMI_device_job_get_results False env st p i (val_JOB_RESULT k)) bs"
proof -
  have inv: "cxx_inv st" using reachable_inv [OF assms(1)] .
  obtain j where j: "jobs st p = Some j" "j_status j = QDMI_JOB_STATUS_DONE"
      "i < length (programs j)" "results j \<noteq> []" "results j ! i = r" "num_shots j = n"
    using assms(2) by (fastforce simp: stored_result_def)
  show "result_ok n r" using submitted_results [OF inv j(1,4,3)] j(5,6) by simp
  show "result_payload env r k = Some bs \<Longrightarrow>
      sized_query (CXX_QDMI_device_job_get_results False env st p i (val_JOB_RESULT k)) bs"
    using get_results_sized [OF inv j(1,2,4,3), of env k bs] j(5) by simp
qed

lemma stored_two_call:
  assumes "cxx_reachable env st" and "stored_result st p i n r" and "check QDMI_SUCCESS = None"
    and "result_payload env r k = Some bs"
  shows "two_call check (CXX_QDMI_device_job_get_results False env st p i (val_JOB_RESULT k)) = Inr bs"
  using sized_query.two_call_payload [OF stored_resultD(2) [OF assms(1,2,4)]] assms(3) by blast

lemma sample_stored: "stored_result done_state 65537 0 3 sample_result"
  by (simp add: stored_result_def done_job_of_state) (simp add: done_job_def running_job_def sample_job_def)

text \<open>The comma-separated shots a client reads, split at the commas, are the shots of the program:
  as many strings of five binary digits as were ordered.\<close>

theorem shots_read_back:
  assumes "cxx_reachable env st" and "stored_result st p i n r" and "0 < n"
    and "check QDMI_SUCCESS = None"
  shows "\<exists>bs. two_call check (CXX_QDMI_device_job_get_results False env st p i
        (val_JOB_RESULT QDMI_JOB_RESULT_SHOTS)) = Inr bs \<and>
      split_fields [] bs = shots r \<and> length (shots r) = n \<and> list_all shot_ok (shots r)"
proof -
  have ok: "result_ok n r" using stored_resultD(1) [OF assms(1,2)] .
  have "two_call check (CXX_QDMI_device_job_get_results False env st p i
      (val_JOB_RESULT QDMI_JOB_RESULT_SHOTS)) = Inr (join_commas (shots r))"
    by (rule stored_two_call [of env st p i n r check, OF assms(1,2,4)]) simp
  then show ?thesis using shots_round_trip [OF ok assms(3)] ok
    by (auto simp: result_ok_def list_all_iff)
qed

theorem shots_read_back_witness:
  "\<exists>bs. two_call (\<lambda>_. None) (CXX_QDMI_device_job_get_results False sample_env done_state 65537 0
        (val_JOB_RESULT QDMI_JOB_RESULT_SHOTS)) = Inr bs \<and>
     split_fields [] bs = [''00001'', ''00001'', ''00001'']"
  using shots_read_back [OF done_reachable sample_stored, of "\<lambda>_. None"]
  by (auto simp: sample_result_def)

text \<open>C14: The histogram a client reads, keys split at the commas and counts as words of eight bytes, has
  strictly ascending keys, exactly the outcomes that occur, with the number of their occurrences;
  the counts add up to the number of shots.\<close>

theorem histogram_read_back:
  assumes "cxx_reachable env st" and "stored_result st p i n r" and "0 < n"
    and "check QDMI_SUCCESS = None"
  shows "\<exists>ks vs. two_call check (CXX_QDMI_device_job_get_results False env st p i
        (val_JOB_RESULT QDMI_JOB_RESULT_HIST_KEYS)) = Inr ks \<and>
      two_call check (CXX_QDMI_device_job_get_results False env st p i
        (val_JOB_RESULT QDMI_JOB_RESULT_HIST_VALUES)) = Inr vs \<and>
      hist_ok (shots r) (zip (split_fields [] ks)
        (map of_le_bytes (chunks 8 (length (split_fields [] ks)) vs)))"
proof -
  let ?h = "histogram (shots r)"
  let ?ks = "join_commas (map fst ?h)" and ?vs = "concat (map (\<lambda>(_, n). le64 n) ?h)"
  have ok: "result_ok n r" using stored_resultD(1) [OF assms(1,2)] .
  have keys: "two_call check (CXX_QDMI_device_job_get_results False env st p i
      (val_JOB_RESULT QDMI_JOB_RESULT_HIST_KEYS)) = Inr ?ks"
    by (rule stored_two_call [of env st p i n r check, OF assms(1,2,4)]) simp
  have vals: "two_call check (CXX_QDMI_device_job_get_results False env st p i
      (val_JOB_RESULT QDMI_JOB_RESULT_HIST_VALUES)) = Inr ?vs"
    by (rule stored_two_call [of env st p i n r check, OF assms(1,2,4)]) simp
  have "zip (split_fields [] ?ks) (map of_le_bytes (chunks 8 (length (split_fields [] ?ks)) ?vs)) = ?h"
    using histogram_round_trip [OF ok assms(3)] .
  then show ?thesis using keys vals histogram_ok [of "shots r"] by auto
qed

theorem histogram_read_back_witness:
  "\<exists>ks. two_call (\<lambda>_. None) (CXX_QDMI_device_job_get_results False sample_env done_state 65537 0
        (val_JOB_RESULT QDMI_JOB_RESULT_HIST_KEYS)) = Inr ks"
  using histogram_read_back [OF done_reachable sample_stored, of "\<lambda>_. None"] by auto

lemma sample_nonzero: "nonzero_indices (state_vec sample_result) \<noteq> []"
proof -
  have "complex_nonzero (state_vec sample_result ! 1)"
    by (simp add: sample_result_def complex_nonzero_def fp_is_zero_def)
  then have "1 \<in> set (nonzero_indices (state_vec sample_result))"
    by (simp add: nonzero_indices_def sample_result_def)
  then show ?thesis by auto
qed

text \<open>C15: The keys of a sparse state vector, read as binary numbers, are the indices of the non-zero
  amplitudes in ascending order.\<close>

theorem sparse_keys_read_back:
  assumes "cxx_reachable env st" and "stored_result st p i n r"
    and "nonzero_indices (state_vec r) \<noteq> []" and "check QDMI_SUCCESS = None"
  shows "\<exists>bs. two_call check (CXX_QDMI_device_job_get_results False env st p i
        (val_JOB_RESULT QDMI_JOB_RESULT_STATEVECTOR_SPARSE_KEYS)) = Inr bs \<and>
      map key_index (split_fields [] bs) = nonzero_indices (state_vec r)"
proof -
  have "length (state_vec r) = 32"
    using stored_resultD(1) [OF assms(1,2)] by (auto simp: result_ok_def)
  then have "map key_index (split_fields []
      (join_commas (map (sparse_key 5) (nonzero_indices (state_vec r))))) =
      nonzero_indices (state_vec r)"
    by (rule sparse_keys_round_trip) (rule assms(3))
  moreover have "two_call check (CXX_QDMI_device_job_get_results False env st p i
        (val_JOB_RESULT QDMI_JOB_RESULT_STATEVECTOR_SPARSE_KEYS)) =
      Inr (join_commas (map (sparse_key 5) (nonzero_indices (state_vec r))))"
    by (rule stored_two_call [of env st p i n r check, OF assms(1,2,4)]) (simp add: Let_def assms(3))
  ultimately show ?thesis by blast
qed

theorem sparse_keys_read_back_witness:
  "\<exists>bs. two_call (\<lambda>_. None) (CXX_QDMI_device_job_get_results False sample_env done_state 65537 0
        (val_JOB_RESULT QDMI_JOB_RESULT_STATEVECTOR_SPARSE_KEYS)) = Inr bs \<and>
     map key_index (split_fields [] bs) = nonzero_indices (state_vec sample_result)"
  using sparse_keys_read_back [OF done_reachable sample_stored sample_nonzero, of "\<lambda>_. None"]
  by simp

text \<open>C16: A client that asks for the size of the sparse probabilities and passes a buffer of that size
  has it overrun as soon as one amplitude is zero and another is not: the code reports the number of non-zero
  amplitudes and writes all of them.\<close>

theorem sparse_probabilities_overrun:
  fixes oom :: bool
  assumes "cxx_reachable env st" and "stored_result st p i n r"
    and "\<not> list_all complex_nonzero (state_vec r)" and "nonzero_indices (state_vec r) \<noteq> []"
  defines "q \<equiv> CXX_QDMI_device_job_get_results oom env st p i
      (val_JOB_RESULT QDMI_JOB_RESULT_PROBABILITIES_SPARSE_VALUES)"
  shows "\<exists>k. q 0 None True = Inr (QDMI_SUCCESS, None, Some k) \<and>
      q k (Some (replicate k NUL)) True = Inl Buffer_Overflow"
proof -
  let ?is = "nonzero_indices (state_vec r)"
  have sv: "length (state_vec r) = 32"
    using stored_resultD(1) [OF assms(1,2)] by (auto simp: result_ok_def)
  have less: "length ?is < 32" using nonzero_indices_less [OF assms(3)] sv by simp
  have "q sz v sr = result_body (8 * length ?is)
      (Inr (concat (map (\<lambda>c. double_bytes (complex_norm env c)) (state_vec r)))) sz v sr"
    if "v \<noteq> None \<longrightarrow> 0 < sz" for sz v sr
    using that sparse_values_query [OF reachable_inv [OF assms(1)]] assms(2) sv less
    by (auto simp: q_def stored_result_def size_mul_def mult.commute)
  then show ?thesis
    using less sv assms(4) length_concat_map_const [of "state_vec r"
        "\<lambda>c. double_bytes (complex_norm env c)" 8]
    by (auto simp: result_body_def write_at_def)
qed

theorem sparse_probabilities_overrun_witness:
  "\<exists>k. CXX_QDMI_device_job_get_results False sample_env done_state 65537 0
      (val_JOB_RESULT QDMI_JOB_RESULT_PROBABILITIES_SPARSE_VALUES) k (Some (replicate k NUL)) True =
    Inl Buffer_Overflow"
proof -
  have "nonzero_indices (state_vec sample_result) \<noteq> []"
    and "\<not> list_all complex_nonzero (state_vec sample_result)"
    using sample_nonzero by (auto simp: sample_result_def complex_nonzero_def fp_is_zero_def)
  then show ?thesis using sparse_probabilities_overrun [OF done_reachable sample_stored] by blast
qed

text \<open>C17: Waiting for a job that was never submitted reports success and marks it DONE although nothing
  was run; asking it for any standard result of its programs is then out of bounds.\<close>

theorem waiting_without_submission:
  assumes "cxx_reachable env st" and "jobs st p = Some j"
    and "j_status j = QDMI_JOB_STATUS_CREATED" and "i < length (programs j)"
    and "type_JOB_RESULT k \<noteq> None"
  shows "\<exists>st'. CXX_QDMI_device_job_wait p timeout st = Inr (QDMI_SUCCESS, st') \<and>
    map_option j_status (jobs st' p) = Some QDMI_JOB_STATUS_DONE \<and>
    CXX_QDMI_device_job_get_results oom env st' p i (val_JOB_RESULT k) 0 None True = Inl Out_Of_Bounds"
proof -
  have inv: "cxx_inv st" using reachable_inv [OF assms(1)] .
  have p: "p \<noteq> nullptr" using inv assms(2) heap_ok_live_nonnull by (auto simp: cxx_inv_def)
  have "results j = []" using inv assms(2,3) by (auto simp: cxx_inv_def jobs_ok_def job_ok_def)
  then show ?thesis using p assms(2-5)
    by (cases k) (auto simp: CXX_QDMI_device_job_wait_def deref_def CXX_QDMI_set_device_status_def
        CXX_QDMI_device_job_get_results_def invalid_enum_simps)
qed

theorem waiting_without_submission_witness:
  "\<exists>st'. CXX_QDMI_device_job_wait 65537 0 sample_state = Inr (QDMI_SUCCESS, st') \<and>
     CXX_QDMI_device_job_get_results False sample_env st' 65537 0
       (val_JOB_RESULT QDMI_JOB_RESULT_SHOTS) 0 None True = Inl Out_Of_Bounds"
  using waiting_without_submission [OF sample_reachable, of 65537 sample_job 0
      QDMI_JOB_RESULT_SHOTS 0]
  by (auto simp: sample_state_def sample_job_def)

section \<open>Queries\<close>

text \<open>C38: In an initialized session each property of the device that is supported is what the client's
  pair of calls obtains, and its bytes have the documented type: a fixed-size value has the
  size of its type, a string ends in its only NUL (for build strings without a NUL). Each other
  property is answered as not supported, whatever the buffer.\<close>

theorem device_properties_conform:
  assumes "initialized st p" and "dp \<noteq> QDMI_DEVICE_PROPERTY_MAX" and "check QDMI_SUCCESS = None"
    and "c_string (device_id env)" and "c_string (device_version env)"
    and "c_string (library_version env)"
  defines "q \<equiv> CXX_QDMI_device_session_query_device_property env st p (val_DEVICE_PROPERTY dp)"
  shows "case device_payload env (d_status st) dp of
      None \<Rightarrow> \<forall>sz v sr. (v \<noteq> None \<longrightarrow> 0 < sz) \<longrightarrow> q sz v sr = Inr (QDMI_ERROR_NOTSUPPORTED, v, None)
    | Some bs \<Rightarrow> two_call check q = Inr bs \<and>
        (\<exists>ty. type_DEVICE_PROPERTY dp = Some ty \<and>
           (case fixed_size ty of Some k \<Rightarrow> length bs = k | None \<Rightarrow>
              ty = Ty_string \<longrightarrow> text_program bs))"
proof (cases "device_payload env (d_status st) dp")
  case None
  then have "device_body env (d_status st) dp = None" by (simp add: device_payload_def)
  then show ?thesis using None device_query_eq [OF assms(1,2)] by (simp add: q_def reject_def)
next
  case (Some bs)
  have two: "two_call check q = Inr bs"
    unfolding q_def
    by (rule sized_query.two_call_payload [OF device_property_sized [OF assms(1) Some]])
      (rule assms(3))
  have str: "text_program (c_str s)" if "c_string s" for s
    using that by (auto simp: text_program_iff c_str_c_string)
  have lits: "c_string ''C++ Device with 5 qubits''" "c_string ''um''" "c_string ''us''"
    by (simp_all add: c_string_def)
  show ?thesis
    using Some two str [OF assms(4)] str [OF assms(5)] str [OF assms(6)] str [OF lits(1)]
      str [OF lits(2)] str [OF lits(3)]
    by (cases dp) (auto simp: device_payload_def answer_simps)
qed

theorem device_properties_conform_witness:
  "two_call (\<lambda>_. None) (CXX_QDMI_device_session_query_device_property sample_env sample_state 65536
     (val_DEVICE_PROPERTY QDMI_DEVICE_PROPERTY_DURATIONUNIT)) = Inr (''us'' @ [NUL])"
proof -
  have "device_payload sample_env (d_status sample_state) QDMI_DEVICE_PROPERTY_DURATIONUNIT =
      Some (''us'' @ [NUL])"
    by (simp add: device_payload_def answer_simps c_str_c_string c_string_def)
  then show ?thesis
    using device_properties_conform [OF sample_initialized, of QDMI_DEVICE_PROPERTY_DURATIONUNIT
        "\<lambda>_. None" sample_env]
    by (simp add: sample_env_def c_string_def)
qed

text \<open>The pairs of a coupling map, which is a flat list.\<close>

fun pairs_of :: "'a list \<Rightarrow> ('a \<times> 'a) list" where
  "pairs_of (a # b # xs) = (a, b) # pairs_of xs"
| "pairs_of _ = []"

lemma pairs_DEVICE_COUPLING_MAP:
  "set (pairs_of DEVICE_COUPLING_MAP) = dom CX_FIDELITIES"
  by (auto simp: CX_FIDELITIES_def DEVICE_COUPLING_MAP_def CXX_DEVICE_SITES_def dom_map_of_conv_image_fst)

lemma CX_FIDELITIES_sym: "CX_FIDELITIES (a, b) = CX_FIDELITIES (b, a)"
proof -
  have all: "\<forall>(x, y) \<in> dom CX_FIDELITIES. CX_FIDELITIES (y, x) = CX_FIDELITIES (x, y)"
    unfolding pairs_DEVICE_COUPLING_MAP [symmetric]
    by (simp add: DEVICE_COUPLING_MAP_def CXX_DEVICE_SITES_def CX_FIDELITIES_def)
  show ?thesis
  proof (cases "(a, b) \<in> dom CX_FIDELITIES \<or> (b, a) \<in> dom CX_FIDELITIES")
    case True
    then show ?thesis using all by force
  next
    case False
    then show ?thesis by (simp add: domIff)
  qed
qed

text \<open>The fidelity of the \<open>CX\<close> gate is defined exactly on the pairs of sites of the coupling map,
  and the same in both directions; for any other pair the query is an invalid argument.\<close>

theorem cx_fidelity_on_couplings:
  assumes "session \<noteq> nullptr" and "check QDMI_SUCCESS = None"
  defines "q \<equiv> \<lambda>a b. CXX_QDMI_device_session_query_operation_property session CX 2 (Some [a, b]) 0 None
      (val_OPERATION_PROPERTY QDMI_OPERATION_PROPERTY_FIDELITY)"
  shows "if (a, b) \<in> set (pairs_of DEVICE_COUPLING_MAP)
    then a \<noteq> b \<and> (b, a) \<in> set (pairs_of DEVICE_COUPLING_MAP) \<and>
      (\<exists>d. two_call check (q a b) = Inr (double_bytes d) \<and>
           two_call check (q b a) = Inr (double_bytes d))
    else \<forall>sz v sr. (v \<noteq> None \<longrightarrow> 0 < sz) \<longrightarrow> q a b sz v sr = Inr (QDMI_ERROR_INVALIDARGUMENT, v, None)"
proof (cases "CX_FIDELITIES (a, b)")
  case None
  have "q a b sz v sr = Inr (QDMI_ERROR_INVALIDARGUMENT, v, None)" if "v \<noteq> None \<longrightarrow> 0 < sz" for sz v sr
    using that None assms(1)
    by (simp add: q_def CXX_QDMI_device_session_query_operation_property_def macro_simps
        invalid_enum_simps query_cx_fidelity_def OPERATION_FIDELITIES_def reject_def static_defs Let_def)
  then show ?thesis using None by (simp add: pairs_DEVICE_COUPLING_MAP dom_def)
next
  case (Some d)
  have ne: "a \<noteq> b" if "CX_FIDELITIES (a, b) = Some d" for a b
    using that by (auto simp: CX_FIDELITIES_def CXX_DEVICE_SITES_def split: if_splits)
  have two: "two_call check (q a b) = Inr (double_bytes d)" if ab: "CX_FIDELITIES (a, b) = Some d" for a b
  proof -
    have "q a b sz v sr = single_value_body (length (double_bytes d)) (Inr (double_bytes d)) sz v sr"
      if "v \<noteq> None \<longrightarrow> 0 < sz" for sz v sr
      using that ab ne [OF ab] assms(1)
      by (auto simp: q_def CXX_QDMI_device_session_query_operation_property_def macro_simps
          invalid_enum_simps query_cx_fidelity_def OPERATION_FIDELITIES_def static_defs Let_def)
    then have "sized_query (q a b) (double_bytes d)"
      by (rule sized_query_cong [OF single.sized_query_axioms])
    then show ?thesis by (rule sized_query.two_call_payload) (rule assms(2))
  qed
  have "CX_FIDELITIES (b, a) = Some d" using Some CX_FIDELITIES_sym by metis
  then show ?thesis using Some two ne by (auto simp: pairs_DEVICE_COUPLING_MAP)
qed

theorem cx_fidelity_on_couplings_witness:
  "\<exists>d. two_call (\<lambda>_. None) (CXX_QDMI_device_session_query_operation_property 1 CX 2
      (Some [8192, 8200]) 0 None (val_OPERATION_PROPERTY QDMI_OPERATION_PROPERTY_FIDELITY)) =
    Inr (double_bytes d)"
proof -
  have "(8192, 8200) \<in> set (pairs_of DEVICE_COUPLING_MAP)"
    by (simp add: DEVICE_COUPLING_MAP_def CXX_DEVICE_SITES_def)
  then show ?thesis
    using cx_fidelity_on_couplings [of 1 "\<lambda>_. None" 8192 8200] by auto
qed

text \<open>What a job answers; \<open>None\<close> where it has no programs yet.\<close>

fun job_payload :: "CXX_QDMI_Device_Job_impl_d \<Rightarrow> QDMI_DEVICE_JOB_PROPERTY_T \<Rightarrow> char list option" where
  "job_payload j QDMI_DEVICE_JOB_PROPERTY_ID = Some (to_string (j_id j) @ [NUL])"
| "job_payload j QDMI_DEVICE_JOB_PROPERTY_SHOTSNUM = Some (le64 (num_shots j))"
| "job_payload j QDMI_DEVICE_JOB_PROPERTY_PROGRAMFORMAT =
     (if programs j = [] then None else Some (le32 (nat (j_format j))))"
| "job_payload j QDMI_DEVICE_JOB_PROPERTY_PROGRAMSNUM =
     (if programs j = [] then None else Some (le64 (length (programs j))))"
| "job_payload j _ = None"

text \<open>C39: The id, the number of shots, the program format and the number of programs of a job are what
  the client's pair of calls obtains; format and number are a bad state exactly as long as the
  job has no programs. Different non-negative ids are reported as different strings.\<close>

theorem job_properties_conform:
  assumes "cxx_reachable env st" and "jobs st p = Some j" and "check QDMI_SUCCESS = None"
    and "k \<in> {QDMI_DEVICE_JOB_PROPERTY_ID, QDMI_DEVICE_JOB_PROPERTY_SHOTSNUM,
      QDMI_DEVICE_JOB_PROPERTY_PROGRAMFORMAT, QDMI_DEVICE_JOB_PROPERTY_PROGRAMSNUM}"
  defines "q \<equiv> CXX_QDMI_device_job_query_property st p (val_DEVICE_JOB_PROPERTY k)"
  shows "(case job_payload j k of
      None \<Rightarrow> programs j = [] \<and>
        (\<forall>sz v sr. (v \<noteq> None \<longrightarrow> 0 < sz) \<longrightarrow> q sz v sr = Inr (QDMI_ERROR_BADSTATE, v, None))
    | Some bs \<Rightarrow> two_call check q = Inr bs) \<and>
    (\<forall>j'. 0 \<le> j_id j \<and> 0 \<le> j_id j' \<and> j_id j \<noteq> j_id j' \<longrightarrow>
       job_payload j QDMI_DEVICE_JOB_PROPERTY_ID \<noteq> job_payload j' QDMI_DEVICE_JOB_PROPERTY_ID)"
proof -
  have inv: "cxx_inv st" using reachable_inv [OF assms(1)] .
  have p: "p \<noteq> nullptr" using inv assms(2) heap_ok_live_nonnull by (auto simp: cxx_inv_def)
  have "job_ok j" using inv assms(2) by (auto simp: cxx_inv_def jobs_ok_def)
  then have format: "programs j = [] \<longleftrightarrow> j_format j = val_PROGRAM_FORMAT QDMI_PROGRAM_FORMAT_MAX"
    by (auto simp: job_ok_def Supported_format_iff split: if_splits)
  have str: "c_str (to_string (j_id j)) = to_string (j_id j) @ [NUL]"
    by (rule c_str_c_string [OF c_string_to_string])
  have "\<exists>q'. (\<forall>sz v sr. (v \<noteq> None \<longrightarrow> 0 < sz) \<longrightarrow> q sz v sr = q' sz v sr) \<and> sized_query q' bs"
    if bs: "job_payload j k = Some bs" for bs
  proof (cases "k = QDMI_DEVICE_JOB_PROPERTY_ID")
    case True
    then show ?thesis using bs p assms(2) str.sized_query_axioms [of "to_string (j_id j)"]
      by (intro exI [of _ "string_body (Inr (to_string (j_id j)))"])
         (auto simp: q_def CXX_QDMI_device_job_query_property_def deref_def macro_simps
           invalid_enum_simps str)
  next
    case False
    then show ?thesis using bs p assms(2,4) format single.sized_query_axioms [of bs]
      by (intro exI [of _ "single_value_body (length bs) (Inr bs)"])
         (auto simp: q_def CXX_QDMI_device_job_query_property_def deref_def macro_simps
           invalid_enum_simps split: if_splits)
  qed
  then have two: "two_call check q = Inr bs" if "job_payload j k = Some bs" for bs
    using that sized_query_cong sized_query.two_call_payload [of q bs check] assms(3) by metis
  have empty: "programs j = []" if "job_payload j k = None"
    using that assms(4) by (auto split: if_splits)
  have none: "q sz v sr = Inr (QDMI_ERROR_BADSTATE, v, None)"
    if "job_payload j k = None" "v \<noteq> None \<longrightarrow> 0 < sz" for sz v sr
    using that p assms(2,4) format
    by (auto simp: q_def CXX_QDMI_device_job_query_property_def deref_def macro_simps
        invalid_enum_simps reject_def split: if_splits)
  have "0 \<le> j_id j \<Longrightarrow> 0 \<le> i \<Longrightarrow> j_id j \<noteq> i \<Longrightarrow> to_string (j_id j) \<noteq> to_string i" for i
    using to_string_inject by blast
  then show ?thesis using two none empty by (auto split: option.splits)
qed

theorem job_properties_conform_witness:
  "two_call (\<lambda>_. None) (CXX_QDMI_device_job_query_property sample_state 65537
     (val_DEVICE_JOB_PROPERTY QDMI_DEVICE_JOB_PROPERTY_SHOTSNUM)) = Inr (le64 3)"
  using job_properties_conform [OF sample_reachable, of 65537 sample_job "\<lambda>_. None"
      QDMI_DEVICE_JOB_PROPERTY_SHOTSNUM]
  by (simp add: sample_state_def sample_job_def)

end
