(* ===== verification/Device_Interface.thy ===== *)
theory Device_Interface
  imports Sized_Query
begin

text \<open>
  The device interface \<open>include/qdmi/device.h\<close>: the functions a device library provides, as a
  record of functions on a state \<open>'w\<close> the libraries share, and the documentation of each
  function as a predicate \<open>doc_...\<close> that says in which situation which status code may be
  returned. Where the documentation ties a code to something the caller cannot see (a device
  that does not support a value, a fatal error) the code is allowed; where it ties it to the
  arguments or the state, the code is allowed only then, and \<open>QDMI_SUCCESS\<close> is not allowed where
  an error is documented. A code that is not documented is not allowed. The locale
  \<open>device_sessions\<close> is what a driver needs of a library to manage its sessions and jobs.
\<close>

section \<open>The functions of a device library\<close>

text \<open>
  An out-pointer is a flag (whether it is not null) among the arguments and the optional value
  stored through it in the result. A function that returns \<open>void\<close> gives the new state only. The
  retrieval of jobs is optional in a library.
\<close>

record 'w device_fns =
  device_initialize :: "'w \<Rightarrow> (QDMI_STATUS \<times> 'w) outcome"
  device_finalize :: "'w \<Rightarrow> (QDMI_STATUS \<times> 'w) outcome"
  device_session_alloc :: "bool \<Rightarrow> 'w \<Rightarrow> (QDMI_STATUS \<times> ptr option \<times> 'w) outcome"
  device_session_init :: "ptr \<Rightarrow> 'w \<Rightarrow> (QDMI_STATUS \<times> 'w) outcome"
  device_session_free :: "ptr \<Rightarrow> 'w \<Rightarrow> 'w outcome"
  device_session_set_parameter ::
    "ptr \<Rightarrow> int \<Rightarrow> nat \<Rightarrow> region option \<Rightarrow> 'w \<Rightarrow> (QDMI_STATUS \<times> 'w) outcome"
  device_session_create_device_job ::
    "ptr \<Rightarrow> bool \<Rightarrow> 'w \<Rightarrow> (QDMI_STATUS \<times> ptr option \<times> 'w) outcome"
  device_session_retrieve_device_job_by_id ::
    "(ptr \<Rightarrow> string option \<Rightarrow> bool \<Rightarrow> 'w \<Rightarrow> (QDMI_STATUS \<times> ptr option \<times> 'w) outcome) option"
  device_job_free :: "ptr \<Rightarrow> 'w \<Rightarrow> 'w outcome"
  device_job_set_parameter ::
    "ptr \<Rightarrow> int \<Rightarrow> nat \<Rightarrow> region option \<Rightarrow> 'w \<Rightarrow> (QDMI_STATUS \<times> 'w) outcome"
  device_job_set_programs ::
    "ptr \<Rightarrow> int \<Rightarrow> nat \<Rightarrow> nat list option \<Rightarrow> region option list option \<Rightarrow> 'w \<Rightarrow>
       (QDMI_STATUS \<times> 'w) outcome"
  device_job_get_program :: "'w \<Rightarrow> ptr \<Rightarrow> nat \<Rightarrow> query"
  device_job_get_program_status ::
    "'w \<Rightarrow> ptr \<Rightarrow> nat \<Rightarrow> bool \<Rightarrow> (QDMI_STATUS \<times> QDMI_JOB_STATUS_T option) outcome"
  device_job_query_property :: "'w \<Rightarrow> ptr \<Rightarrow> int \<Rightarrow> query"
  device_job_submit :: "ptr \<Rightarrow> 'w \<Rightarrow> (QDMI_STATUS \<times> 'w) outcome"
  device_job_cancel :: "ptr \<Rightarrow> 'w \<Rightarrow> (QDMI_STATUS \<times> 'w) outcome"
  device_job_check ::
    "ptr \<Rightarrow> bool \<Rightarrow> 'w \<Rightarrow> (QDMI_STATUS \<times> QDMI_JOB_STATUS_T option \<times> 'w) outcome"
  device_job_wait :: "ptr \<Rightarrow> nat \<Rightarrow> 'w \<Rightarrow> (QDMI_STATUS \<times> 'w) outcome"
  device_job_get_results :: "'w \<Rightarrow> ptr \<Rightarrow> nat \<Rightarrow> int \<Rightarrow> query"
  device_session_query_device_property :: "'w \<Rightarrow> ptr \<Rightarrow> int \<Rightarrow> query"
  device_session_query_site_property :: "'w \<Rightarrow> ptr \<Rightarrow> ptr \<Rightarrow> int \<Rightarrow> query"
  device_session_query_operation_property ::
    "'w \<Rightarrow> ptr \<Rightarrow> ptr \<Rightarrow> nat \<Rightarrow> ptr list option \<Rightarrow> nat \<Rightarrow> double list option \<Rightarrow> int \<Rightarrow> query"

section \<open>The documented status codes\<close>

fun doc_device_initialize :: "QDMI_STATUS \<Rightarrow> bool" where
  "doc_device_initialize QDMI_SUCCESS = True"
| "doc_device_initialize QDMI_ERROR_FATAL = True"
| "doc_device_initialize _ = False"

fun doc_device_finalize :: "QDMI_STATUS \<Rightarrow> bool" where
  "doc_device_finalize QDMI_SUCCESS = True"
| "doc_device_finalize QDMI_ERROR_FATAL = True"
| "doc_device_finalize _ = False"

text \<open>\<open>null\<close>: the argument that must not be null is.\<close>

fun doc_device_session_alloc :: "bool \<Rightarrow> QDMI_STATUS \<Rightarrow> bool" where
  "doc_device_session_alloc null QDMI_SUCCESS = (\<not> null)"
| "doc_device_session_alloc null QDMI_ERROR_INVALIDARGUMENT = null"
| "doc_device_session_alloc null QDMI_ERROR_OUTOFMEM = True"
| "doc_device_session_alloc null QDMI_ERROR_FATAL = True"
| "doc_device_session_alloc null _ = False"

text \<open>
  A parameter of a session or job: \<open>bad_size\<close> says that the value is not null and its size zero
  or not the one documented for the parameter.
\<close>

fun doc_device_session_set_parameter :: "bool \<Rightarrow> bool \<Rightarrow> bool \<Rightarrow> QDMI_STATUS \<Rightarrow> bool" where
  "doc_device_session_set_parameter null invalid bad_size QDMI_SUCCESS =
     (\<not> null \<and> \<not> invalid \<and> \<not> bad_size)"
| "doc_device_session_set_parameter null invalid bad_size QDMI_ERROR_NOTSUPPORTED = True"
| "doc_device_session_set_parameter null invalid bad_size QDMI_ERROR_INVALIDARGUMENT =
     (null \<or> invalid \<or> bad_size)"
| "doc_device_session_set_parameter null invalid bad_size QDMI_ERROR_BADSTATE = True"
| "doc_device_session_set_parameter null invalid bad_size QDMI_ERROR_FATAL = True"
| "doc_device_session_set_parameter null invalid bad_size _ = False"

text \<open>\<open>initialized\<close>: the session already is; it may be initialized only once.\<close>

fun doc_device_session_init :: "bool \<Rightarrow> bool \<Rightarrow> QDMI_STATUS \<Rightarrow> bool" where
  "doc_device_session_init null is_init QDMI_SUCCESS = (\<not> null \<and> \<not> is_init)"
| "doc_device_session_init null is_init QDMI_ERROR_PERMISSIONDENIED = True"
| "doc_device_session_init null is_init QDMI_ERROR_INVALIDARGUMENT = null"
| "doc_device_session_init null is_init QDMI_ERROR_BADSTATE = True"
| "doc_device_session_init null is_init QDMI_ERROR_FATAL = True"
| "doc_device_session_init null is_init _ = False"

text \<open>
  A query: \<open>too_small\<close> says that the value is not null and \<open>size\<close> less than that of the data.
  The queries of a session need an initialized session.
\<close>

fun doc_query :: "bool \<Rightarrow> bool \<Rightarrow> bool \<Rightarrow> bool \<Rightarrow> QDMI_STATUS \<Rightarrow> bool" where
  "doc_query null invalid too_small is_init QDMI_SUCCESS =
     (\<not> null \<and> \<not> invalid \<and> \<not> too_small \<and> is_init)"
| "doc_query null invalid too_small is_init QDMI_ERROR_NOTSUPPORTED = True"
| "doc_query null invalid too_small is_init QDMI_ERROR_INVALIDARGUMENT =
     (null \<or> invalid \<or> too_small)"
| "doc_query null invalid too_small is_init QDMI_ERROR_BADSTATE = True"
| "doc_query null invalid too_small is_init QDMI_ERROR_FATAL = True"
| "doc_query null invalid too_small is_init _ = False"

definition doc_query_device_property :: "bool \<Rightarrow> bool \<Rightarrow> bool \<Rightarrow> bool \<Rightarrow> QDMI_STATUS \<Rightarrow> bool" where
  "doc_query_device_property null_session = doc_query null_session"

definition doc_query_site_property ::
  "bool \<Rightarrow> bool \<Rightarrow> bool \<Rightarrow> bool \<Rightarrow> bool \<Rightarrow> QDMI_STATUS \<Rightarrow> bool" where
  "doc_query_site_property null_session null_site = doc_query (null_session \<or> null_site)"

definition doc_query_operation_property ::
  "bool \<Rightarrow> bool \<Rightarrow> bool \<Rightarrow> bool \<Rightarrow> bool \<Rightarrow> QDMI_STATUS \<Rightarrow> bool" where
  "doc_query_operation_property null_session null_operation =
     doc_query (null_session \<or> null_operation)"

text \<open>The size of the data is the one the query itself reports.\<close>

definition buffer_too_small :: "query \<Rightarrow> nat \<Rightarrow> region option \<Rightarrow> bool" where
  "buffer_too_small q sz v \<longleftrightarrow> v \<noteq> None \<and>
     (sz = 0 \<or> (case q 0 None True of Inr (QDMI_SUCCESS, _, Some n) \<Rightarrow> sz < n | _ \<Rightarrow> False))"

text \<open>Jobs.\<close>

fun doc_create_device_job :: "bool \<Rightarrow> bool \<Rightarrow> QDMI_STATUS \<Rightarrow> bool" where
  "doc_create_device_job null is_init QDMI_SUCCESS = (\<not> null \<and> is_init)"
| "doc_create_device_job null is_init QDMI_ERROR_INVALIDARGUMENT = null"
| "doc_create_device_job null is_init QDMI_ERROR_BADSTATE = True"
| "doc_create_device_job null is_init QDMI_ERROR_PERMISSIONDENIED = True"
| "doc_create_device_job null is_init QDMI_ERROR_FATAL = True"
| "doc_create_device_job null is_init _ = False"

text \<open>\<open>null_or_empty\<close>: the session, the id or the out-pointer is null, or the id is empty.\<close>

fun doc_retrieve_device_job_by_id :: "bool \<Rightarrow> bool \<Rightarrow> QDMI_STATUS \<Rightarrow> bool" where
  "doc_retrieve_device_job_by_id null_or_empty is_init QDMI_SUCCESS =
     (\<not> null_or_empty \<and> is_init)"
| "doc_retrieve_device_job_by_id null_or_empty is_init QDMI_ERROR_INVALIDARGUMENT = null_or_empty"
| "doc_retrieve_device_job_by_id null_or_empty is_init QDMI_ERROR_NOTSUPPORTED = (\<not> null_or_empty)"
| "doc_retrieve_device_job_by_id null_or_empty is_init QDMI_ERROR_NOTFOUND = True"
| "doc_retrieve_device_job_by_id null_or_empty is_init QDMI_ERROR_BADSTATE = (\<not> is_init)"
| "doc_retrieve_device_job_by_id null_or_empty is_init QDMI_ERROR_PERMISSIONDENIED = True"
| "doc_retrieve_device_job_by_id null_or_empty is_init QDMI_ERROR_FATAL = True"
| "doc_retrieve_device_job_by_id null_or_empty is_init _ = False"

fun doc_job_set_parameter :: "bool \<Rightarrow> bool \<Rightarrow> bool \<Rightarrow> QDMI_STATUS \<Rightarrow> bool" where
  "doc_job_set_parameter null invalid bad_size QDMI_SUCCESS = (\<not> null \<and> \<not> invalid \<and> \<not> bad_size)"
| "doc_job_set_parameter null invalid bad_size QDMI_ERROR_NOTSUPPORTED = True"
| "doc_job_set_parameter null invalid bad_size QDMI_ERROR_INVALIDARGUMENT =
     (null \<or> invalid \<or> bad_size)"
| "doc_job_set_parameter null invalid bad_size QDMI_ERROR_BADSTATE = True"
| "doc_job_set_parameter null invalid bad_size QDMI_ERROR_OUTOFMEM = True"
| "doc_job_set_parameter null invalid bad_size QDMI_ERROR_PERMISSIONDENIED = True"
| "doc_job_set_parameter null invalid bad_size QDMI_ERROR_FATAL = True"
| "doc_job_set_parameter null invalid bad_size _ = False"

text \<open>
  \<open>bad_call\<close>: the job is null, the count zero or the format not valid. \<open>bad_programs\<close>: there are
  programs but no sizes, a null program, a size of zero, or a text program without exactly one
  trailing NUL.
\<close>

fun doc_job_set_programs :: "bool \<Rightarrow> bool \<Rightarrow> QDMI_STATUS \<Rightarrow> bool" where
  "doc_job_set_programs bad_call bad_programs QDMI_SUCCESS = (\<not> bad_call \<and> \<not> bad_programs)"
| "doc_job_set_programs bad_call bad_programs QDMI_ERROR_INVALIDARGUMENT =
     (bad_call \<or> bad_programs)"
| "doc_job_set_programs bad_call bad_programs QDMI_ERROR_NOTSUPPORTED = (\<not> bad_call)"
| "doc_job_set_programs bad_call bad_programs QDMI_ERROR_BADSTATE = True"
| "doc_job_set_programs bad_call bad_programs QDMI_ERROR_PERMISSIONDENIED = True"
| "doc_job_set_programs bad_call bad_programs QDMI_ERROR_OUTOFMEM = True"
| "doc_job_set_programs bad_call bad_programs QDMI_ERROR_FATAL = True"
| "doc_job_set_programs bad_call bad_programs _ = False"

fun doc_job_get_program :: "bool \<Rightarrow> bool \<Rightarrow> bool \<Rightarrow> bool \<Rightarrow> QDMI_STATUS \<Rightarrow> bool" where
  "doc_job_get_program null no_programs out_of_range too_small QDMI_SUCCESS =
     (\<not> null \<and> \<not> no_programs \<and> \<not> out_of_range \<and> \<not> too_small)"
| "doc_job_get_program null no_programs out_of_range too_small QDMI_ERROR_NOTSUPPORTED = True"
| "doc_job_get_program null no_programs out_of_range too_small QDMI_ERROR_BADSTATE = no_programs"
| "doc_job_get_program null no_programs out_of_range too_small QDMI_ERROR_OUTOFRANGE = out_of_range"
| "doc_job_get_program null no_programs out_of_range too_small QDMI_ERROR_INVALIDARGUMENT =
     (null \<or> too_small)"
| "doc_job_get_program null no_programs out_of_range too_small QDMI_ERROR_PERMISSIONDENIED = True"
| "doc_job_get_program null no_programs out_of_range too_small QDMI_ERROR_FATAL = True"
| "doc_job_get_program null no_programs out_of_range too_small _ = False"

text \<open>An index out of range is reported as such even where outcomes are not supported.\<close>

fun doc_job_get_program_status :: "bool \<Rightarrow> bool \<Rightarrow> bool \<Rightarrow> QDMI_STATUS \<Rightarrow> bool" where
  "doc_job_get_program_status null null_status out_of_range QDMI_SUCCESS =
     (\<not> null \<and> \<not> null_status \<and> \<not> out_of_range)"
| "doc_job_get_program_status null null_status out_of_range QDMI_ERROR_NOTSUPPORTED =
     (\<not> out_of_range)"
| "doc_job_get_program_status null null_status out_of_range QDMI_ERROR_BADSTATE = True"
| "doc_job_get_program_status null null_status out_of_range QDMI_ERROR_OUTOFRANGE = out_of_range"
| "doc_job_get_program_status null null_status out_of_range QDMI_ERROR_INVALIDARGUMENT =
     (null \<or> null_status)"
| "doc_job_get_program_status null null_status out_of_range QDMI_ERROR_FATAL = True"
| "doc_job_get_program_status null null_status out_of_range _ = False"

definition doc_job_query_property :: "bool \<Rightarrow> bool \<Rightarrow> bool \<Rightarrow> QDMI_STATUS \<Rightarrow> bool" where
  "doc_job_query_property null invalid too_small = doc_query null invalid too_small True"

text \<open>\<open>missing\<close>: a program or format is missing, or the job was retrieved by its id.\<close>

fun doc_job_submit :: "bool \<Rightarrow> bool \<Rightarrow> QDMI_STATUS \<Rightarrow> bool" where
  "doc_job_submit null missing QDMI_SUCCESS = (\<not> null \<and> \<not> missing)"
| "doc_job_submit null missing QDMI_ERROR_INVALIDARGUMENT = null"
| "doc_job_submit null missing QDMI_ERROR_BADSTATE = missing"
| "doc_job_submit null missing QDMI_ERROR_PERMISSIONDENIED = True"
| "doc_job_submit null missing QDMI_ERROR_OUTOFMEM = True"
| "doc_job_submit null missing QDMI_ERROR_FATAL = True"
| "doc_job_submit null missing _ = False"

fun doc_job_cancel :: "bool \<Rightarrow> bool \<Rightarrow> QDMI_STATUS \<Rightarrow> bool" where
  "doc_job_cancel null finished QDMI_SUCCESS = (\<not> null \<and> \<not> finished)"
| "doc_job_cancel null finished QDMI_ERROR_INVALIDARGUMENT = (null \<or> finished)"
| "doc_job_cancel null finished QDMI_ERROR_PERMISSIONDENIED = True"
| "doc_job_cancel null finished QDMI_ERROR_FATAL = True"
| "doc_job_cancel null finished _ = False"

fun doc_job_check :: "bool \<Rightarrow> QDMI_STATUS \<Rightarrow> bool" where
  "doc_job_check null QDMI_SUCCESS = (\<not> null)"
| "doc_job_check null QDMI_ERROR_INVALIDARGUMENT = null"
| "doc_job_check null QDMI_ERROR_PERMISSIONDENIED = True"
| "doc_job_check null QDMI_ERROR_FATAL = True"
| "doc_job_check null _ = False"

text \<open>\<open>ended\<close>: the job is in a terminal state when the function returns.\<close>

fun doc_job_wait :: "bool \<Rightarrow> nat \<Rightarrow> bool \<Rightarrow> QDMI_STATUS \<Rightarrow> bool" where
  "doc_job_wait null timeout ended QDMI_SUCCESS = (\<not> null \<and> ended)"
| "doc_job_wait null timeout ended QDMI_ERROR_INVALIDARGUMENT = null"
| "doc_job_wait null timeout ended QDMI_ERROR_PERMISSIONDENIED = True"
| "doc_job_wait null timeout ended QDMI_ERROR_TIMEOUT = (timeout \<noteq> 0 \<and> \<not> ended)"
| "doc_job_wait null timeout ended QDMI_ERROR_FATAL = (\<not> ended)"
| "doc_job_wait null timeout ended _ = False"

text \<open>\<open>succeeded\<close>: the selected program has.\<close>

fun doc_job_get_results :: "bool \<Rightarrow> bool \<Rightarrow> bool \<Rightarrow> bool \<Rightarrow> bool \<Rightarrow> QDMI_STATUS \<Rightarrow> bool" where
  "doc_job_get_results null invalid too_small out_of_range succeeded QDMI_SUCCESS =
     (\<not> null \<and> \<not> invalid \<and> \<not> too_small \<and> \<not> out_of_range \<and> succeeded)"
| "doc_job_get_results null invalid too_small out_of_range succeeded QDMI_ERROR_NOTSUPPORTED = True"
| "doc_job_get_results null invalid too_small out_of_range succeeded QDMI_ERROR_BADSTATE =
     (\<not> succeeded)"
| "doc_job_get_results null invalid too_small out_of_range succeeded QDMI_ERROR_OUTOFRANGE =
     out_of_range"
| "doc_job_get_results null invalid too_small out_of_range succeeded QDMI_ERROR_INVALIDARGUMENT =
     (null \<or> invalid \<or> too_small)"
| "doc_job_get_results null invalid too_small out_of_range succeeded QDMI_ERROR_PERMISSIONDENIED =
     True"
| "doc_job_get_results null invalid too_small out_of_range succeeded QDMI_ERROR_FATAL = True"
| "doc_job_get_results null invalid too_small out_of_range succeeded _ = False"

section \<open>What a driver needs of a library\<close>

text \<open>
  \<open>ok\<close> is an invariant of the library's state, \<open>ses\<close> and \<open>jbs\<close> are its live sessions and jobs. An
  allocation returns a new handle and nothing else makes or ends one; a call on live handles
  with buffers as long as stated returns or throws; freeing a live handle returns.
\<close>

definition no_fault :: "'a outcome \<Rightarrow> bool" where
  "no_fault m \<longleftrightarrow> (case m of Inl e \<Rightarrow> as_exn e \<noteq> None | Inr _ \<Rightarrow> True)"

lemma no_fault_Inr [simp]: "no_fault (Inr x)"
  by (simp add: no_fault_def)

lemma no_fault_Inl [simp]: "no_fault (Inl e) \<longleftrightarrow> as_exn e \<noteq> None"
  by (simp add: no_fault_def)

lemma returns_no_fault: "returns m \<Longrightarrow> no_fault m"
  by (auto simp: returns_def)

definition keeps :: "('w \<Rightarrow> bool) \<Rightarrow> ('w \<Rightarrow> ptr set) \<Rightarrow> ('w \<Rightarrow> ptr set) \<Rightarrow> 'w \<Rightarrow> 'w \<Rightarrow> bool" where
  "keeps ok ses jbs w w' \<longleftrightarrow> ok w' \<and> ses w' = ses w \<and> jbs w' = jbs w"

locale device_sessions =
  fixes d :: "'w device_fns" and ok :: "'w \<Rightarrow> bool"
    and ses :: "'w \<Rightarrow> ptr set" and jbs :: "'w \<Rightarrow> ptr set"
  assumes initialize_safe: "ok w \<Longrightarrow> no_fault (device_initialize d w)"
    and initialize_D: "ok w \<Longrightarrow> device_initialize d w = Inr (r, w') \<Longrightarrow> keeps ok ses jbs w w'"
    and finalize_D: "ok w \<Longrightarrow> \<exists>r w'. device_finalize d w = Inr (r, w') \<and> keeps ok ses jbs w w'"
    and alloc_safe: "ok w \<Longrightarrow> no_fault (device_session_alloc d True w)"
    and alloc_D: "ok w \<Longrightarrow> device_session_alloc d True w = Inr (r, out, w') \<Longrightarrow>
      ok w' \<and> jbs w' = jbs w \<and>
      (r = QDMI_SUCCESS \<and> (\<exists>s. out = Some s \<and> s \<noteq> nullptr \<and> s \<notin> ses w \<and> ses w' = insert s (ses w)) \<or>
       r \<noteq> QDMI_SUCCESS \<and> out = None \<and> ses w' = ses w)"
    and set_parameter_safe: "ok w \<Longrightarrow> p \<in> ses w \<Longrightarrow> sz \<le> length mem \<Longrightarrow>
      no_fault (device_session_set_parameter d p param sz (Some mem) w)"
    and set_parameter_D: "ok w \<Longrightarrow> device_session_set_parameter d p param sz v w = Inr (r, w') \<Longrightarrow>
      keeps ok ses jbs w w'"
    and init_safe: "ok w \<Longrightarrow> p \<in> ses w \<Longrightarrow> no_fault (device_session_init d p w)"
    and init_D: "ok w \<Longrightarrow> device_session_init d p w = Inr (r, w') \<Longrightarrow> keeps ok ses jbs w w'"
    and free_D: "ok w \<Longrightarrow> p \<in> ses w \<Longrightarrow> \<exists>w'. device_session_free d p w = Inr w' \<and>
      ok w' \<and> ses w' = ses w - {p} \<and> jbs w' = jbs w"
    and create_job_safe: "ok w \<Longrightarrow> p \<in> ses w \<Longrightarrow>
      no_fault (device_session_create_device_job d p True w)"
    and create_job_D: "ok w \<Longrightarrow> device_session_create_device_job d p True w = Inr (r, out, w') \<Longrightarrow>
      ok w' \<and> ses w' = ses w \<and>
      (r = QDMI_SUCCESS \<and> (\<exists>j. out = Some j \<and> j \<noteq> nullptr \<and> j \<notin> jbs w \<and> jbs w' = insert j (jbs w)) \<or>
       r \<noteq> QDMI_SUCCESS \<and> jbs w' = jbs w)"
    and retrieve_job_D: "ok w \<Longrightarrow> device_session_retrieve_device_job_by_id d = Some retrieve \<Longrightarrow>
      retrieve p jid True w = Inr (r, out, w') \<Longrightarrow>
      ok w' \<and> ses w' = ses w \<and>
      (r = QDMI_SUCCESS \<and> (\<exists>j. out = Some j \<and> j \<noteq> nullptr \<and> j \<notin> jbs w \<and> jbs w' = insert j (jbs w)) \<or>
       r \<noteq> QDMI_SUCCESS \<and> jbs w' = jbs w)"
    and job_free_D: "ok w \<Longrightarrow> j \<in> jbs w \<Longrightarrow> \<exists>w'. device_job_free d j w = Inr w' \<and>
      ok w' \<and> ses w' = ses w \<and> jbs w' = jbs w - {j}"
    and job_set_parameter_D: "ok w \<Longrightarrow> device_job_set_parameter d j param sz v w = Inr (r, w') \<Longrightarrow>
      keeps ok ses jbs w w'"
    and job_set_programs_D: "ok w \<Longrightarrow> device_job_set_programs d j f n sizes ps w = Inr (r, w') \<Longrightarrow>
      keeps ok ses jbs w w'"
    and job_submit_D: "ok w \<Longrightarrow> device_job_submit d j w = Inr (r, w') \<Longrightarrow> keeps ok ses jbs w w'"
    and job_cancel_D: "ok w \<Longrightarrow> device_job_cancel d j w = Inr (r, w') \<Longrightarrow> keeps ok ses jbs w w'"
    and job_check_D: "ok w \<Longrightarrow> device_job_check d j b w = Inr (r, js, w') \<Longrightarrow>
      keeps ok ses jbs w w'"
    and job_wait_D: "ok w \<Longrightarrow> device_job_wait d j n w = Inr (r, w') \<Longrightarrow> keeps ok ses jbs w w'"

section \<open>Queries and the documentation\<close>

context sized_query
begin

lemma documented:
  assumes "query sz v sr = Inr (r, v', n)" and "v \<noteq> None \<longrightarrow> 0 < sz"
    and "case v of None \<Rightarrow> True | Some mem \<Rightarrow> sz \<le> length mem"
  shows "doc_query False False (buffer_too_small query sz v) True r"
proof (cases v)
  case None
  then show ?thesis using assms(1) by (simp add: ask_size buffer_too_small_def)
next
  case (Some mem)
  then have sz: "0 < sz" "sz \<le> length mem" using assms(2,3) by auto
  have small: "buffer_too_small query sz v \<longleftrightarrow> sz < length payload"
    using Some sz by (simp add: buffer_too_small_def ask_size)
  show ?thesis
  proof (cases "sz < length payload")
    case True
    then show ?thesis using too_small [OF sz(1) True, of mem sr] assms(1) Some small by auto
  next
    case False
    then show ?thesis using fits [OF sz(1) _ sz(2), of sr] assms(1) Some small by auto
  qed
qed

end

end
