(* ===== verification/Cxx_Device.thy ===== *)
theory Cxx_Device
  imports Cxx_Properties Device_Interface
begin

text \<open>
  The example device as a library of the device interface: the record of its functions, the
  proof that it keeps what a driver relies on (an interpretation of \<open>device_sessions\<close>), and the
  comparison of its status codes with the documentation in \<open>device.h\<close>, including the calls where
  the two differ. \<open>oom\<close> and \<open>fails\<close> are the allocator of the calls: \<open>oom\<close> for the objects, \<open>fails\<close> for
  everything else, with 0 for the copy of a token and the map of a histogram.
\<close>

definition cxx_fns :: "cxx_env \<Rightarrow> bool \<Rightarrow> (nat \<Rightarrow> bool) \<Rightarrow> cxx_state device_fns" where
  "cxx_fns env oom fails =
     \<lparr>device_initialize = CXX_QDMI_device_initialize,
      device_finalize = CXX_QDMI_device_finalize,
      device_session_alloc = CXX_QDMI_device_session_alloc oom,
      device_session_init = CXX_QDMI_device_session_init,
      device_session_free = CXX_QDMI_device_session_free,
      device_session_set_parameter = CXX_QDMI_device_session_set_parameter (fails 0),
      device_session_create_device_job = CXX_QDMI_device_session_create_device_job env oom,
      device_session_retrieve_device_job_by_id =
        Some CXX_QDMI_device_session_retrieve_device_job_by_id,
      device_job_free = CXX_QDMI_device_job_free,
      device_job_set_parameter = CXX_QDMI_device_job_set_parameter,
      device_job_set_programs = CXX_QDMI_device_job_set_programs fails,
      device_job_get_program = CXX_QDMI_device_job_get_program,
      device_job_get_program_status = CXX_QDMI_device_job_get_program_status,
      device_job_query_property = CXX_QDMI_device_job_query_property,
      device_job_submit = CXX_QDMI_device_job_submit env fails,
      device_job_cancel = CXX_QDMI_device_job_cancel,
      device_job_check = CXX_QDMI_device_job_check env,
      device_job_wait = CXX_QDMI_device_job_wait,
      device_job_get_results = CXX_QDMI_device_job_get_results (fails 0) env,
      device_session_query_device_property = CXX_QDMI_device_session_query_device_property env,
      device_session_query_site_property = (\<lambda>st. CXX_QDMI_device_session_query_site_property),
      device_session_query_operation_property =
        (\<lambda>st. CXX_QDMI_device_session_query_operation_property)\<rparr>"

section \<open>The driver's contract\<close>

lemma create_job_D:
  "CXX_QDMI_device_session_create_device_job env oom p out st = Inr (r, q, st') \<Longrightarrow>
     is_error r \<and> q = None \<and> st' = st \<or>
     (\<exists>i g. r = QDMI_SUCCESS \<and> initialized st p \<and> q = Some (heap_next st) \<and>
        st' = st\<lparr>gen := g, jobs := (jobs st)(heap_next st \<mapsto>
            new_job\<lparr>j_session := p, j_id := i, j_status := QDMI_JOB_STATUS_CREATED\<rparr>),
          heap_next := heap_next st + 1\<rparr>)"
  by (auto simp: CXX_QDMI_device_session_create_device_job_def bind_o_eq_Inr Let_def is_error_iff
      initialized_def split: if_splits prod.splits)

lemma cxx_exec_inv:
  "cxx_inv st \<Longrightarrow> CXX_QDMI_device_initialize st = Inr (r, st') \<Longrightarrow> cxx_inv st'"
  "cxx_inv st \<Longrightarrow> CXX_QDMI_device_finalize st = Inr (r, st') \<Longrightarrow> cxx_inv st'"
  "cxx_inv st \<Longrightarrow> CXX_QDMI_device_session_alloc oom out st = Inr (r, q, st') \<Longrightarrow> cxx_inv st'"
  "cxx_inv st \<Longrightarrow> CXX_QDMI_device_session_set_parameter oom p param sz v st = Inr (r, st') \<Longrightarrow>
     cxx_inv st'"
  "cxx_inv st \<Longrightarrow> CXX_QDMI_device_session_init p st = Inr (r, st') \<Longrightarrow> cxx_inv st'"
  "cxx_inv st \<Longrightarrow> CXX_QDMI_device_session_free p st = Inr st' \<Longrightarrow> cxx_inv st'"
  "cxx_inv st \<Longrightarrow> CXX_QDMI_device_session_create_device_job env oom p out st = Inr (r, q, st') \<Longrightarrow>
     cxx_inv st'"
  "cxx_inv st \<Longrightarrow> CXX_QDMI_device_job_free p st = Inr st' \<Longrightarrow> cxx_inv st'"
  using exec_inv [of st env Device_initialize st'] exec_inv [of st env Device_finalize st']
    exec_inv [of st env "Session_alloc oom out" st']
    exec_inv [of st env "Session_set_parameter oom p param sz v" st']
    exec_inv [of st env "Session_init p" st'] exec_inv [of st env "Session_free p" st']
    exec_inv [of st env "Create_device_job oom p out" st'] exec_inv [of st env "Job_free p" st']
  by (auto simp: last_of_Inr last_of3_Inr)

lemma cxx_exec_job_inv:
  "cxx_inv st \<Longrightarrow> CXX_QDMI_device_job_set_parameter p param sz v st = Inr (r, st') \<Longrightarrow> cxx_inv st'"
  "cxx_inv st \<Longrightarrow> CXX_QDMI_device_job_set_programs fails p f n sizes ps st = Inr (r, st') \<Longrightarrow>
     cxx_inv st'"
  "cxx_inv st \<Longrightarrow> CXX_QDMI_device_job_submit env fails p st = Inr (r, st') \<Longrightarrow> cxx_inv st'"
  "cxx_inv st \<Longrightarrow> CXX_QDMI_device_job_cancel p st = Inr (r, st') \<Longrightarrow> cxx_inv st'"
  "cxx_inv st \<Longrightarrow> CXX_QDMI_device_job_check env p out st = Inr (r, q, st') \<Longrightarrow> cxx_inv st'"
  "cxx_inv st \<Longrightarrow> CXX_QDMI_device_job_wait p timeout st = Inr (r, st') \<Longrightarrow> cxx_inv st'"
  using exec_inv [of st env "Job_set_parameter p param sz v" st']
    exec_inv [of st env "Job_set_programs fails p f n sizes ps" st']
    exec_inv [of st env "Job_submit fails p" st'] exec_inv [of st env "Job_cancel p" st']
    exec_inv [of st env "Job_check p out" st'] exec_inv [of st env "Job_wait p timeout" st']
  by (auto simp: last_of_Inr last_of3_Inr)

text \<open>The calls on a job leave the handles alone.\<close>

definition same_handles :: "cxx_state \<Rightarrow> cxx_state \<Rightarrow> bool" where
  "same_handles st st' \<longleftrightarrow> sessions st' = sessions st \<and> dom (jobs st') = dom (jobs st)"

lemma job_calls_dom:
  "CXX_QDMI_device_job_set_parameter p param sz v st = Inr (r, st') \<Longrightarrow>
     same_handles st st'"
  "CXX_QDMI_device_job_set_programs fails p f n sizes ps st = Inr (r, st') \<Longrightarrow>
     same_handles st st'"
  "cxx_inv st \<Longrightarrow> CXX_QDMI_device_job_submit env fails p st = Inr (r, st') \<Longrightarrow>
     same_handles st st'"
  "CXX_QDMI_device_job_cancel p st = Inr (r, st') \<Longrightarrow>
     same_handles st st'"
  "CXX_QDMI_device_job_check env p out st = Inr (r, q, st') \<Longrightarrow>
     same_handles st st'"
  "CXX_QDMI_device_job_wait p timeout st = Inr (r, st') \<Longrightarrow>
     same_handles st st'"
proof -
  note defs = same_handles_def bind_o_eq_Inr Let_def CXX_QDMI_set_device_status_def
  show "CXX_QDMI_device_job_set_parameter p param sz v st = Inr (r, st') \<Longrightarrow> same_handles st st'"
    by (auto simp: CXX_QDMI_device_job_set_parameter_def defs split: if_splits option.splits)
  show "CXX_QDMI_device_job_set_programs fails p f n sizes ps st = Inr (r, st') \<Longrightarrow> same_handles st st'"
    using job_set_programs_D by (fastforce simp: same_handles_def)
  show "cxx_inv st \<Longrightarrow> CXX_QDMI_device_job_submit env fails p st = Inr (r, st') \<Longrightarrow> same_handles st st'"
    using job_submit_D by (fastforce simp: same_handles_def)
  show "CXX_QDMI_device_job_cancel p st = Inr (r, st') \<Longrightarrow> same_handles st st'"
    by (auto simp: CXX_QDMI_device_job_cancel_def defs split: if_splits)
  show "CXX_QDMI_device_job_check env p out st = Inr (r, q, st') \<Longrightarrow> same_handles st st'"
    by (auto simp: CXX_QDMI_device_job_check_def defs split: if_splits prod.splits)
  show "CXX_QDMI_device_job_wait p timeout st = Inr (r, st') \<Longrightarrow> same_handles st st'"
    by (auto simp: CXX_QDMI_device_job_wait_def defs split: if_splits)
qed

lemma cxx_calls_safe:
  assumes "cxx_inv st"
  shows "no_fault (CXX_QDMI_device_session_alloc oom True st)"
    and "p \<in> dom (sessions st) \<Longrightarrow> sz \<le> length mem \<Longrightarrow>
      no_fault (CXX_QDMI_device_session_set_parameter oom p param sz (Some mem) st)"
    and "p \<in> dom (sessions st) \<Longrightarrow> no_fault (CXX_QDMI_device_session_init p st)"
    and "p \<in> dom (sessions st) \<Longrightarrow>
      no_fault (CXX_QDMI_device_session_create_device_job env oom p True st)"
proof -
  have nn: "p \<in> dom (sessions st) \<Longrightarrow> p \<noteq> nullptr"
    using assms heap_ok_live_nonnull(1) by (auto simp: cxx_inv_def)
  show "no_fault (CXX_QDMI_device_session_alloc oom True st)"
    by (simp add: CXX_QDMI_device_session_alloc_def)
  show "p \<in> dom (sessions st) \<Longrightarrow> sz \<le> length mem \<Longrightarrow>
      no_fault (CXX_QDMI_device_session_set_parameter oom p param sz (Some mem) st)"
    using nn by (auto simp: CXX_QDMI_device_session_set_parameter_def deref_def)
  show "p \<in> dom (sessions st) \<Longrightarrow> no_fault (CXX_QDMI_device_session_init p st)"
    using nn by (auto simp: CXX_QDMI_device_session_init_def deref_def)
  show "p \<in> dom (sessions st) \<Longrightarrow>
      no_fault (CXX_QDMI_device_session_create_device_job env oom p True st)"
    using nn by (auto simp: CXX_QDMI_device_session_create_device_job_def deref_def Let_def
        split: prod.splits)
qed

interpretation cxx: device_sessions "cxx_fns env oom fails" cxx_inv
    "\<lambda>st. dom (sessions st)" "\<lambda>st. dom (jobs st)" for env oom fails
proof (unfold_locales, goal_cases)
  case (1 w) then show ?case by (simp add: cxx_fns_def CXX_QDMI_device_initialize_def)
next
  case (2 w r w') then show ?case using cxx_exec_inv(1) [of w r w']
    by (auto simp: cxx_fns_def keeps_def CXX_QDMI_device_initialize_def CXX_QDMI_set_device_status_def)
next
  case (3 w) then show ?case using cxx_exec_inv(2)
    by (auto simp: cxx_fns_def keeps_def CXX_QDMI_device_finalize_def CXX_QDMI_set_device_status_def)
next
  case (4 w) then show ?case using cxx_calls_safe(1) by (simp add: cxx_fns_def)
next
  case (5 w r out w') then show ?case
    using cxx_exec_inv(3) [of w oom True r out w'] heap_ok_fresh [of w]
    by (auto simp: cxx_fns_def cxx_inv_def dest!: session_alloc_D)
next
  case (6 w p sz mem param) then show ?case using cxx_calls_safe(2) by (simp add: cxx_fns_def)
next
  case (7 w p param sz v r w') then show ?case using cxx_exec_inv(4) [of w "fails 0" p param sz v r w']
    by (auto simp: cxx_fns_def keeps_def dest!: session_set_parameter_D split: if_splits)
next
  case (8 w p) then show ?case using cxx_calls_safe(3) by (simp add: cxx_fns_def)
next
  case (9 w p r w') then show ?case using cxx_exec_inv(5) [of w p r w']
    by (auto simp: cxx_fns_def keeps_def dest!: session_init_D split: if_splits)
next
  case (10 w p) then show ?case
    using cxx_exec_inv(6) [of w p] heap_ok_live_nonnull(1) [of w p]
    by (auto simp: cxx_fns_def cxx_inv_def CXX_QDMI_device_session_free_def deref_def)
next
  case (11 w p) then show ?case using cxx_calls_safe(4) by (simp add: cxx_fns_def)
next
  case (12 w p r out w') then show ?case
    using cxx_exec_inv(7) [of w env oom p True r out w'] heap_ok_fresh [of w]
    by (auto simp: cxx_fns_def cxx_inv_def is_error_iff dest!: create_job_D)
next
  case (13 w retrieve p jid r out w') then show ?case
    by (auto simp: cxx_fns_def CXX_QDMI_device_session_retrieve_device_job_by_id_def)
next
  case (14 w j) then show ?case
    using cxx_exec_inv(8) [of w j] heap_ok_live_nonnull(2) [of w j]
    by (auto simp: cxx_fns_def cxx_inv_def CXX_QDMI_device_job_free_def deref_def)
next
  case (15 w j param sz v r w') then show ?case
    using cxx_exec_job_inv(1) [of w j param sz v r w'] job_calls_dom(1) [of j param sz v w r w']
    by (simp add: cxx_fns_def keeps_def same_handles_def)
next
  case (16 w j f n sizes ps r w') then show ?case
    using cxx_exec_job_inv(2) [of w fails j f n sizes ps r w']
      job_calls_dom(2) [of fails j f n sizes ps w r w'] by (simp add: cxx_fns_def keeps_def same_handles_def)
next
  case (17 w j r w') then show ?case
    using cxx_exec_job_inv(3) [of w env fails j r w'] job_calls_dom(3) [of w env fails j r w']
    by (simp add: cxx_fns_def keeps_def same_handles_def)
next
  case (18 w j r w') then show ?case
    using cxx_exec_job_inv(4) [of w j r w'] job_calls_dom(4) [of j w r w']
    by (simp add: cxx_fns_def keeps_def same_handles_def)
next
  case (19 w j b r js w') then show ?case
    using cxx_exec_job_inv(5) [of w env j b r js w'] job_calls_dom(5) [of env j b w r js w']
    by (simp add: cxx_fns_def keeps_def same_handles_def)
next
  case (20 w j n r w') then show ?case
    using cxx_exec_job_inv(6) [of w j n r w'] job_calls_dom(6) [of j n w r w']
    by (simp add: cxx_fns_def keeps_def same_handles_def)
qed

section \<open>The status codes against the documentation\<close>

lemma device_query_documented:
  assumes "CXX_QDMI_device_session_query_device_property env st p prop sz v sr = Inr (r, v', n)"
    and "case v of None \<Rightarrow> True | Some mem \<Rightarrow> sz \<le> length mem"
  defines "q \<equiv> CXX_QDMI_device_session_query_device_property env st p prop"
  shows "doc_query_device_property (p = nullptr)
     (QDMI_IS_INVALID_ENUM_VALUE prop prefix_DEVICE_PROPERTY)
     (buffer_too_small q sz v) (initialized st p) r"
proof (cases "p = nullptr \<or> v \<noteq> None \<and> sz = 0 \<or>
    QDMI_IS_INVALID_ENUM_VALUE prop prefix_DEVICE_PROPERTY \<or> \<not> initialized st p")
  case True
  then show ?thesis using assms(1)
    by (auto simp: CXX_QDMI_device_session_query_device_property_def reject_def bind_o_eq_Inr
        doc_query_device_property_def buffer_too_small_def initialized_def split: if_splits)
next
  case False
  then have ok: "p \<noteq> nullptr" "v \<noteq> None \<longrightarrow> 0 < sz" "initialized st p"
    "\<not> QDMI_IS_INVALID_ENUM_VALUE prop prefix_DEVICE_PROPERTY" by auto
  show ?thesis
  proof (cases "\<exists>e. e \<noteq> QDMI_DEVICE_PROPERTY_MAX \<and> prop = val_DEVICE_PROPERTY e")
    case True
    then obtain e where e: "e \<noteq> QDMI_DEVICE_PROPERTY_MAX" "prop = val_DEVICE_PROPERTY e" by blast
    show ?thesis
    proof (cases "device_body env (d_status st) e")
      case None
      then show ?thesis using assms(1) ok e device_query_eq [OF ok(3) e(1) ok(2)]
        by (simp add: reject_def doc_query_device_property_def)
    next
      case (Some a)
      then have "device_payload env (d_status st) e = Some (snd a)" by (simp add: device_payload_def)
      then show ?thesis
        using sized_query.documented [OF device_property_sized [OF ok(3)]] assms(1,2) ok e
        unfolding q_def doc_query_device_property_def by simp
    qed
  next
    case False
    then have "prop \<noteq> val_DEVICE_PROPERTY e" if "e \<noteq> QDMI_DEVICE_PROPERTY_MAX" for e
      using that by blast
    note ne = this [of QDMI_DEVICE_PROPERTY_ID] this [of QDMI_DEVICE_PROPERTY_NAME]
      this [of QDMI_DEVICE_PROPERTY_VERSION] this [of QDMI_DEVICE_PROPERTY_LIBRARYVERSION]
      this [of QDMI_DEVICE_PROPERTY_STATUS] this [of QDMI_DEVICE_PROPERTY_QUBITSNUM]
      this [of QDMI_DEVICE_PROPERTY_SITES] this [of QDMI_DEVICE_PROPERTY_OPERATIONS]
      this [of QDMI_DEVICE_PROPERTY_COUPLINGMAP] this [of QDMI_DEVICE_PROPERTY_LENGTHUNIT]
      this [of QDMI_DEVICE_PROPERTY_LENGTHSCALEFACTOR] this [of QDMI_DEVICE_PROPERTY_DURATIONUNIT]
      this [of QDMI_DEVICE_PROPERTY_DURATIONSCALEFACTOR]
      this [of QDMI_DEVICE_PROPERTY_SUPPORTEDPROGRAMFORMATS]
    then show ?thesis using assms(1) ok
      by (auto simp: CXX_QDMI_device_session_query_device_property_def macro_simps reject_def
          deref_def initialized_def doc_query_device_property_def)
  qed
qed

text \<open>C35: The calls that set up a session of the example device and query its device properties answer,
  when they return, with a status code \<open>device.h\<close> allows in that situation: allocating, setting a
  parameter, initializing a session that is not initialized yet, and querying a property of the
  device into a buffer as long as stated. (The queries of sites and operations are not among them:
  they ignore the state of the session.)\<close>

theorem session_calls_documented:
  shows "(CXX_QDMI_device_session_alloc oom out st = Inr (r, s, st') \<longrightarrow>
      doc_device_session_alloc (\<not> out) r) \<and>
    (CXX_QDMI_device_session_set_parameter oom p param sz v st = Inr (r, st') \<longrightarrow>
      doc_device_session_set_parameter (p = nullptr)
        (QDMI_IS_INVALID_ENUM_VALUE param prefix_DEVICE_SESSION_PARAMETER) (v \<noteq> None \<and> sz = 0) r) \<and>
    (\<not> initialized st p \<and> CXX_QDMI_device_session_init p st = Inr (r, st') \<longrightarrow>
      doc_device_session_init (p = nullptr) False r) \<and>
    ((case v of None \<Rightarrow> True | Some mem \<Rightarrow> sz \<le> length mem) \<and>
      CXX_QDMI_device_session_query_device_property env st p prop sz v sr = Inr (r, v', n) \<longrightarrow>
      doc_query_device_property (p = nullptr)
        (QDMI_IS_INVALID_ENUM_VALUE prop prefix_DEVICE_PROPERTY)
        (buffer_too_small (CXX_QDMI_device_session_query_device_property env st p prop) sz v)
        (initialized st p) r)"
proof (intro conjI impI)
  show "doc_device_session_alloc (\<not> out) r"
    if "CXX_QDMI_device_session_alloc oom out st = Inr (r, s, st')"
    using session_alloc_D [OF that] by auto
  show "doc_device_session_set_parameter (p = nullptr)
      (QDMI_IS_INVALID_ENUM_VALUE param prefix_DEVICE_SESSION_PARAMETER) (v \<noteq> None \<and> sz = 0) r"
    if "CXX_QDMI_device_session_set_parameter oom p param sz v st = Inr (r, st')"
    using that by (auto simp: CXX_QDMI_device_session_set_parameter_def bind_o_eq_Inr
        split: if_splits option.splits)
  show "doc_device_session_init (p = nullptr) False r"
    if "\<not> initialized st p \<and> CXX_QDMI_device_session_init p st = Inr (r, st')"
    using that by (auto simp: CXX_QDMI_device_session_init_def bind_o_eq_Inr split: if_splits)
qed (use device_query_documented in blast)

theorem session_calls_documented_witness:
  "doc_device_session_set_parameter False False False QDMI_SUCCESS \<and>
   (\<exists>st'. CXX_QDMI_device_session_set_parameter False 65536 1 1 (Some ''k'') allocated_state =
      Inr (QDMI_SUCCESS, st'))"
proof -
  let ?st' = "allocated_state\<lparr>sessions := [65536 \<mapsto> \<lparr>token = ''k'', s_status = ALLOCATED\<rparr>]\<rparr>"
  have run: "CXX_QDMI_device_session_set_parameter False 65536 1 1 (Some ''k'') allocated_state =
      Inr (QDMI_SUCCESS, ?st')"
    by (simp add: CXX_QDMI_device_session_set_parameter_def deref_def allocated_state_def
        invalid_enum_simps)
  show ?thesis
    using session_calls_documented [of False True allocated_state QDMI_SUCCESS None ?st' 65536 1 1
        "Some ''k''"] run by (auto simp: invalid_enum_simps)
qed

text \<open>An initialized session can be initialized again: the call succeeds and changes nothing,
  where the documentation wants a bad state.\<close>

theorem second_init_undocumented:
  assumes "cxx_reachable env st" and "initialized st p"
    and "d_status st \<notin> {QDMI_DEVICE_STATUS_ERROR, QDMI_DEVICE_STATUS_OFFLINE,
      QDMI_DEVICE_STATUS_MAINTENANCE}"
  shows "CXX_QDMI_device_session_init p st = Inr (QDMI_SUCCESS, st) \<and>
    \<not> doc_device_session_init False True QDMI_SUCCESS"
proof -
  obtain s where s: "p \<noteq> nullptr" "sessions st p = Some s" "s_status s = INITIALIZED"
    using assms(2) by (auto simp: initialized_def)
  then have "token s \<noteq> []"
    using reachable_inv [OF assms(1)] by (auto simp: cxx_inv_def sessions_ok_def session_ok_def)
  moreover have "st\<lparr>sessions := (sessions st)(p \<mapsto> s\<lparr>s_status := INITIALIZED\<rparr>)\<rparr> = st"
    using s(2,3) by (cases st; cases s) auto
  ultimately show ?thesis using s assms(3)
    by (simp add: CXX_QDMI_device_session_init_def deref_def CXX_QDMI_get_device_status_def)
qed

theorem second_init_undocumented_witness:
  "CXX_QDMI_device_session_init 65536 sample_state = Inr (QDMI_SUCCESS, sample_state)"
  using second_init_undocumented [OF sample_reachable sample_initialized]
  by (simp add: sample_state_def)












lemma retrieve_null_undocumented:
  "CXX_QDMI_device_session_retrieve_device_job_by_id nullptr jid out st = Inr (QDMI_ERROR_NOTSUPPORTED, None, st) \<and>
     \<not> doc_retrieve_device_job_by_id True is_init QDMI_ERROR_NOTSUPPORTED"
  by (simp add: CXX_QDMI_device_session_retrieve_device_job_by_id_def)






text \<open>Submitting a job a second time is answered with an invalid argument, which the documentation
  reserves for a null job.\<close>

theorem second_submit_undocumented:
  assumes "p \<noteq> nullptr" and "jobs st p = Some j" and "j_status j \<noteq> QDMI_JOB_STATUS_CREATED"
  shows "CXX_QDMI_device_job_submit env fails p st = Inr (QDMI_ERROR_INVALIDARGUMENT, st) \<and>
    \<not> doc_job_submit False missing QDMI_ERROR_INVALIDARGUMENT"
  using assms by (simp add: CXX_QDMI_device_job_submit_def deref_def)

theorem second_submit_undocumented_witness:
  "CXX_QDMI_device_job_submit sample_env (\<lambda>_. False) 65537 done_state =
     Inr (QDMI_ERROR_INVALIDARGUMENT, done_state)"
  using second_submit_undocumented [of 65537 done_state done_job]
  by (simp add: done_job_of_state done_job_def)

lemma index_cases: "i < 5 \<Longrightarrow> i = 0 \<or> i = 1 \<or> i = 2 \<or> i = 3 \<or> i = (4::nat)"
  by auto

text \<open>Site and operation queries never look at the session: for every handle that is not null, of a
  session that is not initialized, was freed or never existed, the i-th site reports its index i
  and the four operations their names, although the documentation allows no success there.\<close>

theorem queries_ignore_the_session:
  assumes "session \<noteq> nullptr" and "i < 5"
  shows "CXX_QDMI_device_session_query_site_property session (CXX_DEVICE_SITES ! i)
      (val_SITE_PROPERTY QDMI_SITE_PROPERTY_INDEX) 8 (Some (replicate 8 NUL)) True =
        Inr (QDMI_SUCCESS, Some (le64 i), Some 8) \<and>
    (\<forall>(operation, name) \<in> set (zip CXX_DEVICE_OPERATIONS [''rx'', ''ry'', ''rz'', ''cx'']).
      CXX_QDMI_device_session_query_operation_property session operation 0 None 0 None
        (val_OPERATION_PROPERTY QDMI_OPERATION_PROPERTY_NAME) 3 (Some (replicate 3 NUL)) True =
          Inr (QDMI_SUCCESS, Some (name @ [NUL]), Some 3)) \<and>
    \<not> doc_query_site_property False False False False False QDMI_SUCCESS \<and>
    \<not> doc_query_operation_property False False False False False QDMI_SUCCESS"
proof -
  have site: "CXX_DEVICE_SITES ! i \<noteq> nullptr \<and> site_id (CXX_DEVICE_SITES ! i) = Inr i"
    using index_cases [OF assms(2)]
    by (auto simp: site_id_def site_struct_def CXX_DEVICE_SITES_def)
  have "write_at 0 (le64 i) (replicate 8 NUL) = Inr (le64 i)"
    by (simp add: write_at_fits)
  then have index: "CXX_QDMI_device_session_query_site_property session (CXX_DEVICE_SITES ! i)
      (val_SITE_PROPERTY QDMI_SITE_PROPERTY_INDEX) 8 (Some (replicate 8 NUL)) True =
        Inr (QDMI_SUCCESS, Some (le64 i), Some 8)"
    using assms(1) site
    by (simp add: CXX_QDMI_device_session_query_site_property_def macro_simps invalid_enum_simps
        single_value_body_def)
  have two: "string_body (Inr s) 3 (Some (replicate 3 NUL)) True =
      Inr (QDMI_SUCCESS, Some (s @ [NUL]), Some 3)" if "c_string s" "length s = 2" for s
    using string_body_fits [of s 3 "replicate 3 NUL" True] that
    by (simp add: strncpy_fits c_str_c_string)
  have "\<forall>(operation, name) \<in> set (zip CXX_DEVICE_OPERATIONS [''rx'', ''ry'', ''rz'', ''cx'']).
      operation \<noteq> nullptr \<and> c_string name \<and> length name = 2 \<and>
      map_sum id fst (operation_entry operation) = Inr name"
    by (simp add: static_defs operation_entry_def OPERATION_PROPERTIES_def c_string_def)
  then have name: "\<forall>(operation, name) \<in> set (zip CXX_DEVICE_OPERATIONS [''rx'', ''ry'', ''rz'', ''cx'']).
      CXX_QDMI_device_session_query_operation_property session operation 0 None 0 None
        (val_OPERATION_PROPERTY QDMI_OPERATION_PROPERTY_NAME) 3 (Some (replicate 3 NUL)) True =
          Inr (QDMI_SUCCESS, Some (name @ [NUL]), Some 3)"
    using assms(1) two
    by (simp add: CXX_QDMI_device_session_query_operation_property_def macro_simps invalid_enum_simps
        static_defs operation_entry_def OPERATION_PROPERTIES_def)
  show ?thesis using index name
    by (simp add: doc_query_site_property_def doc_query_operation_property_def)
qed

theorem queries_ignore_the_session_witness:
  "CXX_QDMI_device_session_query_site_property 7 8224
      (val_SITE_PROPERTY QDMI_SITE_PROPERTY_INDEX) 8 (Some (replicate 8 NUL)) True =
     Inr (QDMI_SUCCESS, Some (le64 4), Some 8)"
proof -
  have "CXX_DEVICE_SITES ! 4 = 8224" by (simp add: CXX_DEVICE_SITES_def)
  then show ?thesis using queries_ignore_the_session [of 7 4] by simp
qed

end
