(* ===== verification/Driver_Load.thy ===== *)
theory Driver_Load
  imports Device_Interface "HOL-Library.Sublist"
begin

text \<open>
  Loading device libraries in \<open>examples/driver/qdmi_example_driver.cpp\<close>: the library structure with
  its destructor, \<open>QDMI_library_load\<close>, the check of the configuration's path, the parsing of the
  configuration and \<open>QDMI_initialize_driver\<close>.

  What the driver takes from the system is the record \<open>driver_env\<close>: the environment variables, the
  file system (\<open>std::filesystem::canonical\<close> as the components of the path, \<open>None\<close> where it throws)
  and the dynamic loader. Opening the same file gives the same handle; \<open>refs\<close> counts how often a
  handle is open. Every library, a handle with a prefix, has a state \<open>'w\<close> of its own, which its
  functions work on; a device call that throws leaves it as it was, and closing a handle does not
  reset it. A library is named by its position in the vector of libraries, which only grows
  until it is cleared.

  Memory that runs out while the configuration is loaded is caught and answered with
  \<open>QDMI_ERROR_OUTOFMEM\<close>; which allocation it is, is the argument \<open>fails\<close>. Left out are the messages
  of exceptions and on \<open>std::cerr\<close>, and the strings that \<open>std::getline\<close> and \<open>operator>>\<close> grow: the
  streams catch their own exceptions, set \<open>badbit\<close> and read no further, so \<open>file_lines\<close> and \<open>tokens\<close>
  describe them for files whose lines fit in memory.
\<close>

record 'w driver_env =
  qdmi_conf :: "string option"
  home_dir :: "string option"
  current_path :: "string list option"
  canonical :: "string \<Rightarrow> string list option"
  read_file :: "string list \<Rightarrow> string option"
  dl_open :: "string \<Rightarrow> ptr option"
  dl_sym :: "ptr \<Rightarrow> string \<Rightarrow> bool"
  dl_fns :: "ptr \<Rightarrow> string \<Rightarrow> 'w device_fns"

record 'w QDMI_Library =
  lib_handle :: ptr
  lib_prefix :: string
  lib_initialized :: bool
  fns :: "'w device_fns"

type_synonym refs = "ptr \<Rightarrow> nat"
type_synonym lib_key = "ptr \<times> string"
type_synonym 'w worlds = "lib_key \<Rightarrow> 'w"

definition key_of :: "'w QDMI_Library \<Rightarrow> lib_key" where
  "key_of lib = (lib_handle lib, lib_prefix lib)"

text \<open>A function of a library run on the library's own state, by the shape of its result.\<close>

definition in_lib ::
  "lib_key \<Rightarrow> ('w \<Rightarrow> (QDMI_STATUS \<times> 'w) outcome) \<Rightarrow> 'w worlds \<Rightarrow> (QDMI_STATUS \<times> 'w worlds) outcome" where
  "in_lib k f ws = bind_o (f (ws k)) (\<lambda>(r, w). Inr (r, ws(k := w)))"

definition in_lib_void :: "lib_key \<Rightarrow> ('w \<Rightarrow> 'w outcome) \<Rightarrow> 'w worlds \<Rightarrow> 'w worlds outcome" where
  "in_lib_void k f ws = bind_o (f (ws k)) (\<lambda>w. Inr (ws(k := w)))"

definition in_lib_out ::
  "lib_key \<Rightarrow> ('w \<Rightarrow> (QDMI_STATUS \<times> 'b \<times> 'w) outcome) \<Rightarrow> 'w worlds \<Rightarrow>
     (QDMI_STATUS \<times> 'b \<times> 'w worlds) outcome" where
  "in_lib_out k f ws = bind_o (f (ws k)) (\<lambda>(r, out, w). Inr (r, out, ws(k := w)))"

definition dl_close :: "ptr \<Rightarrow> refs \<Rightarrow> refs" where
  "dl_close h refs = refs(h := refs h - 1)"

text \<open>The destructor of a library: finalize after a successful initialization, then close.\<close>

definition destroy_library :: "'w QDMI_Library \<Rightarrow> refs \<times> 'w worlds \<Rightarrow> (refs \<times> 'w worlds) outcome" where
  "destroy_library lib s =
     (let (refs, ws) = s in
      bind_o (if lib_initialized lib then in_lib (key_of lib) (device_finalize (fns lib)) ws
              else Inr (QDMI_SUCCESS, ws))
        (\<lambda>(_, ws'). Inr (if lib_handle lib \<noteq> nullptr then dl_close (lib_handle lib) refs else refs, ws')))"

fun destroy_libraries :: "'w QDMI_Library list \<Rightarrow> refs \<times> 'w worlds \<Rightarrow> (refs \<times> 'w worlds) outcome" where
  "destroy_libraries [] s = Inr s"
| "destroy_libraries (lib # libs) s = bind_o (destroy_library lib s) (destroy_libraries libs)"

section \<open>Loading a library\<close>

text \<open>The symbols in the order they are resolved; the flag marks the ones that must be there.\<close>

definition device_symbols :: "(string \<times> bool) list" where
  "device_symbols =
     [(''device_initialize'', True), (''device_finalize'', True), (''device_session_alloc'', True),
      (''device_session_init'', True), (''device_session_free'', True),
      (''device_session_set_parameter'', True), (''device_session_create_device_job'', True),
      (''device_session_retrieve_device_job_by_id'', False), (''device_job_free'', True),
      (''device_job_set_parameter'', True), (''device_job_set_programs'', True),
      (''device_job_get_program'', True), (''device_job_get_program_status'', True),
      (''device_job_query_property'', True), (''device_job_submit'', True),
      (''device_job_cancel'', True), (''device_job_check'', True), (''device_job_wait'', True),
      (''device_job_get_results'', True), (''device_session_query_device_property'', True),
      (''device_session_query_site_property'', True),
      (''device_session_query_operation_property'', True)]"

definition symbol_name :: "string \<Rightarrow> string \<Rightarrow> string" where
  "symbol_name pfx symbol = pfx @ ''_QDMI_'' @ symbol"

definition symbols_found :: "'w driver_env \<Rightarrow> ptr \<Rightarrow> string \<Rightarrow> bool" where
  "symbols_found env h pfx \<longleftrightarrow>
     list_all (\<lambda>(symbol, required). required \<longrightarrow> dl_sym env h (symbol_name pfx symbol))
       device_symbols"

definition loaded_fns :: "'w driver_env \<Rightarrow> ptr \<Rightarrow> string \<Rightarrow> 'w device_fns" where
  "loaded_fns env h pfx =
     (if dl_sym env h (symbol_name pfx ''device_session_retrieve_device_job_by_id'')
      then dl_fns env h pfx
      else (dl_fns env h pfx)\<lparr>device_session_retrieve_device_job_by_id := None\<rparr>)"

fun find_library :: "'w QDMI_Library list \<Rightarrow> ptr \<Rightarrow> string \<Rightarrow> nat option" where
  "find_library [] h pfx = None"
| "find_library (lib # libs) h pfx =
     (if lib_handle lib = h \<and> lib_prefix lib = pfx then Some 0
      else map_option Suc (find_library libs h pfx))"

text \<open>
  An exception in \<open>Inl\<close>, the library's position in \<open>Inr\<close>, with the libraries and the state after
  it: wherever the function leaves without storing \<open>library\<close>, its destructor closes the handle.
  \<open>fails\<close> says which allocations throw: for line \<open>i\<close> of the configuration, number \<open>6 i + 3\<close> is
  \<open>make_unique\<close>, number \<open>6 i + 4\<close> the copy of the prefix or the name of a symbol looked up while all
  before were found, number \<open>6 i + 5\<close> the growth of the vector.
\<close>

definition QDMI_library_load ::
  "'w driver_env \<Rightarrow> (nat \<Rightarrow> bool) \<Rightarrow> nat \<Rightarrow> 'w QDMI_Library list \<Rightarrow> string \<Rightarrow> string \<Rightarrow> refs \<times> 'w worlds \<Rightarrow>
     ((std_exn + nat) \<times> 'w QDMI_Library list \<times> refs \<times> 'w worlds) outcome" where
  "QDMI_library_load env fails i libs lib_name pfx s =
     (let (refs, ws) = s in
      if fails (6 * i + 3) then Inr (Inl Exn_bad_alloc, libs, refs, ws)
      else case dl_open env lib_name of
          None \<Rightarrow> Inr (Inl Exn_std, libs, refs, ws)
        | Some h \<Rightarrow>
          let opened = refs(h := refs h + 1); closed = dl_close h opened in
          (case find_library libs h pfx of
             Some k \<Rightarrow> Inr (Inr k, libs, closed, ws)
           | None \<Rightarrow>
              if fails (6 * i + 4) then Inr (Inl Exn_bad_alloc, libs, closed, ws)
              else if \<not> symbols_found env h pfx then Inr (Inl Exn_std, libs, closed, ws)
              else let f = loaded_fns env h pfx;
                       lib = \<lparr>lib_handle = h, lib_prefix = pfx, lib_initialized = True, fns = f\<rparr> in
               (case in_lib (h, pfx) (device_initialize f) ws of
                  Inl e \<Rightarrow> (case as_exn e of
                      None \<Rightarrow> Inl e
                    | Some x \<Rightarrow> Inr (Inl x, libs, closed, ws))
                | Inr (r, ws1) \<Rightarrow>
                    if r \<noteq> QDMI_SUCCESS then Inr (Inl Exn_std, libs, closed, ws1)
                    else if fails (6 * i + 5)
                    then bind_o (destroy_library lib (opened, ws1)) (\<lambda>(refs', ws2).
                      Inr (Inl Exn_bad_alloc, libs, refs', ws2))
                    else Inr (Inr (length libs), libs @ [lib], opened, ws1))))"

section \<open>The path of the configuration\<close>

text \<open>\<open>None\<close>: \<open>canonical\<close> of the working directory throws. An invalid \<open>HOME\<close> is ignored.\<close>

definition Is_path_allowed :: "'w driver_env \<Rightarrow> string list \<Rightarrow> bool option" where
  "Is_path_allowed env resolved_path =
     map_option (\<lambda>cwd.
       let home = (case home_dir env of None \<Rightarrow> [] | Some h \<Rightarrow>
             (case canonical env h of None \<Rightarrow> [] | Some p \<Rightarrow> [p]))
       in list_ex (\<lambda>allowed_path. prefix allowed_path resolved_path) (cwd # home))
     (current_path env)"

section \<open>The configuration\<close>

text \<open>\<open>std::getline\<close>: lines end at a newline, a last line without one counts if it is not empty.\<close>

fun file_lines :: "string \<Rightarrow> string \<Rightarrow> string list" where
  "file_lines acc [] = (if acc = [] then [] else [acc])"
| "file_lines acc (c # cs) =
     (if c = CHR 0x0A then acc # file_lines [] cs else file_lines (acc @ [c]) cs)"

definition is_space :: "char \<Rightarrow> bool" where
  "is_space c \<longleftrightarrow> c \<in> {CHR '' '', CHR 0x09, CHR 0x0A, CHR 0x0B, CHR 0x0C, CHR 0x0D}"

text \<open>The words \<open>operator>>\<close> extracts one after the other.\<close>

fun tokens :: "string \<Rightarrow> string \<Rightarrow> string list" where
  "tokens acc [] = (if acc = [] then [] else [acc])"
| "tokens acc (c # cs) =
     (if is_space c then (if acc = [] then tokens [] cs else acc # tokens [] cs)
      else tokens (acc @ [c]) cs)"

definition skipped :: "string \<Rightarrow> bool" where
  "skipped line \<longleftrightarrow> line = [] \<or> hd line = CHR ''#''"

type_synonym configured = "(nat \<times> string) list"

text \<open>
  The loop over the lines. A status code in \<open>Inl\<close> is an early return or the code a \<open>catch\<close> clause
  returns; the libraries and the state are returned in either case. Allocation \<open>6 i + 1\<close> is the
  stream with the line's copy, \<open>6 i + 2\<close> the new entry of \<open>device_ids\<close> and \<open>6 i + 6\<close> the one of
  \<open>push_back\<close>.
\<close>

fun load_lines ::
  "'w driver_env \<Rightarrow> (nat \<Rightarrow> bool) \<Rightarrow> nat \<Rightarrow> string list \<Rightarrow> configured \<Rightarrow> 'w QDMI_Library list \<Rightarrow>
     refs \<times> 'w worlds \<Rightarrow> ((QDMI_STATUS + configured) \<times> 'w QDMI_Library list \<times> refs \<times> 'w worlds) outcome" where
  "load_lines env fails i [] cfg libs s = Inr (Inr cfg, libs, s)"
| "load_lines env fails i (line # rest) cfg libs s =
     (if skipped line then load_lines env fails (i + 1) rest cfg libs s
      else if fails (6 * i + 1) then Inr (Inl QDMI_ERROR_OUTOFMEM, libs, s)
      else (case tokens [] line of
          [lib_name, pfx, device_id] \<Rightarrow>
            if fails (6 * i + 2) then Inr (Inl QDMI_ERROR_OUTOFMEM, libs, s)
            else if device_id \<in> snd ` set cfg then Inr (Inl QDMI_ERROR_FATAL, libs, s)
            else bind_o (QDMI_library_load env fails i libs lib_name pfx s) (\<lambda>(r, libs', s').
              case r of
                Inl Exn_bad_alloc \<Rightarrow> Inr (Inl QDMI_ERROR_OUTOFMEM, libs', s')
              | Inl Exn_std \<Rightarrow> Inr (Inl QDMI_ERROR_FATAL, libs', s')
              | Inr k \<Rightarrow>
                  if fails (6 * i + 6) then Inr (Inl QDMI_ERROR_OUTOFMEM, libs', s')
                  else load_lines env fails (i + 1) rest (cfg @ [(k, device_id)]) libs' s')
        | _ \<Rightarrow> Inr (Inl QDMI_ERROR_FATAL, libs, s)))"

text \<open>The file to read, or the reason to give up.\<close>

definition config_lines :: "'w driver_env \<Rightarrow> QDMI_STATUS + string list" where
  "config_lines env =
     (let config_file = (case qdmi_conf env of None \<Rightarrow> ''qdmi.conf'' | Some f \<Rightarrow> f) in
      (case canonical env config_file of
         None \<Rightarrow> Inl QDMI_ERROR_FATAL
       | Some config_path \<Rightarrow>
          (case Is_path_allowed env config_path of
             None \<Rightarrow> Inl QDMI_ERROR_FATAL
           | Some allowed \<Rightarrow>
              if \<not> allowed then Inl QDMI_ERROR_FATAL
              else (case read_file env config_path of
                  None \<Rightarrow> Inl QDMI_ERROR_FATAL
                | Some content \<Rightarrow> Inr (file_lines [] content)))))"

text \<open>
  On failure the local vector of libraries is destroyed; on success it is what the driver's state
  is set to, with the configured devices. Allocation 0 stands for the ones of the paths, under the
  same \<open>try\<close>.
\<close>

definition QDMI_initialize_driver ::
  "'w driver_env \<Rightarrow> (nat \<Rightarrow> bool) \<Rightarrow> refs \<times> 'w worlds \<Rightarrow>
     ((QDMI_STATUS + 'w QDMI_Library list \<times> configured) \<times> refs \<times> 'w worlds) outcome" where
  "QDMI_initialize_driver env fails s =
     (if fails 0 then Inr (Inl QDMI_ERROR_OUTOFMEM, s) else
      case config_lines env of
        Inl r \<Rightarrow> Inr (Inl r, s)
      | Inr ls \<Rightarrow>
          bind_o (load_lines env fails 0 ls [] [] s) (\<lambda>(r, libs, s').
            case r of
              Inl e \<Rightarrow> bind_o (destroy_libraries libs s') (\<lambda>s''. Inr (Inl e, s''))
            | Inr cfg \<Rightarrow> Inr (Inr (libs, cfg), s')))"

end
