(* ===== verification/Driver_Session.thy ===== *)
theory Driver_Session
  imports Driver_Load
begin

text \<open>
  The driver's state and the client session interface of \<open>qdmi_example_driver.cpp\<close>: allocation,
  initialization, parameters, properties and the end of a session, with the objects behind
  \<open>QDMI_Session\<close>, \<open>QDMI_Device\<close> and \<open>QDMI_Job\<close>. The driver's heap is like the device's: live
  objects by address, addresses are not reused.
\<close>

named_theorems driver_defs \<open>definitions of the driver's interface functions\<close>

section \<open>Structures\<close>

datatype QDMI_DEVICE_MODE = QDMI_DEVICE_MODE_READONLY | QDMI_SESSION_MODE_READWRITE

datatype QDMI_SESSION_STATUS = Session_ALLOCATED | Session_INITIALIZED

record QDMI_Device_impl_d =
  dev_library :: nat
  dev_session :: ptr
  dev_device_session :: ptr
  dev_id :: string

record QDMI_Session_impl_d =
  ses_status :: QDMI_SESSION_STATUS
  device_list :: "ptr list"
  ses_token :: "string option"
  ses_mode :: QDMI_DEVICE_MODE

definition new_client_session :: QDMI_Session_impl_d where
  "new_client_session =
     \<lparr>ses_status = Session_ALLOCATED, device_list = [], ses_token = None,
      ses_mode = QDMI_DEVICE_MODE_READONLY\<rparr>"

record QDMI_Job_impl_d =
  job_device :: ptr
  job_device_job :: ptr

text \<open>
  The driver's state \<open>QDMI_Driver_State\<close>, its heap, the open handles of the dynamic loader and the
  devices' state.
\<close>

record 'w driver =
  libraries :: "'w QDMI_Library list"
  configured_devices :: configured
  session_count :: nat
  cl_sessions :: "ptr \<rightharpoonup> QDMI_Session_impl_d"
  cl_devices :: "ptr \<rightharpoonup> QDMI_Device_impl_d"
  cl_jobs :: "ptr \<rightharpoonup> QDMI_Job_impl_d"
  next_ptr :: ptr
  refs :: refs
  worlds :: "'w worlds"

definition driver_init :: "'w worlds \<Rightarrow> 'w driver" where
  "driver_init ws =
     \<lparr>libraries = [], configured_devices = [], session_count = 0, cl_sessions = Map.empty,
      cl_devices = Map.empty, cl_jobs = Map.empty, next_ptr = 65536, refs = (\<lambda>_. 0), worlds = ws\<rparr>"

definition look :: "(ptr \<rightharpoonup> 'a) \<Rightarrow> ptr \<Rightarrow> 'a outcome" where
  "look h p =
     (if p = nullptr then Inl Null_Deref
      else case h p of None \<Rightarrow> Inl Use_After_Free | Some x \<Rightarrow> Inr x)"

lemma look_Inr [simp]: "look h p = Inr x \<longleftrightarrow> p \<noteq> nullptr \<and> h p = Some x"
  by (auto simp: look_def split: option.splits)

lemma look_live [simp]: "p \<noteq> nullptr \<Longrightarrow> h p = Some x \<Longrightarrow> look h p = Inr x"
  by simp

text \<open>The library behind \<open>device->library\<close>; the vector of libraries may have been cleared.\<close>

definition library_of :: "'w driver \<Rightarrow> QDMI_Device_impl_d \<Rightarrow> 'w QDMI_Library outcome" where
  "library_of st dev =
     (if dev_library dev < length (libraries st) then Inr (libraries st ! dev_library dev)
      else Inl Use_After_Free)"

section \<open>Allocation\<close>

definition QDMI_driver_get_client_abi_version :: "32 word" where
  "QDMI_driver_get_client_abi_version = QDMI_CLIENT_ABI_VERSION"

text \<open>
  The null stored first through the out-pointer is part of the result. \<open>oom\<close>: the allocation with
  \<open>nothrow\<close> fails. On success of \<open>QDMI_initialize_driver\<close> the libraries of the driver's state
  are replaced, which destroys the old ones.
\<close>

definition QDMI_session_alloc ::
  "'w driver_env \<Rightarrow> bool \<Rightarrow> (nat \<Rightarrow> bool) \<Rightarrow> bool \<Rightarrow> 'w driver \<Rightarrow>
     (QDMI_STATUS \<times> ptr option \<times> 'w driver) outcome" where
  [driver_defs]: "QDMI_session_alloc env oom fails session_out st =
     (if \<not> session_out then Inr (QDMI_ERROR_INVALIDARGUMENT, None, st)
      else if oom then Inr (QDMI_ERROR_OUTOFMEM, Some nullptr, st)
      else
        let finish = (\<lambda>st'. Inr (QDMI_SUCCESS, Some (next_ptr st'),
              st'\<lparr>session_count := session_count st' + 1,
                  cl_sessions := (cl_sessions st')(next_ptr st' \<mapsto> new_client_session),
                  next_ptr := next_ptr st' + 1\<rparr>))
        in if session_count st = 0 then
          bind_o (QDMI_initialize_driver env fails (refs st, worlds st)) (\<lambda>(r, refs', ws').
            case r of
              Inl e \<Rightarrow> Inr (e, Some nullptr, st\<lparr>refs := refs', worlds := ws'\<rparr>)
            | Inr (libs, cfg) \<Rightarrow>
                bind_o (destroy_libraries (libraries st) (refs', ws')) (\<lambda>(refs'', ws'').
                  finish (st\<lparr>libraries := libs, configured_devices := cfg, refs := refs'',
                             worlds := ws''\<rparr>)))
        else finish st)"

section \<open>Initialization\<close>

text \<open>
  The destructor of a device frees its device session. A vector of devices is destroyed from the
  front.
\<close>

definition destroy_device :: "'w QDMI_Library list \<Rightarrow> QDMI_Device_impl_d \<Rightarrow> 'w worlds \<Rightarrow> 'w worlds outcome" where
  "destroy_device libs dev ws =
     (if dev_device_session dev = nullptr then Inr ws
      else if dev_library dev < length libs
      then let lib = libs ! dev_library dev in
        in_lib_void (key_of lib) (device_session_free (fns lib) (dev_device_session dev)) ws
      else Inl Use_After_Free)"

fun destroy_devices :: "'w QDMI_Library list \<Rightarrow> QDMI_Device_impl_d list \<Rightarrow> 'w worlds \<Rightarrow> 'w worlds outcome" where
  "destroy_devices libs [] ws = Inr ws"
| "destroy_devices libs (dev # devs) ws =
     bind_o (destroy_device libs dev ws) (destroy_devices libs devs)"

text \<open>
  A device call under the \<open>try\<close> of \<open>QDMI_session_init\<close>: a standard exception becomes the status code
  of the \<open>catch\<close> clause.
\<close>

definition catch_status :: "'a outcome \<Rightarrow> (QDMI_STATUS + 'a) outcome" where
  "catch_status m =
     (case m of
        Inr x \<Rightarrow> Inr (Inr x)
      | Inl e \<Rightarrow> (case as_exn e of
            None \<Rightarrow> Inl e
          | Some Exn_bad_alloc \<Rightarrow> Inr (Inl QDMI_ERROR_OUTOFMEM)
          | Some Exn_std \<Rightarrow> Inr (Inl QDMI_ERROR_FATAL)))"

text \<open>
  One device: the status with which the function returns, if it does, the device as it is when
  the attempt ends (to be destroyed on failure), and the devices' state.
\<close>

definition open_device ::
  "'w QDMI_Library \<Rightarrow> string \<Rightarrow> QDMI_Device_impl_d \<Rightarrow> 'w worlds \<Rightarrow>
     (QDMI_STATUS option \<times> QDMI_Device_impl_d \<times> 'w worlds) outcome" where
  "open_device lib token dev ws =
     bind_o (catch_status (in_lib_out (key_of lib) (device_session_alloc (fns lib) True) ws)) (\<lambda>a. case a of
       Inl e \<Rightarrow> Inr (Some e, dev, ws)
     | Inr (r, out, ws1) \<Rightarrow>
         let dev1 = (case out of None \<Rightarrow> dev | Some q \<Rightarrow> dev\<lparr>dev_device_session := q\<rparr>) in
         if r \<noteq> QDMI_SUCCESS then Inr (Some r, dev1, ws1)
         else bind_o (catch_status (in_lib (key_of lib) (device_session_set_parameter (fns lib) (dev_device_session dev1)
             (val_DEVICE_SESSION_PARAMETER QDMI_DEVICE_SESSION_PARAMETER_TOKEN)
             (length token + 1) (Some (token @ [NUL]))) ws1)) (\<lambda>b. case b of
           Inl e \<Rightarrow> Inr (Some e, dev1, ws1)
         | Inr (r, ws2) \<Rightarrow>
             if r \<noteq> QDMI_SUCCESS \<and> r \<noteq> QDMI_ERROR_NOTSUPPORTED then Inr (Some r, dev1, ws2)
             else bind_o (catch_status (in_lib (key_of lib)
                 (device_session_init (fns lib) (dev_device_session dev1)) ws2)) (\<lambda>c.
               case c of
                 Inl e \<Rightarrow> Inr (Some e, dev1, ws2)
               | Inr (r, ws3) \<Rightarrow>
                   Inr (if r \<noteq> QDMI_SUCCESS then Some r else None, dev1, ws3))))"

text \<open>
  The loop over the configured devices. On a failure the device at hand and then the ones before
  it are destroyed. Allocation \<open>2 i\<close> is \<open>make_unique\<close> or the
  copy of the id, \<open>2 i + 1\<close> the growth of the vector.
\<close>

fun open_devices ::
  "'w QDMI_Library list \<Rightarrow> (nat \<Rightarrow> bool) \<Rightarrow> string \<Rightarrow> ptr \<Rightarrow> nat \<Rightarrow> configured \<Rightarrow>
     QDMI_Device_impl_d list \<Rightarrow> 'w worlds \<Rightarrow>
     ((QDMI_STATUS + QDMI_Device_impl_d list) \<times> 'w worlds) outcome" where
  "open_devices libs fails token session i [] devs ws = Inr (Inr devs, ws)"
| "open_devices libs fails token session i ((lib, ident) # cfg) devs ws =
     (if fails (2 * i)
      then bind_o (destroy_devices libs devs ws) (\<lambda>ws'. Inr (Inl QDMI_ERROR_OUTOFMEM, ws'))
      else if length libs \<le> lib then Inl Use_After_Free
      else bind_o (open_device (libs ! lib) token
          \<lparr>dev_library = lib, dev_session = session, dev_device_session = nullptr, dev_id = ident\<rparr> ws)
        (\<lambda>(failure, dev, ws1).
          case (case failure of Some e \<Rightarrow> Some e
                | None \<Rightarrow> if fails (2 * i + 1) then Some QDMI_ERROR_OUTOFMEM else None) of
            Some e \<Rightarrow> bind_o (destroy_devices libs (dev # devs) ws1) (\<lambda>ws2. Inr (Inl e, ws2))
          | None \<Rightarrow> open_devices libs fails token session (i + 1) cfg (devs @ [dev]) ws1))"

text \<open>The opened devices get the next addresses.\<close>

definition QDMI_session_init ::
  "(nat \<Rightarrow> bool) \<Rightarrow> ptr \<Rightarrow> 'w driver \<Rightarrow> (QDMI_STATUS \<times> 'w driver) outcome" where
  [driver_defs]: "QDMI_session_init fails session st =
     (if session = nullptr then Inr (QDMI_ERROR_INVALIDARGUMENT, st)
      else bind_o (look (cl_sessions st) session) (\<lambda>s.
        if ses_status s \<noteq> Session_ALLOCATED then Inr (QDMI_ERROR_BADSTATE, st)
        else case ses_token s of None \<Rightarrow> Inr (QDMI_ERROR_PERMISSIONDENIED, st) | Some token \<Rightarrow>
          let mode = (if token = [] then QDMI_DEVICE_MODE_READONLY else QDMI_SESSION_MODE_READWRITE);
              st1 = st\<lparr>cl_sessions := (cl_sessions st)(session \<mapsto> s\<lparr>ses_mode := mode\<rparr>)\<rparr>
          in bind_o (open_devices (libraries st) fails token session 0 (configured_devices st) []
                (worlds st)) (\<lambda>(r, ws').
            case r of
              Inl e \<Rightarrow> Inr (e, st1\<lparr>worlds := ws'\<rparr>)
            | Inr devs \<Rightarrow>
                let ps = [next_ptr st..<next_ptr st + length devs] in
                Inr (QDMI_SUCCESS, st1\<lparr>worlds := ws',
                  cl_devices := cl_devices st ++ map_of (zip ps devs),
                  next_ptr := next_ptr st + length devs,
                  cl_sessions := (cl_sessions st)(session \<mapsto>
                    s\<lparr>ses_mode := mode, device_list := ps, ses_status := Session_INITIALIZED\<rparr>)\<rparr>))))"

section \<open>The end of a session\<close>

text \<open>The devices behind a list of addresses.\<close>

fun look_all :: "(ptr \<rightharpoonup> 'a) \<Rightarrow> ptr list \<Rightarrow> 'a list outcome" where
  "look_all h [] = Inr []"
| "look_all h (p # ps) =
     bind_o (look h p) (\<lambda>x. bind_o (look_all h ps) (\<lambda>xs. Inr (x # xs)))"

text \<open>\<open>--sessions\<close> wraps at 0.\<close>

definition QDMI_session_free :: "ptr \<Rightarrow> 'w driver \<Rightarrow> 'w driver outcome" where
  [driver_defs]: "QDMI_session_free session st =
     (if session = nullptr then Inr st
      else bind_o (look (cl_sessions st) session) (\<lambda>s.
        bind_o (look_all (cl_devices st) (device_list s)) (\<lambda>devs.
        bind_o (destroy_devices (libraries st) devs (worlds st)) (\<lambda>ws1.
          let st1 = st\<lparr>cl_sessions := (cl_sessions st)(session := None),
                       cl_devices := (cl_devices st) |` (- set (device_list s)),
                       session_count := size_sub (session_count st) 1, worlds := ws1\<rparr>
          in if session_count st1 = 0
             then bind_o (destroy_libraries (libraries st) (refs st, ws1)) (\<lambda>(refs', ws2).
               Inr (st1\<lparr>configured_devices := [], libraries := [], refs := refs', worlds := ws2\<rparr>))
             else Inr st1))))"

section \<open>Parameters and properties\<close>

text \<open>\<open>oom\<close>: the copy of the token cannot be allocated. No \<open>try\<close> is around it.\<close>

definition QDMI_session_set_parameter ::
  "bool \<Rightarrow> ptr \<Rightarrow> int \<Rightarrow> nat \<Rightarrow> region option \<Rightarrow> 'w driver \<Rightarrow> (QDMI_STATUS \<times> 'w driver) outcome" where
  [driver_defs]: "QDMI_session_set_parameter oom session param sz value st =
     (if session = nullptr \<or> value \<noteq> None \<and> sz = 0 \<or>
         QDMI_IS_INVALID_ENUM_VALUE param prefix_SESSION_PARAMETER
      then Inr (QDMI_ERROR_INVALIDARGUMENT, st)
      else bind_o (look (cl_sessions st) session) (\<lambda>s.
        if ses_status s \<noteq> Session_ALLOCATED then Inr (QDMI_ERROR_BADSTATE, st)
        else if param \<noteq> val_SESSION_PARAMETER QDMI_SESSION_PARAMETER_TOKEN
        then Inr (QDMI_ERROR_NOTSUPPORTED, st)
        else case value of
            None \<Rightarrow> Inr (QDMI_SUCCESS, st)
          | Some mem \<Rightarrow>
              if oom then Inl Bad_Alloc_Thrown
              else if length mem < sz - 1 then Inl Out_Of_Bounds
              else Inr (QDMI_SUCCESS, st\<lparr>cl_sessions := (cl_sessions st)(session \<mapsto>
                s\<lparr>ses_token := Some (take (sz - 1) mem)\<rparr>)\<rparr>)))"

definition QDMI_session_query_session_property :: "'w driver \<Rightarrow> ptr \<Rightarrow> int \<Rightarrow> query" where
  [driver_defs]: "QDMI_session_query_session_property st session prop sz value size_ret =
     (if session = nullptr \<or> value \<noteq> None \<and> sz = 0 \<or>
         QDMI_IS_INVALID_ENUM_VALUE prop prefix_SESSION_PROPERTY
      then Inr (QDMI_ERROR_INVALIDARGUMENT, value, None)
      else bind_o (look (cl_sessions st) session) (\<lambda>s.
        if ses_status s \<noteq> Session_INITIALIZED then Inr (QDMI_ERROR_BADSTATE, value, None)
        else if prop \<noteq> val_SESSION_PROPERTY QDMI_SESSION_PROPERTY_DEVICES
        then Inr (QDMI_ERROR_NOTSUPPORTED, value, None)
        else
          let num_devices = length (device_list s) in
          case value of
            None \<Rightarrow> Inr (QDMI_SUCCESS, None, store_size size_ret (size_mul num_devices 8))
          | Some mem \<Rightarrow>
              if sz < size_mul num_devices 8 then Inr (QDMI_ERROR_INVALIDARGUMENT, Some mem, None)
              else bind_o (write_at 0 (concat (map (le_bytes 8) (device_list s))) mem) (\<lambda>mem'.
                Inr (QDMI_SUCCESS, Some mem', store_size size_ret (size_mul num_devices 8)))))"

end
