(* ===== verification/Driver_Job.thy ===== *)
theory Driver_Job
  imports Driver_Session
begin

text \<open>
  The client's job interface and its device queries in \<open>qdmi_example_driver.cpp\<close>: creating and
  retrieving a job checks the mode of the session and wraps the device's job; everything else
  forwards to the library of the job's device. The queries of a device forward too, except for
  its id, which is the one of the configuration.
\<close>

section \<open>Following the handles\<close>

text \<open>\<open>job->device->library\<close> applied to \<open>job->device_job\<close>, \<open>device->library\<close> to the device session.\<close>

definition on_job :: "'w driver \<Rightarrow> ptr \<Rightarrow> ('w QDMI_Library \<Rightarrow> ptr \<Rightarrow> 'b outcome) \<Rightarrow> 'b outcome" where
  "on_job st p f =
     bind_o (look (cl_jobs st) p) (\<lambda>job.
     bind_o (look (cl_devices st) (job_device job)) (\<lambda>dev.
     bind_o (library_of st dev) (\<lambda>lib. f lib (job_device_job job))))"

definition on_device :: "'w driver \<Rightarrow> ptr \<Rightarrow> ('w QDMI_Library \<Rightarrow> ptr \<Rightarrow> 'b outcome) \<Rightarrow> 'b outcome" where
  "on_device st p f =
     bind_o (look (cl_devices st) p) (\<lambda>dev.
     bind_o (library_of st dev) (\<lambda>lib. f lib (dev_device_session dev)))"

text \<open>The functions of a library on its state: a call that changes it, and a query.\<close>

definition change_job ::
  "'w driver \<Rightarrow> ptr \<Rightarrow> ('w device_fns \<Rightarrow> ptr \<Rightarrow> 'w \<Rightarrow> (QDMI_STATUS \<times> 'w) outcome) \<Rightarrow>
     (QDMI_STATUS \<times> 'w driver) outcome" where
  "change_job st p f =
     bind_o (on_job st p (\<lambda>lib j. in_lib (key_of lib) (f (fns lib) j) (worlds st)))
       (\<lambda>(r, ws). Inr (r, st\<lparr>worlds := ws\<rparr>))"

definition ask_job :: "'w driver \<Rightarrow> ptr \<Rightarrow> ('w device_fns \<Rightarrow> 'w \<Rightarrow> ptr \<Rightarrow> 'b outcome) \<Rightarrow> 'b outcome" where
  "ask_job st p f = on_job st p (\<lambda>lib. f (fns lib) (worlds st (key_of lib)))"

definition ask_device :: "'w driver \<Rightarrow> ptr \<Rightarrow> ('w device_fns \<Rightarrow> 'w \<Rightarrow> ptr \<Rightarrow> 'b outcome) \<Rightarrow> 'b outcome" where
  "ask_device st p f = on_device st p (\<lambda>lib. f (fns lib) (worlds st (key_of lib)))"

section \<open>Jobs\<close>

text \<open>
  The first result is what is stored through the out-pointer. When the device refuses, the new
  object is deleted again and \<open>*job\<close> is not written. \<open>oom\<close>: the allocation fails.
\<close>

definition QDMI_device_create_job ::
  "bool \<Rightarrow> ptr \<Rightarrow> bool \<Rightarrow> 'w driver \<Rightarrow> (QDMI_STATUS \<times> ptr option \<times> 'w driver) outcome" where
  [driver_defs]: "QDMI_device_create_job oom dev job_out st =
     (if dev = nullptr \<or> \<not> job_out then Inr (QDMI_ERROR_INVALIDARGUMENT, None, st)
      else bind_o (look (cl_devices st) dev) (\<lambda>d.
        bind_o (look (cl_sessions st) (dev_session d)) (\<lambda>s.
        if ses_mode s \<noteq> QDMI_SESSION_MODE_READWRITE then Inr (QDMI_ERROR_PERMISSIONDENIED, None, st)
        else if oom then Inr (QDMI_ERROR_OUTOFMEM, None, st)
        else bind_o (library_of st d) (\<lambda>lib.
        bind_o (in_lib_out (key_of lib)
            (device_session_create_device_job (fns lib) (dev_device_session d) True) (worlds st))
          (\<lambda>(r, q, ws).
            if r \<noteq> QDMI_SUCCESS then Inr (r, None, st\<lparr>worlds := ws\<rparr>)
            else Inr (QDMI_SUCCESS, Some (next_ptr st),
              st\<lparr>cl_jobs := (cl_jobs st)(next_ptr st \<mapsto> \<lparr>job_device = dev,
                    job_device_job = (case q of None \<Rightarrow> nullptr | Some j \<Rightarrow> j)\<rparr>),
                 next_ptr := next_ptr st + 1, worlds := ws\<rparr>))))))"

text \<open>\<open>job_id[0]\<close> of an empty string is its terminator. \<open>make_unique\<close> throws.\<close>

definition QDMI_session_retrieve_job_by_id ::
  "bool \<Rightarrow> ptr \<Rightarrow> string option \<Rightarrow> bool \<Rightarrow> 'w driver \<Rightarrow> (QDMI_STATUS \<times> ptr option \<times> 'w driver) outcome"
where
  [driver_defs]: "QDMI_session_retrieve_job_by_id oom dev job_id job_out st =
     (if dev = nullptr \<or> job_id = None \<or> job_id = Some [] \<or> \<not> job_out
      then Inr (QDMI_ERROR_INVALIDARGUMENT, None, st)
      else bind_o (look (cl_devices st) dev) (\<lambda>d.
        bind_o (look (cl_sessions st) (dev_session d)) (\<lambda>s.
        if ses_mode s \<noteq> QDMI_SESSION_MODE_READWRITE then Inr (QDMI_ERROR_PERMISSIONDENIED, None, st)
        else bind_o (library_of st d) (\<lambda>lib.
        case device_session_retrieve_device_job_by_id (fns lib) of
          None \<Rightarrow> Inr (QDMI_ERROR_NOTSUPPORTED, None, st)
        | Some retrieve \<Rightarrow>
            if oom then Inl Bad_Alloc_Thrown
            else bind_o (in_lib_out (key_of lib) (retrieve (dev_device_session d) job_id True)
                (worlds st)) (\<lambda>(r, q, ws).
              if r \<noteq> QDMI_SUCCESS then Inr (r, None, st\<lparr>worlds := ws\<rparr>)
              else Inr (QDMI_SUCCESS, Some (next_ptr st),
                st\<lparr>cl_jobs := (cl_jobs st)(next_ptr st \<mapsto> \<lparr>job_device = dev,
                      job_device_job = (case q of None \<Rightarrow> nullptr | Some j \<Rightarrow> j)\<rparr>),
                   next_ptr := next_ptr st + 1, worlds := ws\<rparr>))))))"

definition QDMI_job_free :: "ptr \<Rightarrow> 'w driver \<Rightarrow> 'w driver outcome" where
  [driver_defs]: "QDMI_job_free job st =
     (if job = nullptr then Inr st
      else bind_o (on_job st job (\<lambda>lib j. in_lib_void (key_of lib) (device_job_free (fns lib) j) (worlds st)))
        (\<lambda>ws.
        Inr (st\<lparr>cl_jobs := (cl_jobs st)(job := None), worlds := ws\<rparr>)))"

text \<open>The enumerators are cast to those of the device interface, which keeps their value.\<close>

definition QDMI_job_set_parameter ::
  "ptr \<Rightarrow> int \<Rightarrow> nat \<Rightarrow> region option \<Rightarrow> 'w driver \<Rightarrow> (QDMI_STATUS \<times> 'w driver) outcome" where
  [driver_defs]: "QDMI_job_set_parameter job param sz value st =
     (if job = nullptr then Inr (QDMI_ERROR_INVALIDARGUMENT, st)
      else change_job st job (\<lambda>f j. device_job_set_parameter f j param sz value))"

definition QDMI_job_set_programs ::
  "ptr \<Rightarrow> int \<Rightarrow> nat \<Rightarrow> nat list option \<Rightarrow> region option list option \<Rightarrow> 'w driver \<Rightarrow>
     (QDMI_STATUS \<times> 'w driver) outcome" where
  [driver_defs]: "QDMI_job_set_programs job format count sizes programs st =
     (if job = nullptr then Inr (QDMI_ERROR_INVALIDARGUMENT, st)
      else change_job st job (\<lambda>f j. device_job_set_programs f j format count sizes programs))"

definition QDMI_job_get_program :: "'w driver \<Rightarrow> ptr \<Rightarrow> nat \<Rightarrow> query" where
  [driver_defs]: "QDMI_job_get_program st job program_index sz data size_ret =
     (if job = nullptr then Inr (QDMI_ERROR_INVALIDARGUMENT, data, None)
      else ask_job st job (\<lambda>f w j.
        device_job_get_program f w j program_index sz data size_ret))"

definition QDMI_job_get_program_status ::
  "'w driver \<Rightarrow> ptr \<Rightarrow> nat \<Rightarrow> bool \<Rightarrow> (QDMI_STATUS \<times> QDMI_JOB_STATUS_T option) outcome" where
  [driver_defs]: "QDMI_job_get_program_status st job program_index status_out =
     (if job = nullptr \<or> \<not> status_out then Inr (QDMI_ERROR_INVALIDARGUMENT, None)
      else ask_job st job (\<lambda>f w j.
        device_job_get_program_status f w j program_index status_out))"

definition QDMI_job_query_property :: "'w driver \<Rightarrow> ptr \<Rightarrow> int \<Rightarrow> query" where
  [driver_defs]: "QDMI_job_query_property st job prop sz value size_ret =
     (if job = nullptr then Inr (QDMI_ERROR_INVALIDARGUMENT, value, None)
      else ask_job st job (\<lambda>f w j.
        device_job_query_property f w j prop sz value size_ret))"

definition QDMI_job_submit :: "ptr \<Rightarrow> 'w driver \<Rightarrow> (QDMI_STATUS \<times> 'w driver) outcome" where
  [driver_defs]: "QDMI_job_submit job st =
     (if job = nullptr then Inr (QDMI_ERROR_INVALIDARGUMENT, st)
      else change_job st job (\<lambda>f j. device_job_submit f j))"

definition QDMI_job_cancel :: "ptr \<Rightarrow> 'w driver \<Rightarrow> (QDMI_STATUS \<times> 'w driver) outcome" where
  [driver_defs]: "QDMI_job_cancel job st =
     (if job = nullptr then Inr (QDMI_ERROR_INVALIDARGUMENT, st)
      else change_job st job (\<lambda>f j. device_job_cancel f j))"

definition QDMI_job_check ::
  "ptr \<Rightarrow> bool \<Rightarrow> 'w driver \<Rightarrow> (QDMI_STATUS \<times> QDMI_JOB_STATUS_T option \<times> 'w driver) outcome" where
  [driver_defs]: "QDMI_job_check job status_out st =
     (if job = nullptr then Inr (QDMI_ERROR_INVALIDARGUMENT, None, st)
      else bind_o (on_job st job (\<lambda>lib j.
          in_lib_out (key_of lib) (device_job_check (fns lib) j status_out) (worlds st)))
        (\<lambda>(r, s, ws). Inr (r, s, st\<lparr>worlds := ws\<rparr>)))"

definition QDMI_job_wait :: "ptr \<Rightarrow> nat \<Rightarrow> 'w driver \<Rightarrow> (QDMI_STATUS \<times> 'w driver) outcome" where
  [driver_defs]: "QDMI_job_wait job timeout st =
     (if job = nullptr then Inr (QDMI_ERROR_INVALIDARGUMENT, st)
      else change_job st job (\<lambda>f j. device_job_wait f j timeout))"

definition QDMI_job_get_results :: "'w driver \<Rightarrow> ptr \<Rightarrow> nat \<Rightarrow> int \<Rightarrow> query" where
  [driver_defs]: "QDMI_job_get_results st job program_index res sz data size_ret =
     (if job = nullptr then Inr (QDMI_ERROR_INVALIDARGUMENT, data, None)
      else ask_job st job (\<lambda>f w j.
        device_job_get_results f w j program_index res sz data size_ret))"

section \<open>Queries\<close>

text \<open>The id: \<open>memcpy\<close> of the string with its terminator.\<close>

definition id_query :: "string \<Rightarrow> query" where
  "id_query i sz value size_ret =
     (let required_size = length i + 1 in
      case value of
        None \<Rightarrow> Inr (QDMI_SUCCESS, None, store_size size_ret required_size)
      | Some mem \<Rightarrow>
          if sz < required_size then Inr (QDMI_ERROR_INVALIDARGUMENT, Some mem, None)
          else bind_o (write_at 0 (i @ [NUL]) mem) (\<lambda>mem'.
            Inr (QDMI_SUCCESS, Some mem', store_size size_ret required_size)))"

definition QDMI_device_query_device_property :: "'w driver \<Rightarrow> ptr \<Rightarrow> int \<Rightarrow> query" where
  [driver_defs]: "QDMI_device_query_device_property st dev prop sz value size_ret =
     (if dev = nullptr then Inr (QDMI_ERROR_INVALIDARGUMENT, value, None)
      else if prop = val_DEVICE_PROPERTY QDMI_DEVICE_PROPERTY_ID
      then bind_o (look (cl_devices st) dev) (\<lambda>d. id_query (dev_id d) sz value size_ret)
      else ask_device st dev (\<lambda>f w s.
        device_session_query_device_property f w s prop sz value size_ret))"

definition QDMI_device_query_site_property :: "'w driver \<Rightarrow> ptr \<Rightarrow> ptr \<Rightarrow> int \<Rightarrow> query" where
  [driver_defs]: "QDMI_device_query_site_property st dev site prop sz value size_ret =
     (if dev = nullptr then Inr (QDMI_ERROR_INVALIDARGUMENT, value, None)
      else ask_device st dev (\<lambda>f w s.
        device_session_query_site_property f w s site prop sz value size_ret))"

definition QDMI_device_query_operation_property ::
  "'w driver \<Rightarrow> ptr \<Rightarrow> ptr \<Rightarrow> nat \<Rightarrow> ptr list option \<Rightarrow> nat \<Rightarrow> double list option \<Rightarrow> int \<Rightarrow> query" where
  [driver_defs]: "QDMI_device_query_operation_property st dev operation num_sites sites num_params
       params prop sz value size_ret =
     (if dev = nullptr then Inr (QDMI_ERROR_INVALIDARGUMENT, value, None)
      else ask_device st dev (\<lambda>f w s.
        device_session_query_operation_property f w s operation num_sites sites
          num_params params prop sz value size_ret))"

lemma id_sized: "sized_query (id_query i) (i @ [NUL])"
proof
  fix sz sr
  show "id_query i sz None sr = Inr (QDMI_SUCCESS, None, store_size sr (length (i @ [NUL])))"
    by (simp add: id_query_def)
next
  fix sz :: nat and mem sr
  assume "0 < sz" "sz < length (i @ [NUL])"
  then show "\<exists>n. id_query i sz (Some mem) sr = Inr (QDMI_ERROR_INVALIDARGUMENT, Some mem, n)"
    by (simp add: id_query_def)
next
  fix sz :: nat and mem :: region and sr
  assume "0 < sz" "length (i @ [NUL]) \<le> sz" "sz \<le> length mem"
  then show "\<exists>mem'. id_query i sz (Some mem) sr =
      Inr (QDMI_SUCCESS, Some mem', store_size sr (length (i @ [NUL]))) \<and>
      length mem' = length mem \<and> take (length (i @ [NUL])) mem' = i @ [NUL] \<and>
      drop sz mem' = drop sz mem"
    by (auto simp: id_query_def write_at_def Let_def Suc_le_eq drop_Cons split: nat.splits
        intro!: arg_cong2 [where f = drop])
qed

interpretation id_query: sized_query "id_query i" "i @ [NUL]" for i
  by (rule id_sized)

end
