(* ===== verification/Driver_Libraries.thy ===== *)
theory Driver_Libraries
  imports Driver_Job
begin

text \<open>
  What the driver relies on, as the locale \<open>driver_devices\<close> (every library the loader can open with
  all symbols keeps the contract \<open>device_sessions\<close>), and the lemmas on loading and unloading: the
  handles that are open are exactly those of the loaded libraries, and no device session or job
  is made or lost.
\<close>

lemma no_fault_cases:
  assumes "no_fault m"
  obtains x where "m = Inr x" | e x where "m = Inl e" and "as_exn e = Some x"
  using assms by (cases m) auto

section \<open>Live device sessions and jobs\<close>

type_synonym res_handle = "lib_key \<times> ptr"

definition live_in :: "('w \<Rightarrow> ptr set) \<Rightarrow> 'w worlds \<Rightarrow> res_handle set" where
  "live_in f ws = {(k, p). p \<in> f (ws k)}"

lemma live_in_iff [simp]: "(k, p) \<in> live_in f ws \<longleftrightarrow> p \<in> f (ws k)"
  by (simp add: live_in_def)

lemma live_in_upd:
  assumes "\<And>q. (k, q) \<in> A \<longleftrightarrow> q \<in> f w'"
    and "\<And>k' q. k' \<noteq> k \<Longrightarrow> (k', q) \<in> A \<longleftrightarrow> (k', q) \<in> live_in f ws"
  shows "live_in f (ws(k := w')) = A"
proof (rule set_eqI)
  fix x :: res_handle
  obtain k' q where x: "x = (k', q)" by (cases x)
  show "x \<in> live_in f (ws(k := w')) \<longleftrightarrow> x \<in> A"
    using assms(1) [of q] assms(2) [of k' q] by (cases "k' = k") (simp_all add: x)
qed

lemma live_in_same: "f w' = f (ws k) \<Longrightarrow> live_in f (ws(k := w')) = live_in f ws"
  by (rule live_in_upd) simp_all

lemma live_in_insert: "f w' = insert p (f (ws k)) \<Longrightarrow> live_in f (ws(k := w')) = insert (k, p) (live_in f ws)"
  by (rule live_in_upd) simp_all

lemma live_in_remove: "f w' = f (ws k) - {p} \<Longrightarrow> live_in f (ws(k := w')) = live_in f ws - {(k, p)}"
  by (rule live_in_upd) simp_all

definition worlds_ok :: "('w \<Rightarrow> bool) \<Rightarrow> 'w worlds \<Rightarrow> bool" where
  "worlds_ok ok ws \<longleftrightarrow> (\<forall>k. ok (ws k))"

lemma worlds_okD [dest]: "worlds_ok ok ws \<Longrightarrow> ok (ws k)"
  by (cases k) (simp add: worlds_ok_def)

lemma worlds_ok_upd: "worlds_ok ok ws \<Longrightarrow> ok w \<Longrightarrow> worlds_ok ok (ws(k := w))"
  by (simp add: worlds_ok_def)

text \<open>The libraries' states changed, their live sessions and jobs did not.\<close>

definition quiet ::
  "('w \<Rightarrow> bool) \<Rightarrow> ('w \<Rightarrow> ptr set) \<Rightarrow> ('w \<Rightarrow> ptr set) \<Rightarrow> 'w worlds \<Rightarrow> 'w worlds \<Rightarrow> bool" where
  "quiet ok ses jbs ws ws' \<longleftrightarrow>
     worlds_ok ok ws' \<and> live_in ses ws' = live_in ses ws \<and> live_in jbs ws' = live_in jbs ws"

lemma quiet_refl: "worlds_ok ok ws \<Longrightarrow> quiet ok ses jbs ws ws"
  by (simp add: quiet_def)

lemma quiet_trans: "quiet ok ses jbs ws ws' \<Longrightarrow> quiet ok ses jbs ws' ws'' \<Longrightarrow> quiet ok ses jbs ws ws''"
  by (simp add: quiet_def)

lemma quiet_ok: "quiet ok ses jbs ws ws' \<Longrightarrow> worlds_ok ok ws'"
  by (simp add: quiet_def)

lemma keeps_quiet:
  "worlds_ok ok ws \<Longrightarrow> keeps ok ses jbs (ws k) w' \<Longrightarrow> quiet ok ses jbs ws (ws(k := w'))"
  by (simp add: quiet_def keeps_def worlds_ok_upd live_in_same)

section \<open>Loaded libraries\<close>

definition lib_ok :: "'w driver_env \<Rightarrow> 'w QDMI_Library \<Rightarrow> bool" where
  "lib_ok env lib \<longleftrightarrow>
     lib_initialized lib \<and> (\<exists>name. dl_open env name = Some (lib_handle lib)) \<and>
     symbols_found env (lib_handle lib) (lib_prefix lib) \<and>
     fns lib = loaded_fns env (lib_handle lib) (lib_prefix lib)"

definition libs_ok :: "'w driver_env \<Rightarrow> 'w QDMI_Library list \<Rightarrow> bool" where
  "libs_ok env libs \<longleftrightarrow> list_all (lib_ok env) libs \<and> distinct (map key_of libs)"

lemma libs_ok_nth: "libs_ok env libs \<Longrightarrow> i < length libs \<Longrightarrow> lib_ok env (libs ! i)"
  by (simp add: libs_ok_def list_all_length)

text \<open>How often each handle is open.\<close>

definition handle_count :: "'w QDMI_Library list \<Rightarrow> refs" where
  "handle_count libs h = length (filter (\<lambda>lib. lib_handle lib = h) libs)"

definition open_handles :: "refs \<Rightarrow> 'w QDMI_Library list \<Rightarrow> refs" where
  "open_handles base libs h = base h + handle_count libs h"

lemma handle_count_simps [simp]:
  "handle_count [] h = 0"
  "handle_count (lib # libs) h = (if lib_handle lib = h then 1 else 0) + handle_count libs h"
  "handle_count (libs @ libs') h = handle_count libs h + handle_count libs' h"
  by (simp_all add: handle_count_def)

lemma open_handles_Nil [simp]: "open_handles base [] = base"
  by (simp add: open_handles_def fun_eq_iff)

lemma close_first: "dl_close (lib_handle lib) (open_handles base (lib # libs)) = open_handles base libs"
  by (auto simp: dl_close_def open_handles_def fun_eq_iff)

lemma close_opened [simp]: "dl_close h (f(h := Suc (f h))) = f"
  by (simp add: dl_close_def fun_eq_iff)

lemma find_library_Some:
  "find_library libs h pfx = Some k \<Longrightarrow>
     k < length libs \<and> lib_handle (libs ! k) = h \<and> lib_prefix (libs ! k) = pfx"
  by (induction libs arbitrary: k) (auto split: if_splits)

lemma find_library_None: "find_library libs h pfx = None \<longleftrightarrow> (h, pfx) \<notin> key_of ` set libs"
  by (induction libs) (auto simp: key_of_def)

section \<open>The contract\<close>

locale driver_devices =
  fixes env :: "'w driver_env" and ok :: "'w \<Rightarrow> bool" and ses jbs :: "'w \<Rightarrow> ptr set"
  assumes handle_nonnull: "dl_open env name = Some h \<Longrightarrow> h \<noteq> nullptr"
    and library: "dl_open env name = Some h \<Longrightarrow> symbols_found env h pfx \<Longrightarrow>
      device_sessions (loaded_fns env h pfx) ok ses jbs"
begin

lemma lib_contract: "lib_ok env lib \<Longrightarrow> device_sessions (fns lib) ok ses jbs"
  using library by (auto simp: lib_ok_def)

lemma destroy_library_quiet:
  assumes "lib_ok env lib" and "worlds_ok ok ws"
  obtains ws' where "destroy_library lib (rs, ws) = Inr (dl_close (lib_handle lib) rs, ws')"
    and "quiet ok ses jbs ws ws'"
proof -
  have nn: "lib_handle lib \<noteq> nullptr" "lib_initialized lib"
    using assms(1) handle_nonnull by (auto simp: lib_ok_def)
  obtain r w' where "device_finalize (fns lib) (ws (key_of lib)) = Inr (r, w')"
    and "keeps ok ses jbs (ws (key_of lib)) w'"
    using device_sessions.finalize_D [OF lib_contract [OF assms(1)]] assms(2) by blast
  then show ?thesis
    using that [of "ws(key_of lib := w')"] nn keeps_quiet [OF assms(2)]
    by (simp add: destroy_library_def in_lib_def)
qed

lemma destroy_libraries_quiet:
  assumes "list_all (lib_ok env) libs" and "worlds_ok ok ws"
  obtains ws' where "destroy_libraries libs (open_handles base libs, ws) = Inr (base, ws')"
    and "quiet ok ses jbs ws ws'"
  using assms
proof (induction libs arbitrary: ws thesis)
  case Nil
  then show ?case by (simp add: quiet_refl)
next
  case (Cons lib libs)
  obtain ws1 where ws1: "destroy_library lib (open_handles base (lib # libs), ws) =
      Inr (open_handles base libs, ws1)" and q1: "quiet ok ses jbs ws ws1"
    using destroy_library_quiet [of lib ws "open_handles base (lib # libs)"] Cons.prems
    by (auto simp: close_first)
  obtain ws2 where "destroy_libraries libs (open_handles base libs, ws1) = Inr (base, ws2)"
    and "quiet ok ses jbs ws1 ws2"
    using Cons.IH [of ws1] Cons.prems(2) quiet_ok [OF q1] by auto
  then show ?case using Cons.prems(1) ws1 quiet_trans [OF q1] by simp
qed

end

section \<open>Loading\<close>

text \<open>
  Whatever happens while libraries are loaded, the open handles are those of the libraries in the
  vector, which at most grew at its end.
\<close>

definition load_ok ::
  "'w driver_env \<Rightarrow> ('w \<Rightarrow> bool) \<Rightarrow> ('w \<Rightarrow> ptr set) \<Rightarrow> ('w \<Rightarrow> ptr set) \<Rightarrow> refs \<Rightarrow> 'w worlds \<Rightarrow>
     'w QDMI_Library list \<Rightarrow> 'w QDMI_Library list \<Rightarrow> refs \<Rightarrow> 'w worlds \<Rightarrow> bool" where
  "load_ok env ok ses jbs base ws libs libs' rs' ws' \<longleftrightarrow>
     prefix libs libs' \<and> libs_ok env libs' \<and> rs' = open_handles base libs' \<and>
     quiet ok ses jbs ws ws'"

lemma load_ok_refl:
  "libs_ok env libs \<Longrightarrow> worlds_ok ok ws \<Longrightarrow>
     load_ok env ok ses jbs base ws libs libs (open_handles base libs) ws"
  by (simp add: load_ok_def quiet_refl)

lemma load_ok_trans:
  "load_ok env ok ses jbs base ws libs libs1 rs1 ws1 \<Longrightarrow>
   load_ok env ok ses jbs base ws1 libs1 libs2 rs2 ws2 \<Longrightarrow>
     load_ok env ok ses jbs base ws libs libs2 rs2 ws2"
  unfolding load_ok_def using quiet_trans by (blast intro: prefix_order.trans)

text \<open>The library a line asks for.\<close>

definition entry_ok :: "'w driver_env \<Rightarrow> 'w QDMI_Library list \<Rightarrow> string list \<Rightarrow> nat \<times> string \<Rightarrow> bool" where
  "entry_ok env libs ts entry \<longleftrightarrow>
     (case ts of
        [lib_name, pfx, device_id] \<Rightarrow>
          snd entry = device_id \<and> fst entry < length libs \<and>
          dl_open env lib_name = Some (lib_handle (libs ! fst entry)) \<and>
          lib_prefix (libs ! fst entry) = pfx
      | _ \<Rightarrow> False)"

lemma entry_ok_prefix: "entry_ok env libs ts entry \<Longrightarrow> prefix libs libs' \<Longrightarrow> entry_ok env libs' ts entry"
  by (auto simp: entry_ok_def prefix_def nth_append split: list.splits)

context driver_devices
begin

lemma new_lib_ok:
  assumes "dl_open env name = Some h" and "symbols_found env h pfx"
  shows "lib_ok env \<lparr>lib_handle = h, lib_prefix = pfx, lib_initialized = True,
    fns = loaded_fns env h pfx\<rparr>"
  using assms by (auto simp: lib_ok_def)

text \<open>The result of loading \<open>name\<close> with \<open>pfx\<close>.\<close>

abbreviation (input) load_result where
  "load_result base ws libs name pfx m \<equiv>
     (\<exists>r libs' rs' ws'. m = Inr (r, libs', rs', ws') \<and>
        load_ok env ok ses jbs base ws libs libs' rs' ws' \<and>
        (\<forall>k ident. r = Inr k \<longrightarrow> entry_ok env libs' [name, pfx, ident] (k, ident)))"

lemma initialized_library_ok:
  fixes base :: refs
  assumes libs: "libs_ok env libs" and ws: "worlds_ok ok ws"
    and h: "dl_open env name = Some h" "symbols_found env h pfx" and new: "find_library libs h pfx = None"
  defines "lib \<equiv> \<lparr>lib_handle = h, lib_prefix = pfx, lib_initialized = True,
      fns = loaded_fns env h pfx\<rparr>"
    and "opened \<equiv> (open_handles base libs)(h := Suc (open_handles base libs h))"
  shows "load_result base ws libs name pfx
      (if fail then bind_o (destroy_library lib (opened, ws)) (\<lambda>(rs', ws2).
         Inr (Inl Exn_bad_alloc, libs, rs', ws2))
       else Inr (Inr (length libs), libs @ [lib], opened, ws))"
proof (cases fail)
  case True
  obtain ws2 where ws2: "destroy_library lib (opened, ws) = Inr (dl_close h opened, ws2)"
    and q: "quiet ok ses jbs ws ws2"
    using destroy_library_quiet [OF new_lib_ok [OF h] ws, of opened] by (auto simp: lib_def)
  have "load_ok env ok ses jbs base ws libs libs (open_handles base libs) ws2"
    using libs q by (simp add: load_ok_def)
  then show ?thesis using True ws2 by (simp add: opened_def)
next
  case False
  have "libs_ok env (libs @ [lib])"
    using libs new_lib_ok [OF h] new find_library_None [of libs h pfx]
    by (auto simp: libs_ok_def key_of_def lib_def)
  moreover have "opened = open_handles base (libs @ [lib])"
    by (auto simp: opened_def open_handles_def lib_def fun_eq_iff)
  moreover have "entry_ok env (libs @ [lib]) [name, pfx, ident] (length libs, ident)" for ident
    using h by (simp add: entry_ok_def lib_def)
  ultimately show ?thesis using False ws by (simp add: load_ok_def quiet_refl)
qed

lemma fresh_library_ok:
  assumes libs: "libs_ok env libs" and ws: "worlds_ok ok ws"
    and h: "dl_open env name = Some h" "symbols_found env h pfx" and new: "find_library libs h pfx = None"
    and "\<not> fails (6 * i + 3)" and "\<not> fails (6 * i + 4)"
  shows "load_result base ws libs name pfx
    (QDMI_library_load env fails i libs name pfx (open_handles base libs, ws))"
proof (cases "device_initialize (loaded_fns env h pfx) (ws (h, pfx))")
  case (Inl e)
  then obtain x where "as_exn e = Some x"
    using device_sessions.initialize_safe [OF library [OF h] worlds_okD [OF ws, of "(h, pfx)"]]
    by auto
  then show ?thesis using Inl assms load_ok_refl [OF libs ws]
    by (simp add: QDMI_library_load_def Let_def in_lib_def)
next
  case (Inr rw)
  then obtain r w' where init: "device_initialize (loaded_fns env h pfx) (ws (h, pfx)) = Inr (r, w')"
    by (cases rw) auto
  let ?ws = "ws((h, pfx) := w')"
  have q: "quiet ok ses jbs ws ?ws"
    by (rule keeps_quiet [OF ws device_sessions.initialize_D [OF library [OF h]
          worlds_okD [OF ws] init]])
  have same: "load_ok env ok ses jbs base ws libs libs (open_handles base libs) ?ws"
    using libs q by (simp add: load_ok_def)
  show ?thesis
  proof (cases "r = QDMI_SUCCESS")
    case False
    then show ?thesis using assms init same
      by (simp add: QDMI_library_load_def Let_def in_lib_def)
  next
    case True
    then have eq: "QDMI_library_load env fails i libs name pfx (open_handles base libs, ws) =
      (let lib = \<lparr>lib_handle = h, lib_prefix = pfx, lib_initialized = True,
             fns = loaded_fns env h pfx\<rparr>;
           opened = (open_handles base libs)(h := Suc (open_handles base libs h)) in
       if fails (6 * i + 5) then bind_o (destroy_library lib (opened, ?ws)) (\<lambda>(rs', ws2).
         Inr (Inl Exn_bad_alloc, libs, rs', ws2))
       else Inr (Inr (length libs), libs @ [lib], opened, ?ws))"
      using assms init by (simp add: QDMI_library_load_def Let_def in_lib_def)
    show ?thesis unfolding eq Let_def
      using initialized_library_ok [OF libs quiet_ok [OF q] h new, of "fails (6 * i + 5)" base]
        load_ok_trans [OF same] by fast
  qed
qed

lemma library_load_ok:
  assumes libs: "libs_ok env libs" and ws: "worlds_ok ok ws"
  shows "load_result base ws libs name pfx
    (QDMI_library_load env fails i libs name pfx (open_handles base libs, ws))"
proof (cases "fails (6 * i + 3) \<or> dl_open env name = None")
  case True
  then show ?thesis using load_ok_refl [OF libs ws]
    by (cases "fails (6 * i + 3)") (simp_all add: QDMI_library_load_def)
next
  case False
  then obtain h where h: "\<not> fails (6 * i + 3)" "dl_open env name = Some h" by auto
  show ?thesis
  proof (cases "find_library libs h pfx")
    case (Some k)
    then show ?thesis using load_ok_refl [OF libs ws] h find_library_Some [OF Some]
      by (simp add: QDMI_library_load_def Let_def entry_ok_def)
  next
    case None
    then show ?thesis using load_ok_refl [OF libs ws] h fresh_library_ok [OF libs ws h(2) _ None, of fails i base] h(1)
      by (cases "fails (6 * i + 4)"; cases "symbols_found env h pfx")
         (simp_all add: QDMI_library_load_def Let_def)
  qed
qed

end

section \<open>The configuration\<close>

text \<open>The lines that count, and a configuration made from them.\<close>

definition entries :: "string list \<Rightarrow> string list list" where
  "entries ls = map (tokens []) (filter (\<lambda>l. \<not> skipped l) ls)"

lemma entries_simps:
  "entries [] = []"
  "entries (l # ls) = (if skipped l then entries ls else tokens [] l # entries ls)"
  by (simp_all add: entries_def)

definition configuration_ok ::
  "'w driver_env \<Rightarrow> 'w QDMI_Library list \<Rightarrow> string list list \<Rightarrow> configured \<Rightarrow> bool" where
  "configuration_ok env libs tss cfg \<longleftrightarrow>
     list_all2 (entry_ok env libs) tss cfg \<and> distinct (map snd cfg)"

lemma configuration_ok_mono:
  assumes "configuration_ok env libs tss cfg" and "prefix libs libs'"
  shows "configuration_ok env libs' tss cfg"
proof -
  have "entry_ok env libs ts e \<Longrightarrow> entry_ok env libs' ts e" for ts e
    using assms(2) entry_ok_prefix by blast
  then show ?thesis
    using assms(1) list_all2_mono [of "entry_ok env libs" tss cfg "entry_ok env libs'"]
    unfolding configuration_ok_def by blast
qed

lemma configuration_ok_snoc:
  assumes "configuration_ok env libs tss cfg" and "prefix libs libs'" and "entry_ok env libs' ts (k, i)"
    and "i \<notin> snd ` set cfg"
  shows "configuration_ok env libs' (tss @ [ts]) (cfg @ [(k, i)])"
  using configuration_ok_mono [OF assms(1,2)] assms(3,4)
  by (simp add: configuration_ok_def list_all2_appendI)

lemma entry_ok_index: "entry_ok env libs ts entry \<Longrightarrow> fst entry < length libs"
  by (simp add: entry_ok_def split: list.splits)

lemma configuration_ok_index:
  assumes "configuration_ok env libs tss cfg" and "e \<in> set cfg"
  shows "fst e < length libs"
proof -
  obtain n where "n < length cfg" and "e = cfg ! n" using assms(2) by (metis in_set_conv_nth)
  then have "entry_ok env libs (tss ! n) e"
    using assms(1) list_all2_nthD2 [of "entry_ok env libs" tss cfg n] by (simp add: configuration_ok_def)
  then show ?thesis by (rule entry_ok_index)
qed

definition lines_result ::
  "'w driver_env \<Rightarrow> 'w QDMI_Library list \<Rightarrow> string list list \<Rightarrow> (QDMI_STATUS + configured) \<Rightarrow> bool" where
  "lines_result env libs tss r \<longleftrightarrow>
     (case r of Inl e \<Rightarrow> e \<in> {QDMI_ERROR_OUTOFMEM, QDMI_ERROR_FATAL}
      | Inr cfg \<Rightarrow> configuration_ok env libs tss cfg)"

lemma lines_result_simps [simp]:
  "lines_result env libs tss (Inl e) \<longleftrightarrow> e \<in> {QDMI_ERROR_OUTOFMEM, QDMI_ERROR_FATAL}"
  "lines_result env libs tss (Inr cfg) \<longleftrightarrow> configuration_ok env libs tss cfg"
  by (simp_all add: lines_result_def)

context driver_devices
begin

lemma load_lines_ok:
  assumes "libs_ok env libs" and "worlds_ok ok ws" and "configuration_ok env libs tss cfg"
  shows "\<exists>r libs' rs' ws'. load_lines env fails i ls cfg libs (open_handles base libs, ws) =
      Inr (r, libs', rs', ws') \<and> load_ok env ok ses jbs base ws libs libs' rs' ws' \<and>
      lines_result env libs' (tss @ entries ls) r"
  using assms
proof (induction ls arbitrary: i cfg libs ws tss)
  case Nil
  then show ?case by (simp add: entries_simps load_ok_refl)
next
  case (Cons line rest)
  note refl = load_ok_refl [OF Cons.prems(1,2)]
  consider (skip) "skipped line"
    | (bad) "\<not> skipped line" "\<nexists>lib_name pfx device_id. tokens [] line = [lib_name, pfx, device_id]"
    | (entry) lib_name pfx device_id where
        "\<not> skipped line" "tokens [] line = [lib_name, pfx, device_id]" by blast
  then show ?case
  proof cases
    case skip
    then have "entries (line # rest) = entries rest" by (simp add: entries_simps)
    then show ?thesis using Cons.IH [OF Cons.prems, of "i + 1"] skip by simp
  next
    case bad
    then have "load_lines env fails i (line # rest) cfg libs s =
        Inr (Inl (if fails (6 * i + 1) then QDMI_ERROR_OUTOFMEM else QDMI_ERROR_FATAL), libs, s)" for s
      by (auto split: list.splits)
    then show ?thesis using refl by simp
  next
    case (entry lib_name pfx device_id)
    show ?thesis
    proof (cases "fails (6 * i + 1) \<or> fails (6 * i + 2) \<or> device_id \<in> snd ` set cfg")
      case True
      then show ?thesis using entry refl by (cases "fails (6 * i + 1)"; cases "fails (6 * i + 2)") simp_all
    next
      case False
      then have mem: "\<not> fails (6 * i + 1)" "\<not> fails (6 * i + 2)" and new: "device_id \<notin> snd ` set cfg" by auto
      obtain r libs' rs' ws' where load: "QDMI_library_load env fails i libs lib_name pfx
          (open_handles base libs, ws) = Inr (r, libs', rs', ws')"
        and ok: "load_ok env ok ses jbs base ws libs libs' rs' ws'"
        and k: "\<forall>k. r = Inr k \<longrightarrow> entry_ok env libs' [lib_name, pfx, device_id] (k, device_id)"
        using library_load_ok [OF Cons.prems(1,2)] by blast
      from ok have ok': "libs_ok env libs'" "worlds_ok ok ws'" "rs' = open_handles base libs'"
        "prefix libs libs'" by (auto simp: load_ok_def dest: quiet_ok)
      show ?thesis
      proof (cases "(\<exists>k. r = Inr k) \<and> \<not> fails (6 * i + 6)")
        case True
        then obtain k where r: "r = Inr k" and nf: "\<not> fails (6 * i + 6)" by blast
        have "configuration_ok env libs' (tss @ [[lib_name, pfx, device_id]]) (cfg @ [(k, device_id)])"
          using configuration_ok_snoc [OF Cons.prems(3) ok'(4) _ new] k r by blast
        then obtain r2 libs2 rs2 ws2 where
          rest: "load_lines env fails (i + 1) rest (cfg @ [(k, device_id)]) libs'
              (open_handles base libs', ws') = Inr (r2, libs2, rs2, ws2)"
          and "load_ok env ok ses jbs base ws' libs' libs2 rs2 ws2"
          and r2: "lines_result env libs2 ((tss @ [[lib_name, pfx, device_id]]) @ entries rest) r2"
          using Cons.IH [OF ok'(1,2), of _ _ "i + 1"] by blast
        moreover have "(tss @ [[lib_name, pfx, device_id]]) @ entries rest = tss @ entries (line # rest)"
          using entry by (simp add: entries_simps)
        ultimately show ?thesis
          using load_ok_trans [OF ok] entry mem new load r nf ok'(3) by simp
      next
        case False
        then have "load_lines env fails i (line # rest) cfg libs (open_handles base libs, ws) =
            Inr (Inl (if r = Inl Exn_std then QDMI_ERROR_FATAL else QDMI_ERROR_OUTOFMEM), libs', rs', ws')"
          using mem new entry load by (cases r) (auto split: std_exn.splits)
        then show ?thesis using ok by simp
      qed
    qed
  qed
qed

lemma initialize_driver_ok:
  assumes "worlds_ok ok ws"
  shows "\<exists>r rs' ws'. QDMI_initialize_driver env fails (base, ws) = Inr (r, rs', ws') \<and>
      quiet ok ses jbs ws ws' \<and>
      (case r of Inl e \<Rightarrow> e \<in> {QDMI_ERROR_OUTOFMEM, QDMI_ERROR_FATAL} \<and> rs' = base
       | Inr (libs, cfg) \<Rightarrow> libs_ok env libs \<and> rs' = open_handles base libs \<and>
           (\<exists>ls. config_lines env = Inr ls \<and> configuration_ok env libs (entries ls) cfg))"
proof (cases "fails 0 \<or> (\<exists>e. config_lines env = Inl e)")
  case True
  then have "QDMI_initialize_driver env fails (base, ws) =
      Inr (Inl (if fails 0 then QDMI_ERROR_OUTOFMEM else QDMI_ERROR_FATAL), base, ws)"
    by (auto simp: QDMI_initialize_driver_def config_lines_def Let_def split: option.splits if_splits)
  then show ?thesis using assms by (simp add: quiet_refl)
next
  case False
  then obtain ls where ls: "\<not> fails 0" "config_lines env = Inr ls" by (cases "config_lines env") auto
  have start: "libs_ok env []" "configuration_ok env [] [] []"
    by (simp_all add: libs_ok_def configuration_ok_def)
  obtain r libs rs' ws' where load: "load_lines env fails 0 ls [] [] (base, ws) =
      Inr (r, libs, rs', ws')" and ok: "load_ok env ok ses jbs base ws [] libs rs' ws'"
    and r: "lines_result env libs ([] @ entries ls) r"
    using load_lines_ok [OF start(1) assms start(2), of fails 0 ls base,
      unfolded open_handles_Nil] by blast
  from ok have ok': "libs_ok env libs" "rs' = open_handles base libs" "quiet ok ses jbs ws ws'"
    by (auto simp: load_ok_def)
  show ?thesis
  proof (cases r)
    case (Inl e)
    obtain ws'' where "destroy_libraries libs (open_handles base libs, ws') = Inr (base, ws'')"
      and "quiet ok ses jbs ws' ws''"
      using destroy_libraries_quiet [of libs ws' base] ok'(1) quiet_ok [OF ok'(3)]
      by (auto simp: libs_ok_def)
    then show ?thesis using Inl r load ok' ls quiet_trans [OF ok'(3)]
      by (simp add: QDMI_initialize_driver_def)
  next
    case (Inr cfg)
    then show ?thesis using r load ok' ls
      by (simp add: QDMI_initialize_driver_def)
  qed
qed

end

end
