(* ===== verification/Driver_Devices.thy ===== *)
theory Driver_Devices
  imports Driver_Libraries
begin

text \<open>
  Opening and closing the devices of a client session: the device sessions a client session holds
  are exactly those the loop of \<open>QDMI_session_init\<close> allocated, and a failure gives all of them
  back.
\<close>

text \<open>The device session a device holds, as a handle of its library.\<close>

definition dkey :: "'w QDMI_Library list \<Rightarrow> QDMI_Device_impl_d \<Rightarrow> res_handle" where
  "dkey libs d = (key_of (libs ! dev_library d), dev_device_session d)"

text \<open>Besides the device sessions in \<open>L\<close> exactly those of the devices are open.\<close>

definition devices_open ::
  "('w \<Rightarrow> ptr set) \<Rightarrow> 'w QDMI_Library list \<Rightarrow> res_handle set \<Rightarrow> QDMI_Device_impl_d list \<Rightarrow>
     'w worlds \<Rightarrow> bool" where
  "devices_open ses libs L devs ws \<longleftrightarrow>
     (\<forall>d \<in> set devs. dev_library d < length libs \<and> dev_device_session d \<noteq> nullptr) \<and>
     distinct (map (dkey libs) devs) \<and> L \<inter> dkey libs ` set devs = {} \<and>
     live_in ses ws = L \<union> dkey libs ` set devs"

lemma devices_open_Nil: "devices_open ses libs L [] ws \<longleftrightarrow> live_in ses ws = L"
  by (simp add: devices_open_def)

text \<open>
  The result of opening the devices of a configuration for a client session: all of them, or a
  failure with none left open.
\<close>

definition opened_result ::
  "('w \<Rightarrow> ptr set) \<Rightarrow> 'w QDMI_Library list \<Rightarrow> res_handle set \<Rightarrow> ptr \<Rightarrow> QDMI_Device_impl_d list \<Rightarrow>
     configured \<Rightarrow> (QDMI_STATUS + QDMI_Device_impl_d list) \<Rightarrow> 'w worlds \<Rightarrow> bool" where
  "opened_result ses libs L session devs cfg r ws \<longleftrightarrow>
     (case r of
        Inl e \<Rightarrow> e \<noteq> QDMI_SUCCESS \<and> live_in ses ws = L
      | Inr devs' \<Rightarrow> devices_open ses libs L devs' ws \<and>
          (\<exists>new. devs' = devs @ new \<and> map (\<lambda>d. (dev_library d, dev_id d)) new = cfg \<and>
             (\<forall>d \<in> set new. dev_session d = session)))"

lemma opened_result_Inl [simp]:
  "opened_result ses libs L session devs cfg (Inl e) ws \<longleftrightarrow> e \<noteq> QDMI_SUCCESS \<and> live_in ses ws = L"
  by (simp add: opened_result_def)

lemma opened_result_Nil:
  "devices_open ses libs L devs ws \<Longrightarrow> opened_result ses libs L session devs [] (Inr devs) ws"
  by (simp add: opened_result_def)

lemma opened_result_Cons:
  assumes "opened_result ses libs L session (devs @ [d]) cfg r ws" and "dev_session d = session"
  shows "opened_result ses libs L session devs ((dev_library d, dev_id d) # cfg) r ws"
proof (cases r)
  case (Inr devs')
  then obtain new where new: "devs' = devs @ d # new" "map (\<lambda>d. (dev_library d, dev_id d)) new = cfg"
    "\<forall>d \<in> set new. dev_session d = session" "devices_open ses libs L devs' ws"
    using assms(1) by (auto simp: opened_result_def)
  then show ?thesis using Inr assms(2)
    by (auto simp: opened_result_def intro!: exI [of _ "d # new"])
qed (use assms(1) in simp)

text \<open>What a call under \<open>try\<close> gives: it always returns.\<close>

lemma catch_status_cases:
  assumes "no_fault m"
  obtains x where "m = Inr x" and "catch_status m = Inr (Inr x)"
  | e where "catch_status m = Inr (Inl e)" and "e \<in> {QDMI_ERROR_OUTOFMEM, QDMI_ERROR_FATAL}"
proof (cases m)
  case (Inl f)
  then obtain x where "as_exn f = Some x" using assms by auto
  then show ?thesis using that(2) Inl by (cases x) (auto simp: catch_status_def)
qed (use that(1) in \<open>simp add: catch_status_def\<close>)

lemma catch_status_Inr [simp]: "catch_status (Inr x) = Inr (Inr x)"
  by (simp add: catch_status_def)

lemma no_fault_in_lib [simp]:
  "no_fault (in_lib k f ws) \<longleftrightarrow> no_fault (f (ws k))"
  "no_fault (in_lib_out k g ws) \<longleftrightarrow> no_fault (g (ws k))"
  by (auto simp: in_lib_def in_lib_out_def no_fault_def bind_o_def split: sum.splits prod.splits)

lemma in_lib_InrE:
  assumes "in_lib k f ws = Inr (r, ws')"
  obtains w where "f (ws k) = Inr (r, w)" and "ws' = ws(k := w)"
  using assms by (auto simp: in_lib_def bind_o_eq_Inr)

lemma in_lib_out_InrE:
  assumes "in_lib_out k f ws = Inr (r, out, ws')"
  obtains w where "f (ws k) = Inr (r, out, w)" and "ws' = ws(k := w)"
  using assms by (auto simp: in_lib_out_def bind_o_eq_Inr)

context driver_devices
begin

lemma destroy_device_ok:
  assumes "libs_ok env libs" and "worlds_ok ok ws" and "dev_library d < length libs"
    and "dev_device_session d \<noteq> nullptr" and "dkey libs d \<in> live_in ses ws"
  obtains ws' where "destroy_device libs d ws = Inr ws'" and "worlds_ok ok ws'"
    and "live_in ses ws' = live_in ses ws - {dkey libs d}" and "live_in jbs ws' = live_in jbs ws"
proof -
  let ?lib = "libs ! dev_library d" and ?p = "dev_device_session d"
  have "device_sessions (fns ?lib) ok ses jbs"
    using lib_contract [OF libs_ok_nth [OF assms(1,3)]] .
  from device_sessions.free_D [OF this worlds_okD [OF assms(2)], of ?p "key_of ?lib"]
  obtain w' where w': "device_session_free (fns ?lib) ?p (ws (key_of ?lib)) = Inr w'" "ok w'"
    "ses w' = ses (ws (key_of ?lib)) - {?p}" "jbs w' = jbs (ws (key_of ?lib))"
    using assms(5) by (auto simp: dkey_def)
  show ?thesis
    using that [of "ws(key_of ?lib := w')"] w' assms(3,4) worlds_ok_upd [OF assms(2)]
      live_in_remove [of ses w' ws "key_of ?lib" ?p] live_in_same [of jbs w' ws "key_of ?lib"]
    by (simp add: destroy_device_def in_lib_void_def dkey_def Let_def)
qed

lemma destroy_devices_ok:
  assumes "libs_ok env libs" and "worlds_ok ok ws" and "devices_open ses libs L devs ws"
  shows "\<exists>ws'. destroy_devices libs devs ws = Inr ws' \<and> worlds_ok ok ws' \<and>
    live_in ses ws' = L \<and> live_in jbs ws' = live_in jbs ws"
  using assms(2,3)
proof (induction devs arbitrary: ws)
  case Nil
  then show ?case by (simp add: devices_open_Nil)
next
  case (Cons d devs)
  obtain ws1 where ws1: "destroy_device libs d ws = Inr ws1" "worlds_ok ok ws1"
    "live_in ses ws1 = live_in ses ws - {dkey libs d}" "live_in jbs ws1 = live_in jbs ws"
    using destroy_device_ok [OF assms(1) Cons.prems(1), of d] Cons.prems(2)
    by (auto simp: devices_open_def)
  have "devices_open ses libs L devs ws1"
    using Cons.prems(2) ws1(3) by (auto simp: devices_open_def)
  then show ?case using Cons.IH [OF ws1(2)] ws1 by simp
qed

text \<open>The token and the initialization of a device session that was allocated.\<close>

lemma session_call_quiet:
  assumes "lib_ok env lib" and "worlds_ok ok ws" and "q \<in> ses (ws (key_of lib))"
  shows "no_fault (in_lib (key_of lib) (device_session_set_parameter (fns lib) q param
      (length t + 1) (Some (t @ [NUL]))) ws)"
    and "no_fault (in_lib (key_of lib) (device_session_init (fns lib) q) ws)"
    and "in_lib (key_of lib) (device_session_set_parameter (fns lib) q param sz v) ws = Inr (r, ws') \<Longrightarrow>
      quiet ok ses jbs ws ws'"
    and "in_lib (key_of lib) (device_session_init (fns lib) q) ws = Inr (r, ws') \<Longrightarrow>
      quiet ok ses jbs ws ws'"
proof -
  note contract = lib_contract [OF assms(1)] and w = worlds_okD [OF assms(2), of "key_of lib"]
  show "no_fault (in_lib (key_of lib) (device_session_set_parameter (fns lib) q param
      (length t + 1) (Some (t @ [NUL]))) ws)"
    using device_sessions.set_parameter_safe [OF contract w assms(3), of "length t + 1" "t @ [NUL]"]
    by simp
  show "no_fault (in_lib (key_of lib) (device_session_init (fns lib) q) ws)"
    using device_sessions.init_safe [OF contract w assms(3)] by simp
  show "in_lib (key_of lib) (device_session_set_parameter (fns lib) q param sz v) ws = Inr (r, ws') \<Longrightarrow>
      quiet ok ses jbs ws ws'"
    using device_sessions.set_parameter_D [OF contract w] keeps_quiet [OF assms(2), of _ _ "key_of lib"]
    by (auto elim!: in_lib_InrE)
  show "in_lib (key_of lib) (device_session_init (fns lib) q) ws = Inr (r, ws') \<Longrightarrow>
      quiet ok ses jbs ws ws'"
    using device_sessions.init_D [OF contract w] keeps_quiet [OF assms(2), of _ _ "key_of lib"]
    by (auto elim!: in_lib_InrE)
qed

lemma quiet_live: "quiet ok ses jbs ws ws' \<Longrightarrow> q \<in> ses (ws k) \<Longrightarrow> q \<in> ses (ws' k)"
  by (metis live_in_iff quiet_def)

lemma init_device_ok:
  assumes "lib_ok env lib" and "worlds_ok ok ws" and "q \<in> ses (ws (key_of lib))"
  shows "\<exists>failure ws'. bind_o (catch_status (in_lib (key_of lib) (device_session_init (fns lib) q) ws))
      (\<lambda>c. case c of Inl e \<Rightarrow> Inr (Some e, dev, ws)
        | Inr (r, ws3) \<Rightarrow> Inr (if r \<noteq> QDMI_SUCCESS then Some r else None, dev, ws3)) =
      Inr (failure, dev, ws') \<and> failure \<noteq> Some QDMI_SUCCESS \<and> quiet ok ses jbs ws ws'"
  using session_call_quiet(2) [OF assms]
proof (cases rule: catch_status_cases)
  case (1 x)
  then show ?thesis using session_call_quiet(4) [OF assms] by (cases x) auto
next
  case (2 e)
  then show ?thesis using quiet_refl [OF assms(2)] by auto
qed

lemma configure_device_ok:
  assumes "lib_ok env lib" and "worlds_ok ok ws" and "q \<in> ses (ws (key_of lib))"
  shows "\<exists>failure ws'.
      bind_o (catch_status (in_lib (key_of lib) (device_session_set_parameter (fns lib) q
          (val_DEVICE_SESSION_PARAMETER QDMI_DEVICE_SESSION_PARAMETER_TOKEN)
          (length t + 1) (Some (t @ [NUL]))) ws)) (\<lambda>b. case b of
        Inl e \<Rightarrow> Inr (Some e, dev, ws)
      | Inr (r, ws2) \<Rightarrow>
          if r \<noteq> QDMI_SUCCESS \<and> r \<noteq> QDMI_ERROR_NOTSUPPORTED then Inr (Some r, dev, ws2)
          else bind_o (catch_status (in_lib (key_of lib) (device_session_init (fns lib) q) ws2)) (\<lambda>c.
            case c of Inl e \<Rightarrow> Inr (Some e, dev, ws2)
            | Inr (r, ws3) \<Rightarrow> Inr (if r \<noteq> QDMI_SUCCESS then Some r else None, dev, ws3))) =
      Inr (failure, dev, ws') \<and> failure \<noteq> Some QDMI_SUCCESS \<and> quiet ok ses jbs ws ws'"
  using session_call_quiet(1) [OF assms, where t = t and
      param = "val_DEVICE_SESSION_PARAMETER QDMI_DEVICE_SESSION_PARAMETER_TOKEN"]
proof (cases rule: catch_status_cases)
  case (1 x)
  obtain r ws2 where x: "x = (r, ws2)" by (cases x)
  have q: "quiet ok ses jbs ws ws2" using 1(1) session_call_quiet(3) [OF assms] x by blast
  show ?thesis
    using init_device_ok [OF assms(1) quiet_ok [OF q] quiet_live [OF q assms(3)], of dev]
      1(2) x q quiet_trans [OF q]
    by (cases "r \<noteq> QDMI_SUCCESS \<and> r \<noteq> QDMI_ERROR_NOTSUPPORTED") auto
next
  case (2 e)
  then show ?thesis using quiet_refl [OF assms(2)] by auto
qed

lemma open_device_ok:
  assumes "lib_ok env lib" and ws: "worlds_ok ok ws" and null: "dev_device_session dev = nullptr"
  shows "\<exists>failure q ws'. open_device lib token dev ws =
      Inr (failure, dev\<lparr>dev_device_session := q\<rparr>, ws') \<and> failure \<noteq> Some QDMI_SUCCESS \<and>
    worlds_ok ok ws' \<and> live_in jbs ws' = live_in jbs ws \<and>
    (if q = nullptr then failure \<noteq> None \<and> live_in ses ws' = live_in ses ws
     else (key_of lib, q) \<notin> live_in ses ws \<and>
          live_in ses ws' = insert (key_of lib, q) (live_in ses ws))"
proof -
  let ?k = "key_of lib"
  note contract = lib_contract [OF assms(1)] and w = worlds_okD [OF ws, of ?k]
  have dev: "dev\<lparr>dev_device_session := 0\<rparr> = dev" using null by (cases dev) simp
  have "no_fault (in_lib_out ?k (device_session_alloc (fns lib) True) ws)"
    using device_sessions.alloc_safe [OF contract w] by simp
  then show ?thesis
  proof (cases rule: catch_status_cases)
    case (2 e)
    then show ?thesis using ws dev
      by (intro exI [of _ "Some e"] exI [of _ 0] exI [of _ ws]) (auto simp: open_device_def)
  next
    case (1 x)
    obtain r out ws1 where x: "x = (r, out, ws1)" by (cases x)
    then obtain w1 where w1: "device_session_alloc (fns lib) True (ws ?k) = Inr (r, out, w1)"
      "ws1 = ws(?k := w1)" using 1(1) by (auto elim: in_lib_out_InrE)
    note D = device_sessions.alloc_D [OF contract w w1(1)]
    then have ws1: "worlds_ok ok ws1" "live_in jbs ws1 = live_in jbs ws"
      using worlds_ok_upd [OF ws] live_in_same [of jbs w1 ws ?k] w1(2) by auto
    show ?thesis
    proof (cases "r = QDMI_SUCCESS")
      case False
      then have "out = None" "live_in ses ws1 = live_in ses ws"
        using D live_in_same [of ses w1 ws ?k] w1(2) by auto
      then show ?thesis using False 1(2) x ws1 dev
        by (intro exI [of _ "Some r"] exI [of _ 0] exI [of _ ws1]) (auto simp: open_device_def)
    next
      case True
      then obtain q where q: "out = Some q" "q \<noteq> nullptr" "q \<notin> ses (ws ?k)"
        "ses w1 = insert q (ses (ws ?k))" using D by auto
      have live: "live_in ses ws1 = insert (?k, q) (live_in ses ws)" "q \<in> ses (ws1 ?k)"
        using live_in_insert [of ses w1 q ws ?k, OF q(4)] q(4) w1(2) by auto
      let ?dev = "dev\<lparr>dev_device_session := q\<rparr>"
      have select: "dev_device_session ?dev = q" by simp
      obtain failure ws' where "open_device lib token dev ws = Inr (failure, ?dev, ws')"
        and "failure \<noteq> Some QDMI_SUCCESS" and "quiet ok ses jbs ws1 ws'"
        using configure_device_ok [OF assms(1) ws1(1) live(2), of token ?dev]
        unfolding open_device_def 1(2) x q(1) True bind_o_Inr sum.case prod.case option.case Let_def
          simp_thms if_False select by blast
      then show ?thesis using q(2,3) live(1) ws1(2)
        by (intro exI [of _ failure] exI [of _ q] exI [of _ ws']) (auto simp: quiet_def)
    qed
  qed
qed

text \<open>The loop: all devices, or none.\<close>

lemma open_devices_ok:
  assumes "libs_ok env libs" and "worlds_ok ok ws" and "devices_open ses libs L devs ws"
    and "\<forall>e \<in> set cfg. fst e < length libs"
  shows "\<exists>r ws'. open_devices libs fails token session i cfg devs ws = Inr (r, ws') \<and>
    worlds_ok ok ws' \<and> live_in jbs ws' = live_in jbs ws \<and>
    opened_result ses libs L session devs cfg r ws'"
  using assms(2-4)
proof (induction cfg arbitrary: i devs ws)
  case Nil
  then show ?case by (simp add: opened_result_Nil)
next
  case (Cons e cfg)
  obtain lib ident where e: "e = (lib, ident)" by (cases e)
  show ?case
  proof (cases "fails (2 * i)")
    case True
    then show ?thesis using destroy_devices_ok [OF assms(1) Cons.prems(1,2)] e by auto
  next
    case False
    let ?lib = "libs ! lib"
    let ?dev = "\<lparr>dev_library = lib, dev_session = session, dev_device_session = nullptr, dev_id = ident\<rparr>"
    have lib: "lib < length libs" "lib_ok env ?lib"
      using Cons.prems(3) e libs_ok_nth [OF assms(1)] by auto
    obtain failure q ws1 where run: "open_device ?lib token ?dev ws =
        Inr (failure, ?dev\<lparr>dev_device_session := q\<rparr>, ws1)" "failure \<noteq> Some QDMI_SUCCESS"
      and ws1: "worlds_ok ok ws1" "live_in jbs ws1 = live_in jbs ws"
      and q: "if q = nullptr then failure \<noteq> None \<and> live_in ses ws1 = live_in ses ws
        else (key_of ?lib, q) \<notin> live_in ses ws \<and>
             live_in ses ws1 = insert (key_of ?lib, q) (live_in ses ws)"
      using open_device_ok [OF lib(2) Cons.prems(1), of ?dev token] by auto
    let ?dev' = "?dev\<lparr>dev_device_session := q\<rparr>"
    let ?failure = "case failure of Some e \<Rightarrow> Some e
      | None \<Rightarrow> if fails (2 * i + 1) then Some QDMI_ERROR_OUTOFMEM else None"
    have opened: "devices_open ses libs L (?dev' # devs) ws1" "devices_open ses libs L (devs @ [?dev']) ws1"
      if "q \<noteq> nullptr"
    proof -
      have "dkey libs ?dev' = (key_of ?lib, q)" by (simp add: dkey_def)
      then show "devices_open ses libs L (?dev' # devs) ws1" "devices_open ses libs L (devs @ [?dev']) ws1"
        using that q Cons.prems(2) lib(1) by (auto simp: devices_open_def simp del: live_in_iff)
    qed
    show ?thesis
    proof (cases ?failure)
      case (Some err)
      have err: "err \<noteq> QDMI_SUCCESS" using Some run(2) by (auto split: option.splits if_splits)
      have "\<exists>ws'. destroy_devices libs (?dev' # devs) ws1 = Inr ws' \<and> worlds_ok ok ws' \<and>
          live_in ses ws' = L \<and> live_in jbs ws' = live_in jbs ws1"
      proof (cases "q = nullptr")
        case True
        then have "devices_open ses libs L devs ws1" using q Cons.prems(2) by (simp add: devices_open_def)
        from destroy_devices_ok [OF assms(1) ws1(1) this] show ?thesis
          using True by (simp add: destroy_device_def)
      qed (use destroy_devices_ok [OF assms(1) ws1(1) opened(1)] in simp)
      then show ?thesis using False e lib(1) run(1) ws1(2) Some err by auto
    next
      case None
      then have "q \<noteq> nullptr" using q by (auto split: if_splits)
      from Cons.IH [OF ws1(1) opened(2) [OF this], of "i + 1"] Cons.prems(3)
      obtain r ws' where "open_devices libs fails token session (i + 1) cfg (devs @ [?dev']) ws1 =
          Inr (r, ws')" and "worlds_ok ok ws'" and "live_in jbs ws' = live_in jbs ws1"
        and "opened_result ses libs L session (devs @ [?dev']) cfg r ws'"
        by auto
      then show ?thesis using False e lib(1) run(1) ws1(2) None
          opened_result_Cons [of ses libs L session devs ?dev' cfg r ws'] by simp
    qed
  qed
qed

end

end
