(* ===== verification/Driver_Lifecycle.thy ===== *)
theory Driver_Lifecycle
  imports Driver_Devices
begin

text \<open>
  The driver as a state machine: one call is \<open>drv_exec\<close>, the states a client can reach while it
  keeps to the documentation of \<open>client.h\<close> (\<open>drv_legal\<close>) are \<open>drv_reachable\<close>, and \<open>driver_inv\<close> is the
  invariant: the session count, the ownership of devices, device sessions and device jobs, and the
  open library handles are all exact.
\<close>

section \<open>Calls\<close>

datatype drv_call =
    Client_session_alloc bool "nat \<Rightarrow> bool" bool
  | Client_session_init "nat \<Rightarrow> bool" ptr
  | Client_session_free ptr
  | Client_session_set_parameter bool ptr int nat "region option"
  | Client_create_job bool ptr bool
  | Client_retrieve_job_by_id bool ptr "string option" bool
  | Client_job_free ptr
  | Client_job_set_parameter ptr int nat "region option"
  | Client_job_set_programs ptr int nat "nat list option" "region option list option"
  | Client_job_submit ptr
  | Client_job_cancel ptr
  | Client_job_check ptr bool
  | Client_job_wait ptr nat

fun drv_exec :: "'w driver_env \<Rightarrow> drv_call \<Rightarrow> 'w driver \<Rightarrow> 'w driver outcome" where
  "drv_exec env (Client_session_alloc oom fails out) st =
     last_of3 (QDMI_session_alloc env oom fails out st)"
| "drv_exec env (Client_session_init fails p) st = last_of (QDMI_session_init fails p st)"
| "drv_exec env (Client_session_free p) st = QDMI_session_free p st"
| "drv_exec env (Client_session_set_parameter oom p param sz value) st =
     last_of (QDMI_session_set_parameter oom p param sz value st)"
| "drv_exec env (Client_create_job oom p out) st = last_of3 (QDMI_device_create_job oom p out st)"
| "drv_exec env (Client_retrieve_job_by_id oom p jid out) st =
     last_of3 (QDMI_session_retrieve_job_by_id oom p jid out st)"
| "drv_exec env (Client_job_free p) st = QDMI_job_free p st"
| "drv_exec env (Client_job_set_parameter p param sz value) st =
     last_of (QDMI_job_set_parameter p param sz value st)"
| "drv_exec env (Client_job_set_programs p format count sizes progs) st =
     last_of (QDMI_job_set_programs p format count sizes progs st)"
| "drv_exec env (Client_job_submit p) st = last_of (QDMI_job_submit p st)"
| "drv_exec env (Client_job_cancel p) st = last_of (QDMI_job_cancel p st)"
| "drv_exec env (Client_job_check p out) st = last_of3 (QDMI_job_check p out st)"
| "drv_exec env (Client_job_wait p timeout) st = last_of (QDMI_job_wait p timeout st)"

text \<open>
  What the documentation asks of the client: live handles, buffers as long as stated, and no job
  of a session left when it is freed. A null handle is answered with an error code.
\<close>

definition live_or_null :: "(ptr \<rightharpoonup> 'a) \<Rightarrow> ptr \<Rightarrow> bool" where
  "live_or_null h p \<longleftrightarrow> p = nullptr \<or> p \<in> dom h"

definition no_jobs_of :: "'w driver \<Rightarrow> ptr \<Rightarrow> bool" where
  "no_jobs_of st p \<longleftrightarrow>
     (\<forall>s \<in> ran ((cl_sessions st) |` {p}). \<forall>j \<in> ran (cl_jobs st). job_device j \<notin> set (device_list s))"

fun drv_legal :: "'w driver \<Rightarrow> drv_call \<Rightarrow> bool" where
  "drv_legal st (Client_session_alloc oom fails out) = True"
| "drv_legal st (Client_session_init fails p) = live_or_null (cl_sessions st) p"
| "drv_legal st (Client_session_free p) = (live_or_null (cl_sessions st) p \<and> no_jobs_of st p)"
| "drv_legal st (Client_session_set_parameter oom p param sz value) =
     (live_or_null (cl_sessions st) p \<and> (case value of None \<Rightarrow> True | Some mem \<Rightarrow> sz \<le> length mem))"
| "drv_legal st (Client_create_job oom p out) = live_or_null (cl_devices st) p"
| "drv_legal st (Client_retrieve_job_by_id oom p jid out) = live_or_null (cl_devices st) p"
| "drv_legal st (Client_job_free p) = live_or_null (cl_jobs st) p"
| "drv_legal st (Client_job_set_parameter p param sz value) = live_or_null (cl_jobs st) p"
| "drv_legal st (Client_job_set_programs p format count sizes progs) = live_or_null (cl_jobs st) p"
| "drv_legal st (Client_job_submit p) = live_or_null (cl_jobs st) p"
| "drv_legal st (Client_job_cancel p) = live_or_null (cl_jobs st) p"
| "drv_legal st (Client_job_check p out) = live_or_null (cl_jobs st) p"
| "drv_legal st (Client_job_wait p timeout) = live_or_null (cl_jobs st) p"

text \<open>The driver starts without libraries, on devices in the states \<open>ws\<close>.\<close>

inductive drv_reachable :: "'w driver_env \<Rightarrow> 'w worlds \<Rightarrow> 'w driver \<Rightarrow> bool" for env ws where
  start: "drv_reachable env ws (driver_init ws)"
| call: "drv_reachable env ws st \<Longrightarrow> drv_legal st c \<Longrightarrow> drv_exec env c st = Inr st' \<Longrightarrow>
    drv_reachable env ws st'"

section \<open>The invariant\<close>

text \<open>The device session of a device and the device job of a job, as handles of their library.\<close>

definition dev_key :: "'w driver \<Rightarrow> ptr \<Rightarrow> res_handle" where
  "dev_key st q = dkey (libraries st) (the (cl_devices st q))"

definition job_key :: "'w driver \<Rightarrow> ptr \<Rightarrow> res_handle" where
  "job_key st p =
     (fst (dev_key st (job_device (the (cl_jobs st p)))), job_device_job (the (cl_jobs st p)))"

text \<open>The devices a session offers: those of the configuration, in its order.\<close>

definition offers :: "'w driver \<Rightarrow> QDMI_Session_impl_d \<Rightarrow> configured \<Rightarrow> bool" where
  "offers st s cfg \<longleftrightarrow>
     map (\<lambda>q. map_option (\<lambda>d. (dev_library d, dev_id d)) (cl_devices st q)) (device_list s) =
       map Some cfg"

definition client_session_ok :: "'w driver \<Rightarrow> ptr \<Rightarrow> QDMI_Session_impl_d \<Rightarrow> bool" where
  "client_session_ok st p s \<longleftrightarrow>
     p \<noteq> nullptr \<and> p < next_ptr st \<and> distinct (device_list s) \<and>
     (\<forall>q \<in> set (device_list s). \<exists>d. cl_devices st q = Some d \<and> dev_session d = p) \<and>
     (case ses_status s of
        Session_ALLOCATED \<Rightarrow> device_list s = []
      | Session_INITIALIZED \<Rightarrow> offers st s (configured_devices st) \<and>
          (\<exists>t. ses_token s = Some t \<and> (ses_mode s = QDMI_SESSION_MODE_READWRITE \<longleftrightarrow> t \<noteq> [])))"

definition client_device_ok :: "'w driver \<Rightarrow> ptr \<Rightarrow> QDMI_Device_impl_d \<Rightarrow> bool" where
  "client_device_ok st q d \<longleftrightarrow>
     q \<noteq> nullptr \<and> q < next_ptr st \<and> dev_library d < length (libraries st) \<and>
     dev_device_session d \<noteq> nullptr \<and>
     (\<exists>s. cl_sessions st (dev_session d) = Some s \<and> q \<in> set (device_list s))"

definition client_job_ok :: "'w driver \<Rightarrow> ptr \<Rightarrow> QDMI_Job_impl_d \<Rightarrow> bool" where
  "client_job_ok st p j \<longleftrightarrow> p \<noteq> nullptr \<and> p < next_ptr st \<and> job_device j \<in> dom (cl_devices st)"

definition objects_ok :: "'w driver \<Rightarrow> bool" where
  "objects_ok st \<longleftrightarrow>
     (\<forall>p s. cl_sessions st p = Some s \<longrightarrow> client_session_ok st p s) \<and>
     (\<forall>q d. cl_devices st q = Some d \<longrightarrow> client_device_ok st q d) \<and>
     (\<forall>p j. cl_jobs st p = Some j \<longrightarrow> client_job_ok st p j)"

definition count_ok :: "'w driver \<Rightarrow> bool" where
  "count_ok st \<longleftrightarrow>
     finite (dom (cl_sessions st)) \<and> session_count st = card (dom (cl_sessions st)) \<and>
     (session_count st = 0 \<longrightarrow> libraries st = [] \<and> configured_devices st = [])"

definition libraries_ok :: "'w driver_env \<Rightarrow> 'w driver \<Rightarrow> bool" where
  "libraries_ok env st \<longleftrightarrow>
     libs_ok env (libraries st) \<and> refs st = handle_count (libraries st) \<and>
     (\<forall>e \<in> set (configured_devices st). fst e < length (libraries st)) \<and>
     distinct (map snd (configured_devices st))"

definition owns_all ::
  "('w \<Rightarrow> ptr set) \<Rightarrow> ('w \<Rightarrow> ptr set) \<Rightarrow> 'w driver \<Rightarrow> bool" where
  "owns_all ses jbs st \<longleftrightarrow>
     inj_on (dev_key st) (dom (cl_devices st)) \<and>
     live_in ses (worlds st) = dev_key st ` dom (cl_devices st) \<and>
     inj_on (job_key st) (dom (cl_jobs st)) \<and>
     live_in jbs (worlds st) = job_key st ` dom (cl_jobs st)"

definition driver_inv ::
  "'w driver_env \<Rightarrow> ('w \<Rightarrow> bool) \<Rightarrow> ('w \<Rightarrow> ptr set) \<Rightarrow> ('w \<Rightarrow> ptr set) \<Rightarrow> 'w driver \<Rightarrow> bool" where
  "driver_inv env ok ses jbs st \<longleftrightarrow>
     libraries_ok env st \<and> worlds_ok ok (worlds st) \<and> count_ok st \<and> 0 < next_ptr st \<and>
     objects_ok st \<and> owns_all ses jbs st"

lemmas driver_inv_defs = driver_inv_def libraries_ok_def count_ok_def objects_ok_def owns_all_def

lemma driver_inv_init:
  assumes "worlds_ok ok ws" and "live_in ses ws = {}" and "live_in jbs ws = {}"
  shows "driver_inv env ok ses jbs (driver_init ws)"
  using assms by (simp add: driver_inv_defs driver_init_def libs_ok_def fun_eq_iff)

text \<open>The objects and keys do not depend on the states of the devices.\<close>

lemma worlds_irrelevant [simp]:
  "dev_key (st\<lparr>worlds := ws\<rparr>) = dev_key st"
  "job_key (st\<lparr>worlds := ws\<rparr>) = job_key st"
  "objects_ok (st\<lparr>worlds := ws\<rparr>) = objects_ok st"
  "count_ok (st\<lparr>worlds := ws\<rparr>) = count_ok st"
  "libraries_ok env (st\<lparr>worlds := ws\<rparr>) = libraries_ok env st"
  by (simp_all add: fun_eq_iff dev_key_def job_key_def objects_ok_def client_session_ok_def offers_def
      client_device_ok_def client_job_ok_def count_ok_def libraries_ok_def 
      cong: QDMI_SESSION_STATUS.case_cong)

lemma driver_inv_quiet:
  "driver_inv env ok ses jbs st \<Longrightarrow> quiet ok ses jbs (worlds st) ws \<Longrightarrow>
     driver_inv env ok ses jbs (st\<lparr>worlds := ws\<rparr>)"
  by (simp add: driver_inv_def owns_all_def quiet_def)

lemma inv_session: "driver_inv env ok ses jbs st \<Longrightarrow> cl_sessions st p = Some s \<Longrightarrow> client_session_ok st p s"
  by (simp add: driver_inv_def objects_ok_def)

lemma inv_device: "driver_inv env ok ses jbs st \<Longrightarrow> cl_devices st q = Some d \<Longrightarrow> client_device_ok st q d"
  by (simp add: driver_inv_def objects_ok_def)

lemma inv_job: "driver_inv env ok ses jbs st \<Longrightarrow> cl_jobs st p = Some j \<Longrightarrow> client_job_ok st p j"
  by (simp add: driver_inv_def objects_ok_def)

section \<open>Allocating a session\<close>

lemma objects_okD:
  "objects_ok st \<Longrightarrow> cl_sessions st p = Some s \<Longrightarrow> client_session_ok st p s"
  "objects_ok st \<Longrightarrow> cl_devices st q = Some d \<Longrightarrow> client_device_ok st q d"
  "objects_ok st \<Longrightarrow> cl_jobs st p = Some j \<Longrightarrow> client_job_ok st p j"
  by (simp_all add: objects_ok_def)

lemma next_ptr_fresh:
  assumes "objects_ok st"
  shows "cl_sessions st (next_ptr st) = None" and "next_ptr st \<le> q \<Longrightarrow> cl_devices st q = None"
    and "cl_jobs st (next_ptr st) = None"
proof -
  show "cl_sessions st (next_ptr st) = None"
    using objects_okD(1) [OF assms, of "next_ptr st"]
    by (cases "cl_sessions st (next_ptr st)") (auto simp: client_session_ok_def)
  show "next_ptr st \<le> q \<Longrightarrow> cl_devices st q = None"
    using objects_okD(2) [OF assms, of q] by (cases "cl_devices st q") (auto simp: client_device_ok_def)
  show "cl_jobs st (next_ptr st) = None"
    using objects_okD(3) [OF assms, of "next_ptr st"]
    by (cases "cl_jobs st (next_ptr st)") (auto simp: client_job_ok_def)
qed

definition add_session :: "'w driver \<Rightarrow> 'w driver" where
  "add_session st =
     st\<lparr>session_count := session_count st + 1,
        cl_sessions := (cl_sessions st)(next_ptr st \<mapsto> new_client_session),
        next_ptr := next_ptr st + 1\<rparr>"

lemma add_session_keys [simp]:
  "dev_key (add_session st) = dev_key st" "job_key (add_session st) = job_key st"
  by (simp_all add: fun_eq_iff dev_key_def job_key_def add_session_def)

lemma live_session_below: "objects_ok st \<Longrightarrow> cl_sessions st p = Some s \<Longrightarrow> p \<noteq> next_ptr st"
  using next_ptr_fresh(1) by fastforce

lemma add_session_objects:
  assumes "objects_ok st" and "0 < next_ptr st"
  shows "objects_ok (add_session st)"
  unfolding objects_ok_def
proof (intro conjI allI impI)
  note fresh = next_ptr_fresh [OF assms(1)]
  fix p s
  assume "cl_sessions (add_session st) p = Some s"
  then consider "p = next_ptr st" "s = new_client_session" | "cl_sessions st p = Some s"
    by (cases "p = next_ptr st") (simp_all add: add_session_def)
  then show "client_session_ok (add_session st) p s"
  proof cases
    case 1
    then show ?thesis using assms(2)
      by (simp add: client_session_ok_def new_client_session_def add_session_def)
  next
    case 2
    then have "client_session_ok st p s" using assms(1) by (simp add: objects_ok_def)
    then show ?thesis
      by (simp add: client_session_ok_def add_session_def offers_def less_SucI
          split: QDMI_SESSION_STATUS.splits)
  qed
next
  fix q d
  assume "cl_devices (add_session st) q = Some d"
  then have "client_device_ok st q d" using assms(1) by (simp add: objects_ok_def add_session_def)
  then show "client_device_ok (add_session st) q d"
    using live_session_below [OF assms(1)] by (auto simp: client_device_ok_def add_session_def less_SucI)
next
  fix p j
  assume "cl_jobs (add_session st) p = Some j"
  then have "client_job_ok st p j" using assms(1) by (simp add: objects_ok_def add_session_def)
  then show "client_job_ok (add_session st) p j"
    by (auto simp: client_job_ok_def add_session_def)
qed

lemma add_session_inv:
  assumes "libraries_ok env st" and "worlds_ok ok (worlds st)" and "finite (dom (cl_sessions st))"
    and "session_count st = card (dom (cl_sessions st))" and "0 < next_ptr st" and "objects_ok st"
    and "owns_all ses jbs st"
  shows "driver_inv env ok ses jbs (add_session st)"
  unfolding driver_inv_def
proof (intro conjI)
  show "libraries_ok env (add_session st)" "worlds_ok ok (worlds (add_session st))"
    "0 < next_ptr (add_session st)"
    using assms(1,2) by (simp_all add: add_session_def libraries_ok_def)
  show "count_ok (add_session st)"
    using assms(3,4) next_ptr_fresh(1) [OF assms(6)] by (simp add: count_ok_def add_session_def domIff)
  show "objects_ok (add_session st)" by (rule add_session_objects [OF assms(6,5)])
  show "owns_all ses jbs (add_session st)"
    using assms(7) by (simp add: owns_all_def) (simp add: add_session_def)
qed

text \<open>Without a session there are no other objects.\<close>

lemma idle_objects:
  assumes "objects_ok st" and "dom (cl_sessions st) = {}"
  shows "cl_devices st = Map.empty" and "cl_jobs st = Map.empty"
proof -
  have "cl_devices st q = None" for q
    using assms by (cases "cl_devices st q") (auto simp: objects_ok_def client_device_ok_def)
  then show dev: "cl_devices st = Map.empty" by blast
  have "cl_jobs st p = None" for p
    using assms(1) dev by (cases "cl_jobs st p") (auto simp: objects_ok_def client_job_ok_def)
  then show "cl_jobs st = Map.empty" by blast
qed

lemma idle_swap:
  assumes "objects_ok st" and "cl_sessions st = Map.empty"
  shows "objects_ok (st\<lparr>libraries := libs, configured_devices := cfg, refs := rs, worlds := ws\<rparr>)"
  using assms idle_objects [OF assms(1)] by (simp add: objects_ok_def)

context driver_devices
begin

lemma session_alloc_ok:
  assumes inv: "driver_inv env ok ses jbs st"
  shows "\<exists>r out st'. QDMI_session_alloc env oom fails p st = Inr (r, out, st') \<and>
    driver_inv env ok ses jbs st' \<and> quiet ok ses jbs (worlds st) (worlds st') \<and>
    (if r = QDMI_SUCCESS
     then out = Some (next_ptr st) \<and>
          st' = add_session (st\<lparr>libraries := libraries st', configured_devices := configured_devices st',
            refs := refs st', worlds := worlds st'\<rparr>)
     else out \<in> {None, Some nullptr} \<and> st' = st\<lparr>worlds := worlds st'\<rparr>)"
proof (cases "p \<and> \<not> oom")
  case False
  then show ?thesis using inv
    by (auto simp: QDMI_session_alloc_def driver_inv_def quiet_refl)
next
  case True
  then have args: "p" "\<not> oom" by auto
  show ?thesis
  proof (cases "session_count st = 0")
    case False
    then have "QDMI_session_alloc env oom fails p st = Inr (QDMI_SUCCESS, Some (next_ptr st), add_session st)"
      using args by (simp add: QDMI_session_alloc_def add_session_def)
    moreover have "driver_inv env ok ses jbs (add_session st)"
      using inv by (intro add_session_inv) (auto simp: driver_inv_def count_ok_def)
    ultimately show ?thesis using inv
      by (simp add: add_session_def driver_inv_def quiet_refl)
  next
    case idle: True
    have inv': "libraries st = []" "configured_devices st = []" "refs st = (\<lambda>_. 0)"
        "dom (cl_sessions st) = {}" "finite (dom (cl_sessions st))" "worlds_ok ok (worlds st)"
        "objects_ok st" "owns_all ses jbs st" "0 < next_ptr st"
      using inv idle by (auto simp: driver_inv_def count_ok_def libraries_ok_def fun_eq_iff)
    note none = idle_objects [OF inv'(7,4)]
    obtain r rs' ws' where run: "QDMI_initialize_driver env fails (refs st, worlds st) = Inr (r, rs', ws')"
      and q: "quiet ok ses jbs (worlds st) ws'"
      and r: "case r of Inl e \<Rightarrow> e \<in> {QDMI_ERROR_OUTOFMEM, QDMI_ERROR_FATAL} \<and> rs' = refs st
        | Inr (libs, cfg) \<Rightarrow> libs_ok env libs \<and> rs' = open_handles (refs st) libs \<and>
           (\<exists>ls. config_lines env = Inr ls \<and> configuration_ok env libs (entries ls) cfg)"
      using initialize_driver_ok [OF inv'(6)] by blast
    show ?thesis
    proof (cases r)
      case (Inl e)
      then have "QDMI_session_alloc env oom fails p st = Inr (e, Some nullptr, st\<lparr>worlds := ws'\<rparr>)"
        using args idle run r by (simp add: QDMI_session_alloc_def)
      then show ?thesis using Inl r q driver_inv_quiet [OF inv q] by auto
    next
      case (Inr lc)
      obtain libs cfg where lc: "lc = (libs, cfg)" by (cases lc)
      let ?st = "st\<lparr>libraries := libs, configured_devices := cfg, refs := rs', worlds := ws'\<rparr>"
      have eq: "QDMI_session_alloc env oom fails p st =
          Inr (QDMI_SUCCESS, Some (next_ptr st), add_session ?st)"
        using args idle run Inr lc inv'(1) by (simp add: QDMI_session_alloc_def add_session_def)
      have "libraries_ok env ?st"
        using r Inr lc inv'(3) configuration_ok_index [of env libs _ cfg]
        by (auto simp: libraries_ok_def open_handles_def fun_eq_iff configuration_ok_def)
      moreover have "owns_all ses jbs ?st"
        using inv'(8) q none by (simp add: owns_all_def quiet_def)
      ultimately have "driver_inv env ok ses jbs (add_session ?st)"
        using idle inv' quiet_ok [OF q] idle_swap [OF inv'(7)]
        by (intro add_session_inv) auto
      then show ?thesis using eq q by (simp add: add_session_def)
    qed
  qed
qed

end

section \<open>Initializing a session\<close>

text \<open>New devices get the addresses from \<open>n\<close> on.\<close>

definition new_devices ::
  "(ptr \<rightharpoonup> QDMI_Device_impl_d) \<Rightarrow> ptr \<Rightarrow> QDMI_Device_impl_d list \<Rightarrow> ptr \<rightharpoonup> QDMI_Device_impl_d" where
  "new_devices h n devs = h ++ map_of (zip [n..<n + length devs] devs)"

lemma new_devices_old: "q < n \<Longrightarrow> new_devices h n devs q = h q"
  by (simp add: new_devices_def map_add_def map_of_eq_None_iff split: option.split)
     (auto dest!: map_of_SomeD set_zip_leftD)

lemma new_devices_nth: "i < length devs \<Longrightarrow> new_devices h n devs (n + i) = Some (devs ! i)"
proof -
  assume i: "i < length devs"
  have "map_of (zip [n..<n + length devs] devs) ([n..<n + length devs] ! i) = Some (devs ! i)"
    using i by (intro map_of_zip_nth) auto
  then show ?thesis using i by (simp add: new_devices_def)
qed

lemma dom_new_devices: "dom (new_devices h n devs) = dom h \<union> {n..<n + length devs}"
  by (simp add: new_devices_def dom_map_of_zip Un_commute)

lemma new_devices_map: "map (\<lambda>q. f (new_devices h n devs q)) [n..<n + length devs] = map (\<lambda>d. f (Some d)) devs"
  by (rule nth_equalityI) (simp_all add: new_devices_nth)

lemma new_devices_cases:
  assumes "new_devices h n devs q = Some d" and "\<And>q d. h q = Some d \<Longrightarrow> q < n"
  obtains "h q = Some d" "q < n" | i where "i < length devs" "q = n + i" "d = devs ! i"
proof (cases "q < n")
  case False
  have "q \<in> dom (new_devices h n devs)" using assms(1) by auto
  then have "q \<in> {n..<n + length devs}" using False assms(2) by (auto simp: dom_new_devices)
  then obtain i where "i < length devs" "q = n + i" by (auto simp: le_iff_add)
  then show ?thesis using that(2) assms(1) by (simp add: new_devices_nth)
qed (use that(1) assms(1) in \<open>simp add: new_devices_old\<close>)

definition mode_of :: "string \<Rightarrow> QDMI_DEVICE_MODE" where
  "mode_of t = (if t = [] then QDMI_DEVICE_MODE_READONLY else QDMI_SESSION_MODE_READWRITE)"

text \<open>The state after a successful initialization of session \<open>p\<close>, which was \<open>s\<close>, with token \<open>t\<close>.\<close>

definition add_devices ::
  "'w driver \<Rightarrow> ptr \<Rightarrow> QDMI_Session_impl_d \<Rightarrow> string \<Rightarrow> QDMI_Device_impl_d list \<Rightarrow> 'w driver" where
  "add_devices st p s t devs =
     st\<lparr>cl_devices := new_devices (cl_devices st) (next_ptr st) devs,
        next_ptr := next_ptr st + length devs,
        cl_sessions := (cl_sessions st)(p \<mapsto>
          s\<lparr>ses_mode := mode_of t, device_list := [next_ptr st..<next_ptr st + length devs],
            ses_status := Session_INITIALIZED\<rparr>)\<rparr>"

lemma session_init_eq:
  assumes "p \<noteq> nullptr" and "cl_sessions st p = Some s" and "ses_status s = Session_ALLOCATED"
    and "ses_token s = Some t"
  shows "QDMI_session_init fails p st =
    bind_o (open_devices (libraries st) fails t p 0 (configured_devices st) [] (worlds st)) (\<lambda>(r, ws').
      case r of
        Inl e \<Rightarrow> Inr (e, st\<lparr>cl_sessions := (cl_sessions st)(p \<mapsto> s\<lparr>ses_mode := mode_of t\<rparr>), worlds := ws'\<rparr>)
      | Inr devs \<Rightarrow> Inr (QDMI_SUCCESS, add_devices (st\<lparr>worlds := ws'\<rparr>) p s t devs))"
  using assms
  by (simp add: QDMI_session_init_def add_devices_def new_devices_def mode_of_def Let_def
      cong: sum.case_cong if_cong)

lemma add_devices_old_key:
  assumes "objects_ok st" and "q \<in> dom (cl_devices st)"
  shows "dev_key (add_devices st p s t devs) q = dev_key st q"
  using assms next_ptr_fresh(2) [OF assms(1), of q]
  by (cases "next_ptr st \<le> q") (auto simp: dev_key_def add_devices_def new_devices_old)

lemma add_devices_new_key:
  "i < length devs \<Longrightarrow> dev_key (add_devices st p s t devs) (next_ptr st + i) = dkey (libraries st) (devs ! i)"
  by (simp add: dev_key_def add_devices_def new_devices_nth)

lemma add_devices_objects:
  assumes ok: "objects_ok st" and p: "cl_sessions st p = Some s" "ses_status s = Session_ALLOCATED"
    "ses_token s = Some t"
    and devs: "\<forall>d \<in> set devs. dev_session d = p \<and> dev_library d < length (libraries st) \<and>
      dev_device_session d \<noteq> nullptr"
    and cfg: "map (\<lambda>d. (dev_library d, dev_id d)) devs = configured_devices st"
    and "0 < next_ptr st"
  shows "objects_ok (add_devices st p s t devs)"
  unfolding objects_ok_def
proof (intro conjI allI impI)
  let ?n = "next_ptr st" let ?D = "new_devices (cl_devices st) ?n devs"
  note s = objects_okD(1) [OF ok p(1)]
  have empty: "device_list s = []" using s p(2) by (simp add: client_session_ok_def)
  have below: "cl_devices st q = Some d \<Longrightarrow> q < ?n" for q d
    using objects_okD(2) [OF ok] by (simp add: client_device_ok_def)
  fix p' s'
  assume s': "cl_sessions (add_devices st p s t devs) p' = Some s'"
  show "client_session_ok (add_devices st p s t devs) p' s'"
  proof (cases "p' = p")
    case True
    then have eq: "s' = s\<lparr>ses_mode := mode_of t, device_list := [?n..<?n + length devs],
        ses_status := Session_INITIALIZED\<rparr>" using s' by (simp add: add_devices_def)
    have "\<exists>d. ?D q = Some d \<and> dev_session d = p" if "q \<in> set [?n..<?n + length devs]" for q
    proof -
      have "\<exists>i < length devs. q = ?n + i" using that by (auto simp: le_iff_add)
      then show ?thesis using devs by (auto simp: new_devices_nth)
    qed
    then show ?thesis using s True p(3)
      by (simp add: eq client_session_ok_def add_devices_def offers_def new_devices_map mode_of_def
          cfg [symmetric])
  next
    case False
    then have "client_session_ok st p' s'"
      using s' objects_okD(1) [OF ok] by (simp add: add_devices_def)
    moreover from this have "?D q = cl_devices st q" if "q \<in> set (device_list s')" for q
      using that below by (auto simp: client_session_ok_def intro!: new_devices_old)
    ultimately show ?thesis
      by (auto simp: client_session_ok_def add_devices_def offers_def split: QDMI_SESSION_STATUS.splits
          cong: map_cong)
  qed
next
  let ?n = "next_ptr st"
  have below: "cl_devices st q = Some d \<Longrightarrow> q < ?n" for q d
    using objects_okD(2) [OF ok] by (simp add: client_device_ok_def)
  fix q d
  assume "cl_devices (add_devices st p s t devs) q = Some d"
  then have "new_devices (cl_devices st) ?n devs q = Some d" by (simp add: add_devices_def)
  then consider "cl_devices st q = Some d"
    | i where "i < length devs" "q = ?n + i" "d = devs ! i"
    using new_devices_cases [of "cl_devices st" ?n devs q d] below by blast
  then show "client_device_ok (add_devices st p s t devs) q d"
  proof cases
    case 1
    then have "client_device_ok st q d" using objects_okD(2) [OF ok] by blast
    moreover from this have "dev_session d \<noteq> p"
      using objects_okD(1) [OF ok p(1)] p(1,2) by (auto simp: client_device_ok_def client_session_ok_def)
    ultimately show ?thesis by (auto simp: client_device_ok_def add_devices_def)
  next
    case (2 i)
    then have "d \<in> set devs" by simp
    then show ?thesis using devs 2 \<open>0 < next_ptr st\<close>
      by (auto simp: client_device_ok_def add_devices_def)
  qed
next
  fix p' j
  assume "cl_jobs (add_devices st p s t devs) p' = Some j"
  then have "client_job_ok st p' j" using objects_okD(3) [OF ok] by (simp add: add_devices_def)
  then show "client_job_ok (add_devices st p s t devs) p' j"
    by (auto simp: client_job_ok_def add_devices_def dom_new_devices)
qed

lemma add_devices_keys:
  fixes p s t
  assumes ok: "objects_ok st" and inj: "inj_on (dev_key st) (dom (cl_devices st))"
    and open_devs: "devices_open ses (libraries st) (dev_key st ` dom (cl_devices st)) devs ws"
  defines "st' \<equiv> add_devices st p s t devs"
  shows "inj_on (dev_key st') (dom (cl_devices st'))"
    and "live_in ses ws = dev_key st' ` dom (cl_devices st')"
    and "x \<in> dom (cl_jobs st) \<Longrightarrow> job_key st' x = job_key st x"
proof -
  let ?n = "next_ptr st" let ?new = "{?n..<?n + length devs}"
  have dom: "dom (cl_devices st') = dom (cl_devices st) \<union> ?new"
    by (simp add: st'_def add_devices_def dom_new_devices)
  have old: "dev_key st' q = dev_key st q" if "q \<in> dom (cl_devices st)" for q
    using add_devices_old_key [OF ok that] by (simp add: st'_def)
  have new: "dev_key st' (?n + i) = dkey (libraries st) (devs ! i)" if "i < length devs" for i
    using add_devices_new_key [OF that] by (simp add: st'_def)
  have shift: "?new = (\<lambda>i. ?n + i) ` {..<length devs}"
    by (auto simp: image_iff le_iff_add)
  have img: "dev_key st' ` ?new = dkey (libraries st) ` set devs"
    unfolding shift image_image set_conv_nth using new by (auto simp: image_iff)
  have inj_new: "inj_on (dev_key st') ?new"
    unfolding shift using open_devs new
    by (auto simp: inj_on_def devices_open_def distinct_conv_nth)
  have img_old: "dev_key st' ` dom (cl_devices st) = dev_key st ` dom (cl_devices st)"
    using old by (intro image_cong) auto
  have inj_old: "inj_on (dev_key st') (dom (cl_devices st))"
    using inj old by (simp add: inj_on_def)
  have "dev_key st ` dom (cl_devices st) \<inter> dkey (libraries st) ` set devs = {}"
    using open_devs by (simp add: devices_open_def)
  then have "dev_key st' ` (dom (cl_devices st) - ?new) \<inter> dev_key st' ` (?new - dom (cl_devices st)) = {}"
    using img img_old by blast
  then show "inj_on (dev_key st') (dom (cl_devices st'))"
    unfolding dom inj_on_Un using inj_new inj_old by blast
  show "live_in ses ws = dev_key st' ` dom (cl_devices st')"
    using open_devs unfolding dom image_Un img img_old by (simp add: devices_open_def)
  show "x \<in> dom (cl_jobs st) \<Longrightarrow> job_key st' x = job_key st x"
    using old objects_okD(3) [OF ok]
    by (auto simp: job_key_def client_job_ok_def st'_def add_devices_def)
qed

text \<open>Changing the mode or token of a session that is not initialized.\<close>

lemma update_allocated_inv:
  assumes inv: "driver_inv env ok ses jbs st" and s: "cl_sessions st p = Some s"
    and s': "ses_status s = Session_ALLOCATED" "ses_status s' = Session_ALLOCATED"
      "device_list s' = device_list s"
  shows "driver_inv env ok ses jbs (st\<lparr>cl_sessions := (cl_sessions st)(p \<mapsto> s')\<rparr>)"
proof -
  let ?st = "st\<lparr>cl_sessions := (cl_sessions st)(p \<mapsto> s')\<rparr>"
  have empty: "device_list s = []"
    using inv_session [OF inv s] s'(1) by (simp add: client_session_ok_def)
  have keys: "dev_key ?st = dev_key st" "job_key ?st = job_key st"
    by (simp_all add: fun_eq_iff dev_key_def job_key_def)
  have "dom (cl_sessions ?st) = dom (cl_sessions st)" using s by auto
  then have "count_ok ?st" using inv by (simp add: driver_inv_def count_ok_def)
  moreover have "objects_ok ?st"
    unfolding objects_ok_def
  proof (intro conjI allI impI)
    fix p' x assume x: "cl_sessions ?st p' = Some x"
    then have "client_session_ok st p' x"
      using inv_session [OF inv] s s' empty
      by (cases "p' = p") (auto simp: client_session_ok_def)
    then show "client_session_ok ?st p' x"
      by (simp add: client_session_ok_def offers_def cong: QDMI_SESSION_STATUS.case_cong)
  next
    fix q d assume "cl_devices ?st q = Some d"
    then have "client_device_ok st q d" using inv_device [OF inv] by simp
    then show "client_device_ok ?st q d"
      using s s'(3) by (auto simp: client_device_ok_def)
  next
    fix p' j assume "cl_jobs ?st p' = Some j"
    then show "client_job_ok ?st p' j"
      using inv_job [OF inv] by (simp add: client_job_ok_def)
  qed
  moreover have "owns_all ses jbs ?st" using inv by (simp add: driver_inv_def owns_all_def keys)
  ultimately show ?thesis using inv by (simp add: driver_inv_def libraries_ok_def)
qed

lemma client_set_parameter_D:
  "QDMI_session_set_parameter oom p param sz value st = Inr (r, st') \<Longrightarrow>
     st' = st \<or> (\<exists>s t. cl_sessions st p = Some s \<and> ses_status s = Session_ALLOCATED \<and>
       r = QDMI_SUCCESS \<and> st' = st\<lparr>cl_sessions := (cl_sessions st)(p \<mapsto> s\<lparr>ses_token := Some t\<rparr>)\<rparr>)"
  by (auto simp: QDMI_session_set_parameter_def bind_o_eq_Inr split: if_splits option.splits)

lemma client_set_parameter_inv:
  assumes "driver_inv env ok ses jbs st" and "QDMI_session_set_parameter oom p param sz value st = Inr (r, st')"
  shows "driver_inv env ok ses jbs st'"
  using client_set_parameter_D [OF assms(2)] update_allocated_inv [OF assms(1)] assms(1) by auto

text \<open>The client sees nothing of a failed initialization but the mode of the session.\<close>

definition same_but_mode :: "'w driver \<Rightarrow> 'w driver \<Rightarrow> bool" where
  "same_but_mode st st' \<longleftrightarrow>
     (\<exists>h. st' = st\<lparr>cl_sessions := h, worlds := worlds st'\<rparr> \<and>
        (\<forall>p. map_option (ses_mode_update (\<lambda>_. QDMI_DEVICE_MODE_READONLY)) (h p) =
             map_option (ses_mode_update (\<lambda>_. QDMI_DEVICE_MODE_READONLY)) (cl_sessions st p)))"

lemma same_but_mode_refl: "same_but_mode st st"
  by (auto simp: same_but_mode_def intro!: exI [of _ "cl_sessions st"])

lemma same_but_mode_upd:
  assumes "cl_sessions st p = Some s"
  shows "same_but_mode st (st\<lparr>cl_sessions := (cl_sessions st)(p \<mapsto> s\<lparr>ses_mode := m\<rparr>), worlds := ws\<rparr>)"
  using assms by (auto simp: same_but_mode_def intro!: exI [of _ "(cl_sessions st)(p \<mapsto> s\<lparr>ses_mode := m\<rparr>)"])

definition init_result :: "('w \<Rightarrow> ptr set) \<Rightarrow> ptr \<Rightarrow> 'w driver \<Rightarrow> QDMI_STATUS \<Rightarrow> 'w driver \<Rightarrow> bool" where
  "init_result ses p st r st' \<longleftrightarrow>
     (if r = QDMI_SUCCESS
      then \<exists>s t devs. cl_sessions st p = Some s \<and> ses_status s = Session_ALLOCATED \<and>
        ses_token s = Some t \<and> st' = add_devices (st\<lparr>worlds := worlds st'\<rparr>) p s t devs \<and>
        map (\<lambda>d. (dev_library d, dev_id d)) devs = configured_devices st
      else live_in ses (worlds st') = live_in ses (worlds st) \<and> same_but_mode st st')"

context driver_devices
begin

lemma add_devices_inv:
  assumes inv: "driver_inv env ok ses jbs st"
    and p: "cl_sessions st p = Some s" "ses_status s = Session_ALLOCATED" "ses_token s = Some t"
    and ws: "worlds_ok ok ws" "live_in jbs ws = live_in jbs (worlds st)"
    and devs: "devices_open ses (libraries st) (live_in ses (worlds st)) devs ws"
      "map (\<lambda>d. (dev_library d, dev_id d)) devs = configured_devices st"
      "\<forall>d \<in> set devs. dev_session d = p"
  shows "driver_inv env ok ses jbs (add_devices (st\<lparr>worlds := ws\<rparr>) p s t devs)"
proof -
  let ?st = "st\<lparr>worlds := ws\<rparr>" let ?st' = "add_devices ?st p s t devs"
  have ok: "objects_ok ?st" "inj_on (dev_key ?st) (dom (cl_devices ?st))" "0 < next_ptr st"
    and owns: "live_in ses (worlds st) = dev_key ?st ` dom (cl_devices ?st)"
      "inj_on (job_key st) (dom (cl_jobs st))" "live_in jbs ws = job_key st ` dom (cl_jobs st)"
    using inv ws(2) by (simp_all add: driver_inv_def owns_all_def)
  have objs: "objects_ok ?st'"
    using devs p ok by (intro add_devices_objects) (auto simp: devices_open_def)
  have devs': "devices_open ses (libraries ?st) (dev_key ?st ` dom (cl_devices ?st)) devs ws"
    using devs(1) owns(1) by simp
  note keys = add_devices_keys [OF ok(1,2) devs', where p = p and s = s and t = t]
  have jobs: "job_key ?st' ` dom (cl_jobs st) = job_key st ` dom (cl_jobs st)"
      "inj_on (job_key ?st') (dom (cl_jobs st))"
    using keys(3) owns(2) by (auto simp: inj_on_def image_iff)
  have same: "worlds ?st' = ws" "cl_jobs ?st' = cl_jobs st" "libraries ?st' = libraries st"
    "refs ?st' = refs st" "configured_devices ?st' = configured_devices st"
    "session_count ?st' = session_count st" "dom (cl_sessions ?st') = dom (cl_sessions st)"
    "0 < next_ptr ?st'"
    using p(1) ok(3) by (auto simp: add_devices_def)
  show ?thesis
    using inv ws(1) objs keys(1,2) jobs owns(3) same
    by (simp add: driver_inv_def libraries_ok_def count_ok_def owns_all_def)
qed

lemma session_init_ok:
  assumes inv: "driver_inv env ok ses jbs st" and "live_or_null (cl_sessions st) p"
  shows "\<exists>r st'. QDMI_session_init fails p st = Inr (r, st') \<and> driver_inv env ok ses jbs st' \<and>
    live_in jbs (worlds st') = live_in jbs (worlds st) \<and> init_result ses p st r st'"
proof (cases "\<exists>s t. p \<noteq> nullptr \<and> cl_sessions st p = Some s \<and> ses_status s = Session_ALLOCATED \<and>
    ses_token s = Some t")
  case False
  then have "\<exists>r. QDMI_session_init fails p st = Inr (r, st) \<and> r \<noteq> QDMI_SUCCESS"
    using assms(2) by (auto simp: QDMI_session_init_def live_or_null_def split: option.splits)
  then show ?thesis using inv by (auto simp: init_result_def same_but_mode_refl)
next
  case True
  then obtain s t where p: "p \<noteq> nullptr" "cl_sessions st p = Some s"
    "ses_status s = Session_ALLOCATED" "ses_token s = Some t" by blast
  have libs: "libs_ok env (libraries st)" "\<forall>e \<in> set (configured_devices st). fst e < length (libraries st)"
    "worlds_ok ok (worlds st)" using inv by (simp_all add: driver_inv_def libraries_ok_def)
  have "devices_open ses (libraries st) (live_in ses (worlds st)) [] (worlds st)"
    by (simp add: devices_open_Nil)
  from open_devices_ok [OF libs(1,3) this libs(2), of fails t p 0]
  obtain r ws where run: "open_devices (libraries st) fails t p 0 (configured_devices st) [] (worlds st) =
      Inr (r, ws)" and ws: "worlds_ok ok ws" "live_in jbs ws = live_in jbs (worlds st)"
    and r: "opened_result ses (libraries st) (live_in ses (worlds st)) p [] (configured_devices st) r ws"
    by blast
  show ?thesis
  proof (cases r)
    case (Inl e)
    let ?st' = "st\<lparr>cl_sessions := (cl_sessions st)(p \<mapsto> s\<lparr>ses_mode := mode_of t\<rparr>), worlds := ws\<rparr>"
    have "QDMI_session_init fails p st = Inr (e, ?st')"
      using session_init_eq [OF p] run Inl by simp
    moreover have "driver_inv env ok ses jbs ?st'"
      using driver_inv_quiet [OF update_allocated_inv [OF inv p(2,3), of "s\<lparr>ses_mode := mode_of t\<rparr>"], of ws]
        p(3) r Inl ws by (simp add: quiet_def)
    ultimately show ?thesis using r Inl ws same_but_mode_upd [OF p(2)] by (simp add: init_result_def)
  next
    case (Inr devs)
    then have devs: "devices_open ses (libraries st) (live_in ses (worlds st)) devs ws"
      "map (\<lambda>d. (dev_library d, dev_id d)) devs = configured_devices st" "\<forall>d \<in> set devs. dev_session d = p"
      using r by (auto simp: opened_result_def)
    let ?st' = "add_devices (st\<lparr>worlds := ws\<rparr>) p s t devs"
    have w: "worlds ?st' = ws" by (simp add: add_devices_def)
    have "QDMI_session_init fails p st = Inr (QDMI_SUCCESS, ?st')"
      using session_init_eq [OF p] run Inr by simp
    moreover have "init_result ses p st QDMI_SUCCESS ?st'"
      unfolding init_result_def w using p devs(2) by auto
    ultimately show ?thesis using add_devices_inv [OF inv p(2-4) ws devs] ws(2) w by auto
  qed
qed

end

end
