(* ===== verification/Driver_Calls.thy ===== *)
theory Driver_Calls
  imports Driver_Lifecycle
begin

text \<open>
  The remaining calls of the driver keep its invariant: the end of a session and the life of jobs.
  Together with \<open>Driver_Lifecycle\<close>: every legal call that returns keeps the invariant, and the calls
  that manage sessions and objects always return.
\<close>

section \<open>The end of a session\<close>

lemma look_all_live:
  "(\<And>q. q \<in> set qs \<Longrightarrow> q \<noteq> nullptr \<and> q \<in> dom h) \<Longrightarrow> look_all h qs = Inr (map (\<lambda>q. the (h q)) qs)"
proof (induction qs)
  case (Cons q qs)
  then obtain x where "q \<noteq> nullptr" "h q = Some x" by force
  then show ?case using Cons by simp
qed simp

text \<open>The state after session \<open>p\<close>, which was \<open>s\<close>, is gone; its libraries may still be loaded.\<close>

definition remove_session :: "'w driver \<Rightarrow> ptr \<Rightarrow> QDMI_Session_impl_d \<Rightarrow> 'w worlds \<Rightarrow> 'w driver" where
  "remove_session st p s ws =
     st\<lparr>cl_sessions := (cl_sessions st)(p := None),
        cl_devices := (cl_devices st) |` (- set (device_list s)),
        session_count := session_count st - 1, worlds := ws\<rparr>"

definition unload :: "'w driver \<Rightarrow> 'w worlds \<Rightarrow> 'w driver" where
  "unload st ws = st\<lparr>configured_devices := [], libraries := [], refs := (\<lambda>_. 0), worlds := ws\<rparr>"

lemma remove_session_objects:
  assumes ok: "objects_ok st" and p: "cl_sessions st p = Some s"
    and jobs: "\<forall>j \<in> ran (cl_jobs st). job_device j \<notin> set (device_list s)"
  shows "objects_ok (remove_session st p s ws)"
  unfolding objects_ok_def
proof (intro conjI allI impI)
  let ?st = "remove_session st p s ws"
  fix p' s' assume "cl_sessions ?st p' = Some s'"
  then have s': "p' \<noteq> p" "cl_sessions st p' = Some s'" by (auto simp: remove_session_def split: if_splits)
  note s'_ok = objects_okD(1) [OF ok s'(2)]
  have "cl_devices ?st q = cl_devices st q" if "q \<in> set (device_list s')" for q
    using that s'_ok objects_okD(1) [OF ok p] s'(1)
    by (force simp: client_session_ok_def remove_session_def restrict_map_def)
  then show "client_session_ok ?st p' s'"
    using s'_ok by (auto simp: client_session_ok_def offers_def remove_session_def
        split: QDMI_SESSION_STATUS.splits cong: map_cong)
next
  let ?st = "remove_session st p s ws"
  fix q d assume "cl_devices ?st q = Some d"
  then have d: "q \<notin> set (device_list s)" "cl_devices st q = Some d"
    by (auto simp: remove_session_def restrict_map_def split: if_splits)
  then have "client_device_ok st q d" using objects_okD(2) [OF ok] by blast
  then show "client_device_ok ?st q d"
    using d(1) p by (auto simp: client_device_ok_def remove_session_def)
next
  let ?st = "remove_session st p s ws"
  fix p' j assume "cl_jobs ?st p' = Some j"
  then have j: "cl_jobs st p' = Some j" by (simp add: remove_session_def)
  then have "job_device j \<notin> set (device_list s)" using jobs by (auto simp: ran_def)
  then show "client_job_ok ?st p' j"
    using objects_okD(3) [OF ok j] by (auto simp: client_job_ok_def remove_session_def)
qed

lemma remove_session_keys:
  assumes "objects_ok st" and "\<forall>j \<in> ran (cl_jobs st). job_device j \<notin> set (device_list s)"
  shows "q \<in> dom (cl_devices st) - set (device_list s) \<Longrightarrow>
      dev_key (remove_session st p s ws) q = dev_key st q"
    and "x \<in> dom (cl_jobs st) \<Longrightarrow> job_key (remove_session st p s ws) x = job_key st x"
  using assms by (auto simp: dev_key_def job_key_def remove_session_def ran_def)

text \<open>The devices of a session hold their device sessions, and nobody else does.\<close>

lemma session_devices_open:
  assumes inv: "driver_inv env ok ses jbs st" and p: "cl_sessions st p = Some s"
  shows "devices_open ses (libraries st)
    (dev_key st ` (dom (cl_devices st) - set (device_list s)))
    (map (\<lambda>q. the (cl_devices st q)) (device_list s)) (worlds st)"
proof -
  let ?qs = "device_list s"
  have ok: "distinct ?qs" "set ?qs \<subseteq> dom (cl_devices st)"
    using inv_session [OF inv p] by (auto simp: client_session_ok_def)
  have inj: "inj_on (dev_key st) (dom (cl_devices st))"
    and live: "live_in ses (worlds st) = dev_key st ` dom (cl_devices st)"
    using inv by (simp_all add: driver_inv_def owns_all_def)
  have keys: "map (dkey (libraries st)) (map (\<lambda>q. the (cl_devices st q)) ?qs) = map (dev_key st) ?qs"
    by (simp add: dev_key_def)
  have img: "dkey (libraries st) ` set (map (\<lambda>q. the (cl_devices st q)) ?qs) = dev_key st ` set ?qs"
    by (simp add: dev_key_def image_image)
  have "distinct (map (dev_key st) ?qs)"
    using ok inj by (simp add: distinct_map inj_on_subset)
  moreover have "dev_key st ` (dom (cl_devices st) - set ?qs) \<inter> dev_key st ` set ?qs = {}"
    using inj_on_image_set_diff [OF inj, of "dom (cl_devices st)" "set ?qs"] ok(2) by auto
  moreover have "live_in ses (worlds st) =
      dev_key st ` (dom (cl_devices st) - set ?qs) \<union> dev_key st ` set ?qs"
    unfolding live image_Un [symmetric] using ok(2) by (simp add: Un_absorb2)
  moreover have "\<forall>d \<in> set (map (\<lambda>q. the (cl_devices st q)) ?qs).
      dev_library d < length (libraries st) \<and> dev_device_session d \<noteq> nullptr"
    using ok(2) inv_device [OF inv] by (force simp: client_device_ok_def)
  ultimately show ?thesis unfolding devices_open_def keys img by blast
qed

lemma session_free_eq:
  assumes inv: "driver_inv env ok ses jbs st" and p: "cl_sessions st p = Some s"
  shows "QDMI_session_free p st =
    bind_o (destroy_devices (libraries st) (map (\<lambda>q. the (cl_devices st q)) (device_list s)) (worlds st))
      (\<lambda>ws. let st' = remove_session st p s ws in
        if session_count st' = 0
        then bind_o (destroy_libraries (libraries st) (refs st, ws)) (\<lambda>(rs, ws').
          Inr (st'\<lparr>configured_devices := [], libraries := [], refs := rs, worlds := ws'\<rparr>))
        else Inr st')"
proof -
  have s: "client_session_ok st p s" by (rule inv_session [OF inv p])
  have "q \<noteq> nullptr \<and> q \<in> dom (cl_devices st)" if "q \<in> set (device_list s)" for q
    using that s inv_device [OF inv, of q] by (auto simp: client_session_ok_def client_device_ok_def)
  then have look: "look_all (cl_devices st) (device_list s) =
      Inr (map (\<lambda>q. the (cl_devices st q)) (device_list s))" by (rule look_all_live)
  have "0 < card (dom (cl_sessions st))"
    using inv p by (auto simp: driver_inv_def count_ok_def card_gt_0_iff)
  then have "size_sub (session_count st) 1 = session_count st - 1"
    using inv by (simp add: driver_inv_def count_ok_def size_sub_def)
  then show ?thesis using s p look
    by (simp add: QDMI_session_free_def client_session_ok_def remove_session_def Let_def)
qed

lemma removed_session_inv:
  assumes inv: "driver_inv env ok ses jbs st" and p: "cl_sessions st p = Some s"
    and jobs: "\<forall>j \<in> ran (cl_jobs st). job_device j \<notin> set (device_list s)"
    and ws: "worlds_ok ok ws" "live_in jbs ws = live_in jbs (worlds st)"
      "live_in ses ws = dev_key st ` (dom (cl_devices st) - set (device_list s))"
  defines "st' \<equiv> remove_session st p s ws"
  shows "objects_ok st'" and "owns_all ses jbs st'" and "finite (dom (cl_sessions st'))"
    and "session_count st' = card (dom (cl_sessions st'))" and "libraries_ok env st'"
    and "worlds_ok ok (worlds st')" and "0 < next_ptr st'"
proof -
  have objs: "objects_ok st" using inv by (simp add: driver_inv_def)
  show "objects_ok st'" unfolding st'_def by (rule remove_session_objects [OF objs p jobs])
  have dom: "dom (cl_devices st') = dom (cl_devices st) - set (device_list s)"
    "dom (cl_sessions st') = dom (cl_sessions st) - {p}"
    by (auto simp: st'_def remove_session_def)
  have same: "cl_jobs st' = cl_jobs st" "worlds st' = ws" "libraries st' = libraries st" "refs st' = refs st"
    "configured_devices st' = configured_devices st" "next_ptr st' = next_ptr st"
    "session_count st' = session_count st - 1" by (simp_all add: st'_def remove_session_def)
  note keys = remove_session_keys [OF objs jobs, folded dom(1), where p = p and ws = ws, folded st'_def]
  have "dev_key st' ` dom (cl_devices st') = dev_key st ` dom (cl_devices st')"
    "job_key st' ` dom (cl_jobs st) = job_key st ` dom (cl_jobs st)"
    using keys remove_session_keys [OF objs jobs, where p = p and ws = ws, folded st'_def] dom(1)
    by (auto intro!: image_cong)
  moreover have "inj_on (dev_key st') (dom (cl_devices st'))" "inj_on (job_key st') (dom (cl_jobs st))"
    using inv keys remove_session_keys [OF objs jobs, where p = p and ws = ws, folded st'_def] dom(1)
    by (auto simp: driver_inv_def owns_all_def inj_on_def)
  ultimately show "owns_all ses jbs st'"
    using inv ws(2,3) same dom(1) by (simp add: owns_all_def driver_inv_def)
  have "card (dom (cl_sessions st) - {p}) = card (dom (cl_sessions st)) - 1"
    using p by (simp add: card_Diff_singleton domI)
  then show "finite (dom (cl_sessions st'))" "session_count st' = card (dom (cl_sessions st'))"
    "libraries_ok env st'" "worlds_ok ok (worlds st')" "0 < next_ptr st'"
    using inv p ws(1) same dom(2)
    by (auto simp: driver_inv_def count_ok_def libraries_ok_def)
qed

lemma handle_count_Nil: "handle_count [] = (\<lambda>_. 0)"
  by (simp add: fun_eq_iff)

lemma unload_inv:
  assumes ok: "objects_ok st" "owns_all ses jbs st" "0 < next_ptr st"
    and none: "dom (cl_sessions st) = {}" "session_count st = 0"
    and q: "quiet ok ses jbs (worlds st) ws"
  shows "driver_inv env ok ses jbs (unload st ws)"
proof -
  note empty = idle_objects [OF ok(1) none(1)]
  have "live_in ses (worlds st) = {}" "live_in jbs (worlds st) = {}"
    using ok(2) empty by (simp_all add: owns_all_def)
  moreover have "cl_sessions st = Map.empty" using none(1) by simp
  ultimately show ?thesis using ok(3) none(2) empty q
    by (simp add: driver_inv_defs unload_def libs_ok_def quiet_def handle_count_Nil)
qed

definition devices_of :: "'w driver \<Rightarrow> ptr \<Rightarrow> ptr set" where
  "devices_of st p = (case cl_sessions st p of None \<Rightarrow> {} | Some s \<Rightarrow> set (device_list s))"

context driver_devices
begin

lemma session_free_ok:
  assumes inv: "driver_inv env ok ses jbs st" and "live_or_null (cl_sessions st) p" and "no_jobs_of st p"
  shows "\<exists>st'. QDMI_session_free p st = Inr st' \<and> driver_inv env ok ses jbs st' \<and>
    cl_sessions st' = (cl_sessions st)(p := None) \<and> cl_jobs st' = cl_jobs st \<and>
    cl_devices st' = (cl_devices st) |` (- devices_of st p) \<and>
    live_in jbs (worlds st') = live_in jbs (worlds st) \<and>
    live_in ses (worlds st') = live_in ses (worlds st) - dev_key st ` devices_of st p"
proof (cases "p = nullptr")
  case True
  moreover have "cl_sessions st 0 = None"
    using inv_session [OF inv, of 0] by (cases "cl_sessions st 0") (auto simp: client_session_ok_def)
  ultimately show ?thesis using inv by (auto simp: QDMI_session_free_def devices_of_def)
next
  case False
  then obtain s where p: "cl_sessions st p = Some s" using assms(2) by (auto simp: live_or_null_def)
  then have devs: "devices_of st p = set (device_list s)" by (simp add: devices_of_def)
  have jobs: "\<forall>j \<in> ran (cl_jobs st). job_device j \<notin> set (device_list s)"
    using assms(3) p by (auto simp: no_jobs_of_def ran_def restrict_map_def)
  have libs: "libs_ok env (libraries st)" "worlds_ok ok (worlds st)" "refs st = handle_count (libraries st)"
    using inv by (simp_all add: driver_inv_def libraries_ok_def)
  from destroy_devices_ok [OF libs(1,2) session_devices_open [OF inv p]]
  obtain ws where run: "destroy_devices (libraries st) (map (\<lambda>q. the (cl_devices st q)) (device_list s))
      (worlds st) = Inr ws" and ws: "worlds_ok ok ws" "live_in jbs ws = live_in jbs (worlds st)"
      "live_in ses ws = dev_key st ` (dom (cl_devices st) - set (device_list s))" by blast
  let ?st = "remove_session st p s ws"
  note removed = removed_session_inv [OF inv p jobs ws]
  have owns: "inj_on (dev_key st) (dom (cl_devices st))"
    "live_in ses (worlds st) = dev_key st ` dom (cl_devices st)"
    using inv by (simp_all add: driver_inv_def owns_all_def)
  have "set (device_list s) \<subseteq> dom (cl_devices st)"
    using inv_session [OF inv p] by (auto simp: client_session_ok_def)
  from inj_on_image_set_diff [OF owns(1), of "dom (cl_devices st)", OF _ this]
  have given_back: "live_in ses ws = live_in ses (worlds st) - dev_key st ` set (device_list s)"
    using ws(3) owns(2) by (simp add: Diff_subset)
  show ?thesis
  proof (cases "session_count ?st = 0")
    case False
    then have "driver_inv env ok ses jbs ?st"
      using removed by (simp add: driver_inv_def count_ok_def)
    then show ?thesis using run False ws(2) given_back
      by (simp add: session_free_eq [OF inv p] Let_def devs) (simp add: remove_session_def)
  next
    case True
    have "open_handles (\<lambda>_. 0) (libraries st) = refs st"
      by (simp add: libs(3) open_handles_def fun_eq_iff)
    then obtain ws' where close: "destroy_libraries (libraries st) (refs st, ws) = Inr ((\<lambda>_. 0), ws')"
      and q: "quiet ok ses jbs ws ws'"
      using destroy_libraries_quiet [of "libraries st" ws "\<lambda>_. 0"] libs(1) ws(1)
      by (auto simp: libs_ok_def)
    have none: "dom (cl_sessions ?st) = {}" using True removed(3,4) by simp
    have "driver_inv env ok ses jbs (unload ?st ws')"
      using unload_inv [OF removed(1,2,7) none True, of ok ws'] q by (simp add: remove_session_def)
    moreover have "QDMI_session_free p st = Inr (unload ?st ws')"
      using run True close by (simp add: session_free_eq [OF inv p] Let_def unload_def)
    moreover have "live_in jbs ws' = live_in jbs (worlds st)" "live_in ses ws' = live_in ses ws"
      using q ws(2) by (simp_all add: quiet_def)
    ultimately show ?thesis using given_back
      by (simp add: unload_def devs) (simp add: remove_session_def)
  qed
qed

end

section \<open>Jobs\<close>

text \<open>The library and the device job behind a live job, the library behind a live device.\<close>

definition device_lib :: "'w driver \<Rightarrow> ptr \<Rightarrow> 'w QDMI_Library" where
  "device_lib st q = libraries st ! dev_library (the (cl_devices st q))"

lemma live_device:
  assumes inv: "driver_inv env ok ses jbs st" and q: "cl_devices st q = Some d"
  obtains s where "q \<noteq> nullptr" and "library_of st d = Inr (device_lib st q)"
    and "lib_ok env (device_lib st q)" and "dev_session d \<noteq> nullptr"
    and "cl_sessions st (dev_session d) = Some s" and "q \<in> set (device_list s)"
    and "dev_device_session d \<in> ses (worlds st (key_of (device_lib st q)))"
proof -
  have d: "client_device_ok st q d" by (rule inv_device [OF inv q])
  then obtain s where s: "cl_sessions st (dev_session d) = Some s" "q \<in> set (device_list s)"
    by (auto simp: client_device_ok_def)
  have "dev_key st q \<in> live_in ses (worlds st)"
    using inv q by (auto simp: driver_inv_def owns_all_def)
  then have "dev_device_session d \<in> ses (worlds st (key_of (device_lib st q)))"
    using q by (simp add: dev_key_def dkey_def device_lib_def)
  moreover have "dev_session d \<noteq> nullptr"
    using inv_session [OF inv s(1)] by (simp add: client_session_ok_def)
  moreover have "libs_ok env (libraries st)" using inv by (simp add: driver_inv_def libraries_ok_def)
  ultimately show ?thesis
    using that s d q libs_ok_nth [of env "libraries st" "dev_library d"]
    by (simp add: client_device_ok_def library_of_def device_lib_def)
qed

definition job_lib :: "'w driver \<Rightarrow> ptr \<Rightarrow> 'w QDMI_Library" where
  "job_lib st p = device_lib st (job_device (the (cl_jobs st p)))"

lemma live_job:
  assumes inv: "driver_inv env ok ses jbs st" and p: "cl_jobs st p = Some j"
  shows "p \<noteq> nullptr" and "on_job st p f = f (job_lib st p) (job_device_job j)"
    and "lib_ok env (job_lib st p)" and "job_device_job j \<in> jbs (worlds st (key_of (job_lib st p)))"
    and "job_key st p = (key_of (job_lib st p), job_device_job j)"
proof -
  have j: "client_job_ok st p j" by (rule inv_job [OF inv p])
  then show nn: "p \<noteq> nullptr" by (simp add: client_job_ok_def)
  obtain d where d: "cl_devices st (job_device j) = Some d" using j by (auto simp: client_job_ok_def)
  show key: "job_key st p = (key_of (job_lib st p), job_device_job j)"
    using p d by (simp add: job_key_def job_lib_def device_lib_def dev_key_def dkey_def)
  have "job_key st p \<in> live_in jbs (worlds st)"
    using inv p by (auto simp: driver_inv_def owns_all_def)
  then show "job_device_job j \<in> jbs (worlds st (key_of (job_lib st p)))" by (simp add: key)
  from live_device [OF inv d] have dev: "job_device j \<noteq> nullptr"
    "library_of st d = Inr (job_lib st p)" "lib_ok env (job_lib st p)"
    using p by (auto simp: job_lib_def)
  then show "lib_ok env (job_lib st p)" "on_job st p f = f (job_lib st p) (job_device_job j)"
    using nn p d by (simp_all add: on_job_def)
qed

text \<open>A new job on device \<open>q\<close>.\<close>

definition add_job :: "'w driver \<Rightarrow> ptr \<Rightarrow> ptr \<Rightarrow> 'w worlds \<Rightarrow> 'w driver" where
  "add_job st q j ws =
     st\<lparr>cl_jobs := (cl_jobs st)(next_ptr st \<mapsto> \<lparr>job_device = q, job_device_job = j\<rparr>),
        next_ptr := next_ptr st + 1, worlds := ws\<rparr>"

lemma add_job_inv:
  assumes inv: "driver_inv env ok ses jbs st" and q: "cl_devices st q = Some d"
    and ws: "worlds_ok ok ws" "live_in ses ws = live_in ses (worlds st)"
    and j: "(key_of (device_lib st q), j) \<notin> live_in jbs (worlds st)"
      "live_in jbs ws = insert (key_of (device_lib st q), j) (live_in jbs (worlds st))"
  shows "driver_inv env ok ses jbs (add_job st q j ws)"
proof -
  let ?st = "add_job st q j ws"
  have objs: "objects_ok st" using inv by (simp add: driver_inv_def)
  have dev: "dev_key ?st = dev_key st" by (simp add: fun_eq_iff dev_key_def add_job_def)
  have new: "job_key ?st (next_ptr st) = (key_of (device_lib st q), j)"
    by (simp add: job_key_def dev) (simp add: add_job_def dev_key_def dkey_def device_lib_def)
  have old: "job_key ?st p = job_key st p" if "p \<in> dom (cl_jobs st)" for p
    using that next_ptr_fresh(3) [OF objs] by (auto simp: job_key_def dev) (auto simp: add_job_def)
  have dom: "dom (cl_jobs ?st) = insert (next_ptr st) (dom (cl_jobs st))"
    by (auto simp: add_job_def)
  have img: "job_key ?st ` dom (cl_jobs st) = job_key st ` dom (cl_jobs st)"
    using old by (intro image_cong) auto
  have live: "live_in jbs (worlds st) = job_key st ` dom (cl_jobs st)"
    using inv by (simp add: driver_inv_def owns_all_def)
  have "inj_on (job_key ?st) (dom (cl_jobs st))"
    using inv old by (simp add: driver_inv_def owns_all_def inj_on_def)
  then have "inj_on (job_key ?st) (dom (cl_jobs ?st))"
    unfolding dom inj_on_insert using j(1) new img live by auto
  moreover have "live_in jbs ws = job_key ?st ` dom (cl_jobs ?st)"
    unfolding dom image_insert new img j(2) live ..
  ultimately have "owns_all ses jbs ?st"
    using inv ws(2) by (simp add: owns_all_def driver_inv_def dev) (simp add: add_job_def)
  moreover have "objects_ok ?st"
    using objs q inv by (auto simp: driver_inv_def objects_ok_def client_session_ok_def offers_def client_device_ok_def
        client_job_ok_def add_job_def less_SucI cong: QDMI_SESSION_STATUS.case_cong)
  ultimately show ?thesis using inv ws(1)
    by (simp add: driver_inv_def libraries_ok_def count_ok_def) (simp add: add_job_def)
qed

definition remove_job :: "'w driver \<Rightarrow> ptr \<Rightarrow> 'w worlds \<Rightarrow> 'w driver" where
  "remove_job st p ws = st\<lparr>cl_jobs := (cl_jobs st)(p := None), worlds := ws\<rparr>"

lemma remove_job_inv:
  assumes inv: "driver_inv env ok ses jbs st" and p: "cl_jobs st p = Some j"
    and ws: "worlds_ok ok ws" "live_in ses ws = live_in ses (worlds st)"
      "live_in jbs ws = live_in jbs (worlds st) - {job_key st p}"
  shows "driver_inv env ok ses jbs (remove_job st p ws)"
proof -
  let ?st = "remove_job st p ws"
  have dev: "dev_key ?st = dev_key st" by (simp add: fun_eq_iff dev_key_def remove_job_def)
  have old: "job_key ?st x = job_key st x" if "x \<noteq> p" for x
    using that by (simp add: job_key_def dev) (simp add: remove_job_def)
  have dom: "dom (cl_jobs ?st) = dom (cl_jobs st) - {p}" by (auto simp: remove_job_def)
  have owns: "inj_on (job_key st) (dom (cl_jobs st))"
    "live_in jbs (worlds st) = job_key st ` dom (cl_jobs st)"
    using inv by (simp_all add: driver_inv_def owns_all_def)
  have "inj_on (job_key ?st) (dom (cl_jobs ?st))"
    using owns(1) old dom by (auto simp: inj_on_def)
  moreover have "job_key ?st ` dom (cl_jobs ?st) = job_key st ` (dom (cl_jobs st) - {p})"
    unfolding dom using old by (intro image_cong) auto
  then have "job_key ?st ` dom (cl_jobs ?st) = live_in jbs ws"
    using inj_on_image_set_diff [OF owns(1), of "dom (cl_jobs st)" "{p}"] p ws(3) owns(2) by auto
  ultimately have "owns_all ses jbs ?st"
    using inv ws(2) by (simp add: owns_all_def driver_inv_def dev) (simp add: remove_job_def)
  moreover have "objects_ok ?st"
    using inv by (auto simp: driver_inv_def objects_ok_def client_session_ok_def offers_def
        client_device_ok_def client_job_ok_def remove_job_def cong: QDMI_SESSION_STATUS.case_cong
        split: if_splits)
  ultimately show ?thesis using inv ws(1)
    by (simp add: driver_inv_def libraries_ok_def count_ok_def) (simp add: remove_job_def)
qed

text \<open>What a call that makes a job has done when it returns.\<close>

definition job_made :: "('w \<Rightarrow> ptr set) \<Rightarrow> ptr \<Rightarrow> 'w driver \<Rightarrow> QDMI_STATUS \<Rightarrow> ptr option \<Rightarrow> 'w driver \<Rightarrow> bool"
where
  "job_made ses q st r p st' \<longleftrightarrow>
     live_in ses (worlds st') = live_in ses (worlds st) \<and>
     (if r = QDMI_SUCCESS
      then p = Some (next_ptr st) \<and> (\<exists>j. st' = add_job st q j (worlds st')) \<and>
        (\<exists>d s. cl_devices st q = Some d \<and> cl_sessions st (dev_session d) = Some s \<and>
           ses_mode s = QDMI_SESSION_MODE_READWRITE)
      else p = None \<and> st' = st\<lparr>worlds := worlds st'\<rparr>)"

context driver_devices
begin

lemma client_create_job_safe:
  assumes inv: "driver_inv env ok ses jbs st" and "live_or_null (cl_devices st) q"
  shows "no_fault (QDMI_device_create_job oom q out st)"
proof (cases "q = nullptr \<or> \<not> out")
  case False
  then obtain d where d: "cl_devices st q = Some d" using assms(2) by (auto simp: live_or_null_def)
  from live_device [OF inv d] obtain s where q: "q \<noteq> nullptr" "library_of st d = Inr (device_lib st q)"
    "lib_ok env (device_lib st q)" "dev_session d \<noteq> nullptr" "cl_sessions st (dev_session d) = Some s"
    "dev_device_session d \<in> ses (worlds st (key_of (device_lib st q)))" by blast
  let ?lib = "device_lib st q"
  have "no_fault (device_session_create_device_job (fns ?lib) (dev_device_session d) True
      (worlds st (key_of ?lib)))"
    using device_sessions.create_job_safe [OF lib_contract [OF q(3)] _ q(6)] inv
    by (auto simp: driver_inv_def)
  then show ?thesis using False d q
    by (auto simp: QDMI_device_create_job_def in_lib_out_def no_fault_def bind_o_def
        split: sum.splits prod.splits)
qed (auto simp: QDMI_device_create_job_def)

text \<open>Creation and retrieval end alike: the device's answer, wrapped in a new job on success.\<close>

lemma new_job_D:
  assumes inv: "driver_inv env ok ses jbs st" and q: "cl_devices st q = Some d"
    and run: "in_lib_out (key_of (device_lib st q)) f (worlds st) = Inr (r0, j, ws)"
    and D: "\<And>w. f (worlds st (key_of (device_lib st q))) = Inr (r0, j, w) \<Longrightarrow>
      ok w \<and> ses w = ses (worlds st (key_of (device_lib st q))) \<and>
      (r0 = QDMI_SUCCESS \<and> (\<exists>h. j = Some h \<and> h \<noteq> nullptr \<and>
         h \<notin> jbs (worlds st (key_of (device_lib st q))) \<and>
         jbs w = insert h (jbs (worlds st (key_of (device_lib st q))))) \<or>
       r0 \<noteq> QDMI_SUCCESS \<and> jbs w = jbs (worlds st (key_of (device_lib st q))))"
    and res: "(if r0 \<noteq> QDMI_SUCCESS then Inr (r0, None, st\<lparr>worlds := ws\<rparr>)
      else Inr (QDMI_SUCCESS, Some (next_ptr st),
        add_job st q (case j of None \<Rightarrow> nullptr | Some j \<Rightarrow> j) ws)) =
      (Inr (r, p, st') :: (QDMI_STATUS \<times> ptr option \<times> 'w driver) outcome)"
  shows "driver_inv env ok ses jbs st' \<and> live_in ses (worlds st') = live_in ses (worlds st) \<and>
    (if r = QDMI_SUCCESS
     then p = Some (next_ptr st) \<and> (\<exists>j. st' = add_job st q j (worlds st'))
     else p = None \<and> st' = st\<lparr>worlds := worlds st'\<rparr>)"
proof -
  let ?k = "key_of (device_lib st q)"
  obtain w where w: "f (worlds st ?k) = Inr (r0, j, w)" "ws = (worlds st)(?k := w)"
    using in_lib_out_InrE [OF run] by blast
  have ok: "worlds_ok ok (worlds st)" using inv by (simp add: driver_inv_def)
  have ws: "worlds_ok ok ws" "live_in ses ws = live_in ses (worlds st)"
    using D [OF w(1)] w(2) worlds_ok_upd [OF ok] live_in_same [of ses w "worlds st" ?k] by auto
  show ?thesis
  proof (cases "r0 = QDMI_SUCCESS")
    case False
    then have "live_in jbs ws = live_in jbs (worlds st)"
      using D [OF w(1)] w(2) live_in_same [of jbs w "worlds st" ?k] by auto
    then show ?thesis using False res ws driver_inv_quiet [OF inv, of ws] by (auto simp: quiet_def)
  next
    case True
    then obtain h where h: "j = Some h" "h \<notin> jbs (worlds st ?k)" "jbs w = insert h (jbs (worlds st ?k))"
      using D [OF w(1)] by auto
    have "live_in jbs ws = insert (?k, h) (live_in jbs (worlds st))"
      using live_in_insert [of jbs w h "worlds st" ?k, OF h(3)] w(2) by simp
    from add_job_inv [OF inv q ws _ this] h(2) have "driver_inv env ok ses jbs (add_job st q h ws)"
      by simp
    moreover have "worlds (add_job st q h ws) = ws" by (simp add: add_job_def)
    ultimately show ?thesis using True res h(1) ws(2) by (auto intro!: exI [of _ h])
  qed
qed

lemma client_create_job_D:
  assumes inv: "driver_inv env ok ses jbs st" and "QDMI_device_create_job oom q out st = Inr (r, p, st')"
  shows "driver_inv env ok ses jbs st' \<and> job_made ses q st r p st'"
proof (cases "r \<noteq> QDMI_SUCCESS \<and> p = None \<and> st' = st")
  case True
  then show ?thesis using inv by (simp add: job_made_def)
next
  case False
  with assms(2) obtain d s where d: "q \<noteq> nullptr" "cl_devices st q = Some d"
    "cl_sessions st (dev_session d) = Some s" "ses_mode s = QDMI_SESSION_MODE_READWRITE" "\<not> oom" "out"
    by (auto simp: QDMI_device_create_job_def bind_o_eq_Inr split: if_splits)
  from live_device [OF inv d(2)] have q: "library_of st d = Inr (device_lib st q)"
    "lib_ok env (device_lib st q)" "dev_session d \<noteq> nullptr" by blast+
  from assms(2) d q(1,3) obtain r0 j ws where run: "in_lib_out (key_of (device_lib st q))
      (device_session_create_device_job (fns (device_lib st q)) (dev_device_session d) True) (worlds st) =
        Inr (r0, j, ws)"
    and res: "(if r0 \<noteq> QDMI_SUCCESS then Inr (r0, None, st\<lparr>worlds := ws\<rparr>)
      else Inr (QDMI_SUCCESS, Some (next_ptr st),
        add_job st q (case j of None \<Rightarrow> nullptr | Some j \<Rightarrow> j) ws)) =
      (Inr (r, p, st') :: (QDMI_STATUS \<times> ptr option \<times> 'w driver) outcome)"
    by (auto simp: QDMI_device_create_job_def bind_o_eq_Inr add_job_def cong: if_cong)
  have "ok (worlds st k)" for k using inv by (auto simp: driver_inv_def)
  from new_job_D [OF inv d(2) run device_sessions.create_job_D [OF lib_contract [OF q(2)] this] res]
  show ?thesis using d(2-4) by (auto simp: job_made_def)
qed

lemma client_retrieve_job_D:
  assumes inv: "driver_inv env ok ses jbs st"
    and "QDMI_session_retrieve_job_by_id oom q jid out st = Inr (r, p, st')"
  shows "driver_inv env ok ses jbs st' \<and> job_made ses q st r p st'"
proof (cases "r \<noteq> QDMI_SUCCESS \<and> p = None \<and> st' = st")
  case True
  then show ?thesis using inv by (simp add: job_made_def)
next
  case False
  with assms(2) obtain d s where d: "q \<noteq> nullptr" "cl_devices st q = Some d"
    "cl_sessions st (dev_session d) = Some s" "ses_mode s = QDMI_SESSION_MODE_READWRITE"
    "jid \<noteq> None" "jid \<noteq> Some []" "out"
    by (auto simp: QDMI_session_retrieve_job_by_id_def bind_o_eq_Inr split: if_splits)
  from live_device [OF inv d(2)] have q: "library_of st d = Inr (device_lib st q)"
    "lib_ok env (device_lib st q)" "dev_session d \<noteq> nullptr" by blast+
  from False assms(2) d q(1,3) obtain f where f:
      "device_session_retrieve_device_job_by_id (fns (device_lib st q)) = Some f" "\<not> oom"
    by (auto simp: QDMI_session_retrieve_job_by_id_def split: option.splits if_splits)
  from assms(2) d q(1,3) f obtain r0 j ws where run: "in_lib_out (key_of (device_lib st q))
      (f (dev_device_session d) jid True) (worlds st) = Inr (r0, j, ws)"
    and res: "(if r0 \<noteq> QDMI_SUCCESS then Inr (r0, None, st\<lparr>worlds := ws\<rparr>)
      else Inr (QDMI_SUCCESS, Some (next_ptr st),
        add_job st q (case j of None \<Rightarrow> nullptr | Some j \<Rightarrow> j) ws)) =
      (Inr (r, p, st') :: (QDMI_STATUS \<times> ptr option \<times> 'w driver) outcome)"
    by (auto simp: QDMI_session_retrieve_job_by_id_def bind_o_eq_Inr add_job_def cong: if_cong)
  have "ok (worlds st k)" for k using inv by (auto simp: driver_inv_def)
  from new_job_D [OF inv d(2) run device_sessions.retrieve_job_D [OF lib_contract [OF q(2)] this f(1)] res]
  show ?thesis using d(2-4) by (auto simp: job_made_def)
qed

end

end
