(* ===== verification/Driver_Invariant.thy ===== *)
theory Driver_Invariant
  imports Driver_Calls
begin

text \<open>
  Jobs are freed and changed, and the whole: a legal call that returns keeps the invariant of the
  driver, so it holds in every reachable state.
\<close>

section \<open>Calls on a job\<close>

text \<open>A function of the library that keeps its sessions and jobs.\<close>

definition keeping ::
  "('w \<Rightarrow> bool) \<Rightarrow> ('w \<Rightarrow> ptr set) \<Rightarrow> ('w \<Rightarrow> ptr set) \<Rightarrow>
     ('w device_fns \<Rightarrow> ptr \<Rightarrow> 'w \<Rightarrow> (QDMI_STATUS \<times> 'w) outcome) \<Rightarrow> bool" where
  "keeping ok ses jbs f \<longleftrightarrow>
     (\<forall>d w j r w'. device_sessions d ok ses jbs \<longrightarrow> ok w \<longrightarrow> f d j w = Inr (r, w') \<longrightarrow>
        keeps ok ses jbs w w')"

lemma keepingD:
  "keeping ok ses jbs f \<Longrightarrow> device_sessions d ok ses jbs \<Longrightarrow> ok w \<Longrightarrow> f d j w = Inr (r, w') \<Longrightarrow>
     keeps ok ses jbs w w'"
  by (auto simp: keeping_def)

lemma job_calls_keep:
  "keeping ok ses jbs (\<lambda>f j. device_job_set_parameter f j param sz v)"
  "keeping ok ses jbs (\<lambda>f j. device_job_set_programs f j format count sizes progs)"
  "keeping ok ses jbs (\<lambda>f j. device_job_submit f j)"
  "keeping ok ses jbs (\<lambda>f j. device_job_cancel f j)"
  "keeping ok ses jbs (\<lambda>f j. device_job_wait f j timeout)"
  by (simp_all add: keeping_def device_sessions.job_set_parameter_D device_sessions.job_set_programs_D
      device_sessions.job_submit_D device_sessions.job_cancel_D device_sessions.job_wait_D)

context driver_devices
begin

lemma client_job_free_ok:
  assumes inv: "driver_inv env ok ses jbs st" and "live_or_null (cl_jobs st) p"
  shows "\<exists>st'. QDMI_job_free p st = Inr st' \<and> driver_inv env ok ses jbs st' \<and>
    cl_jobs st' = (cl_jobs st)(p := None) \<and> live_in ses (worlds st') = live_in ses (worlds st) \<and>
    live_in jbs (worlds st') = live_in jbs (worlds st) - job_key st ` ({p} \<inter> dom (cl_jobs st))"
proof (cases "p = nullptr")
  case True
  moreover have "cl_jobs st 0 = None"
    using inv_job [OF inv, of 0] by (cases "cl_jobs st 0") (auto simp: client_job_ok_def)
  ultimately show ?thesis using inv by (auto simp: QDMI_job_free_def)
next
  case False
  then obtain j where p: "cl_jobs st p = Some j" using assms(2) by (auto simp: live_or_null_def)
  note job = live_job [OF inv p]
  let ?k = "key_of (job_lib st p)"
  have w: "worlds_ok ok (worlds st)" using inv by (simp add: driver_inv_def)
  obtain w' where free: "device_job_free (fns (job_lib st p)) (job_device_job j) (worlds st ?k) = Inr w'"
    and w': "ok w'" "ses w' = ses (worlds st ?k)" "jbs w' = jbs (worlds st ?k) - {job_device_job j}"
    using device_sessions.job_free_D [OF lib_contract [OF job(3)] worlds_okD [OF w] job(4)] by blast
  let ?ws = "(worlds st)(?k := w')"
  have ws: "worlds_ok ok ?ws" "live_in ses ?ws = live_in ses (worlds st)"
    "live_in jbs ?ws = live_in jbs (worlds st) - {job_key st p}"
    using worlds_ok_upd [OF w w'(1)] live_in_same [of ses w' "worlds st" ?k, OF w'(2)]
      live_in_remove [of jbs w' "worlds st" ?k, OF w'(3)] job(5) by simp_all
  have "QDMI_job_free p st = Inr (remove_job st p ?ws)"
    using False free by (simp add: QDMI_job_free_def job(2) in_lib_void_def remove_job_def)
  moreover have "{p} \<inter> dom (cl_jobs st) = {p}" using p by auto
  ultimately show ?thesis
    using remove_job_inv [OF inv p ws] ws(2,3) by (simp add: remove_job_def)
qed

text \<open>Calls that leave the library's sessions and jobs as they are.\<close>

lemma change_job_quiet:
  assumes inv: "driver_inv env ok ses jbs st" and run: "change_job st p f = Inr (r, st')"
    and live: "cl_jobs st p = Some j" and keep: "keeping ok ses jbs f"
  shows "st' = st\<lparr>worlds := worlds st'\<rparr> \<and> quiet ok ses jbs (worlds st) (worlds st')"
proof -
  note job = live_job [OF inv live]
  have w: "worlds_ok ok (worlds st)" using inv by (simp add: driver_inv_def)
  obtain w' where "f (fns (job_lib st p)) (job_device_job j) (worlds st (key_of (job_lib st p))) = Inr (r, w')"
    and st': "st' = st\<lparr>worlds := (worlds st)(key_of (job_lib st p) := w')\<rparr>"
    using run by (auto simp: change_job_def job(2) in_lib_def bind_o_eq_Inr)
  then have "keeps ok ses jbs (worlds st (key_of (job_lib st p))) w'"
    using keepingD [OF keep lib_contract [OF job(3)]] w by blast
  then show ?thesis using keeps_quiet [OF w] st' by simp
qed

lemma job_check_quiet:
  assumes inv: "driver_inv env ok ses jbs st" and run: "QDMI_job_check p b st = Inr (r, s, st')"
    and live: "live_or_null (cl_jobs st) p"
  shows "st' = st\<lparr>worlds := worlds st'\<rparr> \<and> quiet ok ses jbs (worlds st) (worlds st')"
proof (cases "p = nullptr")
  case True
  then show ?thesis using run inv by (simp add: QDMI_job_check_def driver_inv_def quiet_refl)
next
  case False
  then obtain j where p: "cl_jobs st p = Some j" using live by (auto simp: live_or_null_def)
  note job = live_job [OF inv p]
  have w: "worlds_ok ok (worlds st)" using inv by (simp add: driver_inv_def)
  obtain w' where "device_job_check (fns (job_lib st p)) (job_device_job j) b
      (worlds st (key_of (job_lib st p))) = Inr (r, s, w')"
    and st': "st' = st\<lparr>worlds := (worlds st)(key_of (job_lib st p) := w')\<rparr>"
    using run False by (auto simp: QDMI_job_check_def job(2) in_lib_out_def bind_o_eq_Inr)
  then have "keeps ok ses jbs (worlds st (key_of (job_lib st p))) w'"
    using device_sessions.job_check_D [OF lib_contract [OF job(3)]] w by blast
  then show ?thesis using keeps_quiet [OF w] st' by simp
qed

end

section \<open>Every call keeps the invariant\<close>

text \<open>The calls that change one job forward under a null check.\<close>

definition forwards ::
  "(QDMI_STATUS \<times> 'w driver) outcome \<Rightarrow> ptr \<Rightarrow> ('w device_fns \<Rightarrow> ptr \<Rightarrow> 'w \<Rightarrow> (QDMI_STATUS \<times> 'w) outcome) \<Rightarrow>
     'w driver \<Rightarrow> bool" where
  "forwards m p f st \<longleftrightarrow>
     m = (if p = nullptr then Inr (QDMI_ERROR_INVALIDARGUMENT, st) else change_job st p f)"

lemma job_calls_forward:
  "forwards (QDMI_job_set_parameter p param sz v st) p (\<lambda>f j. device_job_set_parameter f j param sz v) st"
  "forwards (QDMI_job_set_programs p format count sizes progs st) p
     (\<lambda>f j. device_job_set_programs f j format count sizes progs) st"
  "forwards (QDMI_job_submit p st) p (\<lambda>f j. device_job_submit f j) st"
  "forwards (QDMI_job_cancel p st) p (\<lambda>f j. device_job_cancel f j) st"
  "forwards (QDMI_job_wait p timeout st) p (\<lambda>f j. device_job_wait f j timeout) st"
  by (simp_all add: forwards_def QDMI_job_set_parameter_def QDMI_job_set_programs_def
      QDMI_job_submit_def QDMI_job_cancel_def QDMI_job_wait_def)

text \<open>The calls that do not make or end an object.\<close>

fun job_call :: "drv_call \<Rightarrow> bool" where
  "job_call (Client_job_set_parameter p param sz v) = True"
| "job_call (Client_job_set_programs p format count sizes progs) = True"
| "job_call (Client_job_submit p) = True"
| "job_call (Client_job_cancel p) = True"
| "job_call (Client_job_check p out) = True"
| "job_call (Client_job_wait p timeout) = True"
| "job_call _ = False"

text \<open>The calls that make or end objects return or throw; all but the creation of a job return, and the
  setting of a token when its copy cannot be allocated.\<close>

fun manages :: "drv_call \<Rightarrow> bool" where
  "manages (Client_session_alloc oom fails out) = True"
| "manages (Client_session_init fails p) = True"
| "manages (Client_session_free p) = True"
| "manages (Client_session_set_parameter oom p param sz v) = (\<not> oom)"
| "manages (Client_job_free p) = True"
| "manages _ = False"

context driver_devices
begin

lemma forwarded_quiet:
  assumes inv: "driver_inv env ok ses jbs st" and "forwards (Inr (r, st')) p f st"
    and live: "live_or_null (cl_jobs st) p" and keep: "keeping ok ses jbs f"
  shows "st' = st\<lparr>worlds := worlds st'\<rparr> \<and> quiet ok ses jbs (worlds st) (worlds st')"
proof (cases "p = nullptr")
  case True
  then show ?thesis using assms(1,2) by (simp add: forwards_def driver_inv_def quiet_refl)
next
  case False
  then obtain j where p: "cl_jobs st p = Some j" using live by (auto simp: live_or_null_def)
  have "change_job st p f = Inr (r, st')" using assms(2) False by (simp add: forwards_def)
  then show ?thesis by (rule change_job_quiet [OF inv _ p keep])
qed

lemma quiet_inv:
  "driver_inv env ok ses jbs st \<Longrightarrow> st' = st\<lparr>worlds := worlds st'\<rparr> \<and> quiet ok ses jbs (worlds st) (worlds st') \<Longrightarrow>
     driver_inv env ok ses jbs st'"
  using driver_inv_quiet by metis

lemma job_call_quiet:
  assumes inv: "driver_inv env ok ses jbs st" and legal: "drv_legal st c" and c: "job_call c"
    and run: "drv_exec env c st = Inr st'"
  shows "st' = st\<lparr>worlds := worlds st'\<rparr> \<and> quiet ok ses jbs (worlds st) (worlds st')"
proof (cases "\<exists>p out. c = Client_job_check p out")
  case True
  then show ?thesis using run legal job_check_quiet [OF inv] by (auto simp: last_of3_Inr)
next
  case False
  then have "\<exists>p f r. forwards (Inr (r, st')) p f st \<and> live_or_null (cl_jobs st) p \<and> keeping ok ses jbs f"
    using c legal run
    by (cases c) (simp_all add: last_of_Inr, (metis job_calls_forward job_calls_keep)+)
  then show ?thesis using forwarded_quiet [OF inv] by blast
qed

lemma drv_exec_inv:
  assumes inv: "driver_inv env ok ses jbs st" and legal: "drv_legal st c"
    and run: "drv_exec env c st = Inr st'"
  shows "driver_inv env ok ses jbs st'"
proof (cases c)
  case (Client_session_alloc oom fails out)
  then show ?thesis using run session_alloc_ok [OF inv, of oom fails out] by (auto simp: last_of3_Inr)
next
  case (Client_session_init fails p)
  then show ?thesis using run legal session_init_ok [OF inv, of p fails] by (auto simp: last_of_Inr)
next
  case (Client_session_free p)
  then show ?thesis using run legal session_free_ok [OF inv, of p] by auto
next
  case (Client_session_set_parameter oom p param sz v)
  then show ?thesis using run client_set_parameter_inv [OF inv] by (auto simp: last_of_Inr)
next
  case (Client_create_job oom p out)
  then show ?thesis using run client_create_job_D [OF inv] by (auto simp: last_of3_Inr)
next
  case (Client_retrieve_job_by_id oom p jid out)
  then show ?thesis using run client_retrieve_job_D [OF inv] by (auto simp: last_of3_Inr)
next
  case (Client_job_free p)
  then show ?thesis using run legal client_job_free_ok [OF inv, of p] by auto
qed (use quiet_inv [OF inv job_call_quiet [OF inv legal _ run]] in simp_all)

theorem drv_reachable_inv:
  assumes "drv_reachable env ws st"
    and "worlds_ok ok ws" "live_in ses ws = {}" "live_in jbs ws = {}"
  shows "driver_inv env ok ses jbs st"
  using assms(1)
proof induction
  case start
  show ?case by (rule driver_inv_init [OF assms(2-4)])
next
  case (call st c st')
  show ?case by (rule drv_exec_inv [OF call.IH call.hyps(2,3)])
qed

lemma drv_exec_returns:
  assumes inv: "driver_inv env ok ses jbs st" and legal: "drv_legal st c" and c: "manages c"
  shows "returns (drv_exec env c st)"
proof (cases c)
  case (Client_session_alloc oom fails out)
  then show ?thesis using session_alloc_ok [OF inv, of oom fails out] by auto
next
  case (Client_session_init fails p)
  then show ?thesis using legal session_init_ok [OF inv, of p fails] by auto
next
  case (Client_session_free p)
  then show ?thesis using legal session_free_ok [OF inv, of p] by auto
next
  case (Client_session_set_parameter oom p param sz v)
  then show ?thesis using legal c
    by (cases "p = nullptr")
       (auto simp: QDMI_session_set_parameter_def live_or_null_def Let_def split: option.splits)
next
  case (Client_job_free p)
  then show ?thesis using legal client_job_free_ok [OF inv, of p] by auto
qed (use c in simp_all)

end

end
