(* ===== verification/Driver_Cxx.thy ===== *)
theory Driver_Cxx
  imports Cxx_Device Driver_Invariant
begin

text \<open>
  The driver with the example device behind it: an environment whose loader knows one library, the
  example device under the prefix \<open>CXX\<close>, and a concrete run of the driver on it. The
  interpretation of \<open>driver_devices\<close> shows that the two fit together: what the driver relies on is
  what the example device provides.
\<close>

section \<open>The environment\<close>

text \<open>The library exports every symbol under its prefix. \<open>content\<close> is the configuration.\<close>

definition cxx_symbols :: "string list" where
  "cxx_symbols = map (\<lambda>(symbol, required). symbol_name ''CXX'' symbol) device_symbols"

definition cxx_driver_env :: "cxx_env \<Rightarrow> string \<Rightarrow> cxx_state driver_env" where
  "cxx_driver_env e content =
     \<lparr>qdmi_conf = None, home_dir = None, current_path = Some [''/'', ''work''],
      canonical = (\<lambda>f. if f = ''qdmi.conf'' then Some [''/'', ''work'', ''qdmi.conf''] else None),
      read_file = (\<lambda>_. Some content),
      dl_open = (\<lambda>name. if name = ''lib.so'' then Some 4096 else None),
      dl_sym = (\<lambda>_ symbol. symbol \<in> set cxx_symbols),
      dl_fns = (\<lambda>_ _. cxx_fns e False (\<lambda>_. False))\<rparr>"

lemma device_sessions_no_retrieval:
  assumes "device_sessions d ok ses jbs"
  shows "device_sessions (d\<lparr>device_session_retrieve_device_job_by_id := None\<rparr>) ok ses jbs"
proof -
  let ?d = "d\<lparr>device_session_retrieve_device_job_by_id := None\<rparr>"
  have same:
    "device_initialize ?d = device_initialize d"
    "device_finalize ?d = device_finalize d"
    "device_session_alloc ?d = device_session_alloc d"
    "device_session_init ?d = device_session_init d"
    "device_session_free ?d = device_session_free d"
    "device_session_set_parameter ?d = device_session_set_parameter d"
    "device_session_create_device_job ?d = device_session_create_device_job d"
    "device_job_free ?d = device_job_free d"
    "device_job_set_parameter ?d = device_job_set_parameter d"
    "device_job_set_programs ?d = device_job_set_programs d"
    "device_job_submit ?d = device_job_submit d"
    "device_job_cancel ?d = device_job_cancel d"
    "device_job_check ?d = device_job_check d"
    "device_job_wait ?d = device_job_wait d"
    by simp_all
  have none: "(device_session_retrieve_device_job_by_id ?d = Some f) = False" for f by simp
  show ?thesis using assms unfolding device_sessions_def same none
    by (elim conjE) (intro conjI; (assumption | blast))
qed

interpretation cxx_driver: driver_devices "cxx_driver_env e content" cxx_inv
    "\<lambda>st. dom (sessions st)" "\<lambda>st. dom (jobs st)" for e content
proof (rule driver_devices.intro, goal_cases)
  case (1 name h)
  then show ?case by (auto simp: cxx_driver_env_def split: if_splits)
next
  case (2 name h pfx)
  then show ?case
    using cxx.device_sessions_axioms device_sessions_no_retrieval [OF cxx.device_sessions_axioms]
    by (simp add: loaded_fns_def cxx_driver_env_def)
qed

section \<open>A run\<close>

text \<open>Two devices of the same library, a session with a token, and a job on the second device.\<close>

definition sample_conf :: string where
  "sample_conf = ''# two devices'' @ [CHR 0x0A] @ ''lib.so CXX a'' @ [CHR 0x0A] @ ''lib.so  CXX b''"

definition two_devices :: "cxx_state driver_env" where
  "two_devices = cxx_driver_env sample_env sample_conf"

lemma sample_conf_lines:
  "config_lines two_devices = Inr [''# two devices'', ''lib.so CXX a'', ''lib.so  CXX b'']"
  by (simp add: config_lines_def two_devices_def cxx_driver_env_def sample_conf_def Is_path_allowed_def)

lemma sample_conf_tokens:
  "skipped ''# two devices''" "\<not> skipped ''lib.so CXX a''" "\<not> skipped ''lib.so  CXX b''"
  "tokens [] ''lib.so CXX a'' = [''lib.so'', ''CXX'', ''a'']"
  "tokens [] ''lib.so  CXX b'' = [''lib.so'', ''CXX'', ''b'']"
  by (simp_all add: skipped_def is_space_def)

definition cxx_library :: "cxx_state QDMI_Library" where
  "cxx_library = \<lparr>lib_handle = 4096, lib_prefix = ''CXX'', lib_initialized = True,
     fns = cxx_fns sample_env False (\<lambda>_. False)\<rparr>"

lemma two_devices_loader:
  "dl_open two_devices ''lib.so'' = Some 4096" "symbols_found two_devices h ''CXX''"
  "loaded_fns two_devices h ''CXX'' = cxx_fns sample_env False (\<lambda>_. False)"
  by (simp_all add: two_devices_def cxx_driver_env_def symbols_found_def loaded_fns_def cxx_symbols_def
      device_symbols_def)

text \<open>The states of the library and of the driver after each step.\<close>

definition offline :: "cxx_state worlds" where
  "offline = (\<lambda>_. cxx_init)"

definition library_world ::
  "(ptr \<rightharpoonup> CXX_QDMI_Device_Session_impl_d) \<Rightarrow> (ptr \<rightharpoonup> CXX_QDMI_Device_Job_impl_d) \<Rightarrow> nat \<Rightarrow> ptr \<Rightarrow> cxx_state worlds"
where
  "library_world ss js g next = offline((4096, ''CXX'') :=
     \<lparr>d_status = QDMI_DEVICE_STATUS_IDLE, gen = g, sessions = ss, jobs = js, heap_next = next\<rparr>)"

definition sample_configured :: configured where
  "sample_configured = [(0, ''a''), (0, ''b'')]"

definition one_session :: "(ptr \<rightharpoonup> QDMI_Session_impl_d) \<Rightarrow> (ptr \<rightharpoonup> QDMI_Device_impl_d) \<Rightarrow> ptr \<Rightarrow>
    cxx_state worlds \<Rightarrow> cxx_state driver" where
  "one_session ss ds next ws =
     \<lparr>libraries = [cxx_library], configured_devices = sample_configured, session_count = 1,
      cl_sessions = ss, cl_devices = ds, cl_jobs = Map.empty, next_ptr = next,
      refs = (\<lambda>_. 0)(4096 := 1), worlds = ws\<rparr>"

definition allocated_driver :: "cxx_state driver" where
  "allocated_driver =
     one_session [65536 \<mapsto> new_client_session] Map.empty 65537 (library_world Map.empty Map.empty 80333 65536)"

definition token_driver :: "cxx_state driver" where
  "token_driver =
     one_session [65536 \<mapsto> new_client_session\<lparr>ses_token := Some ''key''\<rparr>] Map.empty 65537
       (library_world Map.empty Map.empty 80333 65536)"

definition sample_session :: QDMI_Session_impl_d where
  "sample_session =
     \<lparr>ses_status = Session_INITIALIZED, device_list = [65537, 65538], ses_token = Some ''key'',
      ses_mode = QDMI_SESSION_MODE_READWRITE\<rparr>"

definition sample_devices :: "ptr \<rightharpoonup> QDMI_Device_impl_d" where
  "sample_devices =
     [65537 \<mapsto> \<lparr>dev_library = 0, dev_session = 65536, dev_device_session = 65536, dev_id = ''a''\<rparr>,
      65538 \<mapsto> \<lparr>dev_library = 0, dev_session = 65536, dev_device_session = 65537, dev_id = ''b''\<rparr>]"

definition sample_device_sessions :: "ptr \<rightharpoonup> CXX_QDMI_Device_Session_impl_d" where
  "sample_device_sessions =
     [65536 \<mapsto> \<lparr>token = ''key'' @ [NUL], s_status = INITIALIZED\<rparr>,
      65537 \<mapsto> \<lparr>token = ''key'' @ [NUL], s_status = INITIALIZED\<rparr>]"

definition open_driver :: "cxx_state driver" where
  "open_driver =
     one_session [65536 \<mapsto> sample_session] sample_devices 65539
       (library_world sample_device_sessions Map.empty 80333 65538)"

definition sample_device_job :: CXX_QDMI_Device_Job_impl_d where
  "sample_device_job = new_job\<lparr>j_session := 65537, j_id := 80333, j_status := QDMI_JOB_STATUS_CREATED\<rparr>"

definition job_driver :: "cxx_state driver" where
  "job_driver =
     (one_session [65536 \<mapsto> sample_session] sample_devices 65540
       (library_world sample_device_sessions [65538 \<mapsto> sample_device_job] 80334 65539))
     \<lparr>cl_jobs := [65539 \<mapsto> \<lparr>job_device = 65538, job_device_job = 65538\<rparr>]\<rparr>"

lemmas sample_driver_defs =
  offline_def library_world_def one_session_def allocated_driver_def token_driver_def open_driver_def
  job_driver_def sample_session_def sample_devices_def sample_device_sessions_def
  sample_device_job_def sample_configured_def

lemma load_once:
  "QDMI_initialize_driver two_devices (\<lambda>_. False) ((\<lambda>_. 0), offline) =
     Inr (Inr ([cxx_library], sample_configured), (\<lambda>_. 0)(4096 := 1), library_world Map.empty Map.empty 80333 65536)"
  using sample_conf_tokens
  by (simp add: QDMI_initialize_driver_def sample_conf_lines QDMI_library_load_def two_devices_loader
      in_lib_def Let_def dl_close_def cxx_library_def sample_driver_defs cxx_fns_def cxx_init_def
      CXX_QDMI_device_initialize_def CXX_QDMI_set_device_status_def heap_base_def fun_eq_iff
      del: tokens.simps)

lemma sample_alloc:
  "QDMI_session_alloc two_devices False (\<lambda>_. False) True (driver_init offline) =
     Inr (QDMI_SUCCESS, Some 65536, allocated_driver)"
  by (simp add: QDMI_session_alloc_def driver_init_def load_once allocated_driver_def one_session_def Let_def)

lemma sample_token:
  "QDMI_session_set_parameter False 65536 0 4 (Some (''key'' @ [NUL])) allocated_driver =
     Inr (QDMI_SUCCESS, token_driver)"
  by (simp add: QDMI_session_set_parameter_def allocated_driver_def token_driver_def one_session_def
      new_client_session_def invalid_enum_simps)

lemma sample_open_device:
  assumes "next \<noteq> 0"
  shows "open_device cxx_library ''key'' dev (library_world ss js g next) =
    Inr (None, dev\<lparr>dev_device_session := next\<rparr>,
      library_world (ss(next \<mapsto> \<lparr>token = ''key'' @ [NUL], s_status = INITIALIZED\<rparr>)) js g (next + 1))"
  using assms
  by (simp add: open_device_def library_world_def cxx_library_def cxx_fns_def in_lib_def in_lib_out_def
      key_of_def cxx_defs deref_def new_session_def invalid_enum_simps Let_def
      CXX_QDMI_get_device_status_def)

lemma two_addresses: "[65537..<65539] = [65537, 65538::nat]"
  by (simp add: upt_rec)

lemma sample_init:
  "QDMI_session_init (\<lambda>_. False) 65536 token_driver = Inr (QDMI_SUCCESS, open_driver)"
  by (simp add: QDMI_session_init_def token_driver_def open_driver_def one_session_def new_client_session_def
      sample_configured_def sample_open_device two_addresses sample_devices_def sample_session_def
      sample_device_sessions_def fun_upd_twist [of 65538 65537])

lemma sample_create_job:
  "QDMI_device_create_job False 65538 True open_driver = Inr (QDMI_SUCCESS, Some 65539, job_driver)"
  by (simp add: QDMI_device_create_job_def open_driver_def job_driver_def one_session_def sample_session_def
      sample_devices_def library_of_def)
     (simp add: in_lib_out_def cxx_library_def cxx_fns_def key_of_def library_world_def
      CXX_QDMI_device_session_create_device_job_def deref_def sample_device_sessions_def
      CXX_QDMI_generate_job_id_def sample_env_def sample_device_job_def new_job_def)

lemma drv_reach:
  "drv_reachable two_devices offline (driver_init offline)"
  "drv_reachable two_devices offline allocated_driver"
  "drv_reachable two_devices offline token_driver"
  "drv_reachable two_devices offline open_driver"
  "drv_reachable two_devices offline job_driver"
proof -
  show 0: "drv_reachable two_devices offline (driver_init offline)" by (rule drv_reachable.start)
  show 1: "drv_reachable two_devices offline allocated_driver"
    using drv_reachable.call [OF 0, of "Client_session_alloc False (\<lambda>_. False) True"] sample_alloc
    by (simp add: last_of3_def)
  show 2: "drv_reachable two_devices offline token_driver"
    using drv_reachable.call [OF 1, of "Client_session_set_parameter False 65536 0 4 (Some (''key'' @ [NUL]))"]
      sample_token
    by (simp add: last_of_def live_or_null_def) (simp add: allocated_driver_def one_session_def)
  show 3: "drv_reachable two_devices offline open_driver"
    using drv_reachable.call [OF 2, of "Client_session_init (\<lambda>_. False) 65536"] sample_init
    by (simp add: last_of_def live_or_null_def) (simp add: token_driver_def one_session_def)
  show "drv_reachable two_devices offline job_driver"
    using drv_reachable.call [OF 3, of "Client_create_job False 65538 True"] sample_create_job
    by (simp add: last_of3_def live_or_null_def)
       (simp add: open_driver_def one_session_def sample_devices_def)
qed

lemma offline_idle:
  "worlds_ok cxx_inv offline" "live_in (\<lambda>st. dom (sessions st)) offline = {}"
  "live_in (\<lambda>st. dom (jobs st)) offline = {}"
  using reachable_inv [OF cxx_reachable.start]
  by (auto simp: worlds_ok_def live_in_def offline_def cxx_init_def)

section \<open>The end of the run\<close>

definition freed_driver :: "cxx_state driver" where
  "freed_driver =
     one_session [65536 \<mapsto> sample_session] sample_devices 65540
       (library_world sample_device_sessions Map.empty 80334 65539)"

definition closed_driver :: "cxx_state driver" where
  "closed_driver =
     (driver_init (offline((4096, ''CXX'') := cxx_init\<lparr>gen := 80334, heap_next := 65539\<rparr>)))
     \<lparr>next_ptr := 65540\<rparr>"

lemma sample_free_job: "QDMI_job_free 65539 job_driver = Inr freed_driver"
  by (simp add: QDMI_job_free_def on_job_def job_driver_def one_session_def sample_devices_def library_of_def
      freed_driver_def)
     (simp add: in_lib_void_def cxx_library_def cxx_fns_def key_of_def library_world_def
      CXX_QDMI_device_job_free_def deref_def)

lemma sample_close_device:
  assumes "dev_library d = 0" and "dev_device_session d \<noteq> nullptr" and "ss (dev_device_session d) = Some x"
  shows "destroy_device [cxx_library] d (library_world ss js g next) =
    Inr (library_world (ss(dev_device_session d := None)) js g next)"
  using assms
  by (simp add: destroy_device_def in_lib_void_def cxx_library_def cxx_fns_def key_of_def library_world_def
      CXX_QDMI_device_session_free_def deref_def)

text \<open>An initialization that runs out of memory at the second device gives the first one back.\<close>

lemma sample_init_fails:
  "\<exists>st'. QDMI_session_init (\<lambda>i. i = 2) 65536 token_driver = Inr (QDMI_ERROR_OUTOFMEM, st')"
  by (simp add: QDMI_session_init_def token_driver_def one_session_def new_client_session_def
      sample_configured_def sample_open_device sample_close_device)

lemma sample_free_session: "QDMI_session_free 65536 freed_driver = Inr closed_driver"
proof -
  have "destroy_devices [cxx_library] (map (\<lambda>q. the (sample_devices q)) [65537, 65538])
      (library_world sample_device_sessions Map.empty 80334 65539) =
      Inr (library_world Map.empty Map.empty 80334 65539)"
    by (simp add: sample_close_device sample_devices_def sample_device_sessions_def fun_upd_twist)
  moreover have "look_all sample_devices [65537, 65538] = Inr (map (\<lambda>q. the (sample_devices q)) [65537, 65538])"
    by (simp add: sample_devices_def)
  moreover have "destroy_library cxx_library ((\<lambda>_. 0)(4096 := 1), library_world Map.empty Map.empty 80334 65539) =
      Inr ((\<lambda>_. 0), offline((4096, ''CXX'') := cxx_init\<lparr>gen := 80334, heap_next := 65539\<rparr>))"
    by (simp add: destroy_library_def cxx_library_def in_lib_def cxx_fns_def key_of_def library_world_def
        CXX_QDMI_device_finalize_def CXX_QDMI_set_device_status_def cxx_init_def dl_close_def fun_eq_iff)
  moreover have "sample_devices |` (- {65537, 65538}) = Map.empty"
    by (simp add: sample_devices_def fun_eq_iff restrict_map_def)
  ultimately show ?thesis
    by (simp add: QDMI_session_free_def freed_driver_def one_session_def sample_session_def
        closed_driver_def driver_init_def size_sub_def Let_def)
qed

lemma drv_reach_closed: "drv_reachable two_devices offline closed_driver"
proof -
  have "drv_reachable two_devices offline freed_driver"
    using drv_reachable.call [OF drv_reach(5), of "Client_job_free 65539"] sample_free_job
    by (simp add: live_or_null_def job_driver_def)
  from drv_reachable.call [OF this, of "Client_session_free 65536"] sample_free_session show ?thesis
    by (simp add: live_or_null_def no_jobs_of_def) (simp add: freed_driver_def one_session_def)
qed

end
