(* ===== verification/Driver_Properties.thy ===== *)
theory Driver_Properties
  imports Driver_Cxx
begin

text \<open>
  The properties of the driver, each for every environment whose libraries keep the contract
  \<open>device_sessions\<close> (the hypothesis \<open>driver_devices\<close>), with witnesses on the run of \<open>Driver_Cxx\<close>.
\<close>

text \<open>The example device behind the driver, and the states of its run.\<close>

lemmas two_devices_contract = cxx_driver.driver_devices_axioms [of sample_env sample_conf, folded two_devices_def]

abbreviation (input) cxx_ses :: "cxx_state \<Rightarrow> ptr set" where
  "cxx_ses \<equiv> \<lambda>st. dom (sessions st)"

abbreviation (input) cxx_jbs :: "cxx_state \<Rightarrow> ptr set" where
  "cxx_jbs \<equiv> \<lambda>st. dom (jobs st)"

lemma reach_inv:
  assumes "driver_devices env ok ses jbs" and "drv_reachable env ws st"
    and "worlds_ok ok ws" and "live_in ses ws = {}" and "live_in jbs ws = {}"
  shows "driver_inv env ok ses jbs st"
  using driver_devices.drv_reachable_inv [OF assms] .

lemmas sample_inv_facts =
  reach_inv [OF two_devices_contract drv_reach(1) offline_idle]
  reach_inv [OF two_devices_contract drv_reach(2) offline_idle]
  reach_inv [OF two_devices_contract drv_reach(3) offline_idle]
  reach_inv [OF two_devices_contract drv_reach(4) offline_idle]
  reach_inv [OF two_devices_contract drv_reach(5) offline_idle]

section \<open>Ownership\<close>

text \<open>C2: In every state of the driver that a client keeping to the documentation can reach, the
  session count is the number of live sessions, the open handles of the dynamic loader are those
  of the loaded libraries, every initialized session offers exactly the configured devices in
  their order, every device of a session holds a device session of its own and every job a device
  job of its own, and no library has any other device session or job.\<close>

theorem driver_states_consistent:
  assumes "driver_devices env ok ses jbs" and "drv_reachable env ws st"
    and "worlds_ok ok ws" and "live_in ses ws = {}" and "live_in jbs ws = {}"
  shows "driver_inv env ok ses jbs st"
  using driver_devices.drv_reachable_inv [OF assms] .

theorem driver_states_consistent_witness: "driver_inv two_devices cxx_inv cxx_ses cxx_jbs job_driver"
  by (rule driver_states_consistent [OF two_devices_contract drv_reach(5) offline_idle])

text \<open>C4: Once every session of the driver has been freed, nothing is left: no device, no job, no
  library, no open handle of the dynamic loader, and no device session or device job in any
  library, even where calls in between failed.\<close>

theorem nothing_left_after_last_session:
  assumes "driver_devices env ok ses jbs" and "drv_reachable env ws st"
    and "worlds_ok ok ws" and "live_in ses ws = {}" and "live_in jbs ws = {}"
    and "cl_sessions st = Map.empty"
  shows "session_count st = 0 \<and> cl_devices st = Map.empty \<and> cl_jobs st = Map.empty \<and>
    libraries st = [] \<and> refs st = (\<lambda>_. 0) \<and> live_in ses (worlds st) = {} \<and> live_in jbs (worlds st) = {}"
proof -
  note inv = reach_inv [OF assms(1-5)]
  then have "objects_ok st" "dom (cl_sessions st) = {}" using assms(6) by (simp_all add: driver_inv_def)
  note none = idle_objects [OF this]
  have idle: "session_count st = 0" using inv assms(6) by (simp add: driver_inv_def count_ok_def)
  then have "libraries st = []" "refs st = (\<lambda>_. 0)"
    using inv by (simp_all add: driver_inv_def count_ok_def libraries_ok_def handle_count_Nil)
  moreover have "live_in ses (worlds st) = {}" "live_in jbs (worlds st) = {}"
    using inv none by (simp_all add: driver_inv_def owns_all_def)
  ultimately show ?thesis using idle none by simp
qed

theorem nothing_left_after_last_session_witness:
  "refs closed_driver = (\<lambda>_. 0) \<and> live_in cxx_ses (worlds closed_driver) = {} \<and> next_ptr closed_driver = 65540"
proof -
  have "cl_sessions closed_driver = Map.empty" by (simp add: closed_driver_def driver_init_def)
  from nothing_left_after_last_session [OF two_devices_contract drv_reach_closed offline_idle this]
  show ?thesis by (simp add: closed_driver_def)
qed

text \<open>C22: In a reachable state, with libraries that keep the contract of the device interface, allocating,
  initializing and freeing a session and freeing a job return, whatever the allocator and the
  configuration do, and so does setting a parameter of a session unless the copy of the token
  cannot be allocated.\<close>

theorem session_calls_return:
  assumes "driver_devices env ok ses jbs" and "drv_reachable env ws st"
    and "worlds_ok ok ws" and "live_in ses ws = {}" and "live_in jbs ws = {}"
    and "drv_legal st c" and "manages c"
  shows "returns (drv_exec env c st)"
  by (rule driver_devices.drv_exec_returns [OF assms(1) reach_inv [OF assms(1-5)] assms(6,7)])

theorem session_calls_return_witness:
  "returns (drv_exec two_devices (Client_job_free 65539) job_driver)"
  by (rule session_calls_return [OF two_devices_contract drv_reach(5) offline_idle])
     (simp_all add: live_or_null_def job_driver_def)

text \<open>Nothing catches the exception of that allocation: it leaves the C function.\<close>

lemma client_token_copy_throws:
  assumes "p \<noteq> nullptr" and "cl_sessions st p = Some s" and "ses_status s = Session_ALLOCATED" and "0 < sz"
  shows "QDMI_session_set_parameter True p (val_SESSION_PARAMETER QDMI_SESSION_PARAMETER_TOKEN) sz (Some mem) st =
    Inl Bad_Alloc_Thrown"
  using assms by (simp add: QDMI_session_set_parameter_def invalid_enum_simps)

section \<open>Loading the configuration\<close>

context driver_devices
begin

lemma alloc_configures:
  assumes inv: "driver_inv env ok ses jbs st" and idle: "session_count st = 0"
    and run: "QDMI_session_alloc env oom fails True st = Inr (QDMI_SUCCESS, out, st')"
  shows "\<exists>ls. config_lines env = Inr ls \<and> configuration_ok env (libraries st') (entries ls) (configured_devices st')"
proof -
  have w: "worlds_ok ok (worlds st)" and none: "libraries st = []"
    using inv idle by (simp_all add: driver_inv_def count_ok_def)
  obtain r rs' ws' where init: "QDMI_initialize_driver env fails (refs st, worlds st) = Inr (r, rs', ws')"
    and r: "case r of Inl e \<Rightarrow> e \<in> {QDMI_ERROR_OUTOFMEM, QDMI_ERROR_FATAL} \<and> rs' = refs st
      | Inr (libs, cfg) \<Rightarrow> libs_ok env libs \<and> rs' = open_handles (refs st) libs \<and>
         (\<exists>ls. config_lines env = Inr ls \<and> configuration_ok env libs (entries ls) cfg)"
    using initialize_driver_ok [OF w] by blast
  have "\<not> oom" using run by (auto simp: QDMI_session_alloc_def)
  show ?thesis
  proof (cases r)
    case (Inl e)
    then have "QDMI_session_alloc env oom fails True st = Inr (e, Some nullptr, st\<lparr>refs := rs', worlds := ws'\<rparr>)"
      using idle init \<open>\<not> oom\<close> by (simp add: QDMI_session_alloc_def)
    then show ?thesis using run r Inl by auto
  next
    case (Inr lc)
    then show ?thesis using run idle init r none \<open>\<not> oom\<close>
      by (cases lc) (auto simp: QDMI_session_alloc_def)
  qed
qed

end

text \<open>C23: Allocating the first session reads the configuration: on success the configured devices are
  the entries of the file, one per line that is neither empty nor a comment and in their order,
  each with the id of its line and a library opened from the file and loaded under the prefix the
  line names; ids are distinct and every library is loaded once. On failure the caller gets a
  null session, and the driver is as before, with no library loaded and no handle left open.\<close>

theorem first_session_loads_configuration:
  assumes "driver_devices env ok ses jbs" and "drv_reachable env ws st"
    and "worlds_ok ok ws" and "live_in ses ws = {}" and "live_in jbs ws = {}" and "session_count st = 0"
  shows "\<exists>r out st'. QDMI_session_alloc env oom fails True st = Inr (r, out, st') \<and>
    (if r = QDMI_SUCCESS
     then out = Some (next_ptr st) \<and> cl_sessions st' (next_ptr st) = Some new_client_session \<and>
       libs_ok env (libraries st') \<and>
       (\<exists>ls. config_lines env = Inr ls \<and>
          configuration_ok env (libraries st') (entries ls) (configured_devices st'))
     else out = Some nullptr \<and> st' = st\<lparr>worlds := worlds st'\<rparr>)"
proof -
  note inv = reach_inv [OF assms(1-5)]
  obtain r out st' where run: "QDMI_session_alloc env oom fails True st = Inr (r, out, st')"
    and inv': "driver_inv env ok ses jbs st'"
    and res: "if r = QDMI_SUCCESS
     then out = Some (next_ptr st) \<and>
          st' = add_session (st\<lparr>libraries := libraries st', configured_devices := configured_devices st',
            refs := refs st', worlds := worlds st'\<rparr>)
     else out \<in> {None, Some nullptr} \<and> st' = st\<lparr>worlds := worlds st'\<rparr>"
    using driver_devices.session_alloc_ok [OF assms(1) inv, of oom fails True] by blast
  show ?thesis
  proof (cases "r = QDMI_SUCCESS")
    case True
    moreover from this have "\<exists>ls. config_lines env = Inr ls \<and>
        configuration_ok env (libraries st') (entries ls) (configured_devices st')"
      using driver_devices.alloc_configures [OF assms(1) inv assms(6)] run by blast
    moreover have "libs_ok env (libraries st')" using inv' by (simp add: driver_inv_def libraries_ok_def)
    moreover have "cl_sessions st' (next_ptr st) = Some new_client_session"
    proof -
      from res True have "st' = add_session (st\<lparr>libraries := libraries st',
          configured_devices := configured_devices st', refs := refs st', worlds := worlds st'\<rparr>)" by simp
      from arg_cong [OF this, of cl_sessions] show ?thesis by (simp add: add_session_def)
    qed
    ultimately show ?thesis using run res by auto
  next
    case False
    have "out \<noteq> None"
      using run by (auto simp: QDMI_session_alloc_def bind_o_def Let_def
          split: if_split_asm sum.split_asm prod.split_asm)
    then show ?thesis using run res False by auto
  qed
qed

theorem first_session_loads_configuration_witness:
  "\<exists>ls. config_lines two_devices = Inr ls \<and>
     configuration_ok two_devices (libraries allocated_driver) (entries ls) (configured_devices allocated_driver)"
proof -
  have "session_count (driver_init offline) = 0" by (simp add: driver_init_def)
  from first_session_loads_configuration [OF two_devices_contract drv_reach(1) offline_idle this,
      of False "\<lambda>_. False"] sample_alloc
  show ?thesis by simp
qed

section \<open>Sessions and their devices\<close>

text \<open>C21: Initializing a session in a reachable state always returns. On success the session was
  allocated and had a token, it now offers the configured devices in their order, and it may
  create jobs exactly if the token is not empty. On failure, wherever in the sequence of device
  calls it happens, every device session opened on the way has been freed again, and the driver
  is as before, up to the mode of the session, which stays without devices.\<close>

theorem session_init_all_or_nothing:
  assumes "driver_devices env ok ses jbs" and "drv_reachable env ws st"
    and "worlds_ok ok ws" and "live_in ses ws = {}" and "live_in jbs ws = {}"
    and "live_or_null (cl_sessions st) p"
  shows "\<exists>r st'. QDMI_session_init fails p st = Inr (r, st') \<and>
    (if r = QDMI_SUCCESS
     then \<exists>s t s'. cl_sessions st p = Some s \<and> ses_status s = Session_ALLOCATED \<and>
       ses_token s = Some t \<and> cl_sessions st' p = Some s' \<and> ses_status s' = Session_INITIALIZED \<and>
       offers st' s' (configured_devices st) \<and> (ses_mode s' = QDMI_SESSION_MODE_READWRITE \<longleftrightarrow> t \<noteq> [])
     else live_in ses (worlds st') = live_in ses (worlds st) \<and> same_but_mode st st')"
proof -
  obtain r st' where run: "QDMI_session_init fails p st = Inr (r, st')"
    and inv': "driver_inv env ok ses jbs st'" and res: "init_result ses p st r st'"
    using driver_devices.session_init_ok [OF assms(1) reach_inv [OF assms(1-5)] assms(6), of fails] by blast
  show ?thesis
  proof (cases "r = QDMI_SUCCESS")
    case False
    then show ?thesis using run res by (auto simp: init_result_def)
  next
    case True
    then obtain s t devs where s: "cl_sessions st p = Some s" "ses_status s = Session_ALLOCATED"
        "ses_token s = Some t" and st': "st' = add_devices (st\<lparr>worlds := worlds st'\<rparr>) p s t devs"
      using res by (auto simp: init_result_def)
    define s' where "s' = s\<lparr>ses_mode := mode_of t, device_list := [next_ptr st..<next_ptr st + length devs],
      ses_status := Session_INITIALIZED\<rparr>"
    have "cl_sessions st' p = Some s'" "configured_devices st' = configured_devices st"
      using arg_cong [OF st', of cl_sessions] arg_cong [OF st', of configured_devices]
      by (simp_all add: add_devices_def s'_def)
    moreover from this have "offers st' s' (configured_devices st)"
      using inv_session [OF inv', of p s'] by (simp add: client_session_ok_def s'_def)
    ultimately show ?thesis using run True s by (auto simp: s'_def mode_of_def)
  qed
qed

theorem session_init_all_or_nothing_witness:
  "\<exists>st'. QDMI_session_init (\<lambda>i. i = 2) 65536 token_driver = Inr (QDMI_ERROR_OUTOFMEM, st') \<and>
     live_in cxx_ses (worlds st') = live_in cxx_ses (worlds token_driver)"
proof -
  have "live_or_null (cl_sessions token_driver) 65536"
    by (simp add: live_or_null_def token_driver_def one_session_def)
  from session_init_all_or_nothing [OF two_devices_contract drv_reach(3) offline_idle this, of "\<lambda>i. i = 2"]
    sample_init_fails
  show ?thesis by auto
qed

text \<open>Freeing a session without jobs removes the session and its devices, frees exactly the
  device sessions of these devices and no other, and leaves the jobs of other sessions and every
  device job as they are.\<close>

theorem session_free_gives_back:
  assumes "driver_devices env ok ses jbs" and "drv_reachable env ws st"
    and "worlds_ok ok ws" and "live_in ses ws = {}" and "live_in jbs ws = {}"
    and "live_or_null (cl_sessions st) p" and "no_jobs_of st p"
  shows "\<exists>st'. QDMI_session_free p st = Inr st' \<and> cl_sessions st' = (cl_sessions st)(p := None) \<and>
    cl_devices st' = (cl_devices st) |` (- devices_of st p) \<and> cl_jobs st' = cl_jobs st \<and>
    live_in ses (worlds st') = live_in ses (worlds st) - dev_key st ` devices_of st p \<and>
    live_in jbs (worlds st') = live_in jbs (worlds st)"
  using driver_devices.session_free_ok [OF assms(1) reach_inv [OF assms(1-5)] assms(6,7)] by blast

theorem session_free_gives_back_witness:
  "\<exists>st'. QDMI_session_free 65536 open_driver = Inr st' \<and> cl_devices st' = Map.empty"
proof -
  have "live_or_null (cl_sessions open_driver) 65536" "no_jobs_of open_driver 65536"
    by (simp_all add: live_or_null_def no_jobs_of_def open_driver_def one_session_def)
  from session_free_gives_back [OF two_devices_contract drv_reach(4) offline_idle this]
  obtain st' where st': "QDMI_session_free 65536 open_driver = Inr st'"
    "cl_devices st' = (cl_devices open_driver) |` (- devices_of open_driver 65536)" by blast
  moreover have "(cl_devices open_driver) |` (- devices_of open_driver 65536) = Map.empty"
    by (auto simp: devices_of_def open_driver_def one_session_def sample_session_def sample_devices_def
        restrict_map_def fun_eq_iff)
  ultimately show ?thesis by auto
qed

lemma device_session_mode:
  assumes inv: "driver_inv env ok ses jbs st" and q: "cl_devices st q = Some d"
    and s: "cl_sessions st (dev_session d) = Some s"
  obtains t where "ses_token s = Some t" and "ses_mode s = QDMI_SESSION_MODE_READWRITE \<longleftrightarrow> t \<noteq> []"
    and "q \<noteq> nullptr" and "dev_session d \<noteq> nullptr"
proof -
  have "q \<in> set (device_list s)" "q \<noteq> nullptr" using inv_device [OF inv q] s by (auto simp: client_device_ok_def)
  then show ?thesis using inv_session [OF inv s] that
    by (cases "ses_status s") (auto simp: client_session_ok_def)
qed

text \<open>C25: Only sessions with a token that is not empty make jobs. On a device of a session with an empty
  token, creating or retrieving a job fails without changing anything; a success stores the new
  job, which is on that device, and any failure leaves the jobs as they are.\<close>

theorem jobs_need_a_token:
  assumes "driver_devices env ok ses jbs" and "drv_reachable env ws st"
    and "worlds_ok ok ws" and "live_in ses ws = {}" and "live_in jbs ws = {}"
    and "cl_devices st q = Some d" and "cl_sessions st (dev_session d) = Some s"
    and "m \<in> {QDMI_device_create_job oom q True st, QDMI_session_retrieve_job_by_id oom q jid True st}"
    and "m = Inr (r, p, st')"
  shows "if r = QDMI_SUCCESS
    then (\<exists>t. ses_token s = Some t \<and> t \<noteq> []) \<and> p = Some (next_ptr st) \<and>
      (\<exists>j. cl_jobs st' = (cl_jobs st)(next_ptr st \<mapsto> \<lparr>job_device = q, job_device_job = j\<rparr>))
    else p = None \<and> cl_jobs st' = cl_jobs st \<and> (ses_token s = Some [] \<longrightarrow> st' = st)"
proof -
  note inv = reach_inv [OF assms(1-5)]
  from device_session_mode [OF inv assms(6,7)] obtain t where t: "ses_token s = Some t"
    "ses_mode s = QDMI_SESSION_MODE_READWRITE \<longleftrightarrow> t \<noteq> []" "q \<noteq> nullptr" "dev_session d \<noteq> nullptr" .
  have made: "job_made ses q st r p st'"
    using assms(8,9) driver_devices.client_create_job_D [OF assms(1) inv]
      driver_devices.client_retrieve_job_D [OF assms(1) inv] by auto
  have "st' = st" if "t = []"
    using that t assms(6-9)
    by (auto simp: QDMI_device_create_job_def QDMI_session_retrieve_job_by_id_def split: if_splits)
  moreover have "\<exists>j. cl_jobs st' = (cl_jobs st)(next_ptr st \<mapsto> \<lparr>job_device = q, job_device_job = j\<rparr>)"
    if "st' = add_job st q j (worlds st')" for j
    using arg_cong [OF that, of cl_jobs] by (auto simp: add_job_def)
  moreover have "cl_jobs st' = cl_jobs st" if "st' = st\<lparr>worlds := worlds st'\<rparr>"
    using arg_cong [OF that, of cl_jobs] by simp
  ultimately show ?thesis using made t(1,2) assms(6,7) by (auto simp: job_made_def)
qed

theorem jobs_need_a_token_witness:
  "\<exists>j. cl_jobs job_driver = (cl_jobs open_driver)(65539 \<mapsto> \<lparr>job_device = 65538, job_device_job = j\<rparr>)"
proof -
  have dev: "cl_devices open_driver 65538 =
      Some \<lparr>dev_library = 0, dev_session = 65536, dev_device_session = 65537, dev_id = ''b''\<rparr>"
    "cl_sessions open_driver 65536 = Some sample_session" "next_ptr open_driver = 65539"
    by (simp_all add: open_driver_def one_session_def sample_devices_def)
  from jobs_need_a_token [OF two_devices_contract drv_reach(4) offline_idle dev(1) _ insertI1, of sample_session False]
  show ?thesis using dev sample_create_job by simp
qed

section \<open>What a client sees of its devices\<close>

lemma devices_sized:
  assumes "p \<noteq> nullptr" and "cl_sessions st p = Some s" and "ses_status s = Session_INITIALIZED"
    and "length (device_list s) < 2 ^ 61"
  shows "sized_query (QDMI_session_query_session_property st p (val_SESSION_PROPERTY QDMI_SESSION_PROPERTY_DEVICES))
    (concat (map le64 (device_list s)))"
proof (rule sized_query_cong [OF list_body_sized [of 8 "map le64 (device_list s)"]])
  show "list_fits 8 (map le64 (device_list s))" using assms(4) by (simp add: list_fits_def list_all_iff)
  show "QDMI_session_query_session_property st p (val_SESSION_PROPERTY QDMI_SESSION_PROPERTY_DEVICES) sz v sr =
      list_body 8 (map le64 (device_list s)) sz v sr" if "v \<noteq> None \<longrightarrow> 0 < sz" for sz v sr
    using that assms(1-3)
    by (auto simp: QDMI_session_query_session_property_def list_body_def invalid_enum_simps Let_def
        split: option.splits)
qed

lemma id_two_call:
  assumes "q \<noteq> nullptr" and "cl_devices st q = Some d" and "check QDMI_SUCCESS = None"
  shows "two_call check (QDMI_device_query_device_property st q (val_DEVICE_PROPERTY QDMI_DEVICE_PROPERTY_ID)) =
    Inr (dev_id d @ [NUL])"
proof -
  have "QDMI_device_query_device_property st q (val_DEVICE_PROPERTY QDMI_DEVICE_PROPERTY_ID) = id_query (dev_id d)"
    using assms(1,2) by (simp add: fun_eq_iff QDMI_device_query_device_property_def)
  then show ?thesis using id_query.two_call_payload [of check "dev_id d"] assms(3) by simp
qed

text \<open>C26: A client that asks an initialized session for its devices, first for the size and then for
  the list, gets one handle per configured device, and asking the handles one after the other for
  their id gives the ids of the configuration in the order of the file.\<close>

theorem devices_in_configuration_order:
  assumes "driver_devices env ok ses jbs" and "drv_reachable env ws st"
    and "worlds_ok ok ws" and "live_in ses ws = {}" and "live_in jbs ws = {}"
    and "cl_sessions st p = Some s" and "ses_status s = Session_INITIALIZED"
    and "length (configured_devices st) < 2 ^ 61" and "check QDMI_SUCCESS = None"
  shows "two_call check
      (QDMI_session_query_session_property st p (val_SESSION_PROPERTY QDMI_SESSION_PROPERTY_DEVICES)) =
        Inr (concat (map le64 (device_list s))) \<and>
    map (\<lambda>q. two_call check
        (QDMI_device_query_device_property st q (val_DEVICE_PROPERTY QDMI_DEVICE_PROPERTY_ID))) (device_list s) =
      map (\<lambda>(lib, ident). Inr (ident @ [NUL])) (configured_devices st)"
proof -
  note inv = reach_inv [OF assms(1-5)]
  have s: "p \<noteq> nullptr" "\<forall>q \<in> set (device_list s). \<exists>d. cl_devices st q = Some d"
    and offers: "map (\<lambda>q. map_option (\<lambda>d. (dev_library d, dev_id d)) (cl_devices st q)) (device_list s) =
      map Some (configured_devices st)"
    using inv_session [OF inv assms(6)] assms(7) by (auto simp: client_session_ok_def offers_def)
  have "length (device_list s) = length (configured_devices st)"
    using offers by (metis length_map)
  then have "two_call check (QDMI_session_query_session_property st p (val_SESSION_PROPERTY QDMI_SESSION_PROPERTY_DEVICES)) =
      Inr (concat (map le64 (device_list s)))"
    using sized_query.two_call_payload [OF devices_sized [OF s(1) assms(6,7)], of check] assms(8,9) by simp
  moreover have "map (\<lambda>q. two_call check
        (QDMI_device_query_device_property st q (val_DEVICE_PROPERTY QDMI_DEVICE_PROPERTY_ID))) (device_list s) =
      map (\<lambda>x. Inr (snd (the x) @ [NUL]))
        (map (\<lambda>q. map_option (\<lambda>d. (dev_library d, dev_id d)) (cl_devices st q)) (device_list s))"
  proof (unfold map_map, rule map_cong [OF refl])
    fix q assume "q \<in> set (device_list s)"
    then obtain d where "cl_devices st q = Some d" using s(2) by blast
    then show "two_call check (QDMI_device_query_device_property st q (val_DEVICE_PROPERTY QDMI_DEVICE_PROPERTY_ID)) =
        ((\<lambda>x. Inr (snd (the x) @ [NUL])) \<circ> (\<lambda>q. map_option (\<lambda>d. (dev_library d, dev_id d)) (cl_devices st q))) q"
      using id_two_call [of q st d check] inv_device [OF inv, of q d] assms(9) by (simp add: client_device_ok_def)
  qed
  ultimately show ?thesis by (simp add: offers comp_def case_prod_beta)
qed

theorem devices_in_configuration_order_witness:
  "map (\<lambda>q. two_call (\<lambda>_. None)
      (QDMI_device_query_device_property open_driver q (val_DEVICE_PROPERTY QDMI_DEVICE_PROPERTY_ID))) [65537, 65538] =
     [Inr (''a'' @ [NUL]), Inr (''b'' @ [NUL])]"
proof -
  have s: "cl_sessions open_driver 65536 = Some sample_session" "configured_devices open_driver = sample_configured"
    by (simp_all add: open_driver_def one_session_def)
  from devices_in_configuration_order [OF two_devices_contract drv_reach(4) offline_idle s(1), of "\<lambda>_. None"] s(2)
  show ?thesis by (simp add: sample_session_def sample_configured_def)
qed

end
