(* ===== verification/Client_Interface.thy ===== *)
theory Client_Interface
  imports Driver_Properties
begin

text \<open>
  The client interface \<open>include/qdmi/client.h\<close>: per function, the documented status codes with the
  conditions the documentation gives, and how the driver of \<open>qdmi_example_driver.cpp\<close> relates to
  them. Its session functions return documented codes but for one, and for jobs it is
  transparent: past the null check a client gets exactly what the device of the job answers.
\<close>

section \<open>The documented status codes\<close>

text \<open>As in \<open>device.h\<close>: \<open>null\<close> stands for a null handle or out-pointer that must not be null.\<close>

fun doc_session_alloc :: "bool \<Rightarrow> QDMI_STATUS \<Rightarrow> bool" where
  "doc_session_alloc null QDMI_SUCCESS = (\<not> null)"
| "doc_session_alloc null QDMI_ERROR_INVALIDARGUMENT = null"
| "doc_session_alloc null QDMI_ERROR_OUTOFMEM = True"
| "doc_session_alloc null QDMI_ERROR_FATAL = True"
| "doc_session_alloc null _ = False"

text \<open>\<open>bad_size\<close>: there is a value and its size is zero.\<close>

fun doc_session_set_parameter :: "bool \<Rightarrow> bool \<Rightarrow> bool \<Rightarrow> QDMI_STATUS \<Rightarrow> bool" where
  "doc_session_set_parameter null invalid bad_size QDMI_SUCCESS = (\<not> null \<and> \<not> invalid \<and> \<not> bad_size)"
| "doc_session_set_parameter null invalid bad_size QDMI_ERROR_NOTSUPPORTED = True"
| "doc_session_set_parameter null invalid bad_size QDMI_ERROR_INVALIDARGUMENT = (null \<or> invalid \<or> bad_size)"
| "doc_session_set_parameter null invalid bad_size QDMI_ERROR_BADSTATE = True"
| "doc_session_set_parameter null invalid bad_size QDMI_ERROR_FATAL = True"
| "doc_session_set_parameter null invalid bad_size _ = False"

text \<open>A session may only be successfully initialized once.\<close>

fun doc_session_init :: "bool \<Rightarrow> bool \<Rightarrow> QDMI_STATUS \<Rightarrow> bool" where
  "doc_session_init null is_init QDMI_SUCCESS = (\<not> null \<and> \<not> is_init)"
| "doc_session_init null is_init QDMI_ERROR_PERMISSIONDENIED = True"
| "doc_session_init null is_init QDMI_ERROR_INVALIDARGUMENT = null"
| "doc_session_init null is_init QDMI_ERROR_BADSTATE = True"
| "doc_session_init null is_init QDMI_ERROR_FATAL = True"
| "doc_session_init null is_init _ = False"

definition doc_query_session_property :: "bool \<Rightarrow> bool \<Rightarrow> bool \<Rightarrow> bool \<Rightarrow> QDMI_STATUS \<Rightarrow> bool" where
  "doc_query_session_property null invalid too_small is_init = doc_query null invalid too_small is_init"

text \<open>\<open>permitted\<close>: the driver allows the job interface for the device in the session.\<close>

fun doc_client_create_job :: "bool \<Rightarrow> QDMI_STATUS \<Rightarrow> bool" where
  "doc_client_create_job null QDMI_SUCCESS = (\<not> null)"
| "doc_client_create_job null QDMI_ERROR_INVALIDARGUMENT = null"
| "doc_client_create_job null QDMI_ERROR_PERMISSIONDENIED = True"
| "doc_client_create_job null QDMI_ERROR_OUTOFMEM = True"
| "doc_client_create_job null QDMI_ERROR_FATAL = True"
| "doc_client_create_job null _ = False"

fun doc_client_retrieve_job_by_id :: "bool \<Rightarrow> QDMI_STATUS \<Rightarrow> bool" where
  "doc_client_retrieve_job_by_id null_or_empty QDMI_SUCCESS = (\<not> null_or_empty)"
| "doc_client_retrieve_job_by_id null_or_empty QDMI_ERROR_INVALIDARGUMENT = null_or_empty"
| "doc_client_retrieve_job_by_id null_or_empty QDMI_ERROR_NOTSUPPORTED = True"
| "doc_client_retrieve_job_by_id null_or_empty QDMI_ERROR_NOTFOUND = True"
| "doc_client_retrieve_job_by_id null_or_empty QDMI_ERROR_PERMISSIONDENIED = True"
| "doc_client_retrieve_job_by_id null_or_empty QDMI_ERROR_FATAL = True"
| "doc_client_retrieve_job_by_id null_or_empty _ = False"

text \<open>
  Queries of devices, sites and operations: unlike those of \<open>device.h\<close> they have no code for a
  session in a bad state, a client only gets devices that are ready. \<open>bad_counts\<close>: there are
  sites or parameters, and their number is zero.
\<close>

fun doc_client_query :: "bool \<Rightarrow> bool \<Rightarrow> bool \<Rightarrow> QDMI_STATUS \<Rightarrow> bool" where
  "doc_client_query null invalid too_small QDMI_SUCCESS = (\<not> null \<and> \<not> invalid \<and> \<not> too_small)"
| "doc_client_query null invalid too_small QDMI_ERROR_NOTSUPPORTED = True"
| "doc_client_query null invalid too_small QDMI_ERROR_INVALIDARGUMENT = (null \<or> invalid \<or> too_small)"
| "doc_client_query null invalid too_small QDMI_ERROR_FATAL = True"
| "doc_client_query null invalid too_small _ = False"

definition doc_client_query_site_property ::
  "bool \<Rightarrow> bool \<Rightarrow> bool \<Rightarrow> bool \<Rightarrow> QDMI_STATUS \<Rightarrow> bool" where
  "doc_client_query_site_property null_device null_site = doc_client_query (null_device \<or> null_site)"

definition doc_client_query_operation_property ::
  "bool \<Rightarrow> bool \<Rightarrow> bool \<Rightarrow> bool \<Rightarrow> bool \<Rightarrow> QDMI_STATUS \<Rightarrow> bool" where
  "doc_client_query_operation_property null_device null_operation bad_counts =
     doc_client_query (null_device \<or> null_operation \<or> bad_counts)"

text \<open>
  Most job functions are documented with the codes of their counterparts in \<open>device.h\<close>, the
  conditions on the client's handles and enumerators. Submitting is not: it cannot run out of
  memory.
\<close>

definition doc_client_job_set_parameter :: "bool \<Rightarrow> bool \<Rightarrow> bool \<Rightarrow> QDMI_STATUS \<Rightarrow> bool" where
  "doc_client_job_set_parameter null_job invalid bad_size = doc_job_set_parameter null_job invalid bad_size"

definition doc_client_job_set_programs :: "bool \<Rightarrow> bool \<Rightarrow> QDMI_STATUS \<Rightarrow> bool" where
  "doc_client_job_set_programs bad_call bad_progs = doc_job_set_programs bad_call bad_progs"

definition doc_client_job_get_program :: "bool \<Rightarrow> bool \<Rightarrow> bool \<Rightarrow> bool \<Rightarrow> QDMI_STATUS \<Rightarrow> bool" where
  "doc_client_job_get_program null_job no_programs out_of_range too_small =
     doc_job_get_program null_job no_programs out_of_range too_small"

definition doc_client_job_get_program_status :: "bool \<Rightarrow> bool \<Rightarrow> bool \<Rightarrow> QDMI_STATUS \<Rightarrow> bool" where
  "doc_client_job_get_program_status null_job null_status out_of_range =
     doc_job_get_program_status null_job null_status out_of_range"

definition doc_client_job_query_property :: "bool \<Rightarrow> bool \<Rightarrow> bool \<Rightarrow> QDMI_STATUS \<Rightarrow> bool" where
  "doc_client_job_query_property null_job invalid too_small = doc_job_query_property null_job invalid too_small"

fun doc_client_job_submit :: "bool \<Rightarrow> bool \<Rightarrow> QDMI_STATUS \<Rightarrow> bool" where
  "doc_client_job_submit null missing QDMI_SUCCESS = (\<not> null \<and> \<not> missing)"
| "doc_client_job_submit null missing QDMI_ERROR_INVALIDARGUMENT = null"
| "doc_client_job_submit null missing QDMI_ERROR_BADSTATE = missing"
| "doc_client_job_submit null missing QDMI_ERROR_PERMISSIONDENIED = True"
| "doc_client_job_submit null missing QDMI_ERROR_FATAL = True"
| "doc_client_job_submit null missing _ = False"

definition doc_client_job_cancel :: "bool \<Rightarrow> bool \<Rightarrow> QDMI_STATUS \<Rightarrow> bool" where
  "doc_client_job_cancel null_job finished = doc_job_cancel null_job finished"

definition doc_client_job_check :: "bool \<Rightarrow> bool \<Rightarrow> QDMI_STATUS \<Rightarrow> bool" where
  "doc_client_job_check null_job null_status = doc_job_check (null_job \<or> null_status)"

definition doc_client_job_wait :: "bool \<Rightarrow> nat \<Rightarrow> bool \<Rightarrow> QDMI_STATUS \<Rightarrow> bool" where
  "doc_client_job_wait null_job timeout ended = doc_job_wait null_job timeout ended"

definition doc_client_job_get_results :: "bool \<Rightarrow> bool \<Rightarrow> bool \<Rightarrow> bool \<Rightarrow> bool \<Rightarrow> QDMI_STATUS \<Rightarrow> bool" where
  "doc_client_job_get_results null_job invalid too_small out_of_range succeeded =
     doc_job_get_results null_job invalid too_small out_of_range succeeded"

lemmas client_doc_defs =
  doc_client_query_site_property_def doc_client_query_operation_property_def doc_client_job_set_parameter_def
  doc_client_job_set_programs_def doc_client_job_get_program_def doc_client_job_get_program_status_def
  doc_client_job_query_property_def doc_client_job_cancel_def doc_client_job_check_def doc_client_job_wait_def
  doc_client_job_get_results_def

section \<open>The driver's session functions\<close>

lemma session_alloc_codes:
  assumes "driver_devices env ok ses jbs" and "driver_inv env ok ses jbs st"
    and "QDMI_session_alloc env oom fails p st = Inr (r, out, st')"
  shows "doc_session_alloc (\<not> p) r"
proof (cases "p \<and> \<not> oom \<and> session_count st = 0")
  case False
  then show ?thesis using assms(3) by (auto simp: QDMI_session_alloc_def Let_def split: if_splits)
next
  case True
  have w: "worlds_ok ok (worlds st)" using assms(2) by (simp add: driver_inv_def)
  obtain i rs' ws' where init: "QDMI_initialize_driver env fails (refs st, worlds st) = Inr (i, rs', ws')"
    and i: "case i of Inl e \<Rightarrow> e \<in> {QDMI_ERROR_OUTOFMEM, QDMI_ERROR_FATAL} \<and> rs' = refs st | Inr (libs, cfg) \<Rightarrow>
      libs_ok env libs \<and> rs' = open_handles (refs st) libs \<and>
      (\<exists>ls. config_lines env = Inr ls \<and> configuration_ok env libs (entries ls) cfg)"
    using driver_devices.initialize_driver_ok [OF assms(1) w] by blast
  show ?thesis
  proof (cases i)
    case (Inl e)
    then have "r = e" using assms(3) True init by (simp add: QDMI_session_alloc_def)
    then show ?thesis using i Inl by auto
  next
    case (Inr lc)
    then have "r = QDMI_SUCCESS" using assms(3) True init
      by (cases lc) (auto simp: QDMI_session_alloc_def bind_o_eq_Inr Let_def)
    then show ?thesis using True by simp
  qed
qed

lemma client_set_parameter_codes:
  assumes "QDMI_session_set_parameter oom p param sz v st = Inr (r, st')"
  shows "doc_session_set_parameter (p = nullptr) (QDMI_IS_INVALID_ENUM_VALUE param prefix_SESSION_PARAMETER)
    (v \<noteq> None \<and> sz = 0) r"
  using assms by (auto simp: QDMI_session_set_parameter_def bind_o_eq_Inr split: if_splits option.splits)

lemma query_session_codes:
  assumes "QDMI_session_query_session_property st p prop sz v sr = Inr (r, v', n)"
  shows "doc_query_session_property (p = nullptr)
    (QDMI_IS_INVALID_ENUM_VALUE prop prefix_SESSION_PROPERTY)
    (buffer_too_small (QDMI_session_query_session_property st p prop) sz v)
    (\<exists>s. cl_sessions st p = Some s \<and> ses_status s = Session_INITIALIZED) r"
  using assms
  by (auto simp: QDMI_session_query_session_property_def doc_query_session_property_def buffer_too_small_def
      bind_o_eq_Inr Let_def split: if_splits option.splits)

text \<open>C27: The session functions of the driver return documented codes: allocating a session, setting a
  parameter and querying a property return a code only when the documentation says so, and
  initializing refuses a null session, an initialized session and a session without a token with
  the documented codes and without any effect.\<close>

theorem session_codes_documented:
  assumes "driver_devices env ok ses jbs" and "drv_reachable env ws st"
    and "worlds_ok ok ws" and "live_in ses ws = {}" and "live_in jbs ws = {}"
  shows "(QDMI_session_alloc env oom fails out st = Inr (r, q, st') \<longrightarrow> doc_session_alloc (\<not> out) r) \<and>
    (QDMI_session_set_parameter no_copy p param sz v st = Inr (r, st') \<longrightarrow>
       doc_session_set_parameter (p = nullptr) (QDMI_IS_INVALID_ENUM_VALUE param prefix_SESSION_PARAMETER)
         (v \<noteq> None \<and> sz = 0) r) \<and>
    (QDMI_session_query_session_property st p prop sz v sr = Inr (r, v', n) \<longrightarrow>
       doc_query_session_property (p = nullptr) (QDMI_IS_INVALID_ENUM_VALUE prop prefix_SESSION_PROPERTY)
         (buffer_too_small (QDMI_session_query_session_property st p prop) sz v)
         (\<exists>s. cl_sessions st p = Some s \<and> ses_status s = Session_INITIALIZED) r) \<and>
    (p = nullptr \<longrightarrow> QDMI_session_init fails p st = Inr (QDMI_ERROR_INVALIDARGUMENT, st)) \<and>
    (\<forall>s. cl_sessions st p = Some s \<longrightarrow>
       (ses_status s = Session_INITIALIZED \<longrightarrow> QDMI_session_init fails p st = Inr (QDMI_ERROR_BADSTATE, st)) \<and>
       (ses_status s = Session_ALLOCATED \<and> ses_token s = None \<longrightarrow>
          QDMI_session_init fails p st = Inr (QDMI_ERROR_PERMISSIONDENIED, st)))"
proof -
  note inv = reach_inv [OF assms]
  have "p \<noteq> nullptr" if "cl_sessions st p = Some s" for s
    using inv_session [OF inv that] by (simp add: client_session_ok_def)
  then have init: "(p = nullptr \<longrightarrow> QDMI_session_init fails p st = Inr (QDMI_ERROR_INVALIDARGUMENT, st)) \<and>
    (\<forall>s. cl_sessions st p = Some s \<longrightarrow>
       (ses_status s = Session_INITIALIZED \<longrightarrow> QDMI_session_init fails p st = Inr (QDMI_ERROR_BADSTATE, st)) \<and>
       (ses_status s = Session_ALLOCATED \<and> ses_token s = None \<longrightarrow>
          QDMI_session_init fails p st = Inr (QDMI_ERROR_PERMISSIONDENIED, st)))"
    by (auto simp: QDMI_session_init_def)
  show ?thesis
    by (intro conjI impI init [THEN conjunct1, rule_format] init [THEN conjunct2])
       (rule session_alloc_codes [OF assms(1) inv] client_set_parameter_codes query_session_codes, assumption)+
qed

theorem session_codes_documented_witness:
  "QDMI_session_init (\<lambda>_. False) 65536 open_driver = Inr (QDMI_ERROR_BADSTATE, open_driver)"
proof -
  have "cl_sessions open_driver 65536 = Some sample_session" "ses_status sample_session = Session_INITIALIZED"
    by (simp_all add: open_driver_def one_session_def sample_session_def)
  with session_codes_documented [OF two_devices_contract drv_reach(4) offline_idle, where p = 65536]
  show ?thesis by blast
qed

text \<open>\<open>QDMI_session_init\<close> also returns a code the documentation does not name.\<close>

lemma init_out_of_memory_undocumented:
  "\<exists>st'. QDMI_session_init (\<lambda>i. i = 2) 65536 token_driver = Inr (QDMI_ERROR_OUTOFMEM, st') \<and>
     \<not> doc_session_init False False QDMI_ERROR_OUTOFMEM"
  using sample_init_fails by simp

section \<open>The driver is transparent for jobs\<close>

text \<open>C18: For a job of a session the driver is transparent: each function that submits, cancels, checks, waits
  for or configures it does to the library of its device exactly what that library's function
  does on the device job, returns the same code (checking also the same status), and changes
  nothing else; and each function that asks about it gives exactly the answer of the library. The
  one exception is the status of a program without an out-pointer, which the driver refuses by
  itself.\<close>

theorem jobs_are_forwarded:
  assumes "driver_devices env ok ses jbs" and "drv_reachable env ws st"
    and "worlds_ok ok ws" and "live_in ses ws = {}" and "live_in jbs ws = {}"
    and "cl_jobs st p = Some j"
  defines "lib \<equiv> job_lib st p" and "h \<equiv> job_device_job j"
  defines "w \<equiv> worlds st (key_of lib)"
    and "done \<equiv> (\<lambda>(r, w'). Inr (r, st\<lparr>worlds := (worlds st)(key_of lib := w')\<rparr>))"
  shows "QDMI_job_submit p st = bind_o (device_job_submit (fns lib) h w) done \<and>
    QDMI_job_cancel p st = bind_o (device_job_cancel (fns lib) h w) done \<and>
    QDMI_job_check p out st = bind_o (device_job_check (fns lib) h out w) (\<lambda>(r, s, w').
      Inr (r, s, st\<lparr>worlds := (worlds st)(key_of lib := w')\<rparr>)) \<and>
    QDMI_job_wait p timeout st = bind_o (device_job_wait (fns lib) h timeout w) done \<and>
    QDMI_job_set_parameter p param sz v st = bind_o (device_job_set_parameter (fns lib) h param sz v w) done \<and>
    QDMI_job_set_programs p format count sizes progs st =
      bind_o (device_job_set_programs (fns lib) h format count sizes progs w) done \<and>
    QDMI_job_query_property st p prop sz v sr = device_job_query_property (fns lib) w h prop sz v sr \<and>
    QDMI_job_get_program st p i sz v sr = device_job_get_program (fns lib) w h i sz v sr \<and>
    QDMI_job_get_results st p i res sz v sr = device_job_get_results (fns lib) w h i res sz v sr \<and>
    QDMI_job_get_program_status st p i out =
      (if out then device_job_get_program_status (fns lib) w h i out
       else Inr (QDMI_ERROR_INVALIDARGUMENT, None)) \<and>
    h \<in> jbs w"
proof -
  note job = live_job [OF reach_inv [OF assms(1-5)] assms(6)]
  have "p \<noteq> 0" using job(1) by simp
  have change: "change_job st p f = bind_o (f (fns lib) h w) done" for f
    by (simp add: change_job_def job(2) in_lib_def lib_def h_def w_def done_def bind_o_assoc case_prod_unfold)
  have ask: "ask_job st p f = f (fns lib) w h" for f :: "_ \<Rightarrow> _ \<Rightarrow> _ \<Rightarrow> 'd outcome"
    by (simp add: ask_job_def job(2) lib_def h_def w_def)
  have check: "QDMI_job_check p out st = bind_o (device_job_check (fns lib) h out w) (\<lambda>(r, s, w').
      Inr (r, s, st\<lparr>worlds := (worlds st)(key_of lib := w')\<rparr>))"
    using \<open>p \<noteq> 0\<close> by (simp add: QDMI_job_check_def job(2) in_lib_out_def lib_def h_def w_def bind_o_assoc case_prod_unfold)
  show ?thesis unfolding check using \<open>p \<noteq> 0\<close> job(4)
    by (simp add: QDMI_job_get_program_status_def QDMI_job_submit_def QDMI_job_cancel_def QDMI_job_wait_def QDMI_job_set_parameter_def
        QDMI_job_set_programs_def QDMI_job_query_property_def QDMI_job_get_program_def QDMI_job_get_results_def
        change ask lib_def [symmetric] h_def [symmetric] w_def [symmetric])
qed

theorem jobs_are_forwarded_witness:
  "QDMI_job_get_program job_driver 65539 0 0 None True =
     CXX_QDMI_device_job_get_program (worlds job_driver (4096, ''CXX'')) 65538 0 0 None True"
proof -
  have j: "cl_jobs job_driver 65539 = Some \<lparr>job_device = 65538, job_device_job = 65538\<rparr>"
    by (simp add: job_driver_def)
  have lib: "job_lib job_driver 65539 = cxx_library"
    by (simp add: job_lib_def device_lib_def job_driver_def one_session_def sample_devices_def)
  from jobs_are_forwarded [OF two_devices_contract drv_reach(5) offline_idle j, where sz = 0 and v = None]
  show ?thesis by (simp add: lib) (simp add: cxx_library_def cxx_fns_def key_of_def)
qed

end
