(* ===== verification/Driver_Ready.thy ===== *)
theory Driver_Ready
  imports Driver_Properties
begin

text \<open>
  Between the calls of a client no library has a device session that was allocated and not
  initialized: \<open>QDMI_session_init\<close> frees a device session it could not initialize. The locale
  \<open>device_progress\<close> is what a library has to promise for that, \<open>ready_devices\<close> the driver on such
  libraries. So every device a client sees can be used.
\<close>

section \<open>The contract\<close>

text \<open>\<open>unr\<close>: the device sessions of a library that are not initialized.\<close>

locale device_progress =
  fixes d :: "'w device_fns" and unr :: "'w \<Rightarrow> ptr set"
  assumes initialize_unr: "device_initialize d w = Inr (r, w') \<Longrightarrow> unr w' \<subseteq> unr w"
    and finalize_unr: "device_finalize d w = Inr (r, w') \<Longrightarrow> unr w' \<subseteq> unr w"
    and alloc_unr: "device_session_alloc d True w = Inr (r, out, w') \<Longrightarrow> 
      unr w' \<subseteq> unr w \<union> (set_option out - {nullptr})"
    and set_session_unr: "device_session_set_parameter d p param sz v w = Inr (r, w') \<Longrightarrow> unr w' \<subseteq> unr w"
    and init_unr: "device_session_init d p w = Inr (r, w') \<Longrightarrow>
      unr w' \<subseteq> (if r = QDMI_SUCCESS then unr w - {p} else unr w)"
    and free_unr: "device_session_free d p w = Inr w' \<Longrightarrow> unr w' \<subseteq> unr w - {p}"
    and create_unr: "device_session_create_device_job d p True w = Inr (r, out, w') \<Longrightarrow> unr w' \<subseteq> unr w"
    and retrieve_unr: "device_session_retrieve_device_job_by_id d = Some retrieve \<Longrightarrow>
      retrieve p jid True w = Inr (r, out, w') \<Longrightarrow> unr w' \<subseteq> unr w"
    and job_free_unr: "device_job_free d j w = Inr w' \<Longrightarrow> unr w' \<subseteq> unr w"
    and set_job_unr: "device_job_set_parameter d j param sz v w = Inr (r, w') \<Longrightarrow> unr w' \<subseteq> unr w"
    and set_programs_unr: "device_job_set_programs d j f n sizes ps w = Inr (r, w') \<Longrightarrow> unr w' \<subseteq> unr w"
    and submit_unr: "device_job_submit d j w = Inr (r, w') \<Longrightarrow> unr w' \<subseteq> unr w"
    and cancel_unr: "device_job_cancel d j w = Inr (r, w') \<Longrightarrow> unr w' \<subseteq> unr w"
    and check_unr: "device_job_check d j b w = Inr (r, s, w') \<Longrightarrow> unr w' \<subseteq> unr w"
    and wait_unr: "device_job_wait d j n w = Inr (r, w') \<Longrightarrow> unr w' \<subseteq> unr w"

locale ready_devices = driver_devices env ok ses jbs
  for env :: "'w driver_env" and ok :: "'w \<Rightarrow> bool" and ses jbs :: "'w \<Rightarrow> ptr set" +
  fixes unr :: "'w \<Rightarrow> ptr set"
  assumes progress: "dl_open env name = Some h \<Longrightarrow> symbols_found env h pfx \<Longrightarrow>
    device_progress (loaded_fns env h pfx) unr"

section \<open>Uninitialized device sessions of all libraries\<close>

lemma live_in_mono_upd: "f w' \<subseteq> f (ws k) \<Longrightarrow> live_in f (ws(k := w')) \<subseteq> live_in f ws"
  by (auto simp: live_in_def split: if_splits)

lemma live_in_mono_remove: "f w' \<subseteq> f (ws k) - {p} \<Longrightarrow> live_in f (ws(k := w')) \<subseteq> live_in f ws - {(k, p)}"
  by (auto simp: live_in_def split: if_splits)

lemma live_in_mono_insert:
  "f w' \<subseteq> f (ws k) \<union> A \<Longrightarrow> live_in f (ws(k := w')) \<subseteq> live_in f ws \<union> Pair k ` A"
  by (auto simp: live_in_def split: if_splits)

text \<open>Libraries that promise it.\<close>

definition progressing :: "('w \<Rightarrow> ptr set) \<Rightarrow> 'w QDMI_Library list \<Rightarrow> bool" where
  "progressing unr libs \<longleftrightarrow> list_all (\<lambda>lib. device_progress (fns lib) unr) libs"

lemma progressing_simps [simp]:
  "progressing unr []"
  "progressing unr (lib # libs) \<longleftrightarrow> device_progress (fns lib) unr \<and> progressing unr libs"
  "progressing unr (libs @ libs') \<longleftrightarrow> progressing unr libs \<and> progressing unr libs'"
  by (simp_all add: progressing_def)

lemma progressing_nth: "progressing unr libs \<Longrightarrow> i < length libs \<Longrightarrow> device_progress (fns (libs ! i)) unr"
  by (simp add: progressing_def list_all_length)

section \<open>Loading and unloading\<close>

lemma destroy_library_unr:
  assumes "destroy_library lib (rs, ws) = Inr (rs', ws')" and "device_progress (fns lib) unr"
  shows "live_in unr ws' \<subseteq> live_in unr ws"
proof (cases "lib_initialized lib")
  case True
  then obtain r w' where "device_finalize (fns lib) (ws (key_of lib)) = Inr (r, w')"
    and "ws' = ws(key_of lib := w')"
    using assms(1) by (auto simp: destroy_library_def in_lib_def bind_o_eq_Inr)
  then show ?thesis using live_in_mono_upd [where f = unr] device_progress.finalize_unr [OF assms(2)] by metis
qed (use assms(1) in \<open>simp add: destroy_library_def\<close>)

lemma destroy_libraries_unr:
  "destroy_libraries libs (rs, ws) = Inr (rs', ws') \<Longrightarrow> progressing unr libs \<Longrightarrow>
     live_in unr ws' \<subseteq> live_in unr ws"
proof (induction libs arbitrary: rs ws)
  case (Cons lib libs)
  then obtain rs1 ws1 where "destroy_library lib (rs, ws) = Inr (rs1, ws1)"
    and "destroy_libraries libs (rs1, ws1) = Inr (rs', ws')"
    by (auto simp: bind_o_eq_Inr)
  then show ?case using destroy_library_unr [of lib rs ws rs1 ws1 unr] Cons.IH [of rs1 ws1] Cons.prems(2)
    by auto
qed simp

context ready_devices
begin

lemma library_load_unr:
  assumes "QDMI_library_load env fails i libs name pfx (rs, ws) = Inr (r, libs', rs', ws')"
    and "progressing unr libs"
  shows "progressing unr libs' \<and> live_in unr ws' \<subseteq> live_in unr ws"
proof (cases "\<exists>h. \<not> fails (6 * i + 3) \<and> \<not> fails (6 * i + 4) \<and> dl_open env name = Some h \<and> find_library libs h pfx = None \<and>
    symbols_found env h pfx")
  case False
  then show ?thesis using assms
    by (auto simp: QDMI_library_load_def Let_def split: if_splits option.splits)
next
  case True
  then obtain h where h: "\<not> fails (6 * i + 3)" "\<not> fails (6 * i + 4)" "dl_open env name = Some h" "find_library libs h pfx = None"
    "symbols_found env h pfx" by blast
  note f = progress [OF h(3,5)]
  show ?thesis
  proof (cases "in_lib (h, pfx) (device_initialize (loaded_fns env h pfx)) ws")
    case (Inl e)
    then show ?thesis using assms h by (auto simp: QDMI_library_load_def Let_def split: option.splits)
  next
    case (Inr x)
    then obtain r1 w1 where init: "device_initialize (loaded_fns env h pfx) (ws (h, pfx)) = Inr (r1, w1)"
      and x: "x = (r1, ws((h, pfx) := w1))"
      by (auto simp: in_lib_def bind_o_eq_Inr)
    have ws1: "live_in unr (ws((h, pfx) := w1)) \<subseteq> live_in unr ws"
      by (rule live_in_mono_upd) (rule device_progress.initialize_unr [OF f init])
    let ?lib = "\<lparr>lib_handle = h, lib_prefix = pfx, lib_initialized = True, fns = loaded_fns env h pfx\<rparr>"
    have "(libs' = libs \<or> libs' = libs @ [?lib]) \<and> (ws' = ws((h, pfx) := w1) \<or>
        (\<exists>rs1. destroy_library ?lib (rs1, ws((h, pfx) := w1)) = Inr (rs', ws')))"
      using assms(1) h Inr x
      by (simp add: QDMI_library_load_def Let_def bind_o_eq_Inr split: if_split_asm) blast+
    then show ?thesis
      using assms(2) f ws1 destroy_library_unr [of ?lib _ "ws((h, pfx) := w1)" rs' ws' unr] by auto
  qed
qed

lemma load_lines_unr:
  "load_lines env fails i ls cfg libs (rs, ws) = Inr (r, libs', rs', ws') \<Longrightarrow> progressing unr libs \<Longrightarrow>
     progressing unr libs' \<and> live_in unr ws' \<subseteq> live_in unr ws"
proof (induction ls arbitrary: i cfg libs rs ws)
  case (Cons line ls)
  show ?case
  proof (cases "skipped line")
    case False
    show ?thesis
    proof (cases "\<not> fails (6 * i + 1) \<and> \<not> fails (6 * i + 2) \<and>
        (\<exists>name pfx ident. tokens [] line = [name, pfx, ident] \<and> ident \<notin> snd ` set cfg)")
      case False
      then have "libs' = libs \<and> ws' = ws"
        using Cons.prems(1) \<open>\<not> skipped line\<close> by (auto split: list.splits if_splits)
      then show ?thesis using Cons.prems(2) by simp
    next
      case True
      then obtain name pfx ident where t: "tokens [] line = [name, pfx, ident]" "ident \<notin> snd ` set cfg"
          "\<not> fails (6 * i + 1)" "\<not> fails (6 * i + 2)"
        by blast
      with Cons.prems(1) \<open>\<not> skipped line\<close> obtain r1 libs1 rs1 ws1 where
        load: "QDMI_library_load env fails i libs name pfx (rs, ws) = Inr (r1, libs1, rs1, ws1)"
        and rest: "(case r1 of
            Inl x \<Rightarrow> libs' = libs1 \<and> ws' = ws1
          | Inr k \<Rightarrow> libs' = libs1 \<and> ws' = ws1 \<or>
              load_lines env fails (i + 1) ls (cfg @ [(k, ident)]) libs1 (rs1, ws1) = Inr (r, libs', rs', ws'))"
        by (fastforce simp: bind_o_eq_Inr split: sum.splits std_exn.splits if_splits)
      note load = library_load_unr [OF load Cons.prems(2)]
      show ?thesis
      proof (cases "libs' = libs1 \<and> ws' = ws1")
        case False
        with rest obtain k where
          "load_lines env fails (i + 1) ls (cfg @ [(k, ident)]) libs1 (rs1, ws1) = Inr (r, libs', rs', ws')"
          by (cases r1) auto
        from Cons.IH [OF this] load show ?thesis by (meson subset_trans)
      qed (use load in simp)
    qed
  qed (use Cons in auto)
qed simp

lemma initialize_driver_unr:
  assumes "QDMI_initialize_driver env fails (rs, ws) = Inr (r, rs', ws')"
  shows "live_in unr ws' \<subseteq> live_in unr ws \<and> (\<forall>libs cfg. r = Inr (libs, cfg) \<longrightarrow> progressing unr libs)"
proof (cases "fails 0 \<or> (\<exists>e. config_lines env = Inl e)")
  case True
  then show ?thesis using assms by (auto simp: QDMI_initialize_driver_def split: if_splits)
next
  case False
  then obtain ls where ls: "\<not> fails 0" "config_lines env = Inr ls" by (cases "config_lines env") auto
  with assms obtain r1 libs rs1 ws1 where load: "load_lines env fails 0 ls [] [] (rs, ws) = Inr (r1, libs, rs1, ws1)"
    and rest: "(case r1 of
        Inl e \<Rightarrow> r = Inl e \<and> destroy_libraries libs (rs1, ws1) = Inr (rs', ws')
      | Inr cfg \<Rightarrow> r = Inr (libs, cfg) \<and> ws' = ws1)"
    by (fastforce simp: QDMI_initialize_driver_def bind_o_eq_Inr split: sum.splits)
  then show ?thesis
    using load_lines_unr [OF load] destroy_libraries_unr [of libs rs1 ws1 rs' ws' unr]
    by (cases r1) auto
qed

end

section \<open>Opening and closing devices\<close>

lemma destroy_device_unr:
  assumes "destroy_device libs d ws = Inr ws'" and "progressing unr libs"
  shows "live_in unr ws' \<subseteq> live_in unr ws - (if dev_device_session d = nullptr then {} else {dkey libs d})"
proof (cases "dev_device_session d = nullptr")
  case False
  let ?lib = "libs ! dev_library d"
  have d: "dev_library d < length libs" using assms(1) False by (simp add: destroy_device_def split: if_splits)
  then obtain w' where "device_session_free (fns ?lib) (dev_device_session d) (ws (key_of ?lib)) = Inr w'"
    and ws': "ws' = ws(key_of ?lib := w')"
    using assms(1) False by (auto simp: destroy_device_def in_lib_void_def bind_o_eq_Inr Let_def)
  from device_progress.free_unr [OF progressing_nth [OF assms(2) d] this(1)] show ?thesis
    using live_in_mono_remove [of unr w' ws "key_of ?lib"] False ws' by (simp add: dkey_def)
qed (use assms(1) in \<open>simp add: destroy_device_def\<close>)

lemma destroy_devices_unr:
  "destroy_devices libs devs ws = Inr ws' \<Longrightarrow> progressing unr libs \<Longrightarrow> live_in unr ws' \<subseteq> live_in unr ws"
proof (induction devs arbitrary: ws)
  case (Cons d devs)
  then obtain ws1 where ws1: "destroy_device libs d ws = Inr ws1" "destroy_devices libs devs ws1 = Inr ws'"
    by (auto simp: bind_o_eq_Inr)
  have "live_in unr ws1 \<subseteq> live_in unr ws" using destroy_device_unr [OF ws1(1) Cons.prems(2)] by blast
  then show ?case using Cons.IH [OF ws1(2) Cons.prems(2)] by (rule order_trans [rotated])
qed simp

lemma catch_status_eq_Inr: "catch_status m = Inr (Inr x) \<longleftrightarrow> m = Inr x"
  by (auto simp: catch_status_def split: sum.splits option.splits std_exn.splits)

lemma in_lib_eq_Inr:
  "in_lib k f ws = Inr x \<longleftrightarrow> (\<exists>r w. f (ws k) = Inr (r, w) \<and> x = (r, ws(k := w)))"
  "in_lib_out k g ws = Inr y \<longleftrightarrow> (\<exists>r out w. g (ws k) = Inr (r, out, w) \<and> y = (r, out, ws(k := w)))"
  by (auto simp: in_lib_def in_lib_out_def bind_o_eq_Inr)

text \<open>After the allocation: the token and the initialization.\<close>

lemma init_device_unr:
  assumes "bind_o (catch_status (in_lib (key_of lib) (device_session_init (fns lib) q) ws)) (\<lambda>c. case c of
      Inl e \<Rightarrow> Inr (Some e, dev, ws)
    | Inr (r, ws3) \<Rightarrow> Inr (if r \<noteq> QDMI_SUCCESS then Some r else None, dev, ws3)) = Inr (failure, dev', ws')"
    and "device_progress (fns lib) unr"
  shows "dev' = dev \<and> live_in unr ws' \<subseteq> live_in unr ws - (if failure = None then {(key_of lib, q)} else {})"
proof -
  obtain c where "catch_status (in_lib (key_of lib) (device_session_init (fns lib) q) ws) = Inr c"
    and c: "(case c of Inl e \<Rightarrow> Inr (Some e, dev, ws)
    | Inr (r, ws3) \<Rightarrow> Inr (if r \<noteq> QDMI_SUCCESS then Some r else None, dev, ws3)) =
      (Inr (failure, dev', ws') :: _ outcome)"
    using assms(1) by (auto simp: bind_o_eq_Inr)
  then show ?thesis
  proof (cases c)
    case (Inr x)
    then obtain r w' where x: "x = (r, ws(key_of lib := w'))"
      and init: "device_session_init (fns lib) q (ws (key_of lib)) = Inr (r, w')"
      using \<open>catch_status _ = Inr c\<close> by (auto simp: catch_status_eq_Inr in_lib_eq_Inr)
    then show ?thesis using c Inr device_progress.init_unr [OF assms(2) init]
        live_in_mono_upd [of unr w' ws "key_of lib"] live_in_mono_remove [of unr w' ws "key_of lib" q]
      by (auto split: if_splits)
  qed auto
qed

lemma configure_device_unr:
  assumes run: "bind_o (catch_status (in_lib (key_of lib) (device_session_set_parameter (fns lib) q param sz v) ws))
      (\<lambda>b. case b of
        Inl e \<Rightarrow> Inr (Some e, dev, ws)
      | Inr (r, ws2) \<Rightarrow>
          if r \<noteq> QDMI_SUCCESS \<and> r \<noteq> QDMI_ERROR_NOTSUPPORTED then Inr (Some r, dev, ws2)
          else bind_o (catch_status (in_lib (key_of lib) (device_session_init (fns lib) q) ws2)) (\<lambda>c.
            case c of Inl e \<Rightarrow> Inr (Some e, dev, ws2)
            | Inr (r, ws3) \<Rightarrow> Inr (if r \<noteq> QDMI_SUCCESS then Some r else None, dev, ws3))) =
      Inr (failure, dev', ws')"
    and prog: "device_progress (fns lib) unr"
  shows "dev' = dev \<and> live_in unr ws' \<subseteq> live_in unr ws - (if failure = None then {(key_of lib, q)} else {})"
proof -
  obtain b where b: "catch_status (in_lib (key_of lib) (device_session_set_parameter (fns lib) q param sz v) ws) = Inr b"
    using run by (auto simp: bind_o_eq_Inr)
  show ?thesis
  proof (cases b)
    case (Inl e)
    then show ?thesis using run b by auto
  next
    case (Inr y)
    then obtain r w2 where y: "y = (r, ws(key_of lib := w2))"
      and set: "device_session_set_parameter (fns lib) q param sz v (ws (key_of lib)) = Inr (r, w2)"
      using b by (auto simp: catch_status_eq_Inr in_lib_eq_Inr)
    have set: "live_in unr (ws(key_of lib := w2)) \<subseteq> live_in unr ws"
      using live_in_mono_upd [where f = unr] device_progress.set_session_unr [OF prog set] by blast
    show ?thesis
    proof (cases "r \<noteq> QDMI_SUCCESS \<and> r \<noteq> QDMI_ERROR_NOTSUPPORTED")
      case True
      then show ?thesis using run b Inr y set by auto
    next
      case False
      with run b Inr y
      have "dev' = dev \<and> live_in unr ws' \<subseteq> live_in unr (ws(key_of lib := w2)) -
          (if failure = None then {(key_of lib, q)} else {})"
        by (intro init_device_unr [OF _ prog]) simp
      then show ?thesis using set by (auto split: if_splits)
    qed
  qed
qed

lemma open_device_unr:
  assumes run: "open_device lib t dev ws = Inr (failure, dev', ws')"
    and prog: "device_progress (fns lib) unr" and null: "dev_device_session dev = nullptr"
  shows "dev_library dev' = dev_library dev \<and>
    live_in unr ws' \<subseteq> live_in unr ws \<union>
      (if failure = None \<or> dev_device_session dev' = nullptr then {} else {(key_of lib, dev_device_session dev')})"
proof -
  let ?k = "key_of lib"
  obtain a where a: "catch_status (in_lib_out ?k (device_session_alloc (fns lib) True) ws) = Inr a"
    using run by (auto simp: open_device_def bind_o_eq_Inr)
  show ?thesis
  proof (cases a)
    case (Inl e)
    then show ?thesis using run a null by (simp add: open_device_def)
  next
    case (Inr x)
    with a obtain r out w1 where x: "x = (r, out, ws(?k := w1))"
      and alloc: "device_session_alloc (fns lib) True (ws ?k) = Inr (r, out, w1)"
      by (auto simp: catch_status_eq_Inr in_lib_eq_Inr)
    define dev1 where "dev1 = (case out of None \<Rightarrow> dev | Some q \<Rightarrow> dev\<lparr>dev_device_session := q\<rparr>)"
    have lib: "dev_library dev1 = dev_library dev" by (simp add: dev1_def split: option.splits)
    have alloc: "live_in unr (ws(?k := w1)) \<subseteq> live_in unr ws \<union>
        (if dev_device_session dev1 = nullptr then {} else {(?k, dev_device_session dev1)})"
      using live_in_mono_insert [of unr w1 ws ?k "set_option out - {nullptr}",
        OF device_progress.alloc_unr [OF prog alloc]] null
      by (auto simp: dev1_def split: option.splits if_splits)
    show ?thesis
    proof (cases "r = QDMI_SUCCESS")
      case False
      then show ?thesis using run a Inr x alloc lib by (auto simp: open_device_def dev1_def [symmetric])
    next
      case True
      with run a Inr x have "dev' = dev1 \<and> live_in unr ws' \<subseteq> live_in unr (ws(?k := w1)) -
          (if failure = None then {(?k, dev_device_session dev1)} else {})"
        by (intro configure_device_unr [OF _ prog]) (simp add: open_device_def dev1_def [symmetric])
      then show ?thesis using alloc lib by (auto split: if_splits)
    qed
  qed
qed

lemma open_devices_unr:
  "open_devices libs fails t session i cfg devs ws = Inr (r, ws') \<Longrightarrow> progressing unr libs \<Longrightarrow>
     live_in unr ws' \<subseteq> live_in unr ws"
proof (induction cfg arbitrary: i devs ws)
  case (Cons e cfg)
  obtain lib ident where e: "e = (lib, ident)" by (cases e)
  note destroyed = destroy_devices_unr [OF _ Cons.prems(2)]
  show ?case
  proof (cases "fails (2 * i)")
    case True
    then show ?thesis using Cons.prems(1) e destroyed by (auto simp: bind_o_eq_Inr)
  next
    case False
    let ?dev = "\<lparr>dev_library = lib, dev_session = session, dev_device_session = nullptr, dev_id = ident\<rparr>"
    have lib: "lib < length libs" using Cons.prems(1) e False by (simp split: if_splits)
    obtain failure dev ws1 where open1: "open_device (libs ! lib) t ?dev ws = Inr (failure, dev, ws1)"
      using Cons.prems(1) e False lib by (auto simp: bind_o_eq_Inr)
    note new = open_device_unr [OF open1 progressing_nth [OF Cons.prems(2) lib]]
    show ?thesis
    proof (cases "failure = None \<and> \<not> fails (2 * i + 1)")
      case True
      then have "open_devices libs fails t session (i + 1) cfg (devs @ [dev]) ws1 = Inr (r, ws')"
        using Cons.prems(1) e False lib open1 by simp
      from Cons.IH [OF this Cons.prems(2)] show ?thesis using new True by auto
    next
      case failed: False
      then obtain ws2 where "destroy_device libs dev ws1 = Inr ws2" "destroy_devices libs devs ws2 = Inr ws'"
        using Cons.prems(1) e False lib open1
        by (auto simp: bind_o_eq_Inr split: option.split_asm if_split_asm)
      from destroy_device_unr [OF this(1) Cons.prems(2)] destroyed [OF this(2)] show ?thesis
        using new by (auto simp: dkey_def simp del: live_in_iff split: if_splits)
    qed
  qed
qed simp

section \<open>Every call\<close>

text \<open>\<open>readies\<close>: the call leaves no more uninitialized device sessions than there were.\<close>

definition readies :: "('w \<Rightarrow> ptr set) \<Rightarrow> 'w driver \<Rightarrow> 'w driver \<Rightarrow> bool" where
  "readies unr st st' \<longleftrightarrow> live_in unr (worlds st') \<subseteq> live_in unr (worlds st)"

lemma readies_same [simp]: "readies unr st st" "worlds st' = worlds st \<Longrightarrow> readies unr st st'"
  by (simp_all add: readies_def)

lemma readies_upd: "worlds st' = (worlds st)(k := w') \<Longrightarrow> unr w' \<subseteq> unr (worlds st k) \<Longrightarrow> readies unr st st'"
  by (simp add: readies_def live_in_mono_upd)

lemma session_init_unr:
  assumes "QDMI_session_init fails p st = Inr (r, st')" and "progressing unr (libraries st)"
  shows "readies unr st st'"
proof (cases "worlds st' = worlds st")
  case False
  with assms(1) obtain s t where "p \<noteq> nullptr" "cl_sessions st p = Some s" "ses_status s = Session_ALLOCATED"
    "ses_token s = Some t"
    by (auto simp: QDMI_session_init_def bind_o_eq_Inr split: if_split_asm option.split_asm)
  note run = assms(1) this
  then obtain x ws where opened: "open_devices (libraries st) fails t p 0 (configured_devices st) []
      (worlds st) = Inr (x, ws)"
    by (auto simp: QDMI_session_init_def bind_o_eq_Inr Let_def)
  have "worlds st' = ws" using run opened by (cases x) (auto simp: QDMI_session_init_def Let_def)
  then show ?thesis using open_devices_unr [OF opened assms(2)] by (simp add: readies_def)
qed simp

lemma session_free_unr:
  assumes "QDMI_session_free p st = Inr st'" and "progressing unr (libraries st)"
  shows "readies unr st st'"
proof (cases "p = nullptr")
  case False
  with assms(1) obtain devs ws1 where
    devs: "destroy_devices (libraries st) devs (worlds st) = Inr ws1"
    and libs: "worlds st' = ws1 \<or> (\<exists>rs. destroy_libraries (libraries st) (refs st, ws1) = Inr (rs, worlds st'))"
    by (fastforce simp: QDMI_session_free_def bind_o_eq_Inr Let_def split: if_splits)
  from libs have "live_in unr (worlds st') \<subseteq> live_in unr ws1"
    using destroy_libraries_unr [OF _ assms(2)] by blast
  then show ?thesis
    using destroy_devices_unr [OF devs assms(2)] unfolding readies_def by (rule order_trans)
qed (use assms(1) in \<open>simp add: QDMI_session_free_def\<close>)

lemma library_of_mem: "library_of st d = Inr lib \<Longrightarrow> lib \<in> set (libraries st)"
  by (auto simp: library_of_def split: if_splits)

lemma on_job_library:
  assumes "on_job st p f = Inr y"
  shows "\<exists>j lib. lib \<in> set (libraries st) \<and> f lib j = Inr y"
  using assms library_of_mem unfolding on_job_def bind_o_eq_Inr by metis

lemma progressing_mem: "progressing unr libs \<Longrightarrow> lib \<in> set libs \<Longrightarrow> device_progress (fns lib) unr"
  by (simp add: progressing_def list_all_iff)

lemma change_job_unr:
  assumes "change_job st p f = Inr (r, st')" and "progressing unr (libraries st)"
    and "\<And>d w j r w'. device_progress d unr \<Longrightarrow> f d j w = Inr (r, w') \<Longrightarrow> unr w' \<subseteq> unr w"
  shows "readies unr st st'"
proof -
  obtain ws where run: "on_job st p (\<lambda>lib j. in_lib (key_of lib) (f (fns lib) j) (worlds st)) = Inr (r, ws)"
    and st': "st' = st\<lparr>worlds := ws\<rparr>"
    using assms(1) by (auto simp: change_job_def bind_o_eq_Inr)
  from on_job_library [OF run] obtain j lib w' where lib: "lib \<in> set (libraries st)"
    and f: "f (fns lib) j (worlds st (key_of lib)) = Inr (r, w')" and ws: "ws = (worlds st)(key_of lib := w')"
    by (auto simp: in_lib_eq_Inr)
  then show ?thesis
    using readies_upd [of st' st "key_of lib" w' unr] assms(3) [OF progressing_mem [OF assms(2) lib] f] st' ws
    by simp
qed

lemma job_free_readies:
  assumes "QDMI_job_free p st = Inr st'" and "progressing unr (libraries st)"
  shows "readies unr st st'"
proof (cases "p = nullptr")
  case False
  then obtain ws where run: "on_job st p (\<lambda>lib j. in_lib_void (key_of lib) (device_job_free (fns lib) j) (worlds st)) = Inr ws"
    and st': "worlds st' = ws"
    using assms(1) by (auto simp: QDMI_job_free_def bind_o_eq_Inr)
  from on_job_library [OF run] obtain j lib w' where lib: "lib \<in> set (libraries st)"
    and f: "device_job_free (fns lib) j (worlds st (key_of lib)) = Inr w'" and ws: "ws = (worlds st)(key_of lib := w')"
    by (auto simp: in_lib_void_def bind_o_eq_Inr)
  then show ?thesis
    using readies_upd [of st' st "key_of lib" w' unr] device_progress.job_free_unr [OF progressing_mem [OF assms(2) lib] f] st' ws
    by simp
qed (use assms(1) in \<open>simp add: QDMI_job_free_def\<close>)

lemma job_check_readies:
  assumes "QDMI_job_check p out st = Inr (r, s, st')" and "progressing unr (libraries st)"
  shows "readies unr st st'"
proof (cases "p = nullptr")
  case False
  then obtain ws where run: "on_job st p (\<lambda>lib j. in_lib_out (key_of lib) (device_job_check (fns lib) j out) (worlds st)) =
      Inr (r, s, ws)" and st': "worlds st' = ws"
    using assms(1) by (auto simp: QDMI_job_check_def bind_o_eq_Inr)
  from on_job_library [OF run] obtain j lib w' where lib: "lib \<in> set (libraries st)"
    and f: "device_job_check (fns lib) j out (worlds st (key_of lib)) = Inr (r, s, w')"
    and ws: "ws = (worlds st)(key_of lib := w')"
    by (auto simp: in_lib_eq_Inr)
  then show ?thesis
    using readies_upd [of st' st "key_of lib" w' unr] device_progress.check_unr [OF progressing_mem [OF assms(2) lib] f] st' ws
    by simp
qed (use assms(1) in \<open>simp add: QDMI_job_check_def\<close>)

lemma create_job_readies:
  assumes "QDMI_device_create_job oom p out st = Inr (r, q, st')" and "progressing unr (libraries st)"
  shows "readies unr st st'"
proof (cases "worlds st' = worlds st")
  case False
  with assms(1) obtain d lib r1 x where lib: "library_of st d = Inr lib"
    and run: "in_lib_out (key_of lib) (device_session_create_device_job (fns lib) (dev_device_session d) True)
      (worlds st) = Inr (r1, x, worlds st')"
    by (fastforce simp: QDMI_device_create_job_def bind_o_eq_Inr split: if_splits)
  note prog = progressing_mem [OF assms(2) library_of_mem [OF lib]]
  from run show ?thesis
    by (auto simp: in_lib_eq_Inr intro!: readies_upd dest: device_progress.create_unr [OF prog])
qed simp

lemma retrieve_job_readies:
  assumes "QDMI_session_retrieve_job_by_id oom p jid out st = Inr (r, q, st')" and "progressing unr (libraries st)"
  shows "readies unr st st'"
proof (cases "worlds st' = worlds st")
  case False
  with assms(1) obtain d lib retrieve r1 x where lib: "library_of st d = Inr lib"
    and f: "device_session_retrieve_device_job_by_id (fns lib) = Some retrieve"
    and run: "in_lib_out (key_of lib) (retrieve (dev_device_session d) jid True) (worlds st) = Inr (r1, x, worlds st')"
    by (fastforce simp: QDMI_session_retrieve_job_by_id_def bind_o_eq_Inr split: if_splits option.splits)
  note prog = progressing_mem [OF assms(2) library_of_mem [OF lib]]
  from run show ?thesis
    by (auto simp: in_lib_eq_Inr intro!: readies_upd dest: device_progress.retrieve_unr [OF prog f])
qed simp

definition calm :: "('w \<Rightarrow> ptr set) \<Rightarrow> ('w device_fns \<Rightarrow> ptr \<Rightarrow> 'w \<Rightarrow> (QDMI_STATUS \<times> 'w) outcome) \<Rightarrow> bool" where
  "calm unr f \<longleftrightarrow> (\<forall>d w j r w'. device_progress d unr \<longrightarrow> f d j w = Inr (r, w') \<longrightarrow> unr w' \<subseteq> unr w)"

lemma job_calls_calm:
  "calm unr (\<lambda>f j. device_job_set_parameter f j param sz v)"
  "calm unr (\<lambda>f j. device_job_set_programs f j format count sizes progs)"
  "calm unr (\<lambda>f j. device_job_submit f j)"
  "calm unr (\<lambda>f j. device_job_cancel f j)"
  "calm unr (\<lambda>f j. device_job_wait f j timeout)"
  unfolding calm_def
  by (blast dest: device_progress.set_job_unr device_progress.set_programs_unr device_progress.submit_unr
      device_progress.cancel_unr device_progress.wait_unr)+

lemma forwarded_readies:
  assumes "forwards (Inr (r, st')) p f st" and "calm unr f" and "progressing unr (libraries st)"
  shows "readies unr st st'"
proof (cases "p = nullptr")
  case False
  then have "change_job st p f = Inr (r, st')" using assms(1) by (simp add: forwards_def)
  from change_job_unr [OF this assms(3)] assms(2) show ?thesis by (simp add: calm_def)
qed (use assms(1) in \<open>simp add: forwards_def\<close>)

text \<open>The calls on one job but \<open>QDMI_job_check\<close>.\<close>

lemma job_call_forwards:
  assumes "drv_exec env c st = Inr st'" and "job_call c" and "\<forall>p out. c \<noteq> Client_job_check p out"
  shows "\<exists>r p f. forwards (Inr (r, st')) p f st \<and> calm unr f"
  using assms by (cases c) (simp_all add: last_of_Inr, (metis job_calls_forward job_calls_calm)+)

context ready_devices
begin

lemma session_alloc_readies:
  assumes "QDMI_session_alloc env oom fails out st = Inr (r, q, st')" and "progressing unr (libraries st)"
  shows "readies unr st st'"
proof (cases "worlds st' = worlds st")
  case False
  with assms(1) obtain i rs ws where "out" "\<not> oom" "session_count st = 0"
    and init: "QDMI_initialize_driver env fails (refs st, worlds st) = Inr (i, rs, ws)"
    by (auto simp: QDMI_session_alloc_def Let_def bind_o_eq_Inr split: if_split_asm)
  with assms(1) have "case i of Inl e \<Rightarrow> worlds st' = ws | Inr lc \<Rightarrow>
      \<exists>rs'. destroy_libraries (libraries st) (rs, ws) = Inr (rs', worlds st')"
    by (fastforce simp: QDMI_session_alloc_def Let_def bind_o_eq_Inr split: sum.splits prod.splits)
  then have "live_in unr (worlds st') \<subseteq> live_in unr ws"
    using destroy_libraries_unr [OF _ assms(2)] by (cases i) (simp, fastforce simp del: live_in_iff)
  then show ?thesis
    using initialize_driver_unr [OF init] unfolding readies_def by (meson subset_trans)
qed simp

lemma inv_progressing: "driver_inv env ok ses jbs st \<Longrightarrow> progressing unr (libraries st)"
  using progress by (auto simp: driver_inv_def libraries_ok_def libs_ok_def lib_ok_def progressing_def list_all_iff)

lemma drv_exec_readies:
  assumes inv: "driver_inv env ok ses jbs st" and run: "drv_exec env c st = Inr st'"
  shows "readies unr st st'"
proof -
  note prog = inv_progressing [OF inv]
  show ?thesis
  proof (cases c)
    case (Client_session_alloc oom fails out)
    then show ?thesis using run session_alloc_readies [OF _ prog] by (auto simp: last_of3_Inr)
  next
    case (Client_session_init fails p)
    then show ?thesis using run session_init_unr [OF _ prog] by (auto simp: last_of_Inr)
  next
    case (Client_session_free p)
    then show ?thesis using run session_free_unr [OF _ prog] by simp
  next
    case (Client_session_set_parameter oom p param sz v)
    then show ?thesis using run
      by (auto simp: last_of_Inr QDMI_session_set_parameter_def bind_o_eq_Inr split: if_splits option.splits)
  next
    case (Client_create_job oom p out)
    then show ?thesis using run create_job_readies [OF _ prog] by (auto simp: last_of3_Inr)
  next
    case (Client_retrieve_job_by_id oom p jid out)
    then show ?thesis using run retrieve_job_readies [OF _ prog] by (auto simp: last_of3_Inr)
  next
    case (Client_job_free p)
    then show ?thesis using run job_free_readies [OF _ prog] by simp
  next
    case (Client_job_check p out)
    then show ?thesis using run job_check_readies [OF _ prog] by (auto simp: last_of3_Inr)
  qed (use job_call_forwards [OF run, of unr] forwarded_readies [OF _ _ prog] in auto)
qed

lemma drv_reachable_ready:
  assumes "drv_reachable env ws st" and "worlds_ok ok ws" "live_in ses ws = {}" "live_in jbs ws = {}"
    and "live_in unr ws = {}"
  shows "live_in unr (worlds st) = {}"
  using assms(1)
proof induction
  case start
  then show ?case using assms(5) by (simp add: driver_init_def)
next
  case (call st c st')
  then show ?case using drv_exec_readies [OF drv_reachable_inv [OF call.hyps(1) assms(2-4)] call.hyps(3)]
    by (simp add: readies_def)
qed

end

section \<open>The example device\<close>

definition cxx_unready :: "cxx_state \<Rightarrow> ptr set" where
  "cxx_unready st = {p. p \<noteq> nullptr \<and> (\<exists>s. sessions st p = Some s \<and> s_status s \<noteq> INITIALIZED)}"

lemma same_sessions_unready: "sessions st' = sessions st \<Longrightarrow> cxx_unready st' \<subseteq> cxx_unready st"
  by (simp add: cxx_unready_def)

lemma submit_sessions:
  assumes "CXX_QDMI_device_job_submit env fails p st = Inr (r, st')"
  shows "sessions st' = sessions st"
proof (cases "st' = st")
  case False
  with assms obtain j x g where "(case x of
        Inl Exn_bad_alloc \<Rightarrow> Inr (QDMI_ERROR_OUTOFMEM, st\<lparr>gen := g\<rparr>)
      | Inl Exn_std \<Rightarrow> Inr (QDMI_ERROR_FATAL, st\<lparr>gen := g\<rparr>)
      | Inr ds \<Rightarrow> Inr (QDMI_SUCCESS, CXX_QDMI_set_device_status QDMI_DEVICE_STATUS_BUSY
          (st\<lparr>gen := g, jobs := (jobs st)(p \<mapsto>
             j\<lparr>results := ds, j_status := QDMI_JOB_STATUS_RUNNING\<rparr>)\<rparr>))) =
      (Inr (r, st') :: (QDMI_STATUS \<times> cxx_state) outcome)"
    by (auto simp: CXX_QDMI_device_job_submit_def bind_o_eq_Inr split: if_splits)
  then show ?thesis by (cases x) (auto simp: CXX_QDMI_set_device_status_def split: std_exn.splits)
qed simp

lemma calls_sessions:
  "CXX_QDMI_device_initialize st = Inr (r, st') \<Longrightarrow> sessions st' = sessions st"
  "CXX_QDMI_device_finalize st = Inr (r, st') \<Longrightarrow> sessions st' = sessions st"
  "CXX_QDMI_device_session_create_device_job env oom p out st = Inr (r, q, st') \<Longrightarrow> sessions st' = sessions st"
  "CXX_QDMI_device_job_free p st = Inr st' \<Longrightarrow> sessions st' = sessions st"
  "CXX_QDMI_device_job_set_parameter p param sz v st = Inr (r, st') \<Longrightarrow> sessions st' = sessions st"
  "CXX_QDMI_device_job_set_programs fails p f n sizes ps st = Inr (r, st') \<Longrightarrow> sessions st' = sessions st"
  "CXX_QDMI_device_job_cancel p st = Inr (r, st') \<Longrightarrow> sessions st' = sessions st"
  "CXX_QDMI_device_job_check env p b st = Inr (r, s, st') \<Longrightarrow> sessions st' = sessions st"
  "CXX_QDMI_device_job_wait p timeout st = Inr (r, st') \<Longrightarrow> sessions st' = sessions st"
  using create_job_D [of env oom p out st r q st'] job_calls_dom(1,2,4,5,6)
  by (auto simp: CXX_QDMI_device_initialize_def CXX_QDMI_device_finalize_def CXX_QDMI_set_device_status_def
      CXX_QDMI_device_job_free_def bind_o_eq_Inr same_handles_def split: if_splits)

lemma session_calls_unready:
  "CXX_QDMI_device_session_alloc oom True st = Inr (r, q, st') \<Longrightarrow>
     cxx_unready st' \<subseteq> cxx_unready st \<union> (set_option q - {nullptr})"
  "CXX_QDMI_device_session_init p st = Inr (r, st') \<Longrightarrow>
     cxx_unready st' \<subseteq> (if r = QDMI_SUCCESS then cxx_unready st - {p} else cxx_unready st)"
  "CXX_QDMI_device_session_set_parameter oom p param sz v st = Inr (r, st') \<Longrightarrow> cxx_unready st' \<subseteq> cxx_unready st"
  "CXX_QDMI_device_session_free p st = Inr st' \<Longrightarrow> cxx_unready st' \<subseteq> cxx_unready st - {p}"
proof -
  show "CXX_QDMI_device_session_alloc oom True st = Inr (r, q, st') \<Longrightarrow>
      cxx_unready st' \<subseteq> cxx_unready st \<union> (set_option q - {nullptr})"
    by (drule session_alloc_D) (auto simp: cxx_unready_def split: if_splits)
  show "CXX_QDMI_device_session_init p st = Inr (r, st') \<Longrightarrow>
      cxx_unready st' \<subseteq> (if r = QDMI_SUCCESS then cxx_unready st - {p} else cxx_unready st)"
    by (drule session_init_D) (auto simp: cxx_unready_def is_error_iff split: if_splits)
  show "CXX_QDMI_device_session_set_parameter oom p param sz v st = Inr (r, st') \<Longrightarrow> cxx_unready st' \<subseteq> cxx_unready st"
    by (drule session_set_parameter_D) (auto simp: cxx_unready_def split: if_splits)
  show "CXX_QDMI_device_session_free p st = Inr st' \<Longrightarrow> cxx_unready st' \<subseteq> cxx_unready st - {p}"
    by (drule session_free_D) (auto simp: cxx_unready_def split: if_splits)
qed

interpretation cxx_progress: device_progress "cxx_fns env oom fails" cxx_unready for env oom fails
proof unfold_locales
  fix p jid w r and out :: "ptr option" and w' retrieve
  assume "device_session_retrieve_device_job_by_id (cxx_fns env oom fails) = Some retrieve"
    and "retrieve p jid True w = Inr (r, out, w')"
  then show "cxx_unready w' \<subseteq> cxx_unready w"
    by (auto simp: cxx_fns_def CXX_QDMI_device_session_retrieve_device_job_by_id_def)
qed (simp_all add: cxx_fns_def session_calls_unready calls_sessions submit_sessions same_sessions_unready)

lemma progress_no_retrieval:
  assumes "device_progress d unr"
  shows "device_progress (d\<lparr>device_session_retrieve_device_job_by_id := None\<rparr>) unr"
  using assms unfolding device_progress_def by simp

text \<open>Whatever the loader finds, every library is the example device.\<close>

definition cxx_libraries :: "cxx_env \<Rightarrow> bool \<Rightarrow> (nat \<Rightarrow> bool) \<Rightarrow> cxx_state driver_env \<Rightarrow> bool" where
  "cxx_libraries e oom fails env \<longleftrightarrow>
     (\<forall>name h. dl_open env name = Some h \<longrightarrow> h \<noteq> nullptr) \<and> (\<forall>h pfx. dl_fns env h pfx = cxx_fns e oom fails)"

abbreviation (input) without_retrieval :: "'w device_fns \<Rightarrow> 'w device_fns" where
  "without_retrieval d \<equiv> d\<lparr>device_session_retrieve_device_job_by_id := None\<rparr>"

lemma cxx_libraries_loaded:
  "cxx_libraries e oom fails env \<Longrightarrow>
     loaded_fns env h pfx \<in> {cxx_fns e oom fails, without_retrieval (cxx_fns e oom fails)}"
  by (auto simp: cxx_libraries_def loaded_fns_def)

lemma cxx_libraries_ready:
  assumes "cxx_libraries e oom fails env"
  shows "ready_devices env cxx_inv (\<lambda>st. dom (sessions st)) (\<lambda>st. dom (jobs st)) cxx_unready"
proof (intro ready_devices.intro driver_devices.intro ready_devices_axioms.intro)
  fix h pfx
  show "device_sessions (loaded_fns env h pfx) cxx_inv (\<lambda>st. dom (sessions st)) (\<lambda>st. dom (jobs st))"
    using cxx_libraries_loaded [OF assms, of h pfx] cxx.device_sessions_axioms
      device_sessions_no_retrieval [OF cxx.device_sessions_axioms] by auto
  show "device_progress (loaded_fns env h pfx) cxx_unready"
    using cxx_libraries_loaded [OF assms, of h pfx] cxx_progress.device_progress_axioms
      progress_no_retrieval [OF cxx_progress.device_progress_axioms] by auto
qed (use assms in \<open>auto simp: cxx_libraries_def\<close>)

lemma two_devices_cxx: "cxx_libraries sample_env False (\<lambda>_. False) two_devices"
  by (simp add: cxx_libraries_def two_devices_def cxx_driver_env_def)

interpretation cxx_ready: ready_devices "cxx_driver_env e content" cxx_inv
    "\<lambda>st. dom (sessions st)" "\<lambda>st. dom (jobs st)" cxx_unready for e content
  by (rule cxx_libraries_ready [of e False "\<lambda>_. False"]) (simp add: cxx_libraries_def cxx_driver_env_def)

section \<open>Devices\<close>

text \<open>C20: Every device a client can see is usable: in every reachable state the device session behind it is
  live and initialized in its library, and no library has a device session that is not, because
  \<open>QDMI_session_init\<close> frees a device session it could not initialize.\<close>

theorem devices_are_ready:
  assumes "ready_devices env ok ses jbs unr" and "drv_reachable env ws st"
    and "worlds_ok ok ws" and "live_in ses ws = {}" and "live_in jbs ws = {}" and "live_in unr ws = {}"
  shows "live_in unr (worlds st) = {} \<and> dev_key st ` dom (cl_devices st) = live_in ses (worlds st)"
proof -
  have "driver_inv env ok ses jbs st"
    using ready_devices.axioms(1) [OF assms(1)] assms(2-5) by (rule reach_inv)
  then show ?thesis
    using ready_devices.drv_reachable_ready [OF assms] by (simp add: driver_inv_def owns_all_def)
qed

lemma offline_ready: "live_in cxx_unready offline = {}"
  by (simp add: live_in_def offline_def cxx_unready_def cxx_init_def)

theorem devices_are_ready_witness:
  "live_in cxx_unready (worlds open_driver) = {} \<and>
   dev_key open_driver ` {65537, 65538} = live_in cxx_ses (worlds open_driver)"
  using devices_are_ready [OF cxx_libraries_ready [OF two_devices_cxx] drv_reach(4) offline_idle offline_ready]
  by (simp add: open_driver_def one_session_def sample_devices_def insert_commute)

text \<open>A device of the driver that is an example device in use.\<close>

definition on_cxx :: "cxx_env \<Rightarrow> bool \<Rightarrow> (nat \<Rightarrow> bool) \<Rightarrow> cxx_state driver \<Rightarrow> ptr \<Rightarrow> bool" where
  "on_cxx e oom fails st q \<longleftrightarrow>
     q \<noteq> nullptr \<and> (\<exists>d lib. cl_devices st q = Some d \<and> library_of st d = Inr lib \<and>
       fns lib \<in> {cxx_fns e oom fails, without_retrieval (cxx_fns e oom fails)} \<and>
       cxx_inv (worlds st (key_of lib)) \<and> initialized (worlds st (key_of lib)) (dev_device_session d))"

lemma reachable_on_cxx:
  assumes libs: "cxx_libraries e oom fails env" and st: "drv_reachable env ws st"
    and idle: "worlds_ok cxx_inv ws" "live_in cxx_ses ws = {}" "live_in cxx_jbs ws = {}"
    and q: "q \<in> dom (cl_devices st)"
  shows "on_cxx e oom fails st q"
proof -
  note ready = cxx_libraries_ready [OF libs]
  note inv = reach_inv [OF ready_devices.axioms(1) [OF ready] st idle]
  have "live_in cxx_unready ws = {}" using idle(2) by (auto simp: live_in_def cxx_unready_def dom_def)
  note none = ready_devices.drv_reachable_ready [OF ready st idle this]
  obtain d where d: "cl_devices st q = Some d" using q by blast
  from live_device [OF inv d] obtain s where dev: "q \<noteq> nullptr" "library_of st d = Inr (device_lib st q)"
    "lib_ok env (device_lib st q)" "dev_device_session d \<in> cxx_ses (worlds st (key_of (device_lib st q)))" by metis
  let ?w = "worlds st (key_of (device_lib st q))"
  have w: "cxx_inv ?w" using inv by (auto simp: driver_inv_def)
  have "fns (device_lib st q) \<in> {cxx_fns e oom fails, without_retrieval (cxx_fns e oom fails)}"
    using dev(3) cxx_libraries_loaded [OF libs] by (simp add: lib_ok_def)
  moreover have "initialized ?w (dev_device_session d)"
  proof -
    obtain s where s: "sessions ?w (dev_device_session d) = Some s" using dev(4) by blast
    then have "dev_device_session d \<noteq> nullptr" using w heap_ok_live_nonnull(1) by (auto simp: cxx_inv_def)
    moreover have "dev_device_session d \<notin> cxx_unready ?w" using none live_in_iff by blast
    ultimately show ?thesis using s by (auto simp: cxx_unready_def initialized_def)
  qed
  ultimately show ?thesis using dev(1,2) d w by (auto simp: on_cxx_def)
qed

end
