(* ===== verification/Client_Run.thy ===== *)
theory Client_Run
  imports Driver_Ready
begin

text \<open>
  A whole run of a client through the driver on an example device: create a job, set the number of
  shots and the programs, submit, wait, and read programs and results. It composes the driver's
  forwarding with the functions of the device, and needs the driver's invariant for the device
  session behind the device to be initialized.
\<close>

section \<open>The run on the device\<close>

lemma cxx_set_programs:
  assumes "p \<noteq> nullptr" and "jobs w p = Some j" and "j_status j = QDMI_JOB_STATUS_CREATED"
    and "Supported_format f" and "0 < c" and "c \<le> max_programs" and "array_ok ss ps c"
    and "\<forall>i<c. ps ! i \<noteq> None \<and> program_ok f (take (ss ! i) (the (ps ! i)))"
  shows "CXX_QDMI_device_job_set_programs (\<lambda>_. False) p f c (Some ss) (Some ps) w =
    Inr (QDMI_SUCCESS, w\<lparr>jobs := (jobs w)(p \<mapsto> j\<lparr>j_format := f,
       programs := map (\<lambda>i. take (ss ! i) (the (ps ! i))) [0..<c]\<rparr>)\<rparr>)"
proof -
  have "Valid_format f" using assms(4) by (auto simp: Supported_format_iff Valid_format_iff)
  then show ?thesis
    using assms copy_programs_all_or_nothing [of 0 c ss ps f]
    by (auto simp: CXX_QDMI_device_job_set_programs_def deref_def array_ok_def)
qed

text \<open>A job that was prepared with these programs, and one that has run.\<close>

definition prepared :: "cxx_state \<Rightarrow> ptr \<Rightarrow> nat \<Rightarrow> char list list \<Rightarrow> bool" where
  "prepared w p n progs \<longleftrightarrow> cxx_inv w \<and> (\<exists>j. jobs w p = Some j \<and> j_status j = QDMI_JOB_STATUS_CREATED \<and>
     num_shots j = n \<and> programs j = progs \<and> j_session j \<in> dom (sessions w))"

definition has_run :: "cxx_state \<Rightarrow> ptr \<Rightarrow> nat \<Rightarrow> char list list \<Rightarrow> bool" where
  "has_run w p n progs \<longleftrightarrow> cxx_inv w \<and> (\<exists>j. jobs w p = Some j \<and> j_status j = QDMI_JOB_STATUS_DONE \<and>
     num_shots j = n \<and> programs j = progs \<and> results j \<noteq> [])"

lemma cxx_create:
  assumes "cxx_inv w" and "initialized w s"
  shows "\<exists>w'. CXX_QDMI_device_session_create_device_job e False s True w =
      Inr (QDMI_SUCCESS, Some (heap_next w), w') \<and> sessions w' = sessions w \<and> cxx_inv w' \<and>
    (\<exists>i. jobs w' (heap_next w) =
       Some (new_job\<lparr>j_session := s, j_id := i, j_status := QDMI_JOB_STATUS_CREATED\<rparr>))"
proof -
  obtain i g where ig: "CXX_QDMI_generate_job_id e (gen w) = (i, g)" by fastforce
  then have run: "CXX_QDMI_device_session_create_device_job e False s True w =
      Inr (QDMI_SUCCESS, Some (heap_next w), w\<lparr>gen := g, jobs := (jobs w)(heap_next w \<mapsto>
        new_job\<lparr>j_session := s, j_id := i, j_status := QDMI_JOB_STATUS_CREATED\<rparr>),
        heap_next := heap_next w + 1\<rparr>)"
    using assms(2) by (auto simp: CXX_QDMI_device_session_create_device_job_def initialized_def deref_def)
  show ?thesis using cxx_exec_inv(7) [OF assms(1) run] by (auto simp: run)
qed

lemma cxx_prepare:
  assumes inv: "cxx_inv w" and j: "jobs w p = Some j" "j_status j = QDMI_JOB_STATUS_CREATED"
    "j_session j \<in> dom (sessions w)"
    and n: "n < 2 ^ 64" and f: "Supported_format f" "0 < c" "c \<le> max_programs" "array_ok ss ps c"
      "\<forall>i<c. ps ! i \<noteq> None \<and> program_ok f (take (ss ! i) (the (ps ! i)))"
  shows "\<exists>w1 w2. CXX_QDMI_device_job_set_parameter p
        (val_DEVICE_JOB_PARAMETER QDMI_DEVICE_JOB_PARAMETER_SHOTSNUM) 8 (Some (le64 n)) w = Inr (QDMI_SUCCESS, w1) \<and>
      CXX_QDMI_device_job_set_programs (\<lambda>_. False) p f c (Some ss) (Some ps) w1 = Inr (QDMI_SUCCESS, w2) \<and>
      prepared w2 p n (map (\<lambda>i. take (ss ! i) (the (ps ! i))) [0..<c])"
proof -
  have p: "p \<noteq> nullptr" using inv j(1) heap_ok_live_nonnull by (auto simp: cxx_inv_def)
  let ?w1 = "w\<lparr>jobs := (jobs w)(p \<mapsto> j\<lparr>num_shots := n\<rparr>)\<rparr>"
  have run1: "CXX_QDMI_device_job_set_parameter p
      (val_DEVICE_JOB_PARAMETER QDMI_DEVICE_JOB_PARAMETER_SHOTSNUM) 8 (Some (le64 n)) w = Inr (QDMI_SUCCESS, ?w1)"
    using p j n by (simp add: CXX_QDMI_device_job_set_parameter_def deref_def invalid_enum_simps of_le64)
  have inv1: "cxx_inv ?w1" by (rule cxx_exec_job_inv(1) [OF inv run1])
  have j1: "jobs ?w1 p = Some (j\<lparr>num_shots := n\<rparr>)" by simp
  note run2 = cxx_set_programs [OF p j1 _ f, simplified, OF j(2)]
  show ?thesis using run1 run2 cxx_exec_job_inv(2) [OF inv1 run2] j by (auto simp: prepared_def)
qed

lemma cxx_run:
  assumes "prepared w p n progs" and "progs \<noteq> []" and "n \<le> max_shots"
  shows "\<exists>w1 w2. CXX_QDMI_device_job_submit e (\<lambda>_. False) p w = Inr (QDMI_SUCCESS, w1) \<and>
    CXX_QDMI_device_job_wait p timeout w1 = Inr (QDMI_SUCCESS, w2) \<and> has_run w2 p n progs"
proof -
  obtain j where inv: "cxx_inv w" and j: "jobs w p = Some j" "j_status j = QDMI_JOB_STATUS_CREATED"
    "num_shots j = n" "programs j = progs" "j_session j \<in> dom (sessions w)"
    using assms(1) by (auto simp: prepared_def)
  have p: "p \<noteq> nullptr" using inv j(1) heap_ok_live_nonnull by (auto simp: cxx_inv_def)
  obtain ds g where ds: "length ds = length progs"
    and run: "CXX_QDMI_device_job_submit e (\<lambda>_. False) p w = Inr (QDMI_SUCCESS, w\<lparr>gen := g,
        jobs := (jobs w)(p \<mapsto> j\<lparr>results := ds, j_status := QDMI_JOB_STATUS_RUNNING\<rparr>),
        d_status := QDMI_DEVICE_STATUS_BUSY\<rparr>)" (is "_ = Inr (_, ?w1)")
    using submit_runs [OF inv j(1,2) _ j(5), of e] j(3,4) assms(2,3) by auto
  let ?w2 = "?w1\<lparr>jobs := (jobs ?w1)(p \<mapsto> j\<lparr>results := ds, j_status := QDMI_JOB_STATUS_DONE\<rparr>),
    d_status := QDMI_DEVICE_STATUS_IDLE\<rparr>"
  have wait: "CXX_QDMI_device_job_wait p timeout ?w1 = Inr (QDMI_SUCCESS, ?w2)"
    using p by (simp add: CXX_QDMI_device_job_wait_def deref_def CXX_QDMI_set_device_status_def)
  have "has_run ?w2 p n progs"
    using cxx_exec_job_inv(6) [OF cxx_exec_job_inv(3) [OF inv run] wait] j(3,4) ds assms(2)
    by (auto simp: has_run_def)
  then show ?thesis using run wait by blast
qed

lemma cxx_read:
  assumes "has_run w p n progs" and "0 < n" and "i < length progs" and "check QDMI_SUCCESS = None"
  shows "two_call check (CXX_QDMI_device_job_get_program w p i) = Inr (progs ! i)"
    and "\<exists>bs. two_call check (CXX_QDMI_device_job_get_results False e w p i
        (val_JOB_RESULT QDMI_JOB_RESULT_SHOTS)) = Inr bs \<and>
      length (split_fields [] bs) = n \<and> list_all shot_ok (split_fields [] bs)"
proof -
  obtain j where inv: "cxx_inv w" and j: "jobs w p = Some j" "j_status j = QDMI_JOB_STATUS_DONE"
    "results j \<noteq> []" "i < length (programs j)" "num_shots j = n" "programs j = progs"
    using assms(1,3) by (auto simp: has_run_def)
  have p: "p \<noteq> nullptr" using inv j(1) heap_ok_live_nonnull by (auto simp: cxx_inv_def)
  show "two_call check (CXX_QDMI_device_job_get_program w p i) = Inr (progs ! i)"
    using sized_query.two_call_payload [OF get_program_sized [OF p j(1,4)], of check] assms(4) j(6) by simp
  have ok: "result_ok n (results j ! i)" using submitted_results [OF inv j(1,3,4)] j(5) by simp
  then have "split_fields [] (join_commas (shots (results j ! i))) = shots (results j ! i)"
    using assms(2) by (rule shots_round_trip)
  moreover have "two_call check (CXX_QDMI_device_job_get_results False e w p i (val_JOB_RESULT QDMI_JOB_RESULT_SHOTS)) =
      Inr (join_commas (shots (results j ! i)))"
    using sized_query.two_call_payload [OF get_results_sized [OF inv j(1-4), of e QDMI_JOB_RESULT_SHOTS], of _ check]
      assms(4) by simp
  ultimately show "\<exists>bs. two_call check (CXX_QDMI_device_job_get_results False e w p i
        (val_JOB_RESULT QDMI_JOB_RESULT_SHOTS)) = Inr bs \<and>
      length (split_fields [] bs) = n \<and> list_all shot_ok (split_fields [] bs)"
    using ok by (auto simp: result_ok_def list_all_iff)
qed

section \<open>Through the driver\<close>

text \<open>The driver with library \<open>k\<close> in state \<open>w\<close>.\<close>

definition in_world :: "'w driver \<Rightarrow> lib_key \<Rightarrow> 'w \<Rightarrow> 'w driver" where
  "in_world st k w = st\<lparr>worlds := (worlds st)(k := w)\<rparr>"

text \<open>Job \<open>p\<close> of the driver is job \<open>a\<close> of the library \<open>lib\<close>.\<close>

definition job_on :: "'w driver \<Rightarrow> ptr \<Rightarrow> 'w QDMI_Library \<Rightarrow> ptr \<Rightarrow> bool" where
  "job_on st p lib a \<longleftrightarrow> p \<noteq> nullptr \<and>
     (\<exists>q d. cl_jobs st p = Some \<lparr>job_device = q, job_device_job = a\<rparr> \<and> q \<noteq> nullptr \<and>
        cl_devices st q = Some d \<and> library_of st d = Inr lib)"

lemma job_on_job: "job_on st p lib a \<Longrightarrow> on_job (in_world st k w) p f = f lib a"
  by (auto simp: job_on_def on_job_def in_world_def library_of_def split: if_splits)

lemma job_on_change:
  assumes "job_on st p lib a"
  shows "change_job (in_world st (key_of lib) w) p f =
    bind_o (f (fns lib) a w) (\<lambda>(r, w'). Inr (r, in_world st (key_of lib) w'))"
  by (simp add: job_on_job [OF assms] change_job_def in_lib_def bind_o_assoc case_prod_unfold)
    (simp add: in_world_def)

lemma job_on_ask:
  "job_on st p lib a \<Longrightarrow> ask_job (in_world st (key_of lib) w) p f = f (fns lib) w a"
  by (simp add: job_on_job ask_job_def) (simp add: in_world_def)

lemma cxx_job_calls:
  assumes on: "job_on st p lib a" and "fns lib \<in> {cxx_fns e oom fails, without_retrieval (cxx_fns e oom fails)}"
  defines "st' \<equiv> in_world st (key_of lib)"
  shows "QDMI_job_set_parameter p param sz v (st' w) =
      bind_o (CXX_QDMI_device_job_set_parameter a param sz v w) (\<lambda>(r, w'). Inr (r, st' w'))"
    and "QDMI_job_set_programs p f c ss ps (st' w) =
      bind_o (CXX_QDMI_device_job_set_programs fails a f c ss ps w) (\<lambda>(r, w'). Inr (r, st' w'))"
    and "QDMI_job_submit p (st' w) =
      bind_o (CXX_QDMI_device_job_submit e fails a w) (\<lambda>(r, w'). Inr (r, st' w'))"
    and "QDMI_job_wait p timeout (st' w) =
      bind_o (CXX_QDMI_device_job_wait a timeout w) (\<lambda>(r, w'). Inr (r, st' w'))"
    and "QDMI_job_get_program (st' w) p i = CXX_QDMI_device_job_get_program w a i"
    and "QDMI_job_get_results (st' w) p i k = CXX_QDMI_device_job_get_results (fails 0) e w a i k"
    and "QDMI_job_cancel p (st' w) =
      bind_o (CXX_QDMI_device_job_cancel a w) (\<lambda>(r, w'). Inr (r, st' w'))"
    and "QDMI_job_check p out (st' w) =
      bind_o (CXX_QDMI_device_job_check e a out w) (\<lambda>(r, js, w'). Inr (r, js, st' w'))"
    and "QDMI_job_query_property (st' w) p prop = CXX_QDMI_device_job_query_property w a prop"
    and "QDMI_job_get_program_status (st' w) p i True = CXX_QDMI_device_job_get_program_status w a i True"
proof -
  have p: "p \<noteq> nullptr" using on by (simp add: job_on_def)
  have fns: "device_job_set_parameter (fns lib) = CXX_QDMI_device_job_set_parameter"
    "device_job_set_programs (fns lib) = CXX_QDMI_device_job_set_programs fails"
    "device_job_submit (fns lib) = CXX_QDMI_device_job_submit e fails"
    "device_job_wait (fns lib) = CXX_QDMI_device_job_wait"
    "device_job_get_program (fns lib) = CXX_QDMI_device_job_get_program"
    "device_job_get_results (fns lib) = CXX_QDMI_device_job_get_results (fails 0) e"
    "device_job_cancel (fns lib) = CXX_QDMI_device_job_cancel"
    "device_job_check (fns lib) = CXX_QDMI_device_job_check e"
    "device_job_query_property (fns lib) = CXX_QDMI_device_job_query_property"
    "device_job_get_program_status (fns lib) = CXX_QDMI_device_job_get_program_status"
    using assms(2) by (auto simp: cxx_fns_def)
  note facts = p st'_def job_on_change [OF on] job_on_ask [OF on] fns
  show "QDMI_job_set_parameter p param sz v (st' w) =
      bind_o (CXX_QDMI_device_job_set_parameter a param sz v w) (\<lambda>(r, w'). Inr (r, st' w'))"
    "QDMI_job_set_programs p f c ss ps (st' w) =
      bind_o (CXX_QDMI_device_job_set_programs fails a f c ss ps w) (\<lambda>(r, w'). Inr (r, st' w'))"
    "QDMI_job_submit p (st' w) =
      bind_o (CXX_QDMI_device_job_submit e fails a w) (\<lambda>(r, w'). Inr (r, st' w'))"
    "QDMI_job_wait p timeout (st' w) =
      bind_o (CXX_QDMI_device_job_wait a timeout w) (\<lambda>(r, w'). Inr (r, st' w'))"
    "QDMI_job_cancel p (st' w) =
      bind_o (CXX_QDMI_device_job_cancel a w) (\<lambda>(r, w'). Inr (r, st' w'))"
    by (simp_all add: QDMI_job_set_parameter_def QDMI_job_set_programs_def QDMI_job_submit_def
        QDMI_job_wait_def QDMI_job_cancel_def facts)
  show "QDMI_job_get_program (st' w) p i = CXX_QDMI_device_job_get_program w a i"
    "QDMI_job_get_results (st' w) p i k = CXX_QDMI_device_job_get_results (fails 0) e w a i k"
    "QDMI_job_query_property (st' w) p prop = CXX_QDMI_device_job_query_property w a prop"
    "QDMI_job_get_program_status (st' w) p i True = CXX_QDMI_device_job_get_program_status w a i True"
    by (simp_all add: fun_eq_iff QDMI_job_get_program_def QDMI_job_get_results_def
        QDMI_job_query_property_def QDMI_job_get_program_status_def facts)
  show "QDMI_job_check p out (st' w) =
      bind_o (CXX_QDMI_device_job_check e a out w) (\<lambda>(r, js, w'). Inr (r, js, st' w'))"
    using p by (simp add: QDMI_job_check_def st'_def job_on_job [OF on] fns in_lib_out_def bind_o_assoc
        case_prod_unfold) (simp add: in_world_def)
qed

definition may_run :: "'w driver \<Rightarrow> ptr \<Rightarrow> bool" where
  "may_run st q \<longleftrightarrow> (\<exists>d s. cl_devices st q = Some d \<and> cl_sessions st (dev_session d) = Some s \<and>
     ses_mode s = QDMI_SESSION_MODE_READWRITE)"

lemma may_run_device: "may_run st q \<Longrightarrow> q \<in> dom (cl_devices st)"
  by (auto simp: may_run_def)

lemma create_on_cxx:
  assumes on: "on_cxx e False fails st q" and "may_run st q"
    and p: "next_ptr st \<noteq> nullptr" and sess: "\<And>d. cl_devices st q = Some d \<Longrightarrow> dev_session d \<noteq> nullptr"
  shows "\<exists>lib a w st'. QDMI_device_create_job False q True st =
      Inr (QDMI_SUCCESS, Some (next_ptr st), in_world st' (key_of lib) w) \<and>
    job_on st' (next_ptr st) lib a \<and> cxx_inv w \<and>
    fns lib \<in> {cxx_fns e False fails, without_retrieval (cxx_fns e False fails)} \<and>
    (\<exists>s i. jobs w a = Some (new_job\<lparr>j_session := s, j_id := i, j_status := QDMI_JOB_STATUS_CREATED\<rparr>) \<and>
       s \<in> dom (sessions w))"
proof -
  obtain d s where d: "cl_devices st q = Some d" "cl_sessions st (dev_session d) = Some s"
    and rw: "ses_mode s = QDMI_SESSION_MODE_READWRITE" using assms(2) by (auto simp: may_run_def)
  obtain lib where q: "q \<noteq> nullptr" "library_of st d = Inr lib"
    and fns: "fns lib \<in> {cxx_fns e False fails, without_retrieval (cxx_fns e False fails)}"
    and w: "cxx_inv (worlds st (key_of lib))" "initialized (worlds st (key_of lib)) (dev_device_session d)"
    using on d(1) by (auto simp: on_cxx_def)
  let ?k = "key_of lib" and ?p = "next_ptr st"
  let ?a = "heap_next (worlds st ?k)"
  obtain w' i where create: "CXX_QDMI_device_session_create_device_job e False (dev_device_session d) True
      (worlds st ?k) = Inr (QDMI_SUCCESS, Some ?a, w')"
    and w': "sessions w' = sessions (worlds st ?k)" "cxx_inv w'" "jobs w' ?a =
      Some (new_job\<lparr>j_session := dev_device_session d, j_id := i, j_status := QDMI_JOB_STATUS_CREATED\<rparr>)"
    using cxx_create [OF w, of e] by blast
  let ?st = "st\<lparr>cl_jobs := (cl_jobs st)(?p \<mapsto> \<lparr>job_device = q, job_device_job = ?a\<rparr>), next_ptr := ?p + 1\<rparr>"
  have "device_session_create_device_job (fns lib) = CXX_QDMI_device_session_create_device_job e False"
    using fns by (auto simp: cxx_fns_def)
  then have "QDMI_device_create_job False q True st = Inr (QDMI_SUCCESS, Some ?p, in_world ?st ?k w')"
    using q d rw sess [OF d(1)] create
    by (simp add: QDMI_device_create_job_def in_lib_out_def in_world_def)
  moreover have "job_on ?st ?p lib ?a"
    using q p d(1) by (auto simp: job_on_def library_of_def split: if_splits)
  moreover have "dev_device_session d \<in> dom (sessions w')"
    using w(2) w'(1) by (auto simp: initialized_def)
  ultimately show ?thesis using fns w'(2,3) by blast
qed

text \<open>What a client passes: a supported format and an array of well-formed programs.\<close>

definition program_array :: "int \<Rightarrow> nat \<Rightarrow> nat list \<Rightarrow> region option list \<Rightarrow> char list list \<Rightarrow> bool" where
  "program_array f c ss ps progs \<longleftrightarrow> Supported_format f \<and> 0 < c \<and> c \<le> max_programs \<and> array_ok ss ps c \<and>
     (\<forall>i<c. ps ! i \<noteq> None \<and> program_ok f (take (ss ! i) (the (ps ! i)))) \<and>
     progs = map (\<lambda>i. take (ss ! i) (the (ps ! i))) [0..<c]"

text \<open>C19: A client's whole run works through the driver on an example device, in every reachable state and
  for every device of a session with a non-empty token, as long as no allocation of the run fails
  in the driver or the library. For 1 to \<open>max_shots\<close> shots (what a vector of strings can hold)
  and an array of 1 to \<open>max_programs\<close> well-formed programs in a supported format, creating a
  job, setting the shots and the programs, submitting and waiting all succeed, and then each
  program is read back as it was given and its shots are as many strings of five binary digits
  as were ordered.\<close>

theorem client_runs_programs:
  assumes "cxx_libraries e False (\<lambda>_. False) env" and "drv_reachable env ws st"
    and "worlds_ok cxx_inv ws" and "live_in cxx_ses ws = {}" and "live_in cxx_jbs ws = {}"
    and "may_run st q" and "program_array f c ss ps progs" and "0 < n" and "n \<le> max_shots"
    and "check QDMI_SUCCESS = None"
  defines "p \<equiv> next_ptr st"
  shows "\<exists>st1 st2 st3 st4 st5.
    QDMI_device_create_job False q True st = Inr (QDMI_SUCCESS, Some p, st1) \<and>
    QDMI_job_set_parameter p (val_JOB_PARAMETER QDMI_JOB_PARAMETER_SHOTSNUM) 8 (Some (le64 n)) st1 =
      Inr (QDMI_SUCCESS, st2) \<and>
    QDMI_job_set_programs p f c (Some ss) (Some ps) st2 = Inr (QDMI_SUCCESS, st3) \<and>
    QDMI_job_submit p st3 = Inr (QDMI_SUCCESS, st4) \<and>
    QDMI_job_wait p timeout st4 = Inr (QDMI_SUCCESS, st5) \<and>
    (\<forall>i<c. two_call check (QDMI_job_get_program st5 p i) = Inr (progs ! i) \<and>
       (\<exists>bs. two_call check (QDMI_job_get_results st5 p i (val_JOB_RESULT QDMI_JOB_RESULT_SHOTS)) = Inr bs \<and>
          length (split_fields [] bs) = n \<and> list_all shot_ok (split_fields [] bs)))"
proof -
  note ready = cxx_libraries_ready [OF assms(1)]
  note inv = reach_inv [OF ready_devices.axioms(1) [OF ready] assms(2-5)]
  have p: "next_ptr st \<noteq> nullptr" using inv by (simp add: driver_inv_def)
  have "dev_session d \<noteq> nullptr" if "cl_devices st q = Some d" for d
    using live_device [OF inv that] by metis
  from create_on_cxx [OF reachable_on_cxx [OF assms(1-5) may_run_device [OF assms(6)]] assms(6) p this]
  obtain lib a w st' s i where create: "QDMI_device_create_job False q True st =
      Inr (QDMI_SUCCESS, Some p, in_world st' (key_of lib) w)"
    and on: "job_on st' p lib a" and w: "cxx_inv w"
    and fns: "fns lib \<in> {cxx_fns e False (\<lambda>_. False), without_retrieval (cxx_fns e False (\<lambda>_. False))}"
    and j: "jobs w a = Some (new_job\<lparr>j_session := s, j_id := i, j_status := QDMI_JOB_STATUS_CREATED\<rparr>)"
    and s: "s \<in> dom (sessions w)" unfolding p_def by blast
  have "n < 2 ^ 64" using assms(9) by (simp add: max_shots_def)
  from cxx_prepare [OF w j _ _ this, of f c ss ps] assms(7) s obtain w1 w2 where
    set: "CXX_QDMI_device_job_set_parameter a
        (val_DEVICE_JOB_PARAMETER QDMI_DEVICE_JOB_PARAMETER_SHOTSNUM) 8 (Some (le64 n)) w = Inr (QDMI_SUCCESS, w1)"
      "CXX_QDMI_device_job_set_programs (\<lambda>_. False) a f c (Some ss) (Some ps) w1 = Inr (QDMI_SUCCESS, w2)"
      "prepared w2 a n progs"
    by (auto simp: program_array_def)
  have progs: "progs \<noteq> []" "length progs = c" using assms(7) by (auto simp: program_array_def)
  from cxx_run [OF set(3) progs(1) assms(9), of e timeout] obtain w3 w4 where
    run: "CXX_QDMI_device_job_submit e (\<lambda>_. False) a w2 = Inr (QDMI_SUCCESS, w3)"
      "CXX_QDMI_device_job_wait a timeout w3 = Inr (QDMI_SUCCESS, w4)" "has_run w4 a n progs" by blast
  note read = cxx_read(1) [of _ _ _ _ _ check, OF run(3) assms(8), unfolded progs(2), OF _ assms(10)]
    cxx_read(2) [of _ _ _ _ _ check e, OF run(3) assms(8), unfolded progs(2), OF _ assms(10)]
  let ?st = "in_world st' (key_of lib)"
  note calls = cxx_job_calls [OF on fns]
  have param: "val_JOB_PARAMETER QDMI_JOB_PARAMETER_SHOTSNUM =
      val_DEVICE_JOB_PARAMETER QDMI_DEVICE_JOB_PARAMETER_SHOTSNUM" by simp
  have "QDMI_job_set_parameter p (val_JOB_PARAMETER QDMI_JOB_PARAMETER_SHOTSNUM) 8 (Some (le64 n)) (?st w) =
      Inr (QDMI_SUCCESS, ?st w1)" unfolding calls param set by simp
  moreover have "QDMI_job_set_programs p f c (Some ss) (Some ps) (?st w1) = Inr (QDMI_SUCCESS, ?st w2)"
    "QDMI_job_submit p (?st w2) = Inr (QDMI_SUCCESS, ?st w3)" "QDMI_job_wait p timeout (?st w3) = Inr (QDMI_SUCCESS, ?st w4)"
    by (simp_all only: calls set run bind_o_Inr prod.case)
  moreover have "\<forall>i<c. two_call check (QDMI_job_get_program (?st w4) p i) = Inr (progs ! i) \<and>
       (\<exists>bs. two_call check (QDMI_job_get_results (?st w4) p i (val_JOB_RESULT QDMI_JOB_RESULT_SHOTS)) = Inr bs \<and>
          length (split_fields [] bs) = n \<and> list_all shot_ok (split_fields [] bs))"
    unfolding calls using read by blast
  ultimately show ?thesis using create by blast
qed

lemma sample_may_run: "may_run open_driver 65538"
  by (simp add: may_run_def open_driver_def one_session_def sample_devices_def sample_session_def)

lemma sample_program_array: "program_array 0 1 [9] [Some sample_program] [sample_program]"
  by (simp add: program_array_def array_ok_def max_programs_def Supported_format_iff sample_program_def
      program_ok_def text_program_def)

theorem client_runs_programs_witness:
  "\<exists>(st :: cxx_state driver) bs. two_call (\<lambda>_. None) (QDMI_job_get_results st 65539 0 (val_JOB_RESULT QDMI_JOB_RESULT_SHOTS)) = Inr bs \<and>
     two_call (\<lambda>_. None) (QDMI_job_get_program st 65539 0) = Inr sample_program \<and>
     length (split_fields [] bs) = 3"
proof -
  have "(3 :: nat) \<le> max_shots" "next_ptr open_driver = 65539"
    by (simp_all add: max_shots_def open_driver_def one_session_def)
  with client_runs_programs [OF two_devices_cxx drv_reach(4) offline_idle sample_may_run sample_program_array,
      of 3 "\<lambda>_. None" 0]
  show ?thesis by auto
qed

end
