(* ===== verification/Cxx_Codes.thy ===== *)
theory Cxx_Codes
  imports Cxx_Device
begin

text \<open>
  The status codes of the queries of the example device that ask about a job, a site or an operation,
  against the documentation. The bodies of all of them decide in one way between success and an
  invalid argument, by comparing the size of the buffer with one they also report; the
  predicate \<open>codes_in\<close> says so and is closed under the ways the queries are built.
\<close>

section \<open>Queries that check the size of the buffer\<close>

text \<open>Past the guards a query answers with one of \<open>rs\<close>, or by the size \<open>n\<close> it reports.\<close>

definition codes_at :: "nat \<Rightarrow> QDMI_STATUS set \<Rightarrow> query \<Rightarrow> bool" where
  "codes_at n rs q \<longleftrightarrow> (\<forall>sz v sr r v' m. v = None \<or> 0 < sz \<longrightarrow> q sz v sr = Inr (r, v', m) \<longrightarrow>
     r \<in> rs \<or> r = (if v \<noteq> None \<and> sz < n then QDMI_ERROR_INVALIDARGUMENT else QDMI_SUCCESS) \<and>
       (v \<noteq> None \<longrightarrow> q 0 None True = Inr (QDMI_SUCCESS, None, Some n)))"

definition codes_in :: "QDMI_STATUS set \<Rightarrow> query \<Rightarrow> bool" where
  "codes_in rs q \<longleftrightarrow> (\<exists>n. codes_at n rs q)"

named_theorems codes "queries that check the size of the buffer"

lemma codes_inI:
  assumes "\<And>sz v sr r v' m. v = None \<or> 0 < sz \<Longrightarrow> q sz v sr = Inr (r, v', m) \<Longrightarrow>
     r \<in> rs \<or> r = (if v \<noteq> None \<and> sz < n then QDMI_ERROR_INVALIDARGUMENT else QDMI_SUCCESS) \<and>
       (v \<noteq> None \<longrightarrow> q 0 None True = Inr (QDMI_SUCCESS, None, Some n))"
  shows "codes_in rs q"
  unfolding codes_in_def codes_at_def by (intro exI allI impI) (rule assms)

lemma codes_in_D:
  assumes "codes_in rs q" and "q sz v sr = Inr (r, v', m)" and "v = None \<or> 0 < sz"
  shows "r \<in> rs \<or> r = (if buffer_too_small q sz v then QDMI_ERROR_INVALIDARGUMENT else QDMI_SUCCESS)"
proof -
  obtain n where n: "codes_at n rs q" using assms(1) by (auto simp: codes_in_def)
  have "r \<in> rs \<or> r = (if v \<noteq> None \<and> sz < n then QDMI_ERROR_INVALIDARGUMENT else QDMI_SUCCESS) \<and>
       (v \<noteq> None \<longrightarrow> q 0 None True = Inr (QDMI_SUCCESS, None, Some n))"
    by (rule n [unfolded codes_at_def, THEN spec, THEN spec, THEN spec, THEN spec, THEN spec, THEN spec,
        THEN mp, OF assms(3), THEN mp, OF assms(2)])
  then show ?thesis using assms(3) by (cases v) (auto simp: buffer_too_small_def)
qed

text \<open>The guards of the queries let every call of this kind pass.\<close>

lemma codes_guard:
  assumes "\<And>sz v. v = None \<or> 0 < sz \<Longrightarrow> \<not> b sz v" and "codes_in rs g"
  shows "codes_in rs (\<lambda>sz v sr. if b sz v then f sz v sr else g sz v sr)"
proof -
  obtain n where n: "codes_at n rs g" using assms(2) by (auto simp: codes_in_def)
  have "codes_at n rs (\<lambda>sz v sr. if b sz v then f sz v sr else g sz v sr)"
    using n assms(1) unfolding codes_at_def by simp
  then show ?thesis by (auto simp: codes_in_def)
qed

lemma codes_reject [codes]: "r \<in> rs \<Longrightarrow> codes_in rs (\<lambda>sz v sr. reject r v)"
  by (rule codes_inI [where n = 0]) (simp add: reject_def)

lemma codes_fault [codes]: "codes_in rs (\<lambda>sz v sr. Inl e)"
  by (rule codes_inI [where n = 0]) simp

lemma codes_if [codes]:
  assumes "b \<Longrightarrow> codes_in rs f" and "\<not> b \<Longrightarrow> codes_in rs g"
  shows "codes_in rs (\<lambda>sz v sr. if b then f sz v sr else g sz v sr)"
  using assms by (cases b) simp_all

lemma codes_bind [codes]:
  assumes "\<And>j. x = Inr j \<Longrightarrow> codes_in rs (f j)"
  shows "codes_in rs (\<lambda>sz v sr. bind_o x (\<lambda>j. f j sz v sr))"
  using assms by (cases x) (simp_all add: codes_fault)

lemma codes_single [codes]: "codes_in rs (single_value_body n pv)"
  by (rule codes_inI [where n = n])
     (auto simp: single_value_body_def bind_o_eq_Inr split: option.splits if_splits)

lemma codes_list [codes]: "codes_in rs (list_body n vs)"
  by (rule codes_inI [where n = "size_mul (length vs) n"])
     (auto simp: list_body_def bind_o_eq_Inr split: option.splits if_splits)

lemma codes_string [codes]: "codes_in rs (string_body pv)"
proof (cases pv)
  case (Inl e)
  then show ?thesis
    by (auto simp: string_body_def intro!: codes_inI [where n = 0] split: option.splits if_splits)
next
  case (Inr s)
  then show ?thesis
    by (auto simp: string_body_def bind_o_eq_Inr intro!: codes_inI [where n = "strlen s + 1"]
        split: option.splits if_splits)
qed

lemma codes_result [codes]: "codes_in rs (result_body n bs)"
  by (rule codes_inI [where n = n])
     (auto simp: result_body_def bind_o_eq_Inr split: option.splits if_splits)

lemma codes_macros [codes]:
  "codes_in rs f \<Longrightarrow> codes_in rs (\<lambda>sz v sr. run_macros [] (f sz v sr))"
  "codes_in rs (\<lambda>sz v sr. run_macros (ms sz v sr) (f sz v sr)) \<Longrightarrow>
     codes_in rs (\<lambda>sz v sr. run_macros (ADD_SINGLE_VALUE_PROPERTY c n pv prop sz v sr # ms sz v sr) (f sz v sr))"
  "codes_in rs (\<lambda>sz v sr. run_macros (ms sz v sr) (f sz v sr)) \<Longrightarrow>
     codes_in rs (\<lambda>sz v sr. run_macros (ADD_STRING_PROPERTY c ps prop sz v sr # ms sz v sr) (f sz v sr))"
  "codes_in rs (\<lambda>sz v sr. run_macros (ms sz v sr) (f sz v sr)) \<Longrightarrow>
     codes_in rs (\<lambda>sz v sr. run_macros (ADD_LIST_PROPERTY c n vs prop sz v sr # ms sz v sr) (f sz v sr))"
  using codes_single [of rs n pv] codes_string [of rs ps] codes_list [of rs n vs]
  by (cases "prop = c"; simp add: macro_simps)+

section \<open>Jobs\<close>

lemma job_query_codes:
  assumes "p \<noteq> nullptr" and "\<not> QDMI_IS_INVALID_ENUM_VALUE prop prefix_DEVICE_JOB_PROPERTY"
  shows "codes_in {QDMI_ERROR_NOTSUPPORTED, QDMI_ERROR_BADSTATE} (CXX_QDMI_device_job_query_property st p prop)"
  unfolding CXX_QDMI_device_job_query_property_def [abs_def] Let_def
  by (rule codes_guard, simp add: assms) (rule codes | simp)+

lemma job_query_documented:
  assumes "CXX_QDMI_device_job_query_property st p prop sz v sr = Inr (r, v', n)"
  shows "doc_job_query_property (p = nullptr) (QDMI_IS_INVALID_ENUM_VALUE prop prefix_DEVICE_JOB_PROPERTY)
     (buffer_too_small (CXX_QDMI_device_job_query_property st p prop) sz v) r"
proof (cases "p = nullptr \<or> v \<noteq> None \<and> sz = 0 \<or> QDMI_IS_INVALID_ENUM_VALUE prop prefix_DEVICE_JOB_PROPERTY")
  case True
  then show ?thesis using assms
    by (auto simp: CXX_QDMI_device_job_query_property_def reject_def doc_job_query_property_def buffer_too_small_def)
next
  case False
  then show ?thesis using codes_in_D [OF job_query_codes assms]
    by (auto simp: doc_job_query_property_def split: if_splits)
qed

lemma get_program_documented:
  assumes "cxx_inv st" and "CXX_QDMI_device_job_get_program st p i sz v sr = Inr (r, v', n)"
  shows "doc_job_get_program (p = nullptr) (\<exists>j. jobs st p = Some j \<and> programs j = [])
     (\<exists>j. jobs st p = Some j \<and> length (programs j) \<le> i)
     (buffer_too_small (CXX_QDMI_device_job_get_program st p i) sz v) r"
proof (cases "p = nullptr")
  case False
  then obtain j where j: "jobs st p = Some j"
    using assms(2) by (auto simp: CXX_QDMI_device_job_get_program_def bind_o_eq_Inr)
  have "job_ok j" using assms(1) j by (simp add: cxx_inv_def jobs_ok_def)
  then have "list_all (program_ok (j_format j)) (programs j)" by (cases "programs j = []") (simp_all add: job_ok_def)
  then have "i < length (programs j) \<Longrightarrow> programs j ! i \<noteq> []" by (simp add: list_all_length program_ok_def)
  then show ?thesis using assms(2) j False
    by (cases "sz = 0") (auto simp: CXX_QDMI_device_job_get_program_def deref_def reject_def buffer_too_small_def bind_o_eq_Inr Let_def
        split: if_splits option.splits)
qed (use assms(2) in \<open>simp add: CXX_QDMI_device_job_get_program_def reject_def\<close>)

lemma get_program_status_documented:
  assumes "CXX_QDMI_device_job_get_program_status st p i out = Inr (r, s)"
  shows "doc_job_get_program_status (p = nullptr) (\<not> out) (\<exists>j. jobs st p = Some j \<and> length (programs j) \<le> i) r"
  using assms
  by (auto simp: CXX_QDMI_device_job_get_program_status_def bind_o_eq_Inr split: if_splits)

lemma get_results_codes:
  assumes "p \<noteq> nullptr" and "\<not> QDMI_IS_INVALID_ENUM_VALUE k prefix_JOB_RESULT" and "jobs st p = Some j"
    and "i < length (programs j)" and "j_status j = QDMI_JOB_STATUS_DONE"
  shows "codes_in {QDMI_ERROR_NOTSUPPORTED} (CXX_QDMI_device_job_get_results oom env st p i k)"
proof -
  have shots: "codes_in rs (\<lambda>sz v sr. Get_results_shots d sz v sr)" for rs d
    unfolding Get_results_shots_def
    by (rule codes_if) (auto intro!: codes_inI [where n = 0] codes_result)
  have hist: "codes_in rs (\<lambda>sz v sr. Get_results_hist oom d k sz v sr)" for rs d
    unfolding Get_results_hist_def Let_def
  proof (rule codes_if [OF codes_fault codes_if], goal_cases)
    case 1
    show ?case
      by (rule codes_inI [where n = "size_mul (length (histogram (shots d)))
            ((if shots d = [] then 0 else length (hd (shots d))) + 1)"])
         (auto simp: bind_o_eq_Inr size_mul_def split: option.splits if_splits)
  next
    case 2
    show ?case
      by (rule codes_inI [where n = "size_mul (length (histogram (shots d))) 8"])
         (auto simp: bind_o_eq_Inr split: option.splits if_splits)
  qed
  have rest: "codes_in rs (\<lambda>sz v sr. Get_results_sparse env d k sz v sr)"
    "codes_in rs (\<lambda>sz v sr. Get_results_probabilities env d sz v sr)"
    "codes_in rs (\<lambda>sz v sr. Get_results_statevector d sz v sr)" for rs d
    unfolding Get_results_sparse_def Get_results_probabilities_def Get_results_statevector_def Let_def
    by (rule codes)+
  have range: "\<not> length (programs j) \<le> i" using assms(4) by simp
  show ?thesis
    unfolding CXX_QDMI_device_job_get_results_def [abs_def] deref_def Let_def
    by (rule codes_guard, simp add: assms, simp add: assms range) (rule codes shots hist rest | simp)+
qed

text \<open>The device has only one outcome for a whole job: a program has succeeded when the job is DONE.\<close>

lemma get_results_documented:
  assumes "CXX_QDMI_device_job_get_results oom env st p i k sz v sr = Inr (r, v', n)"
  shows "doc_job_get_results (p = nullptr) (QDMI_IS_INVALID_ENUM_VALUE k prefix_JOB_RESULT)
     (buffer_too_small (CXX_QDMI_device_job_get_results oom env st p i k) sz v)
     (\<exists>j. jobs st p = Some j \<and> length (programs j) \<le> i)
     (\<exists>j. jobs st p = Some j \<and> j_status j = QDMI_JOB_STATUS_DONE) r"
proof (cases "p = nullptr \<or> v \<noteq> None \<and> sz = 0 \<or> QDMI_IS_INVALID_ENUM_VALUE k prefix_JOB_RESULT")
  case True
  then show ?thesis using assms
    by (auto simp: CXX_QDMI_device_job_get_results_def reject_def buffer_too_small_def)
next
  case False
  then obtain j where j: "jobs st p = Some j"
    using assms by (auto simp: CXX_QDMI_device_job_get_results_def bind_o_eq_Inr)
  show ?thesis
  proof (cases "i < length (programs j) \<and> j_status j = QDMI_JOB_STATUS_DONE")
    case True
    then show ?thesis using codes_in_D [OF get_results_codes [OF _ _ j] assms] False j
      by (auto split: if_splits)
  next
    case no: False
    then show ?thesis using assms False j
      by (auto simp: CXX_QDMI_device_job_get_results_def deref_def reject_def split: if_splits)
  qed
qed

text \<open>A submission runs out of memory only when an allocation fails.\<close>

lemma simulate_program_memory:
  "simulate_program env (\<lambda>_. False) j n i g = Inr (r, g') \<Longrightarrow> r \<noteq> Inl Exn_bad_alloc"
  by (auto simp: simulate_program_def output_index_def char_at_def pad_shot_def Let_def
      split: sum.splits if_splits prod.splits)

lemma simulate_programs_memory:
  "simulate_programs env (\<lambda>_. False) j n i k g = Inr (r, g') \<Longrightarrow> r \<noteq> Inl Exn_bad_alloc"
proof (induction k arbitrary: i g r g')
  case (Suc k)
  then obtain r1 g1 where one: "simulate_program env (\<lambda>_. False) j n i g = Inr (r1, g1)"
    and rest: "(case r1 of Inl e \<Rightarrow> Inr (Inl e, g1)
       | Inr d \<Rightarrow> bind_o (simulate_programs env (\<lambda>_. False) j n (Suc i) k g1) (\<lambda>(r', g'').
           Inr (case r' of Inl e \<Rightarrow> Inl e | Inr ds \<Rightarrow> Inr (d # ds), g''))) = Inr (r, g')"
    by (auto simp: bind_o_eq_Inr)
  show ?case
  proof (cases r1)
    case (Inl e)
    then show ?thesis using rest simulate_program_memory [OF one] by auto
  next
    case (Inr d)
    then obtain r2 where "simulate_programs env (\<lambda>_. False) j n (Suc i) k g1 = Inr (r2, g')"
      and "r = (case r2 of Inl e \<Rightarrow> Inl e | Inr ds \<Rightarrow> Inr (d # ds))" using rest by (auto simp: bind_o_eq_Inr)
    then show ?thesis using Suc.IH by (cases r2) auto
  qed
qed simp

lemma submit_memory:
  assumes "CXX_QDMI_device_job_submit env (\<lambda>_. False) p st = Inr (r, st')"
  shows "r \<noteq> QDMI_ERROR_OUTOFMEM"
proof
  assume "r = QDMI_ERROR_OUTOFMEM"
  with assms obtain j n x g where
    sim: "simulate_programs env (\<lambda>_. False) j n 0 (length (programs j)) (gen st) = Inr (x, g)"
    and r: "(case x of Inl Exn_bad_alloc \<Rightarrow> Inr (QDMI_ERROR_OUTOFMEM, st\<lparr>gen := g\<rparr>)
       | Inl Exn_std \<Rightarrow> Inr (QDMI_ERROR_FATAL, st\<lparr>gen := g\<rparr>)
       | Inr ds \<Rightarrow> Inr (QDMI_SUCCESS, CXX_QDMI_set_device_status QDMI_DEVICE_STATUS_BUSY
           (st\<lparr>gen := g, jobs := (jobs st)(p \<mapsto>
              j\<lparr>results := ds, j_status := QDMI_JOB_STATUS_RUNNING\<rparr>)\<rparr>))) =
      (Inr (QDMI_ERROR_OUTOFMEM, st') :: (QDMI_STATUS \<times> cxx_state) outcome)"
    by (auto simp: CXX_QDMI_device_job_submit_def bind_o_eq_Inr split: if_splits)
  show False
  proof (cases x)
    case (Inl e)
    then show ?thesis using r simulate_programs_memory [OF sim] by (cases e) auto
  qed (use r in simp)
qed

section \<open>Devices, sites and operations\<close>

text \<open>No query of an initialized session is answered with a bad state.\<close>

lemma device_query_codes:
  assumes "initialized st p" and "\<not> QDMI_IS_INVALID_ENUM_VALUE prop prefix_DEVICE_PROPERTY"
  shows "codes_in {QDMI_ERROR_NOTSUPPORTED} (CXX_QDMI_device_session_query_device_property env st p prop)"
proof -
  obtain s where s: "p \<noteq> nullptr" "sessions st p = Some s" "s_status s = INITIALIZED"
    using assms(1) by (auto simp: initialized_def)
  show ?thesis
    unfolding CXX_QDMI_device_session_query_device_property_def [abs_def] deref_def
    by (rule codes_guard, simp add: assms s, simp add: s) (rule codes | simp)+
qed

lemma site_query_codes:
  assumes "session \<noteq> nullptr" and "site \<noteq> nullptr" and "\<not> QDMI_IS_INVALID_ENUM_VALUE prop prefix_SITE_PROPERTY"
  shows "codes_in {QDMI_ERROR_NOTSUPPORTED} (CXX_QDMI_device_session_query_site_property session site prop)"
  unfolding CXX_QDMI_device_session_query_site_property_def [abs_def]
  by (rule codes_guard, simp add: assms) (rule codes | simp)+

text \<open>With sites the CX gate answers with an invalid argument where the documentation does not.\<close>

lemma operation_query_codes:
  assumes "session \<noteq> nullptr" and "operation \<noteq> nullptr" and "params \<noteq> None \<longrightarrow> num_params = 1"
    and "\<not> QDMI_IS_INVALID_ENUM_VALUE prop prefix_OPERATION_PROPERTY"
  shows "codes_in {QDMI_ERROR_NOTSUPPORTED} (CXX_QDMI_device_session_query_operation_property
    session operation num_sites None num_params params prop)"
proof -
  have "params = None \<or> 0 < num_params" using assms(3) by auto
  note guard = this assms
  show ?thesis
    unfolding CXX_QDMI_device_session_query_operation_property_def [abs_def]
    by (rule codes_guard, simp add: guard) (rule codes | simp | use assms(3) in force)+
qed

end
