(* ===== verification/Client_Codes.thy ===== *)
theory Client_Codes
  imports Client_Interface Client_Run Cxx_Codes
begin

text \<open>
  The status codes a client gets from a driver on example devices, against the documentation of
  \<open>client.h\<close>: the queries of devices, sites and operations, and the job functions. Both rest on the
  codes of the device (\<open>Cxx_Device\<close>, \<open>Cxx_Codes\<close>) and on the driver's invariants: a device a client
  can name is initialized, a job it can name is live in the library.
\<close>

section \<open>Queries\<close>

lemma doc_client_queryI:
  assumes "q sz v sr = Inr (r, v', n)"
    and "null \<or> invalid \<or> v \<noteq> None \<and> sz = 0 \<Longrightarrow> r = QDMI_ERROR_INVALIDARGUMENT"
    and "\<not> null \<Longrightarrow> \<not> invalid \<Longrightarrow> codes_in {QDMI_ERROR_NOTSUPPORTED} q"
  shows "doc_client_query null invalid (buffer_too_small q sz v) r"
proof (cases "null \<or> invalid \<or> v \<noteq> None \<and> sz = 0")
  case True
  then show ?thesis using assms(2) by (auto simp: buffer_too_small_def)
next
  case False
  then show ?thesis using codes_in_D [OF assms(3) assms(1)] by (auto split: if_splits)
qed

lemma codes_id: "codes_in rs (id_query i)"
  by (rule codes_inI [where n = "length i + 1"])
     (auto simp: id_query_def bind_o_eq_Inr Let_def split: option.splits if_splits)

lemma ask_device_dead: "cl_devices st q = None \<Longrightarrow> ask_device st q f \<noteq> Inr x"
  by (auto simp: ask_device_def on_device_def bind_o_eq_Inr)

lemma ask_on_cxx:
  assumes "on_cxx e oom fails st q"
  obtains d w where "q \<noteq> nullptr" and "cl_devices st q = Some d" and "initialized w (dev_device_session d)"
    and "QDMI_device_query_device_property st q prop =
      (if prop = val_DEVICE_PROPERTY QDMI_DEVICE_PROPERTY_ID then id_query (dev_id d)
       else CXX_QDMI_device_session_query_device_property e w (dev_device_session d) prop)"
    and "QDMI_device_query_site_property st q =
      CXX_QDMI_device_session_query_site_property (dev_device_session d)"
    and "QDMI_device_query_operation_property st q =
      CXX_QDMI_device_session_query_operation_property (dev_device_session d)"
proof -
  obtain d lib where d: "q \<noteq> nullptr" "cl_devices st q = Some d" "library_of st d = Inr lib"
    and fns: "fns lib \<in> {cxx_fns e oom fails, without_retrieval (cxx_fns e oom fails)}"
    and init: "initialized (worlds st (key_of lib)) (dev_device_session d)"
    using assms by (auto simp: on_cxx_def)
  have "device_session_query_device_property (fns lib) = CXX_QDMI_device_session_query_device_property e"
    "device_session_query_site_property (fns lib) = (\<lambda>st. CXX_QDMI_device_session_query_site_property)"
    "device_session_query_operation_property (fns lib) = (\<lambda>st. CXX_QDMI_device_session_query_operation_property)"
    using fns by (auto simp: cxx_fns_def)
  then show ?thesis using d init
    by (intro that [of d "worlds st (key_of lib)"])
       (auto simp: fun_eq_iff QDMI_device_query_device_property_def QDMI_device_query_site_property_def
         QDMI_device_query_operation_property_def ask_device_def on_device_def)
qed

text \<open>C29: A client's queries of a driver on example devices are answered with codes the documentation allows,
  in every reachable state and for every device handle: in particular never with a bad state,
  which the device knows and \<open>client.h\<close> does not. For operations this is claimed for queries
  without sites that give no parameters, or an array of at most one; the device's answers to
  wrong numbers of sites and parameters are not documented, as shown below.\<close>

theorem client_queries_documented:
  assumes "cxx_libraries e oom fails env" and "drv_reachable env ws st"
    and "worlds_ok cxx_inv ws" and "live_in cxx_ses ws = {}" and "live_in cxx_jbs ws = {}"
  shows "(QDMI_device_query_device_property st q prop sz v sr = Inr (r, v', n) \<longrightarrow>
      doc_client_query (q = nullptr) (QDMI_IS_INVALID_ENUM_VALUE prop prefix_DEVICE_PROPERTY)
        (buffer_too_small (QDMI_device_query_device_property st q prop) sz v) r) \<and>
    (QDMI_device_query_site_property st q site prop sz v sr = Inr (r, v', n) \<longrightarrow>
      doc_client_query_site_property (q = nullptr) (site = nullptr)
        (QDMI_IS_INVALID_ENUM_VALUE prop prefix_SITE_PROPERTY)
        (buffer_too_small (QDMI_device_query_site_property st q site prop) sz v) r) \<and>
    (QDMI_device_query_operation_property st q oper 0 None np params prop sz v sr = Inr (r, v', n) \<and>
      (params \<noteq> None \<longrightarrow> np \<le> 1) \<longrightarrow>
      doc_client_query_operation_property (q = nullptr) (oper = nullptr) (params \<noteq> None \<and> np = 0)
        (QDMI_IS_INVALID_ENUM_VALUE prop prefix_OPERATION_PROPERTY)
        (buffer_too_small (QDMI_device_query_operation_property st q oper 0 None np params prop) sz v) r)"
proof (cases "q = nullptr \<or> cl_devices st q = None")
  case True
  then show ?thesis
    by (auto simp: QDMI_device_query_device_property_def QDMI_device_query_site_property_def bind_o_eq_Inr
        QDMI_device_query_operation_property_def client_doc_defs ask_device_dead split: if_splits)
next
  case False
  then have "q \<in> dom (cl_devices st)" by blast
  note on = reachable_on_cxx [OF assms this]
  obtain d w where q: "q \<noteq> nullptr" and dev: "cl_devices st q = Some d" and init: "initialized w (dev_device_session d)"
    and eq: "QDMI_device_query_device_property st q prop =
      (if prop = val_DEVICE_PROPERTY QDMI_DEVICE_PROPERTY_ID then id_query (dev_id d)
       else CXX_QDMI_device_session_query_device_property e w (dev_device_session d) prop)"
      "QDMI_device_query_site_property st q =
      CXX_QDMI_device_session_query_site_property (dev_device_session d)"
      "QDMI_device_query_operation_property st q =
      CXX_QDMI_device_session_query_operation_property (dev_device_session d)"
    by (rule ask_on_cxx [OF on, of "prop"])
  have sess: "dev_device_session d \<noteq> nullptr" using init by (simp add: initialized_def)
  have "doc_client_query (q = nullptr) (QDMI_IS_INVALID_ENUM_VALUE prop prefix_DEVICE_PROPERTY)
      (buffer_too_small (QDMI_device_query_device_property st q prop) sz v) r"
    if "QDMI_device_query_device_property st q prop sz v sr = Inr (r, v', n)"
    by (rule doc_client_queryI, rule that)
       (use that q codes_id device_query_codes [OF init] in \<open>auto simp: eq reject_def id_query_def
          CXX_QDMI_device_session_query_device_property_def invalid_enum_simps split: if_splits option.splits\<close>)
  moreover have "doc_client_query_site_property (q = nullptr) (site = nullptr)
        (QDMI_IS_INVALID_ENUM_VALUE prop prefix_SITE_PROPERTY)
        (buffer_too_small (QDMI_device_query_site_property st q site prop) sz v) r"
    if "QDMI_device_query_site_property st q site prop sz v sr = Inr (r, v', n)"
    unfolding client_doc_defs
    by (rule doc_client_queryI, rule that)
       (use that q sess site_query_codes in \<open>auto simp: eq reject_def
          CXX_QDMI_device_session_query_site_property_def split: if_splits\<close>)
  moreover have "doc_client_query_operation_property (q = nullptr) (oper = nullptr) (params \<noteq> None \<and> np = 0)
        (QDMI_IS_INVALID_ENUM_VALUE prop prefix_OPERATION_PROPERTY)
        (buffer_too_small (QDMI_device_query_operation_property st q oper 0 None np params prop) sz v) r"
    if "QDMI_device_query_operation_property st q oper 0 None np params prop sz v sr = Inr (r, v', n)"
      and "params \<noteq> None \<longrightarrow> np \<le> 1"
    unfolding client_doc_defs
    by (rule doc_client_queryI, rule that(1))
       (use that q sess operation_query_codes in \<open>auto simp: eq reject_def
          CXX_QDMI_device_session_query_operation_property_def split: if_splits\<close>)
  ultimately show ?thesis by blast
qed

lemma open_driver_device: "65538 \<in> dom (cl_devices open_driver)"
  by (simp add: open_driver_def one_session_def sample_devices_def)

theorem client_queries_documented_witness:
  "\<exists>v' n. QDMI_device_query_site_property open_driver 65538 8224 (val_SITE_PROPERTY QDMI_SITE_PROPERTY_INDEX)
      8 (Some (replicate 8 NUL)) True = Inr (QDMI_SUCCESS, v', n) \<and>
    \<not> buffer_too_small (QDMI_device_query_site_property open_driver 65538 8224
      (val_SITE_PROPERTY QDMI_SITE_PROPERTY_INDEX)) 8 (Some (replicate 8 NUL))"
proof -
  note on = reachable_on_cxx [OF two_devices_cxx drv_reach(4) offline_idle open_driver_device]
  obtain d w where "cl_devices open_driver 65538 = Some d" and "initialized w (dev_device_session d)"
    and eq: "QDMI_device_query_site_property open_driver 65538 =
      CXX_QDMI_device_session_query_site_property (dev_device_session d)"
    by (rule ask_on_cxx [OF on, of 0]) (rule that)
  then have "dev_device_session d \<noteq> nullptr" by (simp add: initialized_def)
  from queries_ignore_the_session [OF this, of 4]
  have run: "QDMI_device_query_site_property open_driver 65538 8224 (val_SITE_PROPERTY QDMI_SITE_PROPERTY_INDEX)
      8 (Some (replicate 8 NUL)) True = Inr (QDMI_SUCCESS, Some (le64 4), Some 8)"
    unfolding eq by (simp add: CXX_DEVICE_SITES_def)
  from client_queries_documented [OF two_devices_cxx drv_reach(4) offline_idle, THEN conjunct2, THEN conjunct1,
      rule_format, OF this] run
  show ?thesis by (auto simp: doc_client_query_site_property_def)
qed

text \<open>A pair of sites that is not coupled, or a number of sites that does not fit, is an invalid argument to
  the CX gate; the documentation has \<open>QDMI_ERROR_NOTSUPPORTED\<close> for properties that cannot be provided for
  the given sites.\<close>

lemma cx_sites_undocumented:
  assumes "session \<noteq> nullptr"
  shows "CXX_QDMI_device_session_query_operation_property session CX 1 (Some [8192]) 0 None
      (val_OPERATION_PROPERTY QDMI_OPERATION_PROPERTY_FIDELITY) 0 None True = Inr (QDMI_ERROR_INVALIDARGUMENT, None, None)"
    and "CXX_QDMI_device_session_query_operation_property session CX 2 (Some [8192, 8192]) 0 None
      (val_OPERATION_PROPERTY QDMI_OPERATION_PROPERTY_FIDELITY) 0 None True = Inr (QDMI_ERROR_INVALIDARGUMENT, None, None)"
    and "\<not> doc_client_query_operation_property False False False False False QDMI_ERROR_INVALIDARGUMENT"
  using assms
  by (simp_all add: CXX_QDMI_device_session_query_operation_property_def static_defs macro_simps reject_def
      invalid_enum_simps query_cx_fidelity_def doc_client_query_operation_property_def)

text \<open>So are two parameters for a rotation gate, which takes one.\<close>

lemma rx_parameters_undocumented:
  assumes "session \<noteq> nullptr"
  shows "CXX_QDMI_device_session_query_operation_property session RX 0 None 2 (Some [x, y])
      (val_OPERATION_PROPERTY QDMI_OPERATION_PROPERTY_FIDELITY) 0 None True = Inr (QDMI_ERROR_INVALIDARGUMENT, None, None) \<and>
    \<not> doc_client_query_operation_property False False False False False QDMI_ERROR_INVALIDARGUMENT"
  using assms
  by (simp add: CXX_QDMI_device_session_query_operation_property_def static_defs macro_simps reject_def
      invalid_enum_simps doc_client_query_operation_property_def)

section \<open>Jobs\<close>














text \<open>What the driver forwards and \<open>client.h\<close> does not name: a submission that runs out of memory, and the
  second submission of a job.\<close>

lemma submit_codes_undocumented:
  "\<not> doc_client_job_submit False missing QDMI_ERROR_OUTOFMEM"
  "\<not> doc_client_job_submit False missing QDMI_ERROR_INVALIDARGUMENT"
  by simp_all

end
