(* ===== verification/Driver_Spec.thy ===== *)
theory Driver_Spec
  imports Driver_Properties
begin

text \<open>
  What \<open>client.h\<close> promises about sessions, devices and jobs, as a state machine over what a client can
  see, without libraries, device sessions or memory; and the proof that every call of the driver
  is a step of it. The invariant of the abstract machine (a job is on a device of a session that
  may run jobs) then holds for the driver.
\<close>

section \<open>The client's view\<close>

text \<open>
  A session waits with the token set so far, or offers devices and may run jobs on them or not.
  The catalog are the ids of the configured devices while there is a session.
\<close>

datatype session_view =
    Waiting "string option"
  | Offering bool "ptr list"

fun offered :: "session_view \<Rightarrow> ptr list" where
  "offered (Waiting t) = []"
| "offered (Offering b qs) = qs"

record client_view =
  v_sessions :: "ptr \<rightharpoonup> session_view"
  v_devices :: "ptr \<rightharpoonup> ptr \<times> string"
  v_jobs :: "ptr \<rightharpoonup> ptr"
  v_catalog :: "string list"

text \<open>
  The actions of a client, a token with the value it is set to (none for a null value), and the
  driver's answer: the status code and the handle stored through an out-pointer, if any. A
  function without a result counts as successful.
\<close>

datatype client_action =
    A_alloc | A_token ptr "string option" | A_init ptr | A_free ptr | A_job ptr | A_drop ptr | A_use

text \<open>Freeing has no result to report an error with.\<close>

fun may_fail :: "client_action \<Rightarrow> bool" where
  "may_fail (A_free p) = False"
| "may_fail (A_drop p) = False"
| "may_fail a = True"

inductive client_step ::
  "client_action \<Rightarrow> QDMI_STATUS \<Rightarrow> ptr option \<Rightarrow> client_view \<Rightarrow> client_view \<Rightarrow> bool" where
  step_failed: "may_fail a \<Longrightarrow> r \<noteq> QDMI_SUCCESS \<Longrightarrow> out \<in> {None, Some nullptr} \<Longrightarrow> client_step a r out v v"
| step_use: "client_step A_use r None v v"
| step_alloc: "p \<notin> dom (v_sessions v) \<Longrightarrow> p \<noteq> nullptr \<Longrightarrow> distinct cat \<Longrightarrow>
    (v_sessions v \<noteq> Map.empty \<longrightarrow> cat = v_catalog v) \<Longrightarrow>
    client_step A_alloc QDMI_SUCCESS (Some p) v
      (v\<lparr>v_sessions := (v_sessions v)(p \<mapsto> Waiting None), v_catalog := cat\<rparr>)"
| step_token: "v_sessions v p = Some (Waiting t) \<Longrightarrow>
    client_step (A_token p (Some t')) QDMI_SUCCESS None v
      (v\<lparr>v_sessions := (v_sessions v)(p \<mapsto> Waiting (Some t'))\<rparr>)"
| step_token_null: "v_sessions v p = Some (Waiting t) \<Longrightarrow> client_step (A_token p None) QDMI_SUCCESS None v v"
| step_init: "v_sessions v p = Some (Waiting (Some t)) \<Longrightarrow> length qs = length (v_catalog v) \<Longrightarrow>
    distinct qs \<Longrightarrow> nullptr \<notin> set qs \<Longrightarrow> set qs \<inter> dom (v_devices v) = {} \<Longrightarrow>
    client_step (A_init p) QDMI_SUCCESS None v (v\<lparr>v_sessions := (v_sessions v)(p \<mapsto> Offering (t \<noteq> []) qs),
      v_devices := v_devices v ++ map_of (zip qs (map (Pair p) (v_catalog v)))\<rparr>)"
| step_free: "v_sessions v p = Some s \<Longrightarrow> ran (v_jobs v) \<inter> set (offered s) = {} \<Longrightarrow>
    client_step (A_free p) QDMI_SUCCESS None v (v\<lparr>v_sessions := (v_sessions v)(p := None),
      v_devices := v_devices v |` (- set (offered s)),
      v_catalog := (if (v_sessions v)(p := None) = Map.empty then [] else v_catalog v)\<rparr>)"
| step_free_null: "client_step (A_free nullptr) QDMI_SUCCESS None v v"
| step_job: "v_devices v q = Some (p, i) \<Longrightarrow> v_sessions v p = Some (Offering True qs) \<Longrightarrow> q \<in> set qs \<Longrightarrow>
    j \<notin> dom (v_jobs v) \<Longrightarrow> j \<noteq> nullptr \<Longrightarrow>
    client_step (A_job q) QDMI_SUCCESS (Some j) v (v\<lparr>v_jobs := (v_jobs v)(j \<mapsto> q)\<rparr>)"
| step_drop: "v_jobs v j = Some q \<Longrightarrow>
    client_step (A_drop j) QDMI_SUCCESS None v (v\<lparr>v_jobs := (v_jobs v)(j := None)\<rparr>)"
| step_drop_null: "client_step (A_drop nullptr) QDMI_SUCCESS None v v"

inductive_cases client_step_cases: "client_step a r out v v'"

text \<open>A call that reports an error changes nothing.\<close>

lemma client_step_error: "client_step a r out v v' \<Longrightarrow> r \<noteq> QDMI_SUCCESS \<Longrightarrow> v' = v"
  by (erule client_step_cases) simp_all

section \<open>The invariant of the specification\<close>

text \<open>Devices belong to the session that offers them, all sessions offer the catalog, jobs are authorized.\<close>

definition view_ok :: "client_view \<Rightarrow> bool" where
  "view_ok v \<longleftrightarrow>
     (\<forall>q p i. v_devices v q = Some (p, i) \<longrightarrow> (\<exists>b qs. v_sessions v p = Some (Offering b qs) \<and> q \<in> set qs)) \<and>
     (\<forall>p b qs. v_sessions v p = Some (Offering b qs) \<longrightarrow>
        distinct qs \<and> map (v_devices v) qs = map (\<lambda>i. Some (p, i)) (v_catalog v)) \<and>
     (\<forall>j q. v_jobs v j = Some q \<longrightarrow>
        (\<exists>p i qs. v_devices v q = Some (p, i) \<and> v_sessions v p = Some (Offering True qs)))"

definition view_init :: client_view where
  "view_init = \<lparr>v_sessions = Map.empty, v_devices = Map.empty, v_jobs = Map.empty, v_catalog = []\<rparr>"

lemma view_ok_init: "view_ok view_init"
  by (simp add: view_ok_def view_init_def)

lemma view_okD:
  assumes "view_ok v"
  shows "v_devices v q = Some (p, i) \<Longrightarrow> \<exists>b qs. v_sessions v p = Some (Offering b qs) \<and> q \<in> set qs"
    and "v_sessions v p = Some (Offering b qs) \<Longrightarrow> distinct qs"
    and "v_sessions v p = Some (Offering b qs) \<Longrightarrow> map (v_devices v) qs = map (\<lambda>i. Some (p, i)) (v_catalog v)"
    and "v_jobs v j = Some q \<Longrightarrow> \<exists>p i qs. v_devices v q = Some (p, i) \<and> v_sessions v p = Some (Offering True qs)"
  using assms by (auto simp: view_ok_def)

lemma offered_device:
  assumes "view_ok v" and "v_sessions v p = Some (Offering b qs)" and "q \<in> set qs"
  shows "\<exists>i. v_devices v q = Some (p, i)"
proof -
  have "v_devices v q \<in> set (map (\<lambda>i. Some (p, i)) (v_catalog v))"
    using view_okD(3) [OF assms(1,2)] assms(3) by (metis image_eqI set_map)
  then show ?thesis by auto
qed

lemma view_ok_init_step:
  assumes ok: "view_ok v" and p: "v_sessions v p = Some (Waiting (Some t))"
    and qs: "length qs = length (v_catalog v)" "distinct qs" "set qs \<inter> dom (v_devices v) = {}"
  shows "view_ok (v\<lparr>v_sessions := (v_sessions v)(p \<mapsto> Offering b qs),
      v_devices := v_devices v ++ map_of (zip qs (map (Pair p) (v_catalog v)))\<rparr>)" (is "view_ok ?v")
proof -
  let ?new = "map_of (zip qs (map (Pair p) (v_catalog v)))"
  have dom: "dom ?new = set qs" using qs(1) by (simp add: dom_map_of_zip)
  have new: "map ?new qs = map (\<lambda>i. Some (p, i)) (v_catalog v)"
    using qs(1,2) by (auto simp: list_eq_iff_nth_eq map_of_zip_nth)
  have added: "x = p" if "?new q = Some (x, i)" for q x i
    using map_of_SomeD [OF that] by (auto dest: set_zip_rightD)
  have old: "?new q = None" if "v_devices v q = Some e" for q e
    using qs(3) dom that by (metis disjoint_iff domI domIff)
  have "map (v_devices ?v) rs = map (\<lambda>i. Some (x, i)) (v_catalog v)"
    if "v_sessions v x = Some (Offering c rs)" for x c rs
  proof -
    have "?new q = None" if "q \<in> set rs" for q
      using offered_device [OF ok \<open>v_sessions v x = _\<close> that] old by blast
    then have "map (v_devices ?v) rs = map (v_devices v) rs" by (simp add: map_add_def)
    then show ?thesis using view_okD(3) [OF ok that] by simp
  qed
  moreover have "map (v_devices ?v) qs = map (\<lambda>i. Some (p, i)) (v_catalog v)"
  proof -
    have "(v_devices v ++ ?new) q = ?new q" if "q \<in> set qs" for q
      using that dom by (auto simp: map_add_def split: option.splits)
    then show ?thesis unfolding new [symmetric] by simp
  qed
  ultimately have "distinct rs \<and> map (v_devices ?v) rs = map (\<lambda>i. Some (x, i)) (v_catalog ?v)"
    if "v_sessions ?v x = Some (Offering c rs)" for x c rs
    using that qs(2) view_okD(2) [OF ok] by (cases "x = p") auto
  moreover have "\<exists>c rs. v_sessions ?v x = Some (Offering c rs) \<and> q \<in> set rs"
    if "v_devices ?v q = Some (x, i)" for q x i
  proof (cases "q \<in> set qs")
    case True
    then have "?new q = Some (x, i)" using that dom by (auto simp: map_add_def split: option.splits)
    then show ?thesis using added True by simp
  next
    case False
    then have "?new q = None" using dom by blast
    then have "v_devices v q = Some (x, i)" using that by (simp add: map_add_def)
    then show ?thesis using view_okD(1) [OF ok] p by (cases "x = p") fastforce+
  qed
  moreover have "\<exists>x i rs. v_devices ?v q = Some (x, i) \<and> v_sessions ?v x = Some (Offering True rs)"
    if "v_jobs ?v j = Some q" for j q
  proof -
    have "v_jobs v j = Some q" using that by simp
    from view_okD(4) [OF ok this]
    obtain x i rs where "v_devices v q = Some (x, i)" "v_sessions v x = Some (Offering True rs)" by blast
    then show ?thesis using old p by (cases "x = p") (auto simp: map_add_def)
  qed
  ultimately show ?thesis unfolding view_ok_def by blast
qed

lemma view_ok_free_step:
  assumes ok: "view_ok v" and p: "v_sessions v p = Some s" and jobs: "ran (v_jobs v) \<inter> set (offered s) = {}"
  shows "view_ok (v\<lparr>v_sessions := (v_sessions v)(p := None), v_devices := v_devices v |` (- set (offered s)),
      v_catalog := (if (v_sessions v)(p := None) = Map.empty then [] else v_catalog v)\<rparr>)" (is "view_ok ?v")
proof -
  have other: "q \<notin> set (offered s)" if "v_devices v q = Some (x, i)" "x \<noteq> p" for q x i
    using offered_device [OF ok, of p _ "offered s"] p that by (cases s) fastforce+
  have mine: "q \<in> set (offered s)" if "v_devices v q = Some (p, i)" for q i
    using view_okD(1) [OF ok that] p by auto
  have "distinct rs \<and> map (v_devices ?v) rs = map (\<lambda>i. Some (x, i)) (v_catalog ?v)"
    if "v_sessions ?v x = Some (Offering c rs)" for x c rs
  proof -
    have x: "x \<noteq> p" "v_sessions v x = Some (Offering c rs)" using that by (auto split: if_splits)
    have "q \<notin> set (offered s)" if "q \<in> set rs" for q using offered_device [OF ok x(2) that] other x(1) by blast
    then have "map (v_devices ?v) rs = map (v_devices v) rs" by simp
    moreover have "(v_sessions v)(p := None) \<noteq> Map.empty" using x by (metis fun_upd_other option.distinct(1))
    ultimately show ?thesis using view_okD(2,3) [OF ok x(2)] by simp
  qed
  moreover have "\<exists>c rs. v_sessions ?v x = Some (Offering c rs) \<and> q \<in> set rs"
    if "v_devices ?v q = Some (x, i)" for q x i
  proof -
    have q: "q \<notin> set (offered s)" "v_devices v q = Some (x, i)"
      using that by (auto simp: restrict_map_def split: if_splits)
    then have "x \<noteq> p" using mine by blast
    then show ?thesis using view_okD(1) [OF ok q(2)] by simp
  qed
  moreover have "\<exists>x i rs. v_devices ?v q = Some (x, i) \<and> v_sessions ?v x = Some (Offering True rs)"
    if "v_jobs ?v j = Some q" for j q
  proof -
    have "v_jobs v j = Some q" using that by simp
    moreover from this have "q \<notin> set (offered s)" using jobs by (auto simp: ran_def)
    ultimately show ?thesis using view_okD(4) [OF ok] mine by fastforce
  qed
  ultimately show ?thesis unfolding view_ok_def by blast
qed

lemma client_step_ok: "client_step a r out v v' \<Longrightarrow> view_ok v \<Longrightarrow> view_ok v'"
proof (induction rule: client_step.induct)
  case (step_alloc p v cat)
  then have "v_sessions v x = Some (Offering b qs) \<Longrightarrow> cat = v_catalog v" for x b qs by auto
  moreover have "x \<noteq> p" if "v_sessions v x = Some y" for x y using step_alloc(1) that by auto
  ultimately show ?case using step_alloc.prems unfolding view_ok_def by (simp split: if_splits) metis
next
  case (step_token v p t t')
  then show ?case unfolding view_ok_def by (simp split: if_splits) (metis option.inject session_view.distinct(1))
next
  case (step_init v p t qs)
  then show ?case by (intro view_ok_init_step) auto
next
  case (step_free v p s)
  then show ?case by (intro view_ok_free_step) auto
next
  case (step_job v q p i qs j)
  then show ?case unfolding view_ok_def by (simp split: if_splits)
next
  case (step_drop v j q)
  then show ?case unfolding view_ok_def by (simp split: if_splits)
qed simp

section \<open>The driver seen by its client\<close>

definition view_session :: "QDMI_Session_impl_d \<Rightarrow> session_view" where
  "view_session s =
     (case ses_status s of
        Session_ALLOCATED \<Rightarrow> Waiting (ses_token s)
      | Session_INITIALIZED \<Rightarrow> Offering (ses_mode s = QDMI_SESSION_MODE_READWRITE) (device_list s))"

definition view :: "'w driver \<Rightarrow> client_view" where
  "view st = \<lparr>v_sessions = (\<lambda>p. map_option view_session (cl_sessions st p)),
     v_devices = (\<lambda>q. map_option (\<lambda>d. (dev_session d, dev_id d)) (cl_devices st q)),
     v_jobs = (\<lambda>p. map_option job_device (cl_jobs st p)),
     v_catalog = map snd (configured_devices st)\<rparr>"

lemma view_simps [simp]:
  "v_sessions (view st) p = map_option view_session (cl_sessions st p)"
  "v_devices (view st) q = map_option (\<lambda>d. (dev_session d, dev_id d)) (cl_devices st q)"
  "v_jobs (view st) p = map_option job_device (cl_jobs st p)"
  "v_catalog (view st) = map snd (configured_devices st)"
  by (simp_all add: view_def)

lemma view_worlds: "view (st\<lparr>worlds := ws\<rparr>) = view st"
  by (simp add: view_def)

lemma view_same: "st' = st\<lparr>worlds := worlds st'\<rparr> \<Longrightarrow> view st' = view st"
  using arg_cong [of st' _ view] view_worlds [where st = st and ws = "worlds st'"] by simp

lemma view_driver_init: "view (driver_init ws) = view_init"
  by (simp add: view_def view_init_def driver_init_def)

text \<open>The mode of a session that offers devices is that of its token.\<close>

lemma view_same_but_mode:
  assumes inv: "driver_inv env ok ses jbs st" "driver_inv env ok ses jbs st'" and "same_but_mode st st'"
  shows "view st' = view st"
proof -
  obtain h where st': "st' = st\<lparr>cl_sessions := h, worlds := worlds st'\<rparr>"
    and h: "map_option (ses_mode_update (\<lambda>_. QDMI_DEVICE_MODE_READONLY)) (h p) =
      map_option (ses_mode_update (\<lambda>_. QDMI_DEVICE_MODE_READONLY)) (cl_sessions st p)" for p
    using assms(3) by (auto simp: same_but_mode_def)
  have "map_option view_session (h p) = map_option view_session (cl_sessions st p)" for p
  proof (cases "cl_sessions st p")
    case (Some s)
    then obtain s' where s': "h p = Some s'" "ses_mode_update (\<lambda>_. QDMI_DEVICE_MODE_READONLY) s' =
        ses_mode_update (\<lambda>_. QDMI_DEVICE_MODE_READONLY) s" using h [of p] by auto
    then have same: "ses_status s' = ses_status s" "ses_token s' = ses_token s" "device_list s' = device_list s"
      by (cases s; cases s'; simp)+
    have "cl_sessions st' p = Some s'" using arg_cong [OF st', of cl_sessions] s'(1) by simp
    then show ?thesis using inv_session [OF inv(1) Some] inv_session [OF inv(2), of p s'] same s'(1) Some
      by (cases "ses_status s") (auto simp: view_session_def client_session_ok_def)
  qed (use h [of p] in simp)
  then show ?thesis
    using arg_cong [OF st', of cl_sessions] arg_cong [OF st', of cl_devices] arg_cong [OF st', of cl_jobs]
      arg_cong [OF st', of configured_devices] by (simp add: view_def)
qed

lemma view_alloc:
  assumes inv: "driver_inv env ok ses jbs st" "driver_inv env ok ses jbs st'"
    and run: "QDMI_session_alloc env oom fails p st = Inr (QDMI_SUCCESS, out, st')"
    and st': "st' = add_session (st\<lparr>libraries := libraries st', configured_devices := configured_devices st',
            refs := refs st', worlds := worlds st'\<rparr>)"
  shows "client_step A_alloc QDMI_SUCCESS (Some (next_ptr st)) (view st) (view st')"
proof -
  have objs: "objects_ok st" "next_ptr st \<noteq> nullptr" using inv(1) by (simp_all add: driver_inv_def)
  have "session_count st = 0 \<longleftrightarrow> cl_sessions st = Map.empty"
    using inv(1) by (simp add: driver_inv_def count_ok_def)
  moreover have "configured_devices st' = configured_devices st" if "session_count st \<noteq> 0"
    using run that by (auto simp: QDMI_session_alloc_def split: if_splits)
  moreover have "distinct (map snd (configured_devices st'))"
    using inv(2) by (simp add: driver_inv_def libraries_ok_def)
  ultimately have "client_step A_alloc QDMI_SUCCESS (Some (next_ptr st)) (view st) ((view st)\<lparr>v_sessions := (v_sessions (view st))(next_ptr st \<mapsto> Waiting None),
      v_catalog := map snd (configured_devices st')\<rparr>)"
    using next_ptr_fresh(1) [OF objs(1)] objs(2)
    by (intro client_step.step_alloc) (auto simp: fun_eq_iff domIff)
  moreover have "view st' = (view st)\<lparr>v_sessions := (v_sessions (view st))(next_ptr st \<mapsto> Waiting None),
      v_catalog := map snd (configured_devices st')\<rparr>"
    by (subst st') (simp add: view_def add_session_def fun_eq_iff view_session_def new_client_session_def)
  ultimately show ?thesis by simp
qed

lemma map_option_case_option:
  "map_option f (case x of None \<Rightarrow> y | Some z \<Rightarrow> Some z) =
    (case map_option f x of None \<Rightarrow> map_option f y | Some z \<Rightarrow> Some z)"
  by (cases x) simp_all

lemma view_init_session:
  assumes inv: "driver_inv env ok ses jbs st" "driver_inv env ok ses jbs st'"
    and s: "cl_sessions st p = Some s" "ses_status s = Session_ALLOCATED" "ses_token s = Some t"
    and st': "st' = add_devices (st\<lparr>worlds := worlds st'\<rparr>) p s t devs"
    and devs: "map (\<lambda>d. (dev_library d, dev_id d)) devs = configured_devices st"
  shows "client_step (A_init p) QDMI_SUCCESS None (view st) (view st')"
proof -
  let ?n = "next_ptr st"
  let ?qs = "[?n..<?n + length devs]"
  let ?f = "\<lambda>d. (dev_session d, dev_id d)"
  define s' where "s' = s\<lparr>ses_mode := mode_of t, device_list := ?qs, ses_status := Session_INITIALIZED\<rparr>"
  have new: "cl_sessions st' = (cl_sessions st)(p \<mapsto> s')" "cl_devices st' = new_devices (cl_devices st) ?n devs"
    "cl_jobs st' = cl_jobs st" "configured_devices st' = configured_devices st"
    by (subst st', simp add: add_devices_def s'_def)+
  have len: "length devs = length (configured_devices st)" using arg_cong [OF devs, of length] by simp
  have "client_session_ok st' p s'" using inv_session [OF inv(2), of p s'] new(1) by simp
  then have mine: "\<forall>q \<in> set ?qs. \<exists>d. cl_devices st' q = Some d \<and> dev_session d = p"
    by (simp add: client_session_ok_def s'_def)
  have "dev_session (devs ! i) = p" if "i < length devs" for i
    using bspec [OF mine, of "?n + i"] new_devices_nth [OF that, of "cl_devices st" ?n] that new(2) by auto
  moreover have "dev_id (devs ! i) = snd (configured_devices st ! i)" if "i < length devs" for i
    using that arg_cong [OF devs, of "\<lambda>xs. snd (xs ! i)"] by simp
  ultimately have ids: "map ?f devs = map (Pair p) (map snd (configured_devices st))"
    using len by (intro nth_equalityI) auto
  have "map_of (zip ?qs (map ?f devs)) q = map_option ?f (map_of (zip ?qs devs) q)" for q
    by (simp add: zip_map2 map_of_map)
  then have "map_option ?f (cl_devices st' q) =
      ((\<lambda>q. map_option ?f (cl_devices st q)) ++ map_of (zip ?qs (map ?f devs))) q" for q
    by (simp only: new(2) new_devices_def map_add_def map_option_case_option)
  then have "view st' = (view st)\<lparr>v_sessions := (v_sessions (view st))(p \<mapsto> Offering (t \<noteq> []) ?qs),
      v_devices := v_devices (view st) ++ map_of (zip ?qs (map (Pair p) (v_catalog (view st))))\<rparr>"
    using new ids by (simp add: view_def fun_eq_iff view_session_def s'_def mode_of_def)
  moreover have "client_step (A_init p) QDMI_SUCCESS None (view st) \<dots>"
  proof (rule client_step.step_init)
    have objs: "objects_ok st" "0 < ?n" using inv(1) by (simp_all add: driver_inv_def)
    show "set ?qs \<inter> dom (v_devices (view st)) = {}"
      using next_ptr_fresh(2) [OF objs(1)] by (auto simp: domIff)
    show "nullptr \<notin> set ?qs" using objs(2) by simp
  qed (use s len in \<open>simp_all add: view_session_def\<close>)
  ultimately show ?thesis by simp
qed

definition token_value :: "nat \<Rightarrow> region option \<Rightarrow> string option" where
  "token_value sz value = map_option (take (sz - 1)) value"

lemma view_set_parameter:
  assumes "QDMI_session_set_parameter oom p param sz value st = Inr (r, st')"
  shows "client_step (A_token p (token_value sz value)) r None (view st) (view st')"
proof -
  consider "r \<noteq> QDMI_SUCCESS" "st' = st"
    | s where "r = QDMI_SUCCESS" "cl_sessions st p = Some s" "ses_status s = Session_ALLOCATED"
      "st' = (case token_value sz value of None \<Rightarrow> st
        | Some t \<Rightarrow> st\<lparr>cl_sessions := (cl_sessions st)(p \<mapsto> s\<lparr>ses_token := Some t\<rparr>)\<rparr>)"
    using assms
    by (auto simp: QDMI_session_set_parameter_def token_value_def bind_o_eq_Inr split: if_splits option.splits)
  then show ?thesis
  proof cases
    case 1
    then show ?thesis by (simp add: client_step.step_failed)
  next
    case 2
    then have s: "v_sessions (view st) p = Some (Waiting (ses_token s))" by (simp add: view_session_def)
    show ?thesis
    proof (cases "token_value sz value")
      case None
      then show ?thesis using 2 s by (simp add: client_step.step_token_null)
    next
      case (Some t)
      then have "view st' = (view st)\<lparr>v_sessions := (v_sessions (view st))(p \<mapsto> Waiting (Some t))\<rparr>"
        using 2 by (simp add: view_def fun_eq_iff view_session_def)
      then show ?thesis using Some 2(1) client_step.step_token [OF s] by simp
    qed
  qed
qed

lemma view_session_free:
  assumes inv: "driver_inv env ok ses jbs st" "driver_inv env ok ses jbs st'" and jobs: "no_jobs_of st p"
    and s: "cl_sessions st p = Some s"
    and st': "cl_sessions st' = (cl_sessions st)(p := None)" "cl_jobs st' = cl_jobs st"
      "cl_devices st' = (cl_devices st) |` (- devices_of st p)"
    and cfg: "configured_devices st' = (if session_count st' = 0 then [] else configured_devices st)"
  shows "client_step (A_free p) QDMI_SUCCESS None (view st) (view st')"
proof -
  have "set (offered (view_session s)) = set (device_list s)"
    using inv_session [OF inv(1) s]
    by (auto simp: view_session_def client_session_ok_def split: QDMI_SESSION_STATUS.splits)
  moreover have "devices_of st p = set (device_list s)" using s by (simp add: devices_of_def)
  ultimately have offered: "set (offered (view_session s)) = devices_of st p" by simp
  have "session_count st' = 0 \<longleftrightarrow> cl_sessions st' = Map.empty"
    using inv(2) by (simp add: driver_inv_def count_ok_def)
  then have last: "session_count st' = 0 \<longleftrightarrow> (v_sessions (view st))(p := None) = Map.empty"
    by (auto simp: st'(1) fun_eq_iff)
  have "view st' = (view st)\<lparr>v_sessions := (v_sessions (view st))(p := None),
      v_devices := v_devices (view st) |` (- set (offered (view_session s))),
      v_catalog := (if (v_sessions (view st))(p := None) = Map.empty then [] else v_catalog (view st))\<rparr>"
    unfolding last [symmetric] offered by (simp add: view_def st' cfg fun_eq_iff restrict_map_def)
  moreover have "client_step (A_free p) QDMI_SUCCESS None (view st) \<dots>"
  proof (rule client_step.step_free)
    show "v_sessions (view st) p = Some (view_session s)" using s by simp
    show "ran (v_jobs (view st)) \<inter> set (offered (view_session s)) = {}"
    proof -
      have "s \<in> ran ((cl_sessions st) |` {p})" using s by (auto simp: ran_def restrict_map_def)
      then have "\<forall>j \<in> ran (cl_jobs st). job_device j \<notin> set (device_list s)"
        using jobs unfolding no_jobs_of_def by blast
      then show ?thesis using s unfolding offered by (auto simp: devices_of_def ran_def)
    qed
  qed
  ultimately show ?thesis by simp
qed

lemma session_free_catalog:
  assumes "QDMI_session_free p st = Inr st'" and "p \<noteq> nullptr"
  shows "configured_devices st' = (if session_count st' = 0 then [] else configured_devices st)"
proof -
  have "session_count st' = 0 \<and> configured_devices st' = [] \<or>
      session_count st' \<noteq> 0 \<and> configured_devices st' = configured_devices st"
    using assms
    by (cases "size_sub (session_count st) 1 = 0") (auto simp: QDMI_session_free_def bind_o_eq_Inr Let_def)
  then show ?thesis by auto
qed

lemma view_job_made:
  assumes inv: "driver_inv env ok ses jbs st" and made: "job_made ses q st r x st'"
  shows "client_step (A_job q) r x (view st) (view st')"
proof (cases "r = QDMI_SUCCESS")
  case False
  then have "view st' = view st" "x = None" using made view_same by (auto simp: job_made_def)
  then show ?thesis using False by (simp add: client_step.step_failed)
next
  case True
  then obtain j d s where x: "x = Some (next_ptr st)" and st': "st' = add_job st q j (worlds st')" and d: "cl_devices st q = Some d"
      and s: "cl_sessions st (dev_session d) = Some s" "ses_mode s = QDMI_SESSION_MODE_READWRITE"
    using made by (auto simp: job_made_def)
  have objs: "objects_ok st" "next_ptr st \<noteq> nullptr" using inv by (simp_all add: driver_inv_def)
  have q: "q \<in> set (device_list s)" using inv_device [OF inv d] s(1) by (auto simp: client_device_ok_def)
  then have init: "ses_status s = Session_INITIALIZED" using inv_session [OF inv s(1)]
    by (cases "ses_status s") (auto simp: client_session_ok_def)
  have "view st' = (view st)\<lparr>v_jobs := (v_jobs (view st))(next_ptr st \<mapsto> q)\<rparr>"
    by (subst st') (simp add: view_def add_job_def fun_eq_iff)
  moreover have "client_step (A_job q) QDMI_SUCCESS (Some (next_ptr st)) (view st) \<dots>"
    using next_ptr_fresh(3) [OF objs(1)] objs(2) d s q init
    by (intro client_step.step_job) (auto simp: view_session_def domIff)
  ultimately show ?thesis using True x by simp
qed

lemma view_job_free:
  assumes inv: "driver_inv env ok ses jbs st" and "live_or_null (cl_jobs st) p" and run: "QDMI_job_free p st = Inr st'"
  shows "client_step (A_drop p) QDMI_SUCCESS None (view st) (view st')"
proof (cases "p = nullptr")
  case True
  then show ?thesis using run by (auto simp: QDMI_job_free_def intro: client_step.step_drop_null)
next
  case False
  then obtain j where j: "cl_jobs st p = Some j" using assms(2) by (auto simp: live_or_null_def)
  have "view st' = (view st)\<lparr>v_jobs := (v_jobs (view st))(p := None)\<rparr>"
    using run False by (auto simp: QDMI_job_free_def bind_o_eq_Inr view_def fun_eq_iff)
  then show ?thesis using client_step.step_drop [of "view st" p "job_device j"] j by simp
qed

section \<open>The driver implements the specification\<close>

fun action_of :: "drv_call \<Rightarrow> client_action" where
  "action_of (Client_session_alloc oom fails out) = A_alloc"
| "action_of (Client_session_init fails p) = A_init p"
| "action_of (Client_session_free p) = A_free p"
| "action_of (Client_session_set_parameter oom p param sz value) = A_token p (token_value sz value)"
| "action_of (Client_create_job oom q out) = A_job q"
| "action_of (Client_retrieve_job_by_id oom q jid out) = A_job q"
| "action_of (Client_job_free p) = A_drop p"
| "action_of _ = A_use"

text \<open>A call with its answer: the status code, and the session or job it stores through its out-pointer.\<close>

definition answered :: "('s \<times> 'w driver) outcome \<Rightarrow> ('s \<times> ptr option \<times> 'w driver) outcome" where
  "answered m = bind_o m (\<lambda>(r, st). Inr (r, None, st))"

definition done_with :: "'w driver outcome \<Rightarrow> (QDMI_STATUS \<times> ptr option \<times> 'w driver) outcome" where
  "done_with m = bind_o m (\<lambda>st. Inr (QDMI_SUCCESS, None, st))"

fun drv_answer ::
  "'w driver_env \<Rightarrow> drv_call \<Rightarrow> 'w driver \<Rightarrow> (QDMI_STATUS \<times> ptr option \<times> 'w driver) outcome" where
  "drv_answer env (Client_session_alloc oom fails out) st = QDMI_session_alloc env oom fails out st"
| "drv_answer env (Client_session_init fails p) st = answered (QDMI_session_init fails p st)"
| "drv_answer env (Client_session_free p) st = done_with (QDMI_session_free p st)"
| "drv_answer env (Client_session_set_parameter oom p param sz value) st =
     answered (QDMI_session_set_parameter oom p param sz value st)"
| "drv_answer env (Client_create_job oom p out) st = QDMI_device_create_job oom p out st"
| "drv_answer env (Client_retrieve_job_by_id oom p jid out) st =
     QDMI_session_retrieve_job_by_id oom p jid out st"
| "drv_answer env (Client_job_free p) st = done_with (QDMI_job_free p st)"
| "drv_answer env (Client_job_set_parameter p param sz value) st =
     answered (QDMI_job_set_parameter p param sz value st)"
| "drv_answer env (Client_job_set_programs p format count sizes progs) st =
     answered (QDMI_job_set_programs p format count sizes progs st)"
| "drv_answer env (Client_job_submit p) st = answered (QDMI_job_submit p st)"
| "drv_answer env (Client_job_cancel p) st = answered (QDMI_job_cancel p st)"
| "drv_answer env (Client_job_check p out) st =
     bind_o (QDMI_job_check p out st) (\<lambda>(r, _, st'). Inr (r, None, st'))"
| "drv_answer env (Client_job_wait p timeout) st = answered (QDMI_job_wait p timeout st)"

lemma answered_Inr: "answered m = Inr (r, out, st') \<longleftrightarrow> out = None \<and> m = Inr (r, st')"
  by (cases m) (auto simp: answered_def)

lemma done_with_Inr: "done_with m = Inr (r, out, st') \<longleftrightarrow> r = QDMI_SUCCESS \<and> out = None \<and> m = Inr st'"
  by (cases m) (auto simp: done_with_def)

lemma last_of3_answered:
  "last_of3 (answered m) = last_of m" "last_of3 (done_with n) = n"
  "last_of3 (bind_o k (\<lambda>(r, _, st'). Inr (r, None, st'))) = last_of3 k"
proof -
  show "last_of3 (answered m) = last_of m" by (cases m) (auto simp: last_of3_def last_of_def answered_def)
  show "last_of3 (done_with n) = n" by (cases n) (simp_all add: last_of3_def done_with_def)
  show "last_of3 (bind_o k (\<lambda>(r, _, st'). Inr (r, None, st'))) = last_of3 k"
    by (cases k) (auto simp: last_of3_def)
qed

lemma last_of3_answer: "last_of3 (drv_answer env c st) = drv_exec env c st"
  by (cases c) (simp_all add: last_of3_answered)

lemma drv_answer_exec: "drv_answer env c st = Inr (r, out, st') \<Longrightarrow> drv_exec env c st = Inr st'"
  by (simp add: last_of3_answer [symmetric] last_of3_def)

context driver_devices
begin

lemma view_alloc_call:
  assumes inv: "driver_inv env ok ses jbs st" and run: "QDMI_session_alloc env oom fails out st = Inr (r, x, st')"
  shows "client_step A_alloc r x (view st) (view st')"
proof (cases "r = QDMI_SUCCESS")
  case True
  have x: "x = Some (next_ptr st)" and inv': "driver_inv env ok ses jbs st'" and st': "r = QDMI_SUCCESS \<Longrightarrow>
      st' = add_session (st\<lparr>libraries := libraries st', configured_devices := configured_devices st',
            refs := refs st', worlds := worlds st'\<rparr>)"
    using session_alloc_ok [OF inv, of oom fails out] run True by auto
  show ?thesis using view_alloc [OF inv inv' run [unfolded True] st' [OF True]] True x by simp
next
  case False
  then have "view st' = view st" "x \<in> {None, Some nullptr}"
    using session_alloc_ok [OF inv, of oom fails out] run view_same by auto
  then show ?thesis using False by (simp add: client_step.step_failed)
qed

lemma view_init_call:
  assumes inv: "driver_inv env ok ses jbs st" and "live_or_null (cl_sessions st) p"
    and run: "QDMI_session_init fails p st = Inr (r, st')"
  shows "client_step (A_init p) r None (view st) (view st')"
proof -
  have inv': "driver_inv env ok ses jbs st'" and res: "init_result ses p st r st'"
    using session_init_ok [OF inv assms(2), of fails] run by auto
  show ?thesis
  proof (cases "r = QDMI_SUCCESS")
    case True
    then show ?thesis using res view_init_session [OF inv inv'] by (auto simp: init_result_def)
  next
    case False
    then have "view st' = view st" using res view_same_but_mode [OF inv inv'] by (simp add: init_result_def)
    then show ?thesis using False by (simp add: client_step.step_failed)
  qed
qed

lemma view_free_call:
  assumes inv: "driver_inv env ok ses jbs st" and "live_or_null (cl_sessions st) p" and "no_jobs_of st p"
    and run: "QDMI_session_free p st = Inr st'"
  shows "client_step (A_free p) QDMI_SUCCESS None (view st) (view st')"
proof (cases "p = nullptr")
  case True
  then show ?thesis using run by (auto simp: QDMI_session_free_def intro: client_step.step_free_null)
next
  case False
  then obtain s where "cl_sessions st p = Some s" using assms(2) by (auto simp: live_or_null_def)
  moreover have "driver_inv env ok ses jbs st'" "cl_sessions st' = (cl_sessions st)(p := None)"
    "cl_jobs st' = cl_jobs st" "cl_devices st' = (cl_devices st) |` (- devices_of st p)"
    using session_free_ok [OF inv assms(2,3)] run by auto
  ultimately show ?thesis
    using view_session_free [OF inv _ assms(3)] session_free_catalog [OF run False] by simp
qed

lemma drv_answer_view:
  assumes inv: "driver_inv env ok ses jbs st" and legal: "drv_legal st c"
    and run: "drv_answer env c st = Inr (r, out, st')"
  shows "client_step (action_of c) r out (view st) (view st')"
proof (cases c)
  case (Client_session_alloc oom fails out)
  then show ?thesis using run view_alloc_call [OF inv] by simp
next
  case (Client_session_init fails p)
  then show ?thesis using run legal view_init_call [OF inv] by (auto simp: answered_Inr)
next
  case (Client_session_free p)
  then show ?thesis using run legal view_free_call [OF inv] by (auto simp: done_with_Inr)
next
  case (Client_session_set_parameter oom p param sz v)
  then show ?thesis using run view_set_parameter by (auto simp: answered_Inr)
next
  case (Client_create_job oom q out)
  then show ?thesis using run
    by (auto dest!: client_create_job_D [OF inv] intro: view_job_made [OF inv])
next
  case (Client_retrieve_job_by_id oom q jid out)
  then show ?thesis using run
    by (auto dest!: client_retrieve_job_D [OF inv] intro: view_job_made [OF inv])
next
  case (Client_job_free p)
  then show ?thesis using run legal view_job_free [OF inv] by (auto simp: done_with_Inr)
qed (use run job_call_quiet [OF inv legal _ drv_answer_exec [OF run]] view_same [of st' st] in
  \<open>auto simp: answered_Inr bind_o_eq_Inr intro: client_step.step_use\<close>)

lemma drv_exec_view:
  assumes "driver_inv env ok ses jbs st" and "drv_legal st c" and "drv_exec env c st = Inr st'"
  shows "\<exists>r out. client_step (action_of c) r out (view st) (view st')"
proof -
  obtain r out where "drv_answer env c st = Inr (r, out, st')"
    using assms(3) by (auto simp: last_of3_answer [symmetric] last_of3_Inr)
  then show ?thesis using drv_answer_view [OF assms(1,2)] by blast
qed

lemma reachable_view_ok:
  assumes "drv_reachable env ws st"
    and "worlds_ok ok ws" "live_in ses ws = {}" "live_in jbs ws = {}"
  shows "view_ok (view st)"
  using assms(1)
proof induction
  case start
  show ?case by (simp add: view_driver_init view_ok_init)
next
  case (call st c st')
  show ?case
    using drv_exec_view [OF drv_reachable_inv [OF call.hyps(1) assms(2-4)] call.hyps(2,3)] client_step_ok call.IH
    by blast
qed

end

text \<open>C3: Every call of the driver that returns is, with its status code and the handle it stores, a step of
  its action in the abstract machine of the client interface. With success: allocating adds a
  session that waits and gives its handle, with the configured ids for all sessions alike; a
  parameter sets the token of a session that waits to the client's bytes (a null value changes
  nothing); initializing needs a token and offers one new device per configured id; a job is made,
  and its handle given, on a device of a session that may run jobs only. Freeing a session without
  jobs takes away exactly its devices, freeing a job that job. A call that reports an error, and
  every other call, changes nothing a client can see and gives no handle.\<close>

theorem driver_refines_client_interface:
  assumes "driver_devices env ok ses jbs" and "drv_reachable env ws st"
    and "worlds_ok ok ws" and "live_in ses ws = {}" and "live_in jbs ws = {}"
    and "drv_legal st c" and "drv_answer env c st = Inr (r, out, st')"
  shows "client_step (action_of c) r out (view st) (view st') \<and> drv_exec env c st = Inr st'"
  using driver_devices.drv_answer_view [OF assms(1) reach_inv [OF assms(1-5)] assms(6,7)]
    drv_answer_exec [OF assms(7)] by simp

theorem driver_refines_client_interface_witness:
  "client_step (A_job 65538) QDMI_SUCCESS (Some 65539) (view open_driver) (view job_driver) \<and>
   v_jobs (view job_driver) 65539 = Some 65538"
proof -
  have "drv_legal open_driver (Client_create_job False 65538 True)"
    by (simp add: live_or_null_def) (simp add: open_driver_def one_session_def sample_devices_def)
  moreover have "drv_answer two_devices (Client_create_job False 65538 True) open_driver =
      Inr (QDMI_SUCCESS, Some 65539, job_driver)"
    using sample_create_job by simp
  ultimately have "client_step (action_of (Client_create_job False 65538 True)) QDMI_SUCCESS (Some 65539)
      (view open_driver) (view job_driver)"
    using driver_refines_client_interface [OF two_devices_contract drv_reach(4) offline_idle] by blast
  then show ?thesis by (simp add: job_driver_def)
qed

text \<open>C24: In every reachable state, a live job is on a device of an initialized session with a token that
  is not empty, and that session still offers the device.\<close>

theorem jobs_of_authorized_sessions:
  assumes "driver_devices env ok ses jbs" and "drv_reachable env ws st"
    and "worlds_ok ok ws" and "live_in ses ws = {}" and "live_in jbs ws = {}"
    and "cl_jobs st p = Some j"
  shows "\<exists>d s t. cl_devices st (job_device j) = Some d \<and> cl_sessions st (dev_session d) = Some s \<and>
    ses_status s = Session_INITIALIZED \<and> ses_token s = Some t \<and> t \<noteq> [] \<and> job_device j \<in> set (device_list s)"
proof -
  note inv = reach_inv [OF assms(1-5)]
  have "v_jobs (view st) p = Some (job_device j)" using assms(6) by simp
  from view_okD(4) [OF driver_devices.reachable_view_ok [OF assms(1-5)] this]
  obtain d s where d: "cl_devices st (job_device j) = Some d" "cl_sessions st (dev_session d) = Some s"
      "\<exists>qs. view_session s = Offering True qs" by auto
  from d(3) have "ses_status s = Session_INITIALIZED" "ses_mode s = QDMI_SESSION_MODE_READWRITE"
    by (auto simp: view_session_def split: QDMI_SESSION_STATUS.splits)
  then show ?thesis using d inv_session [OF inv d(2)] inv_device [OF inv d(1)]
    by (auto simp: client_session_ok_def client_device_ok_def)
qed

theorem jobs_of_authorized_sessions_witness:
  "\<exists>d s t. cl_devices job_driver 65538 = Some d \<and> cl_sessions job_driver (dev_session d) = Some s \<and>
     ses_token s = Some t \<and> t \<noteq> []"
proof -
  have "\<exists>j. cl_jobs job_driver 65539 = Some j \<and> job_device j = 65538" by (simp add: job_driver_def)
  then obtain j where j: "cl_jobs job_driver 65539 = Some j" "job_device j = 65538" by blast
  from jobs_of_authorized_sessions [OF two_devices_contract drv_reach(5) offline_idle j(1), unfolded j(2)]
  show ?thesis by blast
qed

end
