(* ===== verification/My_Device.thy ===== *)
theory My_Device
  imports Client_Interface
begin













definition MY_QDMI_device_job_get_program_status ::
  "'w \<Rightarrow> ptr \<Rightarrow> nat \<Rightarrow> bool \<Rightarrow> (QDMI_STATUS \<times> QDMI_JOB_STATUS_T option) outcome" where
  "MY_QDMI_device_job_get_program_status w job program_index status =
     Inr (if job = nullptr then QDMI_ERROR_INVALIDARGUMENT else QDMI_ERROR_NOTSUPPORTED, None)"







text \<open>\<open>sizeof(id)\<close> counts the terminator.\<close>

definition MY_QDMI_device_session_query_device_property :: "string \<Rightarrow> 'w \<Rightarrow> ptr \<Rightarrow> int \<Rightarrow> query" where
  "MY_QDMI_device_session_query_device_property MY_QDMI_DEVICE_ID w session prop sz v size_ret =
     (if session = nullptr then Inr (QDMI_ERROR_INVALIDARGUMENT, v, None)
      else if prop \<noteq> val_DEVICE_PROPERTY QDMI_DEVICE_PROPERTY_ID
      then Inr (QDMI_ERROR_NOTIMPLEMENTED, v, None)
      else
        let ident = MY_QDMI_DEVICE_ID @ [NUL] in
        case v of
          None \<Rightarrow> Inr (QDMI_SUCCESS, None, store_size size_ret (length ident))
        | Some mem \<Rightarrow>
            if sz < length ident then Inr (QDMI_ERROR_INVALIDARGUMENT, Some mem, None)
            else bind_o (write_at 0 ident mem) (\<lambda>mem'.
              Inr (QDMI_SUCCESS, Some mem', store_size size_ret (length ident))))"



section \<open>The template as a library\<close>




text \<open>The one property the template answers, its id, follows the protocol of the queries.\<close>

lemma my_id_sized:
  assumes "session \<noteq> nullptr"
  shows "sized_query (MY_QDMI_device_session_query_device_property i w session
    (val_DEVICE_PROPERTY QDMI_DEVICE_PROPERTY_ID)) (i @ [NUL])"
  by (rule sized_query_cong [OF id_query.sized_query_axioms [of i]])
     (use assms in \<open>auto simp: MY_QDMI_device_session_query_device_property_def id_query_def Let_def split: option.splits\<close>)

section \<open>The driver on the template\<close>









text \<open>
  The status of a program is not checked as the documentation asks: an index out of range and a
  null out-pointer are answered with \<open>QDMI_ERROR_NOTSUPPORTED\<close>, or not looked at.
\<close>

lemma template_program_status_undocumented:
  "MY_QDMI_device_job_get_program_status w 1 7 True = Inr (QDMI_ERROR_NOTSUPPORTED, None) \<and>
   \<not> doc_job_get_program_status False False True QDMI_ERROR_NOTSUPPORTED"
  by (simp add: MY_QDMI_device_job_get_program_status_def)

end
