(* ===== verification/Fomac.thy ===== *)
theory Fomac
  imports Complex_Main Driver_Ready
begin

text \<open>
  The figures-of-merit library \<open>examples/fomac/example_fomac.cpp\<close>, a client of the query functions
  of \<open>client.h\<close>. A \<open>FoMaC\<close> object holds a device; what it uses of the device is the record
  \<open>client_device\<close> of the queries on it, which \<open>driver_client\<close> takes from the driver. The
  exceptions the library throws are faults of the outcome. Warnings on \<open>std::cerr\<close> are left out.
\<close>

named_theorems fomac_defs \<open>definitions of the figures-of-merit library\<close>

record client_device =
  query_device :: "int \<Rightarrow> query"
  query_site :: "ptr \<Rightarrow> int \<Rightarrow> query"
  query_operation :: "ptr \<Rightarrow> nat \<Rightarrow> ptr list option \<Rightarrow> nat \<Rightarrow> double list option \<Rightarrow> int \<Rightarrow> query"

definition driver_client :: "'w driver \<Rightarrow> ptr \<Rightarrow> client_device" where
  "driver_client st q =
     \<lparr>query_device = QDMI_device_query_device_property st q,
      query_site = QDMI_device_query_site_property st q,
      query_operation = QDMI_device_query_operation_property st q\<rparr>"

section \<open>Status codes as exceptions\<close>

definition throw_if_error :: "QDMI_STATUS \<Rightarrow> string \<Rightarrow> unit outcome" where
  "throw_if_error status message =
     (if status = QDMI_SUCCESS \<or> status = QDMI_WARN_GENERAL then Inr ()
      else if message \<noteq> [] then
        (if status = QDMI_ERROR_INVALIDARGUMENT then Inl (Invalid_Argument_Thrown message)
         else Inl (Runtime_Error_Thrown message))
      else case status of
          QDMI_ERROR_FATAL \<Rightarrow> Inl (Runtime_Error_Thrown ''A fatal error.'')
        | QDMI_ERROR_OUTOFMEM \<Rightarrow> Inl Bad_Alloc_Thrown
        | QDMI_ERROR_NOTIMPLEMENTED \<Rightarrow> Inl (Runtime_Error_Thrown ''Not implemented.'')
        | QDMI_ERROR_LIBNOTFOUND \<Rightarrow> Inl (Runtime_Error_Thrown ''Library not found.'')
        | QDMI_ERROR_NOTFOUND \<Rightarrow> Inl (Runtime_Error_Thrown ''Element not found.'')
        | QDMI_ERROR_OUTOFRANGE \<Rightarrow> Inl Out_Of_Range_Thrown
        | QDMI_ERROR_INVALIDARGUMENT \<Rightarrow> Inl (Invalid_Argument_Thrown ''Invalid argument.'')
        | QDMI_ERROR_PERMISSIONDENIED \<Rightarrow> Inl (Runtime_Error_Thrown ''Permission denied.'')
        | QDMI_ERROR_NOTSUPPORTED \<Rightarrow> Inl (Runtime_Error_Thrown ''Operation is not supported.'')
        | _ \<Rightarrow> Inr ())"

lemma throw_if_error_success [simp]: "throw_if_error QDMI_SUCCESS message = Inr ()"
  by (simp add: throw_if_error_def)

section \<open>Reading a property\<close>

text \<open>
  The two kinds of calls every getter is made of: the size (a local variable that starts as 0),
  and the value in a buffer of \<open>n\<close> zero bytes, of which \<open>sz\<close> is stated. The data pointer of an
  empty vector is null.
\<close>

definition query_length :: "query \<Rightarrow> string \<Rightarrow> nat outcome" where
  "query_length q message =
     bind_o (q 0 None True) (\<lambda>(ret, _, n).
     bind_o (throw_if_error ret message) (\<lambda>_. Inr (case n of None \<Rightarrow> 0 | Some k \<Rightarrow> k)))"

definition query_value :: "query \<Rightarrow> nat \<Rightarrow> nat \<Rightarrow> string \<Rightarrow> region outcome" where
  "query_value q sz n message =
     bind_o (q sz (if n = 0 then None else Some (replicate n NUL)) False) (\<lambda>(ret, v, _).
     bind_o (throw_if_error ret message) (\<lambda>_. Inr (case v of None \<Rightarrow> [] | Some mem \<Rightarrow> mem)))"

text \<open>The \<open>n\<close> elements of \<open>w\<close> bytes each in a buffer.\<close>

fun elements :: "nat \<Rightarrow> nat \<Rightarrow> region \<Rightarrow> region list" where
  "elements w 0 mem = []"
| "elements w (Suc n) mem = take w mem # elements w n (drop w mem)"

text \<open>A value of \<open>w\<close> bytes, a vector of values of \<open>w\<close> bytes, a string with its terminator.\<close>

definition get_value :: "nat \<Rightarrow> query \<Rightarrow> string \<Rightarrow> nat outcome" where
  "get_value w q message = bind_o (query_value q w w message) (\<lambda>mem. Inr (of_le_bytes mem))"

definition get_vector :: "nat \<Rightarrow> query \<Rightarrow> string \<Rightarrow> string \<Rightarrow> nat list outcome" where
  "get_vector w q message message' =
     bind_o (query_length q message) (\<lambda>sz.
     bind_o (query_value q sz (sz div w * w) message') (\<lambda>mem.
       Inr (map of_le_bytes (elements w (sz div w) mem))))"

definition get_string :: "query \<Rightarrow> string \<Rightarrow> string \<Rightarrow> string outcome" where
  "get_string q message message' =
     bind_o (query_length q message) (\<lambda>sz.
       if sz = 0 then Inl Length_Error_Thrown
       else bind_o (query_value q sz sz message') (\<lambda>mem. Inr (take (sz - 1) mem)))"

section \<open>The getters\<close>

definition get_qubits_num :: "client_device \<Rightarrow> nat outcome" where
  [fomac_defs]: "get_qubits_num dev =
     get_value 8 (query_device dev (val_DEVICE_PROPERTY QDMI_DEVICE_PROPERTY_QUBITSNUM))
       ''Failed to query the number of qubits.''"

text \<open>\<open>emplace\<close> keeps the operation that has the name already.\<close>

fun add_operations :: "client_device \<Rightarrow> ptr list \<Rightarrow> (string \<rightharpoonup> ptr) \<Rightarrow> (string \<rightharpoonup> ptr) outcome" where
  "add_operations dev [] ops_map = Inr ops_map"
| "add_operations dev (opn # ops) ops_map =
     bind_o (get_string (query_operation dev opn 0 None 0 None (val_OPERATION_PROPERTY QDMI_OPERATION_PROPERTY_NAME))
         ''Failed to retrieve operation name length.'' ''Failed to retrieve operation name.'') (\<lambda>name.
       add_operations dev ops (if name \<in> dom ops_map then ops_map else ops_map(name \<mapsto> opn)))"

definition get_operation_map :: "client_device \<Rightarrow> (string \<rightharpoonup> ptr) outcome" where
  [fomac_defs]: "get_operation_map dev =
     bind_o (get_vector 8 (query_device dev (val_DEVICE_PROPERTY QDMI_DEVICE_PROPERTY_OPERATIONS))
         ''Failed to get the operations list size.'' ''Failed to retrieve operations.'')
       (\<lambda>ops. add_operations dev ops Map.empty)"

definition get_coupling_map :: "client_device \<Rightarrow> (ptr \<times> ptr) list outcome" where
  [fomac_defs]: "get_coupling_map dev =
     (let q = query_device dev (val_DEVICE_PROPERTY QDMI_DEVICE_PROPERTY_COUPLINGMAP) in
      bind_o (query_length q ''Failed to query the coupling map size.'') (\<lambda>sz.
        if sz div 8 mod 2 \<noteq> 0
        then Inl (Runtime_Error_Thrown ''The coupling map needs to have an even number of elements.'')
        else bind_o (query_value q sz (sz div 8 div 2 * 16) ''Failed to query the coupling map.'') (\<lambda>mem.
          Inr (pairs_of (map of_le_bytes (elements 8 (sz div 8) mem))))))"

definition get_sites :: "client_device \<Rightarrow> ptr list outcome" where
  [fomac_defs]: "get_sites dev =
     get_vector 8 (query_device dev (val_DEVICE_PROPERTY QDMI_DEVICE_PROPERTY_SITES))
       ''Failed to get the sites list size.'' ''Failed to get the sites.''"

definition get_site_id :: "client_device \<Rightarrow> ptr \<Rightarrow> nat outcome" where
  [fomac_defs]: "get_site_id dev site =
     get_value 8 (query_site dev site (val_SITE_PROPERTY QDMI_SITE_PROPERTY_INDEX))
       ''Failed to query the site ID''"

text \<open>
  IEEE arithmetic and the conversion from \<open>uint64_t\<close> are parameters; the literal 1000 is
  \<open>0x408F400000000000\<close>.
\<close>

record fp_ops =
  fp_times :: "double \<Rightarrow> double \<Rightarrow> double"
  fp_over :: "double \<Rightarrow> double \<Rightarrow> double"
  fp_of_u64 :: "nat \<Rightarrow> double"

definition get_us_scale_factor :: "fp_ops \<Rightarrow> client_device \<Rightarrow> double outcome" where
  [fomac_defs]: "get_us_scale_factor fp dev =
     bind_o (get_string (query_device dev (val_DEVICE_PROPERTY QDMI_DEVICE_PROPERTY_DURATIONUNIT))
         ''Failed to retrieve the device's duration unit size.''
         ''Failed to retrieve the device's duration unit.'') (\<lambda>unit_name.
     bind_o (query_value (query_device dev (val_DEVICE_PROPERTY QDMI_DEVICE_PROPERTY_DURATIONSCALEFACTOR)) 8 8
         ''Failed to query the duration scale factor'') (\<lambda>mem.
       let scale_factor = of_double_bytes mem in
       if unit_name = ''ms'' then Inr (fp_over fp scale_factor 0x408F400000000000)
       else if unit_name = ''ns'' then Inr (fp_times fp scale_factor 0x408F400000000000)
       else if unit_name \<noteq> ''us'' then Inl (Runtime_Error_Thrown (''Unrecognized unit: '' @ unit_name))
       else Inr scale_factor))"

definition get_site_t1 :: "fp_ops \<Rightarrow> client_device \<Rightarrow> ptr \<Rightarrow> double outcome" where
  [fomac_defs]: "get_site_t1 fp dev site =
     bind_o (get_value 8 (query_site dev site (val_SITE_PROPERTY QDMI_SITE_PROPERTY_T1))
         ''Failed to query the T1 time'') (\<lambda>t1.
     bind_o (get_us_scale_factor fp dev) (\<lambda>s. Inr (fp_times fp (fp_of_u64 fp t1) s)))"

definition get_site_t2 :: "fp_ops \<Rightarrow> client_device \<Rightarrow> ptr \<Rightarrow> double outcome" where
  [fomac_defs]: "get_site_t2 fp dev site =
     bind_o (get_value 8 (query_site dev site (val_SITE_PROPERTY QDMI_SITE_PROPERTY_T2))
         ''Failed to query the T2 time'') (\<lambda>t2.
     bind_o (get_us_scale_factor fp dev) (\<lambda>s. Inr (fp_times fp (fp_of_u64 fp t2) s)))"

definition get_operands_num :: "client_device \<Rightarrow> ptr \<Rightarrow> nat outcome" where
  [fomac_defs]: "get_operands_num dev opn =
     get_value 8 (query_operation dev opn 0 None 0 None (val_OPERATION_PROPERTY QDMI_OPERATION_PROPERTY_QUBITSNUM))
       ''Failed to query the operand number''"

definition get_parameters_num :: "client_device \<Rightarrow> ptr \<Rightarrow> nat outcome" where
  [fomac_defs]: "get_parameters_num dev opn =
     get_value 8 (query_operation dev opn 0 None 0 None (val_OPERATION_PROPERTY QDMI_OPERATION_PROPERTY_PARAMETERSNUM))
       ''Failed to query the parameter number''"

definition get_supported_program_formats :: "client_device \<Rightarrow> nat list outcome" where
  [fomac_defs]: "get_supported_program_formats dev =
     get_vector 4 (query_device dev (val_DEVICE_PROPERTY QDMI_DEVICE_PROPERTY_SUPPORTEDPROGRAMFORMATS))
       ''Failed to query the supported program formats size.''
       ''Failed to query the supported program formats.''"

section \<open>What the getters give\<close>

lemma elements_concat: "list_all (\<lambda>v. length v = w) vs \<Longrightarrow> elements w (length vs) (concat vs) = vs"
  by (induction vs) auto

lemma length_concat_const: "list_all (\<lambda>v. length v = w) vs \<Longrightarrow> length (concat vs) = length vs * w"
  by (induction vs) auto

context sized_query
begin

lemma query_length_payload: "query_length query message = Inr (length payload)"
  by (simp add: query_length_def ask_size)

lemma query_value_payload: "query_value query (length payload) (length payload) message = Inr payload"
proof (cases "payload = []")
  case True
  then show ?thesis by (simp add: query_value_def ask_size)
next
  case False
  then obtain mem' where "query (length payload) (Some (replicate (length payload) NUL)) False =
      Inr (QDMI_SUCCESS, Some mem', None)"
    and "length mem' = length payload" and "take (length payload) mem' = payload"
    using fits [of "length payload" "replicate (length payload) NUL" False] by auto
  then show ?thesis using False by (simp add: query_value_def)
qed

end

lemma get_value_payload:
  assumes "sized_query q (le_bytes w x)" and "x < 256 ^ w"
  shows "get_value w q message = Inr x"
  using sized_query.query_value_payload [OF assms(1), of message] assms(2)
  by (simp add: get_value_def bytes_simps)

lemma get_vector_payload:
  assumes "sized_query q (concat (map (le_bytes w) xs))" and "0 < w" and "\<forall>x \<in> set xs. x < 256 ^ w"
  shows "get_vector w q message message' = Inr xs"
proof -
  let ?vs = "map (le_bytes w) xs"
  have vs: "list_all (\<lambda>v. length v = w) ?vs" by (simp add: list_all_iff)
  have len: "length (concat ?vs) = length xs * w" using length_concat_const [OF vs] by simp
  have "elements w (length xs) (concat ?vs) = ?vs" using elements_concat [OF vs] by simp
  moreover have "map of_le_bytes ?vs = xs" using assms(3) by (simp add: bytes_simps map_idI)
  ultimately show ?thesis
    using sized_query.query_length_payload [OF assms(1)] sized_query.query_value_payload [OF assms(1)] assms(2)
    by (simp add: get_vector_def len)
qed

lemma get_string_payload:
  assumes "sized_query q (s @ [NUL])"
  shows "get_string q message message' = Inr s"
  using sized_query.query_length_payload [OF assms] sized_query.query_value_payload [OF assms]
  by (simp add: get_string_def)

section \<open>Described devices\<close>

text \<open>What a device tells a client about itself, and that its queries tell it by the protocol.\<close>

record device_description =
  desc_qubits :: nat
  desc_sites :: "ptr list"
  desc_operations :: "ptr list"
  desc_coupling :: "(ptr \<times> ptr) list"
  desc_formats :: "nat list"
  desc_unit :: string
  desc_scale :: double
  desc_index :: "ptr \<Rightarrow> nat"
  desc_t1 :: "ptr \<Rightarrow> nat"
  desc_t2 :: "ptr \<Rightarrow> nat"
  desc_name :: "ptr \<Rightarrow> string"
  desc_operands :: "ptr \<Rightarrow> nat"
  desc_parameters :: "ptr \<Rightarrow> nat"

definition flatten :: "('a \<times> 'a) list \<Rightarrow> 'a list" where
  "flatten ps = concat (map (\<lambda>(a, b). [a, b]) ps)"

definition describes_device :: "client_device \<Rightarrow> device_description \<Rightarrow> bool" where
  "describes_device dev d \<longleftrightarrow>
     sized_query (query_device dev (val_DEVICE_PROPERTY QDMI_DEVICE_PROPERTY_QUBITSNUM)) (le64 (desc_qubits d)) \<and>
     sized_query (query_device dev (val_DEVICE_PROPERTY QDMI_DEVICE_PROPERTY_SITES))
       (concat (map le64 (desc_sites d))) \<and>
     sized_query (query_device dev (val_DEVICE_PROPERTY QDMI_DEVICE_PROPERTY_OPERATIONS))
       (concat (map le64 (desc_operations d))) \<and>
     sized_query (query_device dev (val_DEVICE_PROPERTY QDMI_DEVICE_PROPERTY_COUPLINGMAP))
       (concat (map le64 (flatten (desc_coupling d)))) \<and>
     sized_query (query_device dev (val_DEVICE_PROPERTY QDMI_DEVICE_PROPERTY_SUPPORTEDPROGRAMFORMATS))
       (concat (map le32 (desc_formats d))) \<and>
     sized_query (query_device dev (val_DEVICE_PROPERTY QDMI_DEVICE_PROPERTY_DURATIONUNIT)) (desc_unit d @ [NUL]) \<and>
     sized_query (query_device dev (val_DEVICE_PROPERTY QDMI_DEVICE_PROPERTY_DURATIONSCALEFACTOR))
       (double_bytes (desc_scale d)) \<and>
     desc_qubits d < 2 ^ 64 \<and> (\<forall>x \<in> set (desc_sites d @ desc_operations d @ flatten (desc_coupling d)). x < 2 ^ 64) \<and>
     (\<forall>x \<in> set (desc_formats d). x < 2 ^ 32)"

definition describes_site :: "client_device \<Rightarrow> device_description \<Rightarrow> ptr \<Rightarrow> bool" where
  "describes_site dev d site \<longleftrightarrow>
     sized_query (query_site dev site (val_SITE_PROPERTY QDMI_SITE_PROPERTY_INDEX)) (le64 (desc_index d site)) \<and>
     sized_query (query_site dev site (val_SITE_PROPERTY QDMI_SITE_PROPERTY_T1)) (le64 (desc_t1 d site)) \<and>
     sized_query (query_site dev site (val_SITE_PROPERTY QDMI_SITE_PROPERTY_T2)) (le64 (desc_t2 d site)) \<and>
     desc_index d site < 2 ^ 64 \<and> desc_t1 d site < 2 ^ 64 \<and> desc_t2 d site < 2 ^ 64"

definition describes_operation :: "client_device \<Rightarrow> device_description \<Rightarrow> ptr \<Rightarrow> bool" where
  "describes_operation dev d opn \<longleftrightarrow>
     sized_query (query_operation dev opn 0 None 0 None (val_OPERATION_PROPERTY QDMI_OPERATION_PROPERTY_NAME))
       (desc_name d opn @ [NUL]) \<and>
     sized_query (query_operation dev opn 0 None 0 None (val_OPERATION_PROPERTY QDMI_OPERATION_PROPERTY_QUBITSNUM))
       (le64 (desc_operands d opn)) \<and>
     sized_query (query_operation dev opn 0 None 0 None (val_OPERATION_PROPERTY QDMI_OPERATION_PROPERTY_PARAMETERSNUM))
       (le64 (desc_parameters d opn)) \<and>
     desc_operands d opn < 2 ^ 64 \<and> desc_parameters d opn < 2 ^ 64"

definition describes :: "client_device \<Rightarrow> device_description \<Rightarrow> bool" where
  "describes dev d \<longleftrightarrow>
     describes_device dev d \<and> list_all (describes_site dev d) (desc_sites d) \<and>
     list_all (describes_operation dev d) (desc_operations d)"

lemma pairs_of_flatten: "pairs_of (flatten ps) = ps"
  by (induction ps) (auto simp: flatten_def)

lemma length_flatten: "length (flatten ps) = 2 * length ps"
  by (induction ps) (auto simp: flatten_def)

lemma coupling_map_payload:
  assumes "sized_query (query_device dev (val_DEVICE_PROPERTY QDMI_DEVICE_PROPERTY_COUPLINGMAP))
      (concat (map le64 (flatten ps)))" and "\<forall>x \<in> set (flatten ps). x < 2 ^ 64"
  shows "get_coupling_map dev = Inr ps"
proof -
  let ?vs = "map le64 (flatten ps)"
  have vs: "list_all (\<lambda>v. length v = 8) ?vs" by (simp add: list_all_iff)
  have len: "length (concat ?vs) = 16 * length ps"
    using length_concat_const [OF vs] by (simp add: length_flatten)
  have "elements 8 (2 * length ps) (concat ?vs) = ?vs"
    using elements_concat [OF vs] by (simp add: length_flatten)
  moreover have "map of_le_bytes ?vs = flatten ps" using assms(2) by (simp add: of_le64 map_idI)
  ultimately show ?thesis
    using sized_query.query_length_payload [OF assms(1)] sized_query.query_value_payload [OF assms(1)]
    by (simp add: get_coupling_map_def len pairs_of_flatten Let_def mult.commute [of "length ps" 16])
qed

lemma us_scale_factor_payload:
  assumes "sized_query (query_device dev (val_DEVICE_PROPERTY QDMI_DEVICE_PROPERTY_DURATIONUNIT)) (u @ [NUL])"
    and "sized_query (query_device dev (val_DEVICE_PROPERTY QDMI_DEVICE_PROPERTY_DURATIONSCALEFACTOR)) (double_bytes c)"
  shows "get_us_scale_factor fp dev =
    (if u = ''ms'' then Inr (fp_over fp c 0x408F400000000000)
     else if u = ''ns'' then Inr (fp_times fp c 0x408F400000000000)
     else if u \<noteq> ''us'' then Inl (Runtime_Error_Thrown (''Unrecognized unit: '' @ u))
     else Inr c)"
proof -
  have "query_value (query_device dev (val_DEVICE_PROPERTY QDMI_DEVICE_PROPERTY_DURATIONSCALEFACTOR)) 8 8 message =
      Inr (double_bytes c)" for message
    using sized_query.query_value_payload [OF assms(2), of message] by simp
  moreover have "get_string (query_device dev (val_DEVICE_PROPERTY QDMI_DEVICE_PROPERTY_DURATIONUNIT)) m m' = Inr u"
    for m m' by (rule get_string_payload [OF assms(1)])
  ultimately show ?thesis by (simp add: get_us_scale_factor_def bytes_simps Let_def)
qed

lemma getters_described:
  assumes "describes_device dev d"
  shows "get_qubits_num dev = Inr (desc_qubits d)" and "get_sites dev = Inr (desc_sites d)"
    and "get_coupling_map dev = Inr (desc_coupling d)"
    and "get_supported_program_formats dev = Inr (desc_formats d)"
    and "get_us_scale_factor fp dev =
      (if desc_unit d = ''ms'' then Inr (fp_over fp (desc_scale d) 0x408F400000000000)
       else if desc_unit d = ''ns'' then Inr (fp_times fp (desc_scale d) 0x408F400000000000)
       else if desc_unit d \<noteq> ''us'' then Inl (Runtime_Error_Thrown (''Unrecognized unit: '' @ desc_unit d))
       else Inr (desc_scale d))"
proof -
  note d = assms [unfolded describes_device_def]
  show "get_qubits_num dev = Inr (desc_qubits d)"
    unfolding get_qubits_num_def using d by (intro get_value_payload) auto
  show "get_sites dev = Inr (desc_sites d)"
    unfolding get_sites_def using d by (intro get_vector_payload) auto
  show "get_coupling_map dev = Inr (desc_coupling d)"
    using d by (intro coupling_map_payload) auto
  show "get_supported_program_formats dev = Inr (desc_formats d)"
    unfolding get_supported_program_formats_def using d by (intro get_vector_payload) auto
  show "get_us_scale_factor fp dev =
      (if desc_unit d = ''ms'' then Inr (fp_over fp (desc_scale d) 0x408F400000000000)
       else if desc_unit d = ''ns'' then Inr (fp_times fp (desc_scale d) 0x408F400000000000)
       else if desc_unit d \<noteq> ''us'' then Inl (Runtime_Error_Thrown (''Unrecognized unit: '' @ desc_unit d))
       else Inr (desc_scale d))"
    using d by (intro us_scale_factor_payload) auto
qed

lemma site_id_described: "describes_site dev d site \<Longrightarrow> get_site_id dev site = Inr (desc_index d site)"
  unfolding get_site_id_def by (intro get_value_payload) (auto simp: describes_site_def)

lemma site_getters_described:
  assumes "describes_site dev d site" and "get_us_scale_factor fp dev = Inr s"
  shows "get_site_t1 fp dev site = Inr (fp_times fp (fp_of_u64 fp (desc_t1 d site)) s)"
    and "get_site_t2 fp dev site = Inr (fp_times fp (fp_of_u64 fp (desc_t2 d site)) s)"
proof -
  note d = assms(1) [unfolded describes_site_def]
  have "get_value 8 (query_site dev site (val_SITE_PROPERTY QDMI_SITE_PROPERTY_T1)) m = Inr (desc_t1 d site)"
    and "get_value 8 (query_site dev site (val_SITE_PROPERTY QDMI_SITE_PROPERTY_T2)) m = Inr (desc_t2 d site)"
    for m using d by (intro get_value_payload; auto)+
  then show "get_site_t1 fp dev site = Inr (fp_times fp (fp_of_u64 fp (desc_t1 d site)) s)"
    and "get_site_t2 fp dev site = Inr (fp_times fp (fp_of_u64 fp (desc_t2 d site)) s)"
    using assms(2) by (simp_all add: get_site_t1_def get_site_t2_def)
qed

lemma operation_getters_described:
  assumes "describes_operation dev d opn"
  shows "get_operands_num dev opn = Inr (desc_operands d opn)"
    and "get_parameters_num dev opn = Inr (desc_parameters d opn)"
    and "get_string (query_operation dev opn 0 None 0 None (val_OPERATION_PROPERTY QDMI_OPERATION_PROPERTY_NAME)) m m' =
      Inr (desc_name d opn)"
proof -
  note d = assms [unfolded describes_operation_def]
  show "get_operands_num dev opn = Inr (desc_operands d opn)"
    unfolding get_operands_num_def using d by (intro get_value_payload) auto
  show "get_parameters_num dev opn = Inr (desc_parameters d opn)"
    unfolding get_parameters_num_def using d by (intro get_value_payload) auto
  show "get_string (query_operation dev opn 0 None 0 None (val_OPERATION_PROPERTY QDMI_OPERATION_PROPERTY_NAME)) m m' =
      Inr (desc_name d opn)"
    using d by (intro get_string_payload) auto
qed

text \<open>The first operation of a name is the one in the map.\<close>

lemma add_operations_described:
  assumes "list_all (describes_operation dev d) ops"
  shows "add_operations dev ops m = Inr (map_of (map (\<lambda>opn. (desc_name d opn, opn)) ops) ++ m)"
  using assms
proof (induction ops arbitrary: m)
  case (Cons opn ops)
  let ?n = "desc_name d opn" and ?t = "map_of (map (\<lambda>opn. (desc_name d opn, opn)) ops)"
  have "?t ++ (if ?n \<in> dom m then m else m(?n \<mapsto> opn)) = (?t(?n \<mapsto> opn)) ++ m"
    by (auto simp: fun_eq_iff map_add_def split: option.splits)
  then show ?case using Cons operation_getters_described(3) [of dev d opn] by (simp add: fun_upd_def)
qed simp

lemma operation_map_described:
  assumes "describes dev d"
  shows "get_operation_map dev = Inr (map_of (map (\<lambda>opn. (desc_name d opn, opn)) (desc_operations d)))"
proof -
  have "get_vector 8 (query_device dev (val_DEVICE_PROPERTY QDMI_DEVICE_PROPERTY_OPERATIONS)) m m' =
      Inr (desc_operations d)" for m m'
    using assms by (intro get_vector_payload) (auto simp: describes_def describes_device_def)
  moreover have "list_all (describes_operation dev d) (desc_operations d)" using assms by (simp add: describes_def)
  ultimately show ?thesis by (simp add: get_operation_map_def add_operations_described)
qed

section \<open>The example device through the driver\<close>

definition cxx_description :: device_description where
  "cxx_description =
     \<lparr>desc_qubits = 5, desc_sites = CXX_DEVICE_SITES, desc_operations = CXX_DEVICE_OPERATIONS,
      desc_coupling = pairs_of DEVICE_COUPLING_MAP,
      desc_formats = map nat SUPPORTED_PROGRAM_FORMATS, desc_unit = ''us'', desc_scale = 0x3F50624DD2F1A9FC,
      desc_index = (\<lambda>site. the (site_struct site)), desc_t1 = (\<lambda>_. 1000000), desc_t2 = (\<lambda>_. 100000000),
      desc_name = (\<lambda>opn. fst (the (OPERATION_PROPERTIES opn))),
      desc_operands = (\<lambda>opn. if opn = CX then 2 else 1), desc_parameters = (\<lambda>opn. if opn = CX then 0 else 1)\<rparr>"

definition cxx_client :: "cxx_env \<Rightarrow> cxx_state \<Rightarrow> ptr \<Rightarrow> client_device" where
  "cxx_client env st p =
     \<lparr>query_device = CXX_QDMI_device_session_query_device_property env st p,
      query_site = CXX_QDMI_device_session_query_site_property p,
      query_operation = CXX_QDMI_device_session_query_operation_property p\<rparr>"

lemma cxx_site_described:
  assumes "p \<noteq> nullptr" and "site \<in> set CXX_DEVICE_SITES"
  shows "describes_site (cxx_client env st p) cxx_description site"
proof -
  have site: "site \<noteq> 0" "site_id site = Inr (the (site_struct site))" "the (site_struct site) < 5"
    using assms(2) by (auto simp: CXX_DEVICE_SITES_def site_struct_def site_id_def)
  have one: "sized_query (CXX_QDMI_device_session_query_site_property p site (val_SITE_PROPERTY k)) (le64 x)"
    if "(k, x) \<in> {(QDMI_SITE_PROPERTY_INDEX, the (site_struct site)), (QDMI_SITE_PROPERTY_T1, 1000000),
      (QDMI_SITE_PROPERTY_T2, 100000000)}" for k x
    by (rule sized_query_cong [OF single.sized_query_axioms [of "le64 x"]])
       (use that assms(1) site in \<open>auto simp: CXX_QDMI_device_session_query_site_property_def macro_simps
          invalid_enum_simps\<close>)
  show ?thesis
    using one [of QDMI_SITE_PROPERTY_INDEX "the (site_struct site)"] one [of QDMI_SITE_PROPERTY_T1 1000000]
      one [of QDMI_SITE_PROPERTY_T2 100000000] site(3)
    by (simp add: describes_site_def cxx_client_def cxx_description_def)
qed

text \<open>The queries of an operation without sites and parameters, which the getters use.\<close>

definition plain_query :: "ptr \<Rightarrow> ptr \<Rightarrow> QDMI_OPERATION_PROPERTY_T \<Rightarrow> query" where
  "plain_query p opn k =
     CXX_QDMI_device_session_query_operation_property p opn 0 None 0 None (val_OPERATION_PROPERTY k)"

lemma plain_query_number:
  assumes "p \<noteq> nullptr" and "v \<noteq> None \<longrightarrow> 0 < sz"
  shows "plain_query p CX QDMI_OPERATION_PROPERTY_QUBITSNUM sz v sr = single_value_body 8 (Inr (le64 2)) sz v sr"
    and "plain_query p CX QDMI_OPERATION_PROPERTY_PARAMETERSNUM sz v sr = single_value_body 8 (Inr (le64 0)) sz v sr"
    and "opn \<in> {RX, RY, RZ} \<Longrightarrow>
      plain_query p opn QDMI_OPERATION_PROPERTY_QUBITSNUM sz v sr = single_value_body 8 (Inr (le64 1)) sz v sr"
    and "opn \<in> {RX, RY, RZ} \<Longrightarrow>
      plain_query p opn QDMI_OPERATION_PROPERTY_PARAMETERSNUM sz v sr = single_value_body 8 (Inr (le64 1)) sz v sr"
proof -
  note q = plain_query_def CXX_QDMI_device_session_query_operation_property_def macro_simps invalid_enum_simps
    static_defs
  show "plain_query p CX QDMI_OPERATION_PROPERTY_QUBITSNUM sz v sr = single_value_body 8 (Inr (le64 2)) sz v sr"
    "plain_query p CX QDMI_OPERATION_PROPERTY_PARAMETERSNUM sz v sr = single_value_body 8 (Inr (le64 0)) sz v sr"
    using assms by (auto simp: q)
  assume "opn \<in> {RX, RY, RZ}"
  then consider "opn = RX" | "opn = RY" | "opn = RZ" by blast
  then show "plain_query p opn QDMI_OPERATION_PROPERTY_QUBITSNUM sz v sr = single_value_body 8 (Inr (le64 1)) sz v sr"
    "plain_query p opn QDMI_OPERATION_PROPERTY_PARAMETERSNUM sz v sr = single_value_body 8 (Inr (le64 1)) sz v sr"
    using assms by (cases; auto simp: q)+
qed

lemma single_le64: "sized_query (single_value_body 8 (Inr (le64 x))) (le64 x)"
  using single.sized_query_axioms [of "le64 x"] by simp

lemma cxx_operation_described:
  assumes "p \<noteq> nullptr" and "opn \<in> set CXX_DEVICE_OPERATIONS"
  shows "describes_operation (cxx_client env st p) cxx_description opn"
proof -
  let ?name = "fst (the (OPERATION_PROPERTIES opn))"
  have opn: "opn \<noteq> 0" "\<exists>n. operation_entry opn = Inr (?name, n)" "c_string ?name"
    using assms(2) by (auto simp: static_defs OPERATION_PROPERTIES_def operation_entry_def c_string_def)
  have "sized_query (plain_query p opn QDMI_OPERATION_PROPERTY_NAME) (c_str ?name)"
    by (rule sized_query_cong [OF str.sized_query_axioms [of ?name]])
       (use assms(1) opn(1,2) in \<open>auto simp: plain_query_def CXX_QDMI_device_session_query_operation_property_def
          macro_simps invalid_enum_simps\<close>)
  then have name: "sized_query (plain_query p opn QDMI_OPERATION_PROPERTY_NAME) (?name @ [NUL])"
    using c_str_c_string [OF opn(3)] by simp
  have numbers: "sized_query (plain_query p opn QDMI_OPERATION_PROPERTY_QUBITSNUM) (le64 (if opn = CX then 2 else 1)) \<and>
    sized_query (plain_query p opn QDMI_OPERATION_PROPERTY_PARAMETERSNUM) (le64 (if opn = CX then 0 else 1))"
  proof (cases "opn = CX")
    case True
    have "sized_query (plain_query p CX QDMI_OPERATION_PROPERTY_QUBITSNUM) (le64 2)"
      "sized_query (plain_query p CX QDMI_OPERATION_PROPERTY_PARAMETERSNUM) (le64 0)"
      by (rule sized_query_cong [OF single_le64], erule plain_query_number [OF assms(1)])+
    then show ?thesis using True by simp
  next
    case False
    then have "opn \<in> {RX, RY, RZ}" using assms(2) by (auto simp: CXX_DEVICE_OPERATIONS_def)
    note plain = plain_query_number(3,4) [OF assms(1) _ this]
    have "sized_query (plain_query p opn QDMI_OPERATION_PROPERTY_QUBITSNUM) (le64 1)"
      "sized_query (plain_query p opn QDMI_OPERATION_PROPERTY_PARAMETERSNUM) (le64 1)"
      by (rule sized_query_cong [OF single_le64], erule plain)+
    then show ?thesis using False by simp
  qed
  show ?thesis
    using name numbers unfolding plain_query_def
    by (simp add: describes_operation_def cxx_client_def cxx_description_def)
qed

lemma flatten_pairs_of: "even (length xs) \<Longrightarrow> flatten (pairs_of xs) = xs"
  by (induction xs rule: pairs_of.induct) (auto simp: flatten_def)

lemma cxx_described:
  assumes "initialized st p"
  shows "describes (cxx_client env st p) cxx_description"
proof -
  have p: "p \<noteq> nullptr" using assms by (simp add: initialized_def)
  note sized = device_property_sized [OF assms, of env]
  have map: "flatten (pairs_of DEVICE_COUPLING_MAP) = DEVICE_COUPLING_MAP"
    by (rule flatten_pairs_of) (simp add: DEVICE_COUPLING_MAP_def)
  have formats: "map (\<lambda>f. le32 (nat f)) SUPPORTED_PROGRAM_FORMATS = map le32 (map nat SUPPORTED_PROGRAM_FORMATS)"
    by simp
  have unit_str: "c_str ''us'' = ''us'' @ [NUL]" by (rule c_str_c_string) (simp add: c_string_def)
  have "describes_device (cxx_client env st p) cxx_description"
    using sized [of QDMI_DEVICE_PROPERTY_QUBITSNUM] sized [of QDMI_DEVICE_PROPERTY_SITES]
      sized [of QDMI_DEVICE_PROPERTY_OPERATIONS] sized [of QDMI_DEVICE_PROPERTY_COUPLINGMAP]
      sized [of QDMI_DEVICE_PROPERTY_SUPPORTEDPROGRAMFORMATS] sized [of QDMI_DEVICE_PROPERTY_DURATIONUNIT]
      sized [of QDMI_DEVICE_PROPERTY_DURATIONSCALEFACTOR]
    by (simp add: describes_device_def cxx_client_def cxx_description_def device_payload_def answer_simps
        map unit_str)
       (simp add: static_defs DEVICE_COUPLING_MAP_def SUPPORTED_PROGRAM_FORMATS_def)
  moreover have "list_all (describes_site (cxx_client env st p) cxx_description) CXX_DEVICE_SITES"
    using cxx_site_described [OF p] by (simp add: list_all_iff)
  moreover have "list_all (describes_operation (cxx_client env st p) cxx_description) CXX_DEVICE_OPERATIONS"
    using cxx_operation_described [OF p] by (simp add: list_all_iff)
  ultimately show ?thesis by (simp add: describes_def) (simp add: cxx_description_def)
qed

text \<open>The driver forwards every property but the id.\<close>

lemma driver_described:
  assumes "on_cxx env oom fails st q"
  shows "describes (driver_client st q) cxx_description"
proof -
  obtain d lib where q: "q \<noteq> nullptr" "cl_devices st q = Some d" "library_of st d = Inr lib"
    "fns lib \<in> {cxx_fns env oom fails, without_retrieval (cxx_fns env oom fails)}"
    "initialized (worlds st (key_of lib)) (dev_device_session d)"
    using assms by (auto simp: on_cxx_def)
  let ?c = "cxx_client env (worlds st (key_of lib)) (dev_device_session d)"
  have fns: "device_session_query_device_property (fns lib) = CXX_QDMI_device_session_query_device_property env"
    "device_session_query_site_property (fns lib) = (\<lambda>w. CXX_QDMI_device_session_query_site_property)"
    "device_session_query_operation_property (fns lib) = (\<lambda>w. CXX_QDMI_device_session_query_operation_property)"
    using q(4) by (auto simp: cxx_fns_def)
  have "query_device (driver_client st q) k = query_device ?c k"
    if "k \<noteq> val_DEVICE_PROPERTY QDMI_DEVICE_PROPERTY_ID" for k
    using q(1-3) that by (simp add: fun_eq_iff driver_client_def cxx_client_def QDMI_device_query_device_property_def
        ask_device_def on_device_def fns)
  moreover have "query_site (driver_client st q) = query_site ?c"
    "query_operation (driver_client st q) = query_operation ?c"
    using q(1-3) by (simp_all add: fun_eq_iff driver_client_def cxx_client_def QDMI_device_query_site_property_def
        QDMI_device_query_operation_property_def ask_device_def on_device_def fns)
  moreover have "describes ?c cxx_description" by (rule cxx_described [OF q(5)])
  ultimately show ?thesis
    by (simp add: describes_def describes_device_def describes_site_def [abs_def] describes_operation_def [abs_def])
qed

section \<open>Properties\<close>

text \<open>C30: What the figures-of-merit library reads of an example device through the driver, in every
  reachable state and for every device of every session, is what the tables of the device say:
  the number of qubits, the sites and their indices, the coupling map as pairs, the operations by
  their names with their numbers of operands and parameters, the program formats, and the factor
  from the device's unit of time to microseconds.\<close>

theorem fomac_reads_the_device:
  assumes "cxx_libraries e oom fails env" and "drv_reachable env ws st"
    and "worlds_ok cxx_inv ws" and "live_in cxx_ses ws = {}" and "live_in cxx_jbs ws = {}"
    and "q \<in> dom (cl_devices st)"
  defines "dev \<equiv> driver_client st q"
  shows "get_qubits_num dev = Inr 5 \<and> get_sites dev = Inr CXX_DEVICE_SITES \<and>
    map (get_site_id dev) CXX_DEVICE_SITES = map Inr [0, 1, 2, 3, 4] \<and>
    get_coupling_map dev = Inr (pairs_of DEVICE_COUPLING_MAP) \<and>
    get_operation_map dev = Inr [''rx'' \<mapsto> RX, ''ry'' \<mapsto> RY, ''rz'' \<mapsto> RZ, ''cx'' \<mapsto> CX] \<and>
    map (get_operands_num dev) CXX_DEVICE_OPERATIONS = map Inr [1, 1, 1, 2] \<and>
    map (get_parameters_num dev) CXX_DEVICE_OPERATIONS = map Inr [1, 1, 1, 0] \<and>
    get_supported_program_formats dev = Inr (map nat SUPPORTED_PROGRAM_FORMATS) \<and>
    get_us_scale_factor fp dev = Inr 0x3F50624DD2F1A9FC"
proof -
  have desc: "describes dev cxx_description" using driver_described [OF reachable_on_cxx [OF assms(1-6)]] by (simp add: dev_def)
  have tables: "desc_sites cxx_description = CXX_DEVICE_SITES"
    "desc_operations cxx_description = CXX_DEVICE_OPERATIONS" by (simp_all add: cxx_description_def)
  have d: "describes_device dev cxx_description"
    "\<forall>site \<in> set CXX_DEVICE_SITES. describes_site dev cxx_description site"
    "\<forall>opn \<in> set CXX_DEVICE_OPERATIONS. describes_operation dev cxx_description opn"
    and all: "get_operation_map dev = Inr (map_of (map (\<lambda>opn. (desc_name cxx_description opn, opn)) CXX_DEVICE_OPERATIONS))"
    using desc operation_map_described [OF desc] by (simp_all add: describes_def list_all_iff tables)
  have scale: "get_us_scale_factor fp dev = Inr 0x3F50624DD2F1A9FC" for fp
    using getters_described(5) [OF d(1), of fp] by (simp add: cxx_description_def)
  have "map (get_site_id dev) CXX_DEVICE_SITES = map (\<lambda>site. Inr (desc_index cxx_description site)) CXX_DEVICE_SITES"
    using d(2) site_id_described by (intro map_cong) auto
  moreover have "map (get_operands_num dev) CXX_DEVICE_OPERATIONS =
      map (\<lambda>opn. Inr (desc_operands cxx_description opn)) CXX_DEVICE_OPERATIONS"
    "map (get_parameters_num dev) CXX_DEVICE_OPERATIONS =
      map (\<lambda>opn. Inr (desc_parameters cxx_description opn)) CXX_DEVICE_OPERATIONS"
    using d(3) operation_getters_described by (auto intro!: map_cong)
  ultimately show ?thesis
    using all getters_described(1-4) [OF d(1)] scale
    by (simp add: cxx_description_def static_defs site_struct_def OPERATION_PROPERTIES_def fun_upd_twist)
qed

theorem fomac_reads_the_device_witness: "get_sites (driver_client open_driver 65538) = Inr CXX_DEVICE_SITES"
proof -
  have "65538 \<in> dom (cl_devices open_driver)"
    by (simp add: open_driver_def one_session_def sample_devices_def)
  from fomac_reads_the_device [OF two_devices_cxx drv_reach(4) offline_idle this] show ?thesis by blast
qed

text \<open>How many microseconds a unit of time is.\<close>

definition us_in :: "string \<Rightarrow> rat" where
  "us_in u = (if u = ''ms'' then 1000 else if u = ''us'' then 1 else 1 / 1000)"

text \<open>C34: The factor from a device's unit of time to microseconds is right for devices that count in
  microseconds only. For milliseconds and nanoseconds the two branches are the wrong way round:
  even with exact arithmetic the factor is a million times too small for milliseconds and a
  million times too large for nanoseconds.\<close>

theorem us_scale_factor_inverted:
  assumes "sized_query (query_device dev (val_DEVICE_PROPERTY QDMI_DEVICE_PROPERTY_DURATIONUNIT)) (u @ [NUL])"
    and "sized_query (query_device dev (val_DEVICE_PROPERTY QDMI_DEVICE_PROPERTY_DURATIONSCALEFACTOR)) (double_bytes c)"
    and "val (fp_over fp c 0x408F400000000000) = val c / 1000"
    and "val (fp_times fp c 0x408F400000000000) = val c * (1000 :: rat)"
    and "u \<in> {''ms'', ''us'', ''ns''}"
  shows "\<exists>s. get_us_scale_factor fp dev = Inr s \<and>
    val s = us_in u * val c * (if u = ''ms'' then 1 / 1000000 else if u = ''us'' then 1 else 1000000)"
  using assms(3-5) by (auto simp: us_scale_factor_payload [OF assms(1,2)] us_in_def)

theorem us_scale_factor_inverted_witness:
  "\<exists>dev fp s. get_us_scale_factor fp dev = Inr s \<and> (if s = 1 then 1 / 1000 else 1) = us_in ''ms'' * 1 * (1 / 1000000)"
proof -
  let ?unit = "val_DEVICE_PROPERTY QDMI_DEVICE_PROPERTY_DURATIONUNIT"
  let ?dev = "\<lparr>query_device = (\<lambda>k. if k = ?unit then string_body (Inr ''ms'')
      else single_value_body 8 (Inr (double_bytes 0))),
    query_site = undefined, query_operation = undefined\<rparr>"
  let ?fp = "\<lparr>fp_times = (\<lambda>_ _. 2), fp_over = (\<lambda>_ _. 1), fp_of_u64 = (\<lambda>_. 0)\<rparr>"
  let ?val = "\<lambda>w :: double. if w = 1 then 1 / 1000 else if w = 2 then 1000 else 1 :: rat"
  have "c_str ''ms'' = ''ms'' @ [NUL]" by (rule c_str_c_string) (simp add: c_string_def)
  then have "sized_query (query_device ?dev ?unit) (''ms'' @ [NUL])"
    using str.sized_query_axioms [of "''ms''"] by simp
  moreover have "sized_query (query_device ?dev (val_DEVICE_PROPERTY QDMI_DEVICE_PROPERTY_DURATIONSCALEFACTOR))
      (double_bytes 0)" using single.sized_query_axioms [of "double_bytes 0"] by simp
  ultimately obtain s where "get_us_scale_factor ?fp ?dev = Inr s"
    "?val s = us_in ''ms'' * ?val 0 * (1 / 1000000)"
    using us_scale_factor_inverted [of ?dev "''ms''" 0 ?val ?fp] by auto
  moreover from this have "s = 1" by (auto simp: us_in_def split: if_splits)
  ultimately show ?thesis by (intro exI [of _ ?dev] exI [of _ ?fp] exI [of _ s]) simp
qed

end
