(* ===== verification/Tool.thy ===== *)
theory Tool
  imports Fomac
begin

text \<open>
  The example compilation pass \<open>examples/tool/example_tool.cpp\<close>: \<open>replace_all_occurrences\<close> as the loop
  it is, with the reference it computes, and \<open>compile\<close>, a client of the figures-of-merit library.
\<close>

section \<open>Replacing all occurrences\<close>

text \<open>\<open>str.find(from, pos)\<close>; \<open>None\<close> is \<open>npos\<close>. A position past the end finds nothing.\<close>

definition occurs_at :: "string \<Rightarrow> string \<Rightarrow> nat \<Rightarrow> bool" where
  "occurs_at str from pos \<longleftrightarrow> pos \<le> length str \<and> prefix from (drop pos str)"

definition find_from :: "string \<Rightarrow> string \<Rightarrow> nat \<Rightarrow> nat option" where
  "find_from str from pos = List.find (occurs_at str from) [pos..<Suc (length str)]"

text \<open>
  How long strings can get: \<open>max_size()\<close> and the memory. Making a string of \<open>n\<close> characters throws
  \<open>std::length_error\<close> beyond the first and \<open>std::bad_alloc\<close> beyond the second.
\<close>

type_synonym string_limits = "nat \<times> nat"

definition longest :: "string_limits \<Rightarrow> nat" where
  "longest room = min (fst room) (snd room)"

definition too_long :: "string_limits \<Rightarrow> nat \<Rightarrow> fault option" where
  "too_long room n =
     (if fst room < n then Some Length_Error_Thrown
      else if snd room < n then Some Bad_Alloc_Thrown else None)"

lemma too_long_None [simp]: "too_long room n = None \<longleftrightarrow> n \<le> longest room"
  by (simp add: too_long_def longest_def)

lemma too_long_fits: "n \<le> longest room \<Longrightarrow> too_long room n = None"
  by (subst too_long_None)

definition throws_length :: "string outcome option \<Rightarrow> bool" where
  "throws_length r \<longleftrightarrow> r \<in> {Some (Inl Length_Error_Thrown), Some (Inl Bad_Alloc_Thrown)}"

lemma too_long_Some: "too_long room n = Some e \<Longrightarrow> throws_length (Some (Inl e)) \<and> longest room < n"
  by (auto simp: too_long_def longest_def throws_length_def split: if_splits)

text \<open>
  The loop may not end, so it is a partial function: \<open>None\<close> is a run without end, \<open>Some\<close> has the
  exception or the string. \<open>str.replace(pos, from.length(), to)\<close> with \<open>pos\<close> in range.
\<close>

partial_function (option) replace_loop ::
  "string_limits \<Rightarrow> string \<Rightarrow> string \<Rightarrow> string \<Rightarrow> nat \<Rightarrow> string outcome option" where
  "replace_loop room from to str start_pos =
     (case find_from str from start_pos of
        None \<Rightarrow> Some (Inr str)
      | Some pos \<Rightarrow>
          let str' = take pos str @ to @ drop (pos + length from) str in
          (case too_long room (length str') of
             Some e \<Rightarrow> Some (Inl e)
           | None \<Rightarrow> replace_loop room from to str' (pos + length to)))"

definition replace_all_occurrences ::
  "string_limits \<Rightarrow> string \<Rightarrow> string \<Rightarrow> string \<Rightarrow> string outcome option" where
  "replace_all_occurrences room str from to = replace_loop room from to str 0"

text \<open>What the loop computes: replacing from left to right, occurrences do not overlap.\<close>

function subst :: "string \<Rightarrow> string \<Rightarrow> string \<Rightarrow> string" where
  "subst from to [] = []"
| "subst from to (c # cs) =
     (if from \<noteq> [] \<and> prefix from (c # cs) then to @ subst from to (drop (length from) (c # cs))
      else c # subst from to cs)"
  by pat_completeness auto
termination
  by (relation "measure (\<lambda>(from, to, s). length s)") (auto simp: Suc_le_eq)

lemma find_from_Some:
  "find_from str from pos = Some p \<longleftrightarrow>
     pos \<le> p \<and> occurs_at str from p \<and> (\<forall>i. pos \<le> i \<and> i < p \<longrightarrow> \<not> occurs_at str from i)"
proof -
  have "find_from str from pos = Some p \<longleftrightarrow>
      (\<exists>i < length [pos..<Suc (length str)]. occurs_at str from ([pos..<Suc (length str)] ! i) \<and>
        p = [pos..<Suc (length str)] ! i \<and> (\<forall>j < i. \<not> occurs_at str from ([pos..<Suc (length str)] ! j)))"
    unfolding find_from_def find_Some_iff by blast
  also have "\<dots> \<longleftrightarrow> pos \<le> p \<and> occurs_at str from p \<and> (\<forall>i. pos \<le> i \<and> i < p \<longrightarrow> \<not> occurs_at str from i)"
  proof
    assume "\<exists>i < length [pos..<Suc (length str)]. occurs_at str from ([pos..<Suc (length str)] ! i) \<and>
        p = [pos..<Suc (length str)] ! i \<and> (\<forall>j < i. \<not> occurs_at str from ([pos..<Suc (length str)] ! j))"
    then obtain i where i: "i < Suc (length str) - pos" "p = pos + i" "occurs_at str from p"
      "\<forall>j < i. \<not> occurs_at str from (pos + j)" by (auto simp del: upt_Suc)
    have "\<not> occurs_at str from k" if "pos \<le> k" "k < p" for k
      using i(2,4) that by (metis le_add_diff_inverse nat_add_left_cancel_less)
    then show "pos \<le> p \<and> occurs_at str from p \<and> (\<forall>i. pos \<le> i \<and> i < p \<longrightarrow> \<not> occurs_at str from i)"
      using i by simp
  next
    assume *: "pos \<le> p \<and> occurs_at str from p \<and> (\<forall>i. pos \<le> i \<and> i < p \<longrightarrow> \<not> occurs_at str from i)"
    then have "p \<le> length str" by (simp add: occurs_at_def)
    with * show "\<exists>i < length [pos..<Suc (length str)]. occurs_at str from ([pos..<Suc (length str)] ! i) \<and>
        p = [pos..<Suc (length str)] ! i \<and> (\<forall>j < i. \<not> occurs_at str from ([pos..<Suc (length str)] ! j))"
      by (intro exI [of _ "p - pos"]) (auto simp del: upt_Suc)
  qed
  finally show ?thesis .
qed

lemma occurs_at_append: "occurs_at (pre @ rest) from (length pre + k) \<longleftrightarrow> occurs_at rest from k"
  by (simp add: occurs_at_def)

lemma subst_match:
  "from \<noteq> [] \<Longrightarrow> prefix from s \<Longrightarrow> subst from to s = to @ subst from to (drop (length from) s)"
  by (cases s) auto

lemma subst_skip:
  assumes "\<forall>i < k. \<not> prefix from (drop i s)" and "k \<le> length s"
  shows "subst from to s = take k s @ subst from to (drop k s)"
  using assms
proof (induction k arbitrary: s)
  case (Suc k)
  then obtain c cs where s: "s = c # cs" by (cases s) auto
  have "\<not> prefix from (drop i cs)" if "i < k" for i
    using Suc.prems(1) that by (force simp: s)
  then have "subst from to cs = take k cs @ subst from to (drop k cs)"
    using Suc s by simp
  moreover have "\<not> prefix from s" using Suc.prems(1) by force
  ultimately show ?case by (simp add: s)
qed simp

lemma subst_longer: "length from \<le> length to \<Longrightarrow> length s \<le> length (subst from to s)"
proof (induction "from" to s rule: subst.induct)
  case (2 "from" to c cs)
  show ?case
  proof (cases "from \<noteq> [] \<and> prefix from (c # cs)")
    case True
    then have "length from \<le> length (c # cs)" by (intro prefix_length_le) simp
    then show ?thesis using 2(1) [OF True 2(3)] 2(3) True by simp
  next
    case False
    then show ?thesis using 2(2) [OF False 2(3)] by auto
  qed
qed simp

text \<open>The string the loop is to return, if it fits.\<close>

definition fitting :: "string_limits \<Rightarrow> string \<Rightarrow> string outcome option \<Rightarrow> bool" where
  "fitting room s r \<longleftrightarrow> (if length s \<le> longest room then r = Some (Inr s) else throws_length r)"

lemma replace_loop_subst:
  assumes "from \<noteq> []" and "length (pre @ rest) \<le> longest room"
  shows "fitting room (pre @ subst from to rest) (replace_loop room from to (pre @ rest) (length pre))"
  using assms(2)
proof (induction "length rest" arbitrary: pre rest rule: less_induct)
  case less
  show ?case
  proof (cases "find_from (pre @ rest) from (length pre)")
    case None
    have "\<not> occurs_at (pre @ rest) from (length pre + i)" if "i \<le> length rest" for i
    proof -
      have "length pre + i \<in> set [length pre..<Suc (length (pre @ rest))]"
        using that by (simp del: upt_Suc)
      then show ?thesis using None unfolding find_from_def find_None_iff by blast
    qed
    then have none: "\<forall>i < length rest. \<not> prefix from (drop i rest)"
      unfolding occurs_at_append by (simp add: occurs_at_def)
    have "subst from to rest = rest" using subst_skip [OF none order.refl] by simp
    then show ?thesis using None less.prems by (simp add: replace_loop.simps fitting_def)
  next
    case (Some p)
    then have p: "length pre \<le> p" "occurs_at (pre @ rest) from p"
      "\<forall>i. length pre \<le> i \<and> i < p \<longrightarrow> \<not> occurs_at (pre @ rest) from i"
      by (simp_all add: find_from_Some)
    define k where "k = p - length pre"
    have pk: "p = length pre + k" using p(1) by (simp add: k_def)
    have k: "k \<le> length rest" "prefix from (drop k rest)"
      using p(2) unfolding pk occurs_at_append by (simp_all add: occurs_at_def)
    have "\<not> prefix from (drop i rest)" if "i < k" for i
      using p(3) [rule_format, of "length pre + i"] that k(1) unfolding pk occurs_at_append
      by (simp add: occurs_at_def)
    then have sub: "subst from to rest = take k rest @ to @ subst from to (drop (k + length from) rest)"
      using subst_skip [of k "from" rest to] subst_match [OF assms(1) k(2), of to] k(1)
      by (simp add: add.commute)
    let ?pre = "pre @ take k rest @ to" and ?rest = "drop (k + length from) rest"
    have "drop k rest \<noteq> []" using assms(1) k(2) by auto
    then have shorter: "length ?rest < length rest" using assms(1) by (cases "from") auto
    have str: "take p (pre @ rest) @ to @ drop (p + length from) (pre @ rest) = ?pre @ ?rest"
        "p + length to = length ?pre" using k(1) by (simp_all add: pk)
    have step: "replace_loop room from to (pre @ rest) (length pre) =
        (case too_long room (length (?pre @ ?rest)) of Some e \<Rightarrow> Some (Inl e)
         | None \<Rightarrow> replace_loop room from to (?pre @ ?rest) (length ?pre))"
      by (subst replace_loop.simps) (simp only: Some option.case Let_def str)
    show ?thesis
    proof (cases "too_long room (length (?pre @ ?rest))")
      case None
      then have "fitting room (?pre @ subst from to ?rest) (replace_loop room from to (?pre @ ?rest) (length ?pre))"
        by (intro less.hyps [OF shorter]) simp
      then show ?thesis unfolding step None by (simp only: option.case sub append_assoc)
    next
      case (Some e)
      note long = too_long_Some [OF this]
      have "length (?pre @ ?rest) + length from = length (pre @ rest) + length to"
        using k prefix_length_le [OF k(2)] by simp
      then have "length from \<le> length to" using long less.prems by linarith
      from subst_longer [OF this, of ?rest]
      have "length (?pre @ ?rest) \<le> length (pre @ subst from to rest)" by (simp add: sub)
      then show ?thesis using long step Some unfolding fitting_def by simp
    qed
  qed
qed

text \<open>An empty text is found where the search starts; a text that is inserted there makes the string longer.\<close>

lemma find_from_empty: "find_from str [] pos = (if pos \<le> length str then Some pos else None)"
proof (cases "pos \<le> length str")
  case True
  then show ?thesis by (simp add: find_from_Some occurs_at_def)
qed (simp add: find_from_def)

lemma replace_loop_inserts:
  assumes "to \<noteq> []" and "pos \<le> length str"
  shows "throws_length (replace_loop room [] to str pos)"
  using assms(2)
proof (induction "Suc (longest room) - length str" arbitrary: str pos rule: less_induct)
  case less
  let ?str = "take pos str @ to @ drop pos str"
  have len: "length ?str = length str + length to" using less.prems by simp
  show ?case
  proof (cases "too_long room (length ?str)")
    case None
    then have "length ?str \<le> longest room" by simp
    then have "Suc (longest room) - length ?str < Suc (longest room) - length str"
      using len assms(1) by (cases to) auto
    then have "throws_length (replace_loop room [] to ?str (pos + length to))"
      by (rule less.hyps) (use less.prems len in simp)
    then show ?thesis using None len less.prems
      by (subst replace_loop.simps) (simp add: find_from_empty too_long_fits)
  next
    case (Some e)
    then show ?thesis using too_long_Some [OF Some] less.prems
      by (subst replace_loop.simps) (simp add: find_from_empty)
  qed
qed

lemma replace_loop_endless:
  assumes "replace_loop room from to str pos = Some y"
  shows "\<not> (from = [] \<and> to = [] \<and> pos \<le> length str \<and> length str \<le> longest room)"
proof (rule replace_loop.raw_induct [where P = "\<lambda>room fr to str pos y.
    \<not> (fr = [] \<and> to = [] \<and> pos \<le> length str \<and> length str \<le> longest room)", OF _ assms])
  fix f room fr to str pos y
  assume IH: "\<And>room fr to str pos y. f room fr to str pos = Some y \<Longrightarrow>
      \<not> (fr = [] \<and> to = [] \<and> pos \<le> length str \<and> length str \<le> longest room)"
    and run: "(case find_from str fr pos of None \<Rightarrow> Some (Inr str)
      | Some p \<Rightarrow> let str' = take p str @ to @ drop (p + length fr) str in
          (case too_long room (length str') of
             None \<Rightarrow> f room fr to str' (p + length to) | Some e \<Rightarrow> Some (Inl e))) = Some y"
  show "\<not> (fr = [] \<and> to = [] \<and> pos \<le> length str \<and> length str \<le> longest room)"
  proof
    assume empty: "fr = [] \<and> to = [] \<and> pos \<le> length str \<and> length str \<le> longest room"
    have "f room fr to str pos = Some y"
      using run empty by (simp add: find_from_empty too_long_fits)
    from IH [OF this] empty show False by simp
  qed
qed

lemma replace_all_subst:
  assumes "from \<noteq> []" and "length str \<le> longest room"
  shows "fitting room (subst from to str) (replace_all_occurrences room str from to)"
  using replace_loop_subst [of "from" "[]" str room to] assms by (simp add: replace_all_occurrences_def)

text \<open>C33: On a string in memory, replacing all occurrences runs without end exactly if both texts are empty. It
  ends with a result or with the exception for a string too long as soon as the text to replace is
  not empty; and if only that text is empty, the loop inserts the replacement until the exception,
  so that it never returns a string.\<close>

theorem replace_ends_iff_nonempty:
  assumes "length str \<le> longest room"
  shows "(replace_all_occurrences room str from to = None \<longleftrightarrow> from = [] \<and> to = []) \<and>
    (from = [] \<and> to \<noteq> [] \<longrightarrow> throws_length (replace_all_occurrences room str from to))"
proof -
  have insert: "throws_length (replace_all_occurrences room str [] to)" if "to \<noteq> []"
    using replace_loop_inserts [OF that, of 0 str room] by (simp add: replace_all_occurrences_def)
  have "replace_all_occurrences room str [] [] = None"
    using replace_loop_endless [of room "[]" "[]" str 0] assms
    by (cases "replace_loop room [] [] str 0") (auto simp: replace_all_occurrences_def)
  moreover have "replace_all_occurrences room str from to \<noteq> None" if "from \<noteq> [] \<or> to \<noteq> []"
    using that replace_all_subst [OF _ assms, of "from" to] insert
    by (cases "from = []") (auto simp: fitting_def throws_length_def split: if_splits)
  ultimately show ?thesis using insert by (cases "from = []"; cases "to = []") auto
qed

theorem replace_ends_iff_nonempty_witness:
  "replace_all_occurrences (100, 50) ''ab'' [] [] = None \<and>
   throws_length (replace_all_occurrences (100, 50) ''ab'' [] ''x'')"
  using replace_ends_iff_nonempty [of "''ab''" "(100, 50)" "[]" "[]"]
    replace_ends_iff_nonempty [of "''ab''" "(100, 50)" "[]" "''x''"]
  by (simp add: longest_def)

text \<open>C32: The loop of \<open>replace_all_occurrences\<close>, which searches and splices the string it works on, computes
  the replacement of the occurrences from left to right: a character is kept, or an occurrence is
  replaced and the search goes on behind it, never inside a replacement. For a text to replace
  that is not empty and a string in memory it returns that string if the memory holds it, and
  otherwise ends with the exception for a string too long.\<close>

theorem replace_computes_subst:
  assumes "from \<noteq> []" and "length str \<le> longest room"
  shows "if length (subst from to str) \<le> longest room
    then replace_all_occurrences room str from to = Some (Inr (subst from to str))
    else throws_length (replace_all_occurrences room str from to)"
  using replace_all_subst [OF assms] by (simp add: fitting_def)

theorem replace_computes_subst_witness:
  "replace_all_occurrences (100, 50) ''a0a01'' ''a0'' ''a0a'' = Some (Inr ''a0aa0a1'')"
  using replace_computes_subst [of "''a0''" "''a0a01''" "(100, 50)" "''a0a''"] by (simp add: longest_def)

section \<open>The declaration of the register\<close>

text \<open>
  The regular expression \<open>qreg \w+\[(\d)\];\<close>. A bracket is not a word character, so \<open>\w+\<close> matches the
  whole run of word characters or nothing does. A match is the digit and the rest behind it.
\<close>

definition is_word :: "char \<Rightarrow> bool" where
  "is_word c \<longleftrightarrow>
     (let n = of_char c :: nat in
      48 \<le> n \<and> n \<le> 57 \<or> 65 \<le> n \<and> n \<le> 90 \<or> n = 95 \<or> 97 \<le> n \<and> n \<le> 122)"

definition is_digit :: "char \<Rightarrow> bool" where
  "is_digit c \<longleftrightarrow> (let n = of_char c :: nat in 48 \<le> n \<and> n \<le> 57)"

definition qreg_match :: "string \<Rightarrow> (char \<times> string) option" where
  "qreg_match s =
     (if prefix ''qreg '' s then
        let name = takeWhile is_word (drop 5 s); rest = dropWhile is_word (drop 5 s) in
        (case rest of
           c1 # d # c2 # c3 # after \<Rightarrow>
             if name \<noteq> [] \<and> c1 = CHR ''['' \<and> is_digit d \<and> c2 = CHR '']'' \<and> c3 = CHR '';''
             then Some (d, after) else None
         | _ \<Rightarrow> None)
      else None)"

lemma qreg_match_shorter: "qreg_match s = Some (d, after) \<Longrightarrow> length after < length s"
  using length_dropWhile_le [of is_word "drop 5 s"]
  by (auto simp: qreg_match_def Let_def split: if_splits list.splits)

text \<open>\<open>std::sregex_iterator\<close>: the matches from left to right, each search behind the match before.\<close>

function qreg_matches :: "string \<Rightarrow> char list" where
  "qreg_matches s =
     (case qreg_match s of
        Some (d, after) \<Rightarrow> d # qreg_matches after
      | None \<Rightarrow> (case s of [] \<Rightarrow> [] | c # cs \<Rightarrow> qreg_matches cs))"
  by pat_completeness auto
termination
  by (relation "measure length") (auto dest: qreg_match_shorter)

declare qreg_matches.simps [simp del]

section \<open>Compilation\<close>

definition qubit :: "string \<Rightarrow> string" where
  "qubit i = ''q['' @ i @ '']''"

definition qreg_decl :: "nat \<Rightarrow> string" where
  "qreg_decl n = ''qreg q['' @ show_nat n @ ''];''"

text \<open>The loops of \<open>replace_all_occurrences\<close> one after the other: \<open>None\<close> would be one without end.\<close>

definition and_then :: "'a outcome option \<Rightarrow> ('a \<Rightarrow> 'b outcome option) \<Rightarrow> 'b outcome option" where
  "and_then m f = (case m of None \<Rightarrow> None | Some (Inl e) \<Rightarrow> Some (Inl e) | Some (Inr x) \<Rightarrow> f x)"

lemma and_then_simps [simp]: "and_then (Some (Inr x)) f = f x" "and_then (Some (Inl e)) f = Some (Inl e)"
  by (simp_all add: and_then_def)

definition relabel ::
  "string_limits \<Rightarrow> nat \<Rightarrow> nat \<Rightarrow> nat \<Rightarrow> nat \<Rightarrow> string \<Rightarrow> string outcome option" where
  "relabel room num_qubits dev_qubits id0 id1 qasm_string =
     and_then (replace_all_occurrences room qasm_string (qreg_decl num_qubits) (qreg_decl dev_qubits)) (\<lambda>r1.
     and_then (replace_all_occurrences room r1 (qubit ''0'') (qubit ''aux'')) (\<lambda>r2.
     and_then (replace_all_occurrences room r2 (qubit ''1'') (qubit (show_nat id1))) (\<lambda>r3.
       replace_all_occurrences room r3 (qubit ''aux'') (qubit (show_nat id0)))))"

text \<open>
  \<open>front()\<close> of an empty vector is not defined. The device is asked again for its qubits. Memory
  counts for the circuit and its replacements only.
\<close>

definition compile :: "string_limits \<Rightarrow> client_device \<Rightarrow> string \<Rightarrow> string outcome option" where
  "compile room dev qasm_string =
     (case qreg_matches qasm_string of
        [] \<Rightarrow> Some (Inl (Invalid_Argument_Thrown ''The circuit does not declare any qubits.''))
      | _ # _ # _ \<Rightarrow> Some (Inl (Invalid_Argument_Thrown ''The circuit declares more than one qubit register.''))
      | [d] \<Rightarrow>
          let num_qubits = read_nat 0 [d] in
          if 2 < num_qubits
          then Some (Inl (Invalid_Argument_Thrown (''The circuit uses more than two qubits but '' @
                 ''this tool only supports up to two qubits.'')))
          else and_then (Some (get_qubits_num dev)) (\<lambda>available.
            if available < num_qubits
            then Some (Inl (Invalid_Argument_Thrown ''The device does not provide enough qubits for the circuit.''))
            else and_then (Some (get_coupling_map dev)) (\<lambda>couplings.
              case couplings of
                [] \<Rightarrow> Some (Inl Out_Of_Bounds)
              | edge # _ \<Rightarrow>
                  and_then (Some (get_site_id dev (fst edge))) (\<lambda>id0.
                  and_then (Some (get_site_id dev (snd edge))) (\<lambda>id1.
                  and_then (Some (get_qubits_num dev)) (\<lambda>dev_qubits.
                    relabel room num_qubits dev_qubits id0 id1 qasm_string))))))"

section \<open>What compilation does\<close>

text \<open>The two qubits are renamed at once.\<close>

function rename_qubits :: "string \<Rightarrow> string \<Rightarrow> string \<Rightarrow> string" where
  "rename_qubits a b [] = []"
| "rename_qubits a b (c # cs) =
     (if prefix (qubit ''0'') (c # cs) then a @ rename_qubits a b (drop 3 cs)
      else if prefix (qubit ''1'') (c # cs) then b @ rename_qubits a b (drop 3 cs)
      else c # rename_qubits a b cs)"
  by pat_completeness auto
termination
  by (relation "measure (\<lambda>(a, b, s). length s)") auto

lemma prefix_subst:
  assumes "CHR ''q'' \<notin> set w"
  shows "prefix w (subst (CHR ''q'' # p) (CHR ''q'' # t) s) \<longleftrightarrow> prefix w s"
  using assms
proof (induction w arbitrary: s)
  case (Cons x w)
  then show ?case by (cases s) auto
qed simp

lemma subst_no_q: "CHR ''q'' \<notin> set w \<Longrightarrow> subst (CHR ''q'' # p) t (w @ r) = w @ subst (CHR ''q'' # p) t r"
  by (induction w) auto

lemma subst_qubit_number:
  "subst (qubit ''aux'') t (qubit (show_nat n) @ r) = qubit (show_nat n) @ subst (qubit ''aux'') t r"
proof -
  have digits: "CHR ''q'' \<notin> set (show_nat n)" "CHR ''a'' \<notin> set (show_nat n)"
    by (rule show_nat_avoids; simp)+
  have "show_nat n \<noteq> []" by (subst show_nat.simps) auto
  then obtain d ds where ds: "show_nat n = d # ds" by (cases "show_nat n") auto
  let ?w = "CHR ''['' # show_nat n @ '']''"
  have aux: "qubit ''aux'' = CHR ''q'' # ''[aux]''" by (simp add: qubit_def)
  have "subst (CHR ''q'' # ''[aux]'') t (?w @ r) = ?w @ subst (CHR ''q'' # ''[aux]'') t r"
    by (rule subst_no_q) (use digits(1) in simp)
  moreover have "qubit (show_nat n) @ r = CHR ''q'' # (?w @ r)" by (simp add: qubit_def)
  moreover have "\<not> prefix (CHR ''q'' # ''[aux]'') (CHR ''q'' # (?w @ r))" using digits(2) ds by auto
  ultimately show ?thesis unfolding aux by (simp add: qubit_def)
qed

lemma rename_qubits_first [simp]:
  "rename_qubits a b (qubit ''0'' @ s) = a @ rename_qubits a b s"
  "rename_qubits a b (qubit ''1'' @ s) = b @ rename_qubits a b s"
  by (simp_all add: qubit_def)

text \<open>The three replacements of the qubits, on a circuit that does not mention the auxiliary name.\<close>

lemma relabel_qubits:
  assumes "\<forall>i. \<not> prefix (qubit ''aux'') (drop i s)"
  shows "subst (qubit ''aux'') a (subst (qubit ''1'') (qubit (show_nat n)) (subst (qubit ''0'') (qubit ''aux'') s)) =
    rename_qubits a (qubit (show_nat n)) s"
  using assms
proof (induction a "qubit (show_nat n)" s rule: rename_qubits.induct)
  case (2 a c cs)
  let ?b = "qubit (show_nat n)"
  have q: "qubit ''0'' = CHR ''q'' # ''[0]''" "qubit ''1'' = CHR ''q'' # ''[1]''" "qubit ''aux'' = CHR ''q'' # ''[aux]''"
    "?b = CHR ''q'' # (CHR ''['' # show_nat n @ '']'')"
    by (simp_all add: qubit_def)
  have no_aux: "\<not> prefix (qubit ''aux'') (c # cs)" using 2(4) [rule_format, of 0] by simp
  have later: "\<forall>i. \<not> prefix (qubit ''aux'') (drop i (drop k cs))" for k
    using 2(4) [rule_format, of "Suc (_ + k)"] by (simp add: add.commute)
  consider (zero) "prefix (qubit ''0'') (c # cs)" | (one) "prefix (qubit ''1'') (c # cs)" "\<not> prefix (qubit ''0'') (c # cs)"
    | (other) "\<not> prefix (qubit ''0'') (c # cs)" "\<not> prefix (qubit ''1'') (c # cs)" by blast
  then show ?case
  proof cases
    case zero
    then obtain r where r: "c # cs = qubit ''0'' @ r" "drop 3 cs = r" by (auto simp: prefix_def qubit_def)
    have "subst (qubit ''0'') (qubit ''aux'') (qubit ''0'' @ r) = qubit ''aux'' @ subst (qubit ''0'') (qubit ''aux'') r"
      by (simp add: qubit_def)
    moreover have "subst (qubit ''1'') ?b (qubit ''aux'' @ x) = qubit ''aux'' @ subst (qubit ''1'') ?b x" for x
      by (simp add: qubit_def)
    moreover have "subst (qubit ''aux'') a (qubit ''aux'' @ x) = a @ subst (qubit ''aux'') a x" for x
      by (simp add: qubit_def)
    ultimately show ?thesis using zero 2(1) later [of 3] r by simp
  next
    case one
    then obtain r where r: "c # cs = qubit ''1'' @ r" "drop 3 cs = r" by (auto simp: prefix_def qubit_def)
    have "subst (qubit ''0'') (qubit ''aux'') (qubit ''1'' @ r) = qubit ''1'' @ subst (qubit ''0'') (qubit ''aux'') r"
      by (simp add: qubit_def)
    moreover have "subst (qubit ''1'') ?b (qubit ''1'' @ x) = ?b @ subst (qubit ''1'') ?b x" for x
      by (simp add: qubit_def)
    ultimately show ?thesis using one 2(2) later [of 3] r subst_qubit_number by simp
  next
    case other
    let ?r0 = "subst (qubit ''0'') (qubit ''aux'') cs"
    have 1: "\<not> prefix (qubit ''1'') (c # ?r0)"
      using other(2) prefix_subst [of "''[1]''" "''[0]''" "''[aux]''" cs] by (simp add: q)
    have "\<not> prefix (qubit ''aux'') (c # subst (qubit ''1'') ?b ?r0)"
      using no_aux prefix_subst [of "''[aux]''" "''[0]''" "''[aux]''" cs]
        prefix_subst [of "''[aux]''" "''[1]''" "CHR ''['' # show_nat n @ '']''" ?r0]
      unfolding q by simp
    then show ?thesis using other 1 2(3) later [of 0] by simp
  qed
qed simp

definition mentions :: "string \<Rightarrow> string \<Rightarrow> bool" where
  "mentions w s \<longleftrightarrow> (\<exists>i. prefix w (drop i s))"

lemma mentions_Cons: "w \<noteq> [] \<Longrightarrow> mentions w (c # cs) \<longleftrightarrow> prefix w (c # cs) \<or> mentions w cs"
proof -
  assume "w \<noteq> []"
  have "(\<exists>i. prefix w (drop i (c # cs))) \<longleftrightarrow> prefix w (c # cs) \<or> (\<exists>i. prefix w (drop (Suc i) (c # cs)))"
    by (metis drop0 not0_implies_Suc)
  then show ?thesis by (simp add: mentions_def)
qed

lemma mentions_Nil: "w \<noteq> [] \<Longrightarrow> \<not> mentions w []"
  by (simp add: mentions_def)

lemma mentions_drop: "mentions w (drop k s) \<Longrightarrow> mentions w s"
  by (auto simp: mentions_def)

lemma mentions_no_q: "CHR ''q'' \<notin> set v \<Longrightarrow> mentions (CHR ''q'' # w) (v @ r) \<longleftrightarrow> mentions (CHR ''q'' # w) r"
  by (induction v) (auto simp: mentions_Cons)

text \<open>Replacing the declaration does not bring in the auxiliary name.\<close>

lemma mentions_decl: "mentions (qubit ''aux'') (qreg_decl m @ r) \<longleftrightarrow> mentions (qubit ''aux'') r"
proof -
  have digits: "CHR ''q'' \<notin> set (show_nat m)" "CHR ''a'' \<notin> set (show_nat m)"
    by (rule show_nat_avoids; simp)+
  have "show_nat m \<noteq> []" by (subst show_nat.simps) auto
  then obtain e es where ds: "show_nat m = e # es" by (cases "show_nat m") auto
  have aux: "qubit ''aux'' = CHR ''q'' # ''[aux]''" by (simp add: qubit_def)
  let ?w = "CHR ''['' # show_nat m @ ''];''"
  have "qreg_decl m @ r = CHR ''q'' # (''reg '' @ (CHR ''q'' # (?w @ r)))" by (simp add: qreg_decl_def)
  moreover have "mentions (CHR ''q'' # ''[aux]'') (?w @ r) \<longleftrightarrow> mentions (CHR ''q'' # ''[aux]'') r"
    by (rule mentions_no_q) (use digits(1) in simp)
  moreover have "mentions (CHR ''q'' # ''[aux]'') (''reg '' @ (CHR ''q'' # (?w @ r))) \<longleftrightarrow>
      mentions (CHR ''q'' # ''[aux]'') (CHR ''q'' # (?w @ r))"
    by (rule mentions_no_q) simp
  moreover have "\<not> prefix (CHR ''q'' # ''[aux]'') (CHR ''q'' # (?w @ r))" using digits(2) ds by auto
  ultimately show ?thesis unfolding aux by (simp add: mentions_Cons)
qed

lemma mentions_subst_decl:
  "\<not> mentions (qubit ''aux'') s \<Longrightarrow> \<not> mentions (qubit ''aux'') (subst (qreg_decl n) (qreg_decl m) s)"
proof (induction "qreg_decl n" "qreg_decl m" s rule: subst.induct)
  case 1
  then show ?case by simp
next
  case (2 c cs)
  have q: "qreg_decl k = CHR ''q'' # (''reg q['' @ show_nat k @ ''];'')" for k by (simp add: qreg_decl_def)
  have aux: "qubit ''aux'' = CHR ''q'' # ''[aux]''" by (simp add: qubit_def)
  show ?case
  proof (cases "prefix (qreg_decl n) (c # cs)")
    case True
    have ne: "qreg_decl n \<noteq> []" by (simp add: q)
    note eq = subst_match [OF ne True, of "qreg_decl m"]
    have "\<not> mentions (qubit ''aux'') (drop (length (qreg_decl n)) (c # cs))"
      using mentions_drop 2(3) by blast
    then show ?thesis using 2(1) True ne unfolding eq mentions_decl by blast
  next
    case False
    let ?r = "subst (qreg_decl n) (qreg_decl m) cs"
    have "\<not> mentions (qubit ''aux'') cs" "\<not> prefix (qubit ''aux'') (c # cs)"
      using 2(3) by (simp_all add: mentions_Cons aux)
    moreover have "prefix ''[aux]'' ?r \<longleftrightarrow> prefix ''[aux]'' cs"
      unfolding q by (rule prefix_subst) simp
    ultimately show ?thesis using 2(2) False by (simp add: mentions_Cons aux)
  qed
qed

lemma compile_described:
  assumes "describes_device dev d" and "desc_coupling d = (site0, site1) # rest"
    and "describes_site dev d site0" and "describes_site dev d site1"
    and "qreg_matches s = [x]" and "read_nat 0 [x] \<le> 2" and "read_nat 0 [x] \<le> desc_qubits d"
  shows "compile room dev s =
    relabel room (read_nat 0 [x]) (desc_qubits d) (desc_index d site0) (desc_index d site1) s"
  using assms(2,5-7) getters_described(1,3) [OF assms(1)] site_id_described [OF assms(3)] site_id_described [OF assms(4)]
  by (simp add: compile_def Let_def)

text \<open>The strings the four replacements produce, one after the other.\<close>

definition spliced :: "nat \<Rightarrow> nat \<Rightarrow> nat \<Rightarrow> nat \<Rightarrow> string \<Rightarrow> string list" where
  "spliced n m id0 id1 s =
     (let r1 = subst (qreg_decl n) (qreg_decl m) s;
          r2 = subst (qubit ''0'') (qubit ''aux'') r1;
          r3 = subst (qubit ''1'') (qubit (show_nat id1)) r2
      in [r1, r2, r3, subst (qubit ''aux'') (qubit (show_nat id0)) r3])"

lemma relabel_spliced:
  assumes "\<forall>t \<in> set (s # spliced n m id0 id1 s). length t \<le> longest room"
  shows "relabel room n m id0 id1 s = Some (Inr (last (spliced n m id0 id1 s)))"
proof -
  have ne: "qreg_decl n \<noteq> []" "qubit x \<noteq> []" for x by (simp_all add: qreg_decl_def qubit_def)
  have step: "replace_all_occurrences room t fr to = Some (Inr (subst fr to t))"
    if "fr \<noteq> []" "length t \<le> longest room" "length (subst fr to t) \<le> longest room" for t fr to
    using replace_all_subst [OF that(1,2), of to] that(3) by (simp add: fitting_def)
  show ?thesis using assms ne by (simp add: relabel_def spliced_def Let_def step)
qed

lemma relabel_eq:
  assumes "\<not> mentions (qubit ''aux'') s" and "\<forall>t \<in> set (s # spliced n m id0 id1 s). length t \<le> longest room"
  shows "relabel room n m id0 id1 s =
    Some (Inr (rename_qubits (qubit (show_nat id0)) (qubit (show_nat id1)) (subst (qreg_decl n) (qreg_decl m) s)))"
proof -
  have "\<forall>i. \<not> prefix (qubit ''aux'') (drop i (subst (qreg_decl n) (qreg_decl m) s))"
    using mentions_subst_decl [OF assms(1)] by (simp add: mentions_def)
  note eq = relabel_qubits [OF this, of "qubit (show_nat id0)" id1]
  show ?thesis by (simp add: relabel_spliced [OF assms(2)]) (simp add: spliced_def Let_def eq)
qed

text \<open>C31: A circuit with one register of up to two qubits, on a device with enough of them, is compiled to the
  circuit in which every declaration \<open>qreg q[n];\<close> has the size of the device and, at once, every
  \<open>q[0]\<close> and \<open>q[1]\<close> the indices of the two sites of the first coupling of the device. The detour over
  the auxiliary name does not show as long as the circuit does not mention that name and the
  strings of the four replacements fit in memory.\<close>

theorem compile_maps_the_qubits:
  assumes "describes_device dev d" and "desc_coupling d = (site0, site1) # rest"
    and "describes_site dev d site0" and "describes_site dev d site1"
    and "qreg_matches s = [x]" and "read_nat 0 [x] \<le> 2" and "read_nat 0 [x] \<le> desc_qubits d"
    and "\<not> mentions (qubit ''aux'') s"
    and "\<forall>t \<in> set (s # spliced (read_nat 0 [x]) (desc_qubits d) (desc_index d site0) (desc_index d site1) s).
      length t \<le> longest room"
  shows "compile room dev s = Some (Inr (rename_qubits (qubit (show_nat (desc_index d site0)))
    (qubit (show_nat (desc_index d site1))) (subst (qreg_decl (read_nat 0 [x])) (qreg_decl (desc_qubits d)) s)))"
  using compile_described [OF assms(1-7)] relabel_eq [OF assms(8,9)] by simp

definition sample_circuit :: string where
  "sample_circuit = ''qreg q[2]; cx q[0], q[1]; h q[1];''"

lemma sample_circuit_matches: "qreg_matches sample_circuit = [CHR ''2'']"
  by (simp add: sample_circuit_def qreg_matches.simps qreg_match_def is_word_def is_digit_def Let_def)

theorem compile_maps_the_qubits_witness:
  "compile (2 ^ 62, 1000) (driver_client open_driver 65538) sample_circuit =
     Some (Inr ''qreg q[5]; cx q[0], q[1]; h q[1];'')"
proof -
  let ?dev = "driver_client open_driver 65538"
  have "65538 \<in> dom (cl_devices open_driver)"
    by (simp add: open_driver_def one_session_def sample_devices_def)
  note described = driver_described [OF reachable_on_cxx [OF two_devices_cxx drv_reach(4) offline_idle this]]
  then have d: "describes_device ?dev cxx_description" "\<forall>site \<in> set CXX_DEVICE_SITES. describes_site ?dev cxx_description site"
    by (auto simp: describes_def list_all_iff) (auto simp: cxx_description_def)
  have edge: "desc_coupling cxx_description = (8192, 8200) # tl (desc_coupling cxx_description)"
    by (simp add: cxx_description_def DEVICE_COUPLING_MAP_def CXX_DEVICE_SITES_def)
  have sites: "describes_site ?dev cxx_description 8192" "describes_site ?dev cxx_description 8200"
    using d(2) by (simp_all add: CXX_DEVICE_SITES_def)
  have desc: "desc_index cxx_description 8192 = 0" "desc_index cxx_description 8200 = 1" "desc_qubits cxx_description = 5"
    by (simp_all add: cxx_description_def site_struct_def CXX_DEVICE_SITES_def)
  have two: "read_nat 0 [CHR ''2''] = 2" by simp
  have digits: "show_nat 0 = ''0''" "show_nat 1 = ''1''" "show_nat 2 = ''2''" "show_nat 5 = ''5''"
    "show_nat (Suc 0) = ''1''" "show_nat (Suc (Suc 0)) = ''2''"
    using char_of_char [of "CHR ''0''", where ?'a = nat] char_of_char [of "CHR ''1''", where ?'a = nat]
      char_of_char [of "CHR ''2''", where ?'a = nat] char_of_char [of "CHR ''5''", where ?'a = nat]
    by (simp_all add: show_nat.simps digit_char_def)
  have no_aux: "\<not> mentions (qubit ''aux'') sample_circuit"
    by (simp add: sample_circuit_def qubit_def mentions_Cons mentions_Nil)
  have fit: "\<forall>t \<in> set (sample_circuit # spliced (read_nat 0 [CHR ''2'']) (desc_qubits cxx_description)
      (desc_index cxx_description 8192) (desc_index cxx_description 8200) sample_circuit). length t \<le> longest (2 ^ 62, 1000)"
    by (simp add: desc two digits spliced_def Let_def sample_circuit_def qreg_decl_def qubit_def longest_def)
  from compile_maps_the_qubits [OF d(1) edge sites sample_circuit_matches _ _ no_aux fit]
  show ?thesis
    by (simp add: desc two digits sample_circuit_def qreg_decl_def qubit_def)
qed

text \<open>
  A register of another name is left as it is: the circuit is returned unchanged, whatever the
  coupled sites are.
\<close>

lemma subst_absent: "from \<noteq> [] \<Longrightarrow> \<not> mentions from s \<Longrightarrow> subst from to s = s"
  by (induction s) (auto simp: mentions_Cons)

lemma mentions_append: "mentions (v @ w) s \<Longrightarrow> mentions v s"
  by (auto simp: mentions_def) (metis append_prefixD)

lemma mentions_suffix:
  assumes "mentions (v @ w) s"
  shows "mentions w s"
proof -
  obtain i r where "drop i s = v @ w @ r" using assms by (auto simp: mentions_def prefix_def)
  then have "drop (length v) (drop i s) = w @ r" by simp
  then have "prefix w (drop (length v + i) s)" by (simp add: add.commute)
  then show ?thesis unfolding mentions_def by blast
qed

lemma compile_ignores_other_names:
  assumes "describes_device dev d" and "desc_coupling d = (site0, site1) # rest"
    and "describes_site dev d site0" and "describes_site dev d site1"
    and "qreg_matches s = [x]" and "read_nat 0 [x] \<le> 2" and "read_nat 0 [x] \<le> desc_qubits d"
    and "\<not> mentions ''q['' s" and "length s \<le> longest room"
  shows "compile room dev s = Some (Inr s)"
proof -
  have "\<not> mentions (qubit i) s" for i using assms(8) mentions_append [of "''q[''" "i @ '']''" s] by (auto simp: qubit_def)
  moreover have "\<not> mentions (qreg_decl n) s" for n
  proof
    assume "mentions (qreg_decl n) s"
    then have "mentions (''qreg '' @ ''q['') s"
      using mentions_append [of "''qreg q[''" "show_nat n @ ''];''" s] by (simp add: qreg_decl_def)
    then show False using assms(8) mentions_suffix by blast
  qed
  moreover have "qreg_decl n \<noteq> []" "qubit i \<noteq> []" for n i by (simp_all add: qreg_decl_def qubit_def)
  ultimately show ?thesis
    using compile_described [OF assms(1-7), of room] relabel_spliced [of s] assms(9)
    by (simp add: spliced_def Let_def subst_absent)
qed

end
