(* ===== verification/Spec2Isabelle.thy ===== *)
theory Spec2Isabelle
  imports Client_Codes Driver_Spec My_Device Tool
begin

text \<open>
  QDMI, the Quantum Device Management Interface: two C interfaces and example programs on either
  side of them. This development models the interfaces (\<open>include/qdmi/constants.h\<close>, \<open>device.h\<close>,
  \<open>client.h\<close>), the example device (\<open>examples/device/src/cxx_device.cpp\<close>), the example driver
  (\<open>examples/driver/qdmi_example_driver.cpp\<close>), the figures-of-merit library
  (\<open>examples/fomac/example_fomac.cpp\<close>), the compilation tool (\<open>examples/tool/example_tool.cpp\<close>) and
  the template of a device (\<open>templates/device/src/my_device.cpp\<close>).

  How the parts interact. A client (\<open>Tool\<close> over \<open>Fomac\<close>) calls the functions of \<open>client.h\<close>, which the
  driver implements. The driver reads a configuration, loads device libraries, and per client
  session opens one device session per configured device through the functions of \<open>device.h\<close>. The
  example device is one such library.

  Conventions (\<open>Prelude\<close>). A function of the code is a definition of the same name. Its result is an
  \<open>outcome\<close>: \<open>Inl\<close> a fault, which is undefined behaviour (null dereference, use after free, writing
  past a buffer) or a C++ exception that leaves the function, or \<open>Inr\<close> the status code, what is
  stored through out-pointers, and the state afterwards. Memory behind a \<open>void *\<close> is the list of its
  bytes, as long as it really is; sizes are natural numbers with the wrap-around at \<open>2 ^ 64\<close> written
  out. Live objects are maps from addresses; addresses are not reused. A \<open>double\<close> is its 64 bits.

  Theories, and what their lemmas show.
  \<^item> \<open>Constants\<close>: status codes, enums with their values, the validity check, packed versions.
  \<^item> \<open>Sized_Query\<close>: the protocol of all queries (size, then value) as the locale \<open>sized_query\<close> with the
    client's two calls proved correct once. It is interpreted on the property macros and result
    routines of the device and on the id of the driver.
  \<^item> \<open>Cxx_State\<close>, \<open>Cxx_Session\<close>, \<open>Cxx_Query\<close>, \<open>Cxx_Job\<close>, \<open>Cxx_Results\<close>: the example device, in the order
    of its source. \<open>Cxx_Lifecycle\<close>: its calls as a state machine, its invariant, and the abstract
    state machine of jobs and sessions that the calls refine. \<open>Cxx_Samples\<close>: a concrete run.
    \<open>Cxx_Properties\<close>: the properties of the device, from life cycle to results.
  \<^item> \<open>Device_Interface\<close>: the documented codes of \<open>device.h\<close> as predicates \<open>doc_\<dots>\<close>, the record of a
    library's functions, and the locale \<open>device_sessions\<close>, what a driver needs of a library.
    \<open>Cxx_Device\<close> interprets it on the example device and compares the device with the documentation;
    \<open>Cxx_Codes\<close> does so for its queries. \<open>My_Device\<close> is the template, which keeps the contract too but
    which no driver can use as it is.
  \<^item> \<open>Driver_Load\<close>, \<open>Driver_Session\<close>, \<open>Driver_Job\<close>: the example driver. \<open>Driver_Libraries\<close> states its
    environment as the locale \<open>driver_devices\<close> (every library that loads keeps \<open>device_sessions\<close>) and
    proves loading and unloading; \<open>Driver_Devices\<close> opening and closing the devices of a session;
    \<open>Driver_Lifecycle\<close>, \<open>Driver_Calls\<close> and \<open>Driver_Invariant\<close> the state machine of the driver and its
    invariant: session count, library handles, device sessions and device jobs are exact.
    \<open>Driver_Cxx\<close> interprets \<open>driver_devices\<close> on an environment with the example device and runs it;
    \<open>Driver_Properties\<close> holds the properties of the driver. \<open>Driver_Ready\<close> extends the contract to the
    locale \<open>ready_devices\<close> and the invariant to: every device session a driver holds is initialized.
    \<open>Driver_Spec\<close> is the abstract machine of \<open>client.h\<close>: what a client sees of sessions, devices and
    jobs, one step per action and answer, and the proof that every call of the driver with its status
    code and the handle it stores is a step of its action; a call that reports an error changes nothing.
  \<^item> \<open>Client_Interface\<close>: the documented codes of \<open>client.h\<close>, the driver's session functions against them, and
    its transparency for jobs. \<open>Client_Run\<close>: a client's whole run of programs through driver and
    device. \<open>Client_Codes\<close>: the codes of all other functions of \<open>client.h\<close>, as a client of a driver on
    example devices gets them.
  \<^item> \<open>Fomac\<close>, \<open>Tool\<close>: the clients. What the getters read is what the device's tables say, through
    driver and protocol; the replacement loop of the tool against its reference, and compilation
    against a renaming of the qubits.

  Parameters. The random engine and its distributions, IEEE arithmetic, the environment variables,
  the file system and the dynamic loader are arguments or fields of environment records. Device
  libraries other than the example are unknown: properties of the driver hold for every
  environment with the locale \<open>driver_devices\<close>, whose laws are the documented behaviour of \<open>device.h\<close>.

  Memory. Arguments (\<open>oom\<close> for one allocation, \<open>fails\<close> for numbered ones) say which allocations fail:
  in the example device the session, the job, the copies of token and programs, the vectors of
  results and the map of a histogram; in the driver the session, the job, the copy of the token,
  the devices of a session with their vector, and while a configuration is loaded the paths, the
  stream and the id of a line, the library with its names and the vectors. A failure is the status
  code of the \<open>catch\<close> clause or \<open>nothrow\<close> check around it, or else an escaping \<open>std::bad_alloc\<close>. In
  the tool the length of the strings is bounded. Taken to succeed are the allocations of
  exception messages and of messages on standard error, of texts short enough for the buffer inside
  a string (ids of jobs, shots), of the lines and words a stream extracts (a stream catches these
  exceptions itself), and of the vectors and strings of the figures-of-merit library and, but for the
  replacements, of the tool.

  Bounds and termination. No definition uses fuel. The replacement loop of the tool may run forever,
  so it is a partial function with \<open>None\<close> for a run without end, and when it ends is a theorem; its
  strings are bounded by \<open>max_size()\<close> and the memory, which are parameters. All other loops recur
  over data.

  Not modelled. Concurrency: the code holds no locks and the model runs one call at a time. Export
  macros and opaque handle types; messages on standard error; Windows' loader. The regular
  expression of the tool is modelled as a matcher for that one expression in the C locale.
\<close>

end
